(* ===== verification/Prelude.thy ===== *)
theory Prelude
  imports Main "HOL-Library.Word"
begin

text \<open>
  What every component shares: the machine integers of the code, outcomes of a call (a value,
  \<^verbatim>\<open>exit\<close>, undefined behaviour, a loop that never ends), state passing with outcomes, zero-filled
  memory blocks, the byte swapping macros of Common/DtaEndianFixup.h, the constants of
  Common/DtaConstants.h, and the C library functions on strings that the code calls.
\<close>

unbundle bit_operations_syntax

section \<open>Machine integers\<close>

type_synonym u8 = "8 word"
type_synonym u16 = "16 word"
type_synonym u32 = "32 word"
type_synonym u64 = "64 word"
type_synonym bytes = "u8 list"

text \<open>A C string argument: the bytes before its terminating NUL.\<close>
type_synonym cstr = "u8 list"

named_theorems outcome_simps \<open>evaluation of outcomes and of state passing\<close>
named_theorems frame_intros \<open>what an operation leaves unchanged\<close>
named_theorems mem_simps \<open>reads after writes on memory blocks\<close>

section \<open>Outcomes\<close>

text \<open>
  \<open>Ret\<close> is a normal return, \<open>ExitFail\<close> the end of the program by a call of
  \<^verbatim>\<open>exit(EXIT_FAILURE)\<close> or a failed \<^verbatim>\<open>assert\<close>, \<open>Undef\<close> undefined
  behaviour (an index out of range, a write behind a buffer), \<open>Diverge\<close> a loop that never ends.
\<close>

datatype 'a outcome = Ret 'a | ExitFail | Undef | Diverge

fun obind :: "'a outcome \<Rightarrow> ('a \<Rightarrow> 'b outcome) \<Rightarrow> 'b outcome" where
  "obind (Ret x) f = f x"
| "obind ExitFail f = ExitFail"
| "obind Undef f = Undef"
| "obind Diverge f = Diverge"

lemma obind_assoc [outcome_simps]: "obind (obind m f) g = obind m (\<lambda>x. obind (f x) g)"
  by (cases m) auto

lemma obind_eq_Ret: "obind m f = Ret y \<longleftrightarrow> (\<exists>x. m = Ret x \<and> f x = Ret y)"
  by (cases m) auto

lemma obind_Ret_right [outcome_simps]: "obind m Ret = m"
  by (cases m) auto

text \<open>The element of a \<^verbatim>\<open>std::vector\<close> or array: reading behind its end is undefined.\<close>

definition vec_at :: "'a list \<Rightarrow> nat \<Rightarrow> 'a outcome" where
  "vec_at xs i = (if i < length xs then Ret (xs ! i) else Undef)"

lemma vec_at_Ret [outcome_simps]: "i < length xs \<Longrightarrow> vec_at xs i = Ret (xs ! i)"
  by (simp add: vec_at_def)

lemma vec_at_Undef [outcome_simps]: "length xs \<le> i \<Longrightarrow> vec_at xs i = Undef"
  by (simp add: vec_at_def)

section \<open>State passing with outcomes\<close>

type_synonym ('w, 'a) op = "'w \<Rightarrow> 'a outcome \<times> 'w"

definition ret :: "'a \<Rightarrow> ('w, 'a) op" where
  "ret x = (\<lambda>w. (Ret x, w))"

definition bind_op :: "('w, 'a) op \<Rightarrow> ('a \<Rightarrow> ('w, 'b) op) \<Rightarrow> ('w, 'b) op" where
  "bind_op m f = (\<lambda>w. case m w of
       (Ret x, w') \<Rightarrow> f x w'
     | (ExitFail, w') \<Rightarrow> (ExitFail, w')
     | (Undef, w') \<Rightarrow> (Undef, w')
     | (Diverge, w') \<Rightarrow> (Diverge, w'))"

definition lift_op :: "'a outcome \<Rightarrow> ('w, 'a) op" where
  "lift_op r = (\<lambda>w. (r, w))"

definition get_op :: "('w \<Rightarrow> 'a) \<Rightarrow> ('w, 'a) op" where
  "get_op f = (\<lambda>w. (Ret (f w), w))"

definition put_op :: "('w \<Rightarrow> 'w) \<Rightarrow> ('w, unit) op" where
  "put_op f = (\<lambda>w. (Ret (), f w))"

text \<open>\<^verbatim>\<open>if ((lastRC = m) != 0) { cleanup; return lastRC; } k\<close>\<close>

definition check_cleanup :: "('w, unit) op \<Rightarrow> ('w, u8) op \<Rightarrow> ('w, u8) op \<Rightarrow> ('w, u8) op" where
  "check_cleanup cleanup m k =
     bind_op m (\<lambda>rc. if rc \<noteq> 0 then bind_op cleanup (\<lambda>_. ret rc) else k)"

text \<open>\<^verbatim>\<open>if ((lastRC = m) != 0) return lastRC; k\<close>\<close>

definition check :: "('w, u8) op \<Rightarrow> ('w, u8) op \<Rightarrow> ('w, u8) op" where
  "check m k = bind_op m (\<lambda>rc. if rc \<noteq> 0 then ret rc else k)"

lemma ret_run [outcome_simps]: "ret x w = (Ret x, w)"
  by (simp add: ret_def)

lemma lift_run [outcome_simps]: "lift_op r w = (r, w)"
  by (simp add: lift_op_def)

lemma get_run [outcome_simps]: "get_op f w = (Ret (f w), w)"
  by (simp add: get_op_def)

lemma put_run [outcome_simps]: "put_op f w = (Ret (), f w)"
  by (simp add: put_op_def)

lemma bind_run [outcome_simps]:
  "m w = (Ret x, w') \<Longrightarrow> bind_op m f w = f x w'"
  "m w = (ExitFail, w') \<Longrightarrow> bind_op m f w = (ExitFail, w')"
  "m w = (Undef, w') \<Longrightarrow> bind_op m f w = (Undef, w')"
  "m w = (Diverge, w') \<Longrightarrow> bind_op m f w = (Diverge, w')"
  by (simp_all add: bind_op_def)

lemma check_run [outcome_simps]:
  "m w = (Ret rc, w') \<Longrightarrow> rc \<noteq> 0 \<Longrightarrow> check m k w = (Ret rc, w')"
  "m w = (Ret 0, w') \<Longrightarrow> check m k w = k w'"
  by (simp_all add: check_def bind_op_def ret_def)

lemma check_cleanup_run [outcome_simps]:
  "m w = (Ret 0, w') \<Longrightarrow> check_cleanup c m k w = k w'"
  "m w = (Ret rc, w') \<Longrightarrow> rc \<noteq> 0 \<Longrightarrow> c w' = (Ret (), w'') \<Longrightarrow>
     check_cleanup c m k w = (Ret rc, w'')"
  by (simp_all add: check_cleanup_def bind_op_def ret_def)

lemma bind_op_Ret_iff:
  "bind_op m f w = (Ret y, w') \<longleftrightarrow> (\<exists>x w1. m w = (Ret x, w1) \<and> f x w1 = (Ret y, w'))"
  by (auto simp: bind_op_def split: prod.splits outcome.splits)

lemma check_Ret_iff:
  "check m k w = (Ret y, w') \<longleftrightarrow>
     (m w = (Ret y, w') \<and> y \<noteq> 0) \<or> (\<exists>w1. m w = (Ret 0, w1) \<and> k w1 = (Ret y, w'))"
  by (auto simp: check_def bind_op_Ret_iff ret_def)

text \<open>A success after a checked call is a success of the call and of the rest.\<close>

lemma check_success:
  "check m k w = (Ret 0, w') \<longleftrightarrow> (\<exists>w1. m w = (Ret 0, w1) \<and> k w1 = (Ret 0, w'))"
  by (auto simp: check_Ret_iff)

lemma check_cleanup_success:
  "check_cleanup c m k w = (Ret 0, w') \<longleftrightarrow>
     (\<exists>w1. m w = (Ret 0, w1) \<and> k w1 = (Ret 0, w'))"
  by (auto simp: check_cleanup_def bind_op_Ret_iff ret_def split: if_splits)

subsection \<open>Relations between the states before and after\<close>

text \<open>
  \<open>steps R m\<close>: however \<open>m\<close> ends, the state it leaves is related to the state it started in.
  For a reflexive and transitive \<open>R\<close> the rules below follow the structure of a program.
\<close>

definition steps :: "('w \<Rightarrow> 'w \<Rightarrow> bool) \<Rightarrow> ('w, 'a) op \<Rightarrow> bool" where
  "steps R m \<longleftrightarrow> (\<forall>w. R w (snd (m w)))"

lemma stepsI: "(\<And>w. R w (snd (m w))) \<Longrightarrow> steps R m"
  by (simp add: steps_def)

lemma stepsD: "steps R m \<Longrightarrow> R w (snd (m w))"
  by (simp add: steps_def)

lemma steps_result: "steps R m \<Longrightarrow> m w = (r, w') \<Longrightarrow> R w w'"
  by (drule stepsD [where w = w]) simp

lemma steps_pure:
  assumes "reflp R"
  shows "steps R (ret x)" "steps R (lift_op r)" "steps R (get_op f)"
  using assms by (simp_all add: steps_def ret_def lift_op_def get_op_def reflp_def)

lemma steps_bind:
  assumes "transp R" and m: "steps R m" and f: "\<And>x. steps R (f x)"
  shows "steps R (bind_op m f)"
proof (rule stepsI)
  fix w
  obtain r w1 where eq: "m w = (r, w1)" by (cases "m w")
  have 1: "R w w1" by (rule steps_result [OF m eq])
  show "R w (snd (bind_op m f w))"
  proof (cases r)
    case (Ret x)
    have "R w1 (snd (f x w1))" by (rule stepsD [OF f])
    with 1 have "R w (snd (f x w1))" by (rule transpD [OF \<open>transp R\<close>])
    with eq Ret show ?thesis by (simp add: outcome_simps)
  qed (use eq 1 in \<open>simp_all add: outcome_simps\<close>)
qed

lemma steps_if: "steps R m \<Longrightarrow> steps R n \<Longrightarrow> steps R (if b then m else n)"
  by simp

lemma steps_check:
  assumes "reflp R" "transp R" "steps R m" "steps R k"
  shows "steps R (check m k)"
  unfolding check_def by (intro steps_bind steps_if steps_pure assms)

lemma steps_check_cleanup:
  assumes "reflp R" "transp R" "steps R c" "steps R m" "steps R k"
  shows "steps R (check_cleanup c m k)"
  unfolding check_cleanup_def by (intro steps_bind steps_if steps_pure assms)

section \<open>Byte swapping (Common/DtaEndianFixup.h)\<close>

definition SWAP16 :: "u16 \<Rightarrow> u16" where
  "SWAP16 x = push_bit 8 (x AND 0x00ff) OR drop_bit 8 (x AND 0xff00)"

text \<open>The macro is used at 32 bits and, inside \<open>SWAP64\<close>, on 64-bit operands; the cast to
  \<^verbatim>\<open>uint32_t\<close> applies to its first operand.\<close>

definition SWAP32 :: "'a::len word \<Rightarrow> 'a word" where
  "SWAP32 x = ucast (ucast (push_bit 24 (x AND 0x000000ff)) :: u32)
     OR push_bit 8 (x AND 0x0000ff00)
     OR drop_bit 8 (x AND 0x00ff0000) OR drop_bit 24 (x AND 0xff000000)"

definition SWAP64 :: "u64 \<Rightarrow> u64" where
  "SWAP64 x = push_bit 32 (SWAP32 (x AND 0x00000000ffffffff)) OR SWAP32 (drop_bit 32 x)"

text \<open>Bit views of the byte masks and of the swapping macros.\<close>

lemma byte_masks:
  "(0xff :: 'a::len word) = mask 8"
  "(0xff00 :: 'a::len word) = push_bit 8 (mask 8)"
  "(0xff0000 :: 'a::len word) = push_bit 16 (mask 8)"
  "(0xff000000 :: 'a::len word) = push_bit 24 (mask 8)"
  "(0xffffffff :: 'a::len word) = mask 32"
  by (simp_all add: mask_eq_exp_minus_1 push_bit_eq_mult)

lemma bit_SWAP32:
  "bit (SWAP32 (x :: u32)) n \<longleftrightarrow>
     (if n < 8 then bit x (n + 24) else if n < 16 then bit x (n + 8)
      else if n < 24 then bit x (n - 8) else n < 32 \<and> bit x (n - 24))"
  unfolding SWAP32_def byte_masks by (auto simp: bit_simps add.commute)

lemma byte_cases:
  obtains "n < 8" | "8 \<le> n" "n < 16" | "16 \<le> n" "n < 24" | "24 \<le> n" "n < 32" | "32 \<le> (n::nat)"
  by linarith

lemma SWAP32_ucast: "SWAP32 (ucast (x :: u32) :: u64) = ucast (SWAP32 x)"
proof (rule bit_word_eqI)
  fix n
  show "bit (SWAP32 (ucast x :: u64)) n = bit (ucast (SWAP32 x) :: u64) n"
    unfolding SWAP32_def byte_masks
    by (cases n rule: byte_cases)
      (auto simp: bit_simps add.commute dest: bit_imp_le_length)
qed

lemma SWAP16_SWAP16 [simp]: "SWAP16 (SWAP16 x) = x"
  unfolding SWAP16_def byte_masks by (rule bit_word_eqI) (auto simp: bit_simps)

lemma SWAP32_SWAP32 [simp]: "SWAP32 (SWAP32 (x :: u32)) = x"
  by (rule bit_word_eqI) (auto simp: bit_SWAP32)

lemma SWAP32_0 [simp]: "SWAP32 (0 :: u32) = 0"
  by (simp add: SWAP32_def)

lemma SWAP32_eq_0_iff [simp]: "SWAP32 (x :: u32) = 0 \<longleftrightarrow> x = 0"
  by (metis SWAP32_0 SWAP32_SWAP32)

lemma SWAP64_halves:
  "SWAP64 x = push_bit 32 (ucast (SWAP32 (ucast x :: u32)))
     OR ucast (SWAP32 (ucast (drop_bit 32 x) :: u32))"
proof -
  have 1: "x AND 0xffffffff = ucast (ucast x :: u32)"
    unfolding byte_masks by (rule bit_word_eqI) (auto simp: bit_simps)
  have 2: "drop_bit 32 x = ucast (ucast (drop_bit 32 x) :: u32)"
    by (rule bit_word_eqI) (auto simp: bit_simps dest: bit_imp_le_length)
  show ?thesis unfolding SWAP64_def 1 by (subst 2) (simp only: SWAP32_ucast)
qed

section \<open>Memory blocks\<close>

text \<open>
  The command and response buffers are cleared with \<^verbatim>\<open>memset\<close> before use. A block is the list of
  its bytes up to some position, followed by zeros: \<open>peek\<close> reads, \<open>poke\<close> writes and fills the gap.
  The size of the block is checked by the operations that use it.
\<close>

definition peek :: "bytes \<Rightarrow> nat \<Rightarrow> u8" where
  "peek m i = (if i < length m then m ! i else 0)"

definition poke :: "nat \<Rightarrow> u8 \<Rightarrow> bytes \<Rightarrow> bytes" where
  "poke i b m = (if i < length m then m[i := b] else m @ replicate (i - length m) 0 @ [b])"

fun pokes :: "nat \<Rightarrow> bytes \<Rightarrow> bytes \<Rightarrow> bytes" where
  "pokes i [] m = m"
| "pokes i (b # bs) m = pokes (Suc i) bs (poke i b m)"

definition read_block :: "bytes \<Rightarrow> nat \<Rightarrow> nat \<Rightarrow> bytes" where
  "read_block m i n = (let r = take n (drop i m) in r @ replicate (n - length r) 0)"

lemma peek_poke [mem_simps]: "peek (poke i b m) j = (if j = i then b else peek m j)"
  by (auto simp: peek_def poke_def nth_append)

lemma peek_pokes [mem_simps]:
  "peek (pokes i bs m) j = (if i \<le> j \<and> j < i + length bs then bs ! (j - i) else peek m j)"
proof (induction i bs m rule: pokes.induct)
  case (1 i m)
  then show ?case by auto
next
  case (2 i b bs m)
  show ?case
  proof (cases "j = i")
    case True
    with "2.IH" show ?thesis by (auto simp: peek_poke)
  next
    case False
    then have "\<not> j \<le> i \<Longrightarrow> j - i = Suc (j - Suc i)" by simp
    with False show ?thesis by (auto simp: "2.IH" peek_poke)
  qed
qed

lemma length_poke [simp]: "length (poke i b m) = max (Suc i) (length m)"
  by (auto simp: poke_def)

lemma length_pokes [simp]:
  "length (pokes i bs m) = (if bs = [] then length m else max (i + length bs) (length m))"
  by (induction i bs m rule: pokes.induct) auto

lemma length_read_block [simp]: "length (read_block m i n) = n"
  by (simp add: read_block_def)

lemma nth_read_block [mem_simps]: "k < n \<Longrightarrow> read_block m i n ! k = peek m (i + k)"
  by (auto simp: read_block_def peek_def nth_append)

lemma read_block_eqI:
  "length xs = n \<Longrightarrow> (\<And>k. k < n \<Longrightarrow> peek m (i + k) = xs ! k) \<Longrightarrow> read_block m i n = xs"
  by (rule nth_equalityI) (simp_all add: nth_read_block)

lemma poke_end: "poke (length m) b m = m @ [b]"
  by (simp add: poke_def)

lemma pokes_end: "pokes (length m) bs m = m @ bs"
proof (induction bs arbitrary: m)
  case (Cons b bs)
  have "pokes (length (m @ [b])) bs (m @ [b]) = (m @ [b]) @ bs" by (rule Cons.IH)
  then show ?case by (simp add: poke_end)
qed simp

lemma pokes_append: "pokes i (xs @ ys) m = pokes (i + length xs) ys (pokes i xs m)"
  by (induction i xs m rule: pokes.induct) auto

text \<open>Multi-byte fields as the little-endian host stores them, and as the wire orders them.\<close>

definition le16 :: "u16 \<Rightarrow> bytes" where
  "le16 x = [ucast x, ucast (drop_bit 8 x)]"

definition le32 :: "u32 \<Rightarrow> bytes" where
  "le32 x = [ucast x, ucast (drop_bit 8 x), ucast (drop_bit 16 x), ucast (drop_bit 24 x)]"

definition be32 :: "u32 \<Rightarrow> bytes" where
  "be32 x = rev (le32 x)"

definition load16 :: "bytes \<Rightarrow> nat \<Rightarrow> u16" where
  "load16 m i = ucast (peek m i) OR push_bit 8 (ucast (peek m (i + 1)))"

definition load32 :: "bytes \<Rightarrow> nat \<Rightarrow> u32" where
  "load32 m i = ucast (peek m i) OR push_bit 8 (ucast (peek m (i + 1)))
     OR push_bit 16 (ucast (peek m (i + 2))) OR push_bit 24 (ucast (peek m (i + 3)))"

definition load64 :: "bytes \<Rightarrow> nat \<Rightarrow> u64" where
  "load64 m i = ucast (load32 m i) OR push_bit 32 (ucast (load32 m (i + 4)))"

lemma length_le32 [simp]: "length (le32 x) = 4"
  by (simp add: le32_def)

lemma length_be32 [simp]: "length (be32 x) = 4"
  by (simp add: be32_def)

text \<open>Storing a swapped value on the little-endian host writes it in network byte order.\<close>

lemma le32_SWAP32: "le32 (SWAP32 x) = be32 x"
  unfolding le32_def be32_def
  by (auto intro!: bit_word_eqI simp: bit_simps bit_SWAP32 ac_simps)

lemma load32_le32:
  assumes "\<And>k. k < 4 \<Longrightarrow> peek m (i + k) = le32 x ! k"
  shows "load32 m i = x"
proof -
  have p: "peek m i = ucast x" "peek m (i + 1) = ucast (drop_bit 8 x)"
    "peek m (i + 2) = ucast (drop_bit 16 x)" "peek m (i + 3) = ucast (drop_bit 24 x)"
    using assms [of 0] assms [of 1] assms [of 2] assms [of 3] by (simp_all add: le32_def)
  show ?thesis
  proof (rule bit_word_eqI)
    fix n
    show "bit (load32 m i) n = bit x n"
      unfolding load32_def p
      by (cases n rule: byte_cases) (auto simp: bit_simps dest: bit_imp_le_length)
  qed
qed

lemma load32_be32:
  assumes "\<And>k. k < 4 \<Longrightarrow> peek m (i + k) = be32 x ! k"
  shows "SWAP32 (load32 m i) = x"
proof -
  have "load32 m i = SWAP32 x"
    by (rule load32_le32) (simp add: assms le32_SWAP32)
  then show ?thesis by simp
qed

section \<open>Constants (Common/DtaConstants.h)\<close>

abbreviation (input) MAX_BUFFER_LENGTH :: nat where "MAX_BUFFER_LENGTH \<equiv> 61440"
abbreviation (input) MIN_BUFFER_LENGTH :: nat where "MIN_BUFFER_LENGTH \<equiv> 2048"
abbreviation (input) IO_BUFFER_ALIGNMENT :: u64 where "IO_BUFFER_ALIGNMENT \<equiv> 1024"

abbreviation (input) DTAERROR_UNSUPORTED_LOCKING_RANGE :: u8 where "DTAERROR_UNSUPORTED_LOCKING_RANGE \<equiv> 0x81"
abbreviation (input) DTAERROR_OBJECT_CREATE_FAILED :: u8 where "DTAERROR_OBJECT_CREATE_FAILED \<equiv> 0x82"
abbreviation (input) DTAERROR_INVALID_PARAMETER :: u8 where "DTAERROR_INVALID_PARAMETER \<equiv> 0x83"
abbreviation (input) DTAERROR_OPEN_ERR :: u8 where "DTAERROR_OPEN_ERR \<equiv> 0x84"
abbreviation (input) DTAERROR_INVALID_LIFECYCLE :: u8 where "DTAERROR_INVALID_LIFECYCLE \<equiv> 0x85"
abbreviation (input) DTAERROR_INVALID_COMMAND :: u8 where "DTAERROR_INVALID_COMMAND \<equiv> 0x86"
abbreviation (input) DTAERROR_AUTH_FAILED :: u8 where "DTAERROR_AUTH_FAILED \<equiv> 0x87"
abbreviation (input) DTAERROR_COMMAND_ERROR :: u8 where "DTAERROR_COMMAND_ERROR \<equiv> 0x88"
abbreviation (input) DTAERROR_NO_METHOD_STATUS :: u8 where "DTAERROR_NO_METHOD_STATUS \<equiv> 0x89"
abbreviation (input) DTAERROR_NO_LOCKING_INFO :: u8 where "DTAERROR_NO_LOCKING_INFO \<equiv> 0x8a"

abbreviation (input) DTA_DISABLELOCKING :: u8 where "DTA_DISABLELOCKING \<equiv> 0x00"
abbreviation (input) DTA_READLOCKINGENABLED :: u8 where "DTA_READLOCKINGENABLED \<equiv> 0x01"
abbreviation (input) DTA_WRITELOCKINGENABLED :: u8 where "DTA_WRITELOCKINGENABLED \<equiv> 0x02"

section \<open>C library functions on strings\<close>

text \<open>A string literal as bytes.\<close>

definition lit :: "string \<Rightarrow> cstr" where
  "lit s = map of_char s"

text \<open>\<^verbatim>\<open>std::string::c_str()\<close> seen as a C string ends at the first NUL.\<close>

definition c_str :: "bytes \<Rightarrow> cstr" where
  "c_str s = takeWhile (\<lambda>b. b \<noteq> 0) s"

definition strnlen :: "cstr \<Rightarrow> nat \<Rightarrow> nat" where
  "strnlen s n = min (length s) n"

definition tolower :: "u8 \<Rightarrow> u8" where
  "tolower b = (if 0x41 \<le> b \<and> b \<le> 0x5a then b + 0x20 else b)"

definition strcaseeq :: "cstr \<Rightarrow> cstr \<Rightarrow> bool" where
  "strcaseeq s t \<longleftrightarrow> map tolower s = map tolower t"

text \<open>\<^verbatim>\<open>!memcmp(literal, s, n)\<close> for a literal of \<open>n\<close> bytes without NUL: a shorter \<open>s\<close>
  differs at its terminating NUL.\<close>

definition mem_prefix :: "cstr \<Rightarrow> cstr \<Rightarrow> bool" where
  "mem_prefix l s \<longleftrightarrow> take (length l) s = l"

definition isspace :: "u8 \<Rightarrow> bool" where
  "isspace b \<longleftrightarrow> b = 0x20 \<or> (0x09 \<le> b \<and> b \<le> 0x0d)"

definition isdigit :: "u8 \<Rightarrow> bool" where
  "isdigit b \<longleftrightarrow> 0x30 \<le> b \<and> b \<le> 0x39"

fun digits_val :: "int \<Rightarrow> cstr \<Rightarrow> int" where
  "digits_val acc [] = acc"
| "digits_val acc (b # bs) =
     (if isdigit b then digits_val (10 * acc + (uint b - 0x30)) bs else acc)"

definition ato_int :: "cstr \<Rightarrow> int" where
  "ato_int s = (case dropWhile isspace s of
       [] \<Rightarrow> 0
     | c # cs \<Rightarrow> if c = 0x2d then - digits_val 0 cs
                else if c = 0x2b then digits_val 0 cs else digits_val 0 (c # cs))"

text \<open>\<^verbatim>\<open>atoi\<close> and \<^verbatim>\<open>atoll\<close>: undefined when the value does not fit the result type.\<close>

definition atoi :: "cstr \<Rightarrow> int outcome" where
  "atoi s = (let v = ato_int s in if - (2 ^ 31) \<le> v \<and> v < 2 ^ 31 then Ret v else Undef)"

definition atoll :: "cstr \<Rightarrow> int outcome" where
  "atoll s = (let v = ato_int s in if - (2 ^ 63) \<le> v \<and> v < 2 ^ 63 then Ret v else Undef)"

end
