(* ===== verification/Lexicon.thy ===== *)
theory Lexicon
  imports Prelude
begin

text \<open>
  Common/DtaLexicon.h: the UID and method tables with the enums that index them, and the token,
  atom, locking state and method status codes. The indexing enums are datatypes; the code enums
  repeat values, so their members are byte constants.
\<close>

section \<open>UIDs\<close>

datatype opal_uid =
    OPAL_SMUID_UID | OPAL_THISSP_UID | OPAL_ADMINSP_UID | OPAL_LOCKINGSP_UID |
    ENTERPRISE_LOCKINGSP_UID | OPAL_ANYBODY_UID | OPAL_SID_UID | OPAL_ADMIN1_UID |
    OPAL_USER1_UID | OPAL_USER2_UID | OPAL_PSID_UID | ENTERPRISE_BANDMASTER0_UID |
    ENTERPRISE_ERASEMASTER_UID | OPAL_LOCKINGRANGE_GLOBAL | OPAL_LOCKINGRANGE_ACE_RDLOCKED |
    OPAL_LOCKINGRANGE_ACE_WRLOCKED | OPAL_LOCKINGRANGE_GLOBAL_ACE_RDLOCKED |
    OPAL_LOCKINGRANGE_GLOBAL_ACE_WRLOCKED | OPAL_MBRControl_Set_DoneToDOR | OPAL_MBRCONTROL |
    OPAL_MBR | OPAL_AUTHORITY_TABLE | OPAL_C_PIN_TABLE | OPAL_LOCKING_INFO_TABLE |
    ENTERPRISE_LOCKING_INFO_TABLE | OPAL_C_PIN_MSID | OPAL_C_PIN_SID | OPAL_C_PIN_ADMIN1 |
    OPAL_HALF_UID_AUTHORITY_OBJ_REF | OPAL_HALF_UID_BOOLEAN_ACE | OPAL_UID_HEXFF

definition OPALUID_table :: "bytes list" where
  "OPALUID_table =
    [[0x00, 0x00, 0x00, 0x00, 0x00, 0x00, 0x00, 0xff],
     [0x00, 0x00, 0x00, 0x00, 0x00, 0x00, 0x00, 0x01],
     [0x00, 0x00, 0x02, 0x05, 0x00, 0x00, 0x00, 0x01],
     [0x00, 0x00, 0x02, 0x05, 0x00, 0x00, 0x00, 0x02],
     [0x00, 0x00, 0x02, 0x05, 0x00, 0x01, 0x00, 0x01],
     [0x00, 0x00, 0x00, 0x09, 0x00, 0x00, 0x00, 0x01],
     [0x00, 0x00, 0x00, 0x09, 0x00, 0x00, 0x00, 0x06],
     [0x00, 0x00, 0x00, 0x09, 0x00, 0x01, 0x00, 0x01],
     [0x00, 0x00, 0x00, 0x09, 0x00, 0x03, 0x00, 0x01],
     [0x00, 0x00, 0x00, 0x09, 0x00, 0x03, 0x00, 0x02],
     [0x00, 0x00, 0x00, 0x09, 0x00, 0x01, 0xff, 0x01],
     [0x00, 0x00, 0x00, 0x09, 0x00, 0x00, 0x80, 0x01],
     [0x00, 0x00, 0x00, 0x09, 0x00, 0x00, 0x84, 0x01],
     [0x00, 0x00, 0x08, 0x02, 0x00, 0x00, 0x00, 0x01],
     [0x00, 0x00, 0x00, 0x08, 0x00, 0x03, 0xe0, 0x01],
     [0x00, 0x00, 0x00, 0x08, 0x00, 0x03, 0xe8, 0x01],
     [0x00, 0x00, 0x00, 0x08, 0x00, 0x03, 0xe0, 0x00],
     [0x00, 0x00, 0x00, 0x08, 0x00, 0x03, 0xe8, 0x00],
     [0x00, 0x00, 0x00, 0x08, 0x00, 0x03, 0xf8, 0x01],
     [0x00, 0x00, 0x08, 0x03, 0x00, 0x00, 0x00, 0x01],
     [0x00, 0x00, 0x08, 0x04, 0x00, 0x00, 0x00, 0x00],
     [0x00, 0x00, 0x00, 0x09, 0x00, 0x00, 0x00, 0x00],
     [0x00, 0x00, 0x00, 0x0b, 0x00, 0x00, 0x00, 0x00],
     [0x00, 0x00, 0x08, 0x01, 0x00, 0x00, 0x00, 0x01],
     [0x00, 0x00, 0x08, 0x01, 0x00, 0x00, 0x00, 0x00],
     [0x00, 0x00, 0x00, 0x0b, 0x00, 0x00, 0x84, 0x02],
     [0x00, 0x00, 0x00, 0x0b, 0x00, 0x00, 0x00, 0x01],
     [0x00, 0x00, 0x00, 0x0b, 0x00, 0x01, 0x00, 0x01],
     [0x00, 0x00, 0x0c, 0x05, 0xff, 0xff, 0xff, 0xff],
     [0x00, 0x00, 0x04, 0x0e, 0xff, 0xff, 0xff, 0xff],
     [0xff, 0xff, 0xff, 0xff, 0xff, 0xff, 0xff, 0xff]]"

text \<open>The members of the enum in declaration order: the n-th has the value n.\<close>

definition opal_uids :: "opal_uid list" where
  "opal_uids =
    [OPAL_SMUID_UID, OPAL_THISSP_UID, OPAL_ADMINSP_UID, OPAL_LOCKINGSP_UID,
     ENTERPRISE_LOCKINGSP_UID, OPAL_ANYBODY_UID, OPAL_SID_UID, OPAL_ADMIN1_UID, OPAL_USER1_UID,
     OPAL_USER2_UID, OPAL_PSID_UID, ENTERPRISE_BANDMASTER0_UID, ENTERPRISE_ERASEMASTER_UID,
     OPAL_LOCKINGRANGE_GLOBAL, OPAL_LOCKINGRANGE_ACE_RDLOCKED, OPAL_LOCKINGRANGE_ACE_WRLOCKED,
     OPAL_LOCKINGRANGE_GLOBAL_ACE_RDLOCKED, OPAL_LOCKINGRANGE_GLOBAL_ACE_WRLOCKED,
     OPAL_MBRControl_Set_DoneToDOR, OPAL_MBRCONTROL, OPAL_MBR, OPAL_AUTHORITY_TABLE,
     OPAL_C_PIN_TABLE, OPAL_LOCKING_INFO_TABLE, ENTERPRISE_LOCKING_INFO_TABLE, OPAL_C_PIN_MSID,
     OPAL_C_PIN_SID, OPAL_C_PIN_ADMIN1, OPAL_HALF_UID_AUTHORITY_OBJ_REF,
     OPAL_HALF_UID_BOOLEAN_ACE, OPAL_UID_HEXFF]"

fun uid_num :: "opal_uid \<Rightarrow> nat" where
  "uid_num OPAL_SMUID_UID = 0"
| "uid_num OPAL_THISSP_UID = 1"
| "uid_num OPAL_ADMINSP_UID = 2"
| "uid_num OPAL_LOCKINGSP_UID = 3"
| "uid_num ENTERPRISE_LOCKINGSP_UID = 4"
| "uid_num OPAL_ANYBODY_UID = 5"
| "uid_num OPAL_SID_UID = 6"
| "uid_num OPAL_ADMIN1_UID = 7"
| "uid_num OPAL_USER1_UID = 8"
| "uid_num OPAL_USER2_UID = 9"
| "uid_num OPAL_PSID_UID = 10"
| "uid_num ENTERPRISE_BANDMASTER0_UID = 11"
| "uid_num ENTERPRISE_ERASEMASTER_UID = 12"
| "uid_num OPAL_LOCKINGRANGE_GLOBAL = 13"
| "uid_num OPAL_LOCKINGRANGE_ACE_RDLOCKED = 14"
| "uid_num OPAL_LOCKINGRANGE_ACE_WRLOCKED = 15"
| "uid_num OPAL_LOCKINGRANGE_GLOBAL_ACE_RDLOCKED = 16"
| "uid_num OPAL_LOCKINGRANGE_GLOBAL_ACE_WRLOCKED = 17"
| "uid_num OPAL_MBRControl_Set_DoneToDOR = 18"
| "uid_num OPAL_MBRCONTROL = 19"
| "uid_num OPAL_MBR = 20"
| "uid_num OPAL_AUTHORITY_TABLE = 21"
| "uid_num OPAL_C_PIN_TABLE = 22"
| "uid_num OPAL_LOCKING_INFO_TABLE = 23"
| "uid_num ENTERPRISE_LOCKING_INFO_TABLE = 24"
| "uid_num OPAL_C_PIN_MSID = 25"
| "uid_num OPAL_C_PIN_SID = 26"
| "uid_num OPAL_C_PIN_ADMIN1 = 27"
| "uid_num OPAL_HALF_UID_AUTHORITY_OBJ_REF = 28"
| "uid_num OPAL_HALF_UID_BOOLEAN_ACE = 29"
| "uid_num OPAL_UID_HEXFF = 30"

definition OPALUID :: "opal_uid \<Rightarrow> bytes" where
  "OPALUID u = OPALUID_table ! uid_num u"

text \<open>\<^verbatim>\<open>(OPAL_UID) n\<close>, used as an index of the table: undefined outside it.\<close>

definition uid_of_int :: "int \<Rightarrow> opal_uid outcome" where
  "uid_of_int n = (if n < 0 then Undef else vec_at opal_uids (nat n))"

section \<open>Methods\<close>

datatype opal_method =
    PROPERTIES | STARTSESSION | REVERT | ACTIVATE | EGET | ESET | NEXT | EAUTHENTICATE | GETACL |
    GENKEY | REVERTSP | GET | SET | AUTHENTICATE | RANDOM | ERASE

definition OPALMETHOD_table :: "bytes list" where
  "OPALMETHOD_table =
    [[0x00, 0x00, 0x00, 0x00, 0x00, 0x00, 0xff, 0x01],
     [0x00, 0x00, 0x00, 0x00, 0x00, 0x00, 0xff, 0x02],
     [0x00, 0x00, 0x00, 0x06, 0x00, 0x00, 0x02, 0x02],
     [0x00, 0x00, 0x00, 0x06, 0x00, 0x00, 0x02, 0x03],
     [0x00, 0x00, 0x00, 0x06, 0x00, 0x00, 0x00, 0x06],
     [0x00, 0x00, 0x00, 0x06, 0x00, 0x00, 0x00, 0x07],
     [0x00, 0x00, 0x00, 0x06, 0x00, 0x00, 0x00, 0x08],
     [0x00, 0x00, 0x00, 0x06, 0x00, 0x00, 0x00, 0x0c],
     [0x00, 0x00, 0x00, 0x06, 0x00, 0x00, 0x00, 0x0d],
     [0x00, 0x00, 0x00, 0x06, 0x00, 0x00, 0x00, 0x10],
     [0x00, 0x00, 0x00, 0x06, 0x00, 0x00, 0x00, 0x11],
     [0x00, 0x00, 0x00, 0x06, 0x00, 0x00, 0x00, 0x16],
     [0x00, 0x00, 0x00, 0x06, 0x00, 0x00, 0x00, 0x17],
     [0x00, 0x00, 0x00, 0x06, 0x00, 0x00, 0x00, 0x1c],
     [0x00, 0x00, 0x00, 0x06, 0x00, 0x00, 0x06, 0x01],
     [0x00, 0x00, 0x00, 0x06, 0x00, 0x00, 0x08, 0x03]]"

fun method_num :: "opal_method \<Rightarrow> nat" where
  "method_num PROPERTIES = 0"
| "method_num STARTSESSION = 1"
| "method_num REVERT = 2"
| "method_num ACTIVATE = 3"
| "method_num EGET = 4"
| "method_num ESET = 5"
| "method_num NEXT = 6"
| "method_num EAUTHENTICATE = 7"
| "method_num GETACL = 8"
| "method_num GENKEY = 9"
| "method_num REVERTSP = 10"
| "method_num GET = 11"
| "method_num SET = 12"
| "method_num AUTHENTICATE = 13"
| "method_num RANDOM = 14"
| "method_num ERASE = 15"

definition OPALMETHOD :: "opal_method \<Rightarrow> bytes" where
  "OPALMETHOD m = OPALMETHOD_table ! method_num m"

section \<open>Tokens and codes\<close>

type_synonym opal_token = u8

subsection \<open>OPAL_TOKEN\<close>

abbreviation (input) OPAL_TRUE :: u8 where "OPAL_TRUE \<equiv> 0x01"
abbreviation (input) OPAL_FALSE :: u8 where "OPAL_FALSE \<equiv> 0x00"
abbreviation (input) OPAL_BOOLEAN_EXPR :: u8 where "OPAL_BOOLEAN_EXPR \<equiv> 0x03"
abbreviation (input) TABLE :: u8 where "TABLE \<equiv> 0x00"
abbreviation (input) STARTROW :: u8 where "STARTROW \<equiv> 0x01"
abbreviation (input) ENDROW :: u8 where "ENDROW \<equiv> 0x02"
abbreviation (input) STARTCOLUMN :: u8 where "STARTCOLUMN \<equiv> 0x03"
abbreviation (input) ENDCOLUMN :: u8 where "ENDCOLUMN \<equiv> 0x04"
abbreviation (input) VALUES :: u8 where "VALUES \<equiv> 0x01"
abbreviation (input) PIN :: u8 where "PIN \<equiv> 0x03"
abbreviation (input) RANGESTART :: u8 where "RANGESTART \<equiv> 0x03"
abbreviation (input) RANGELENGTH :: u8 where "RANGELENGTH \<equiv> 0x04"
abbreviation (input) READLOCKENABLED :: u8 where "READLOCKENABLED \<equiv> 0x05"
abbreviation (input) WRITELOCKENABLED :: u8 where "WRITELOCKENABLED \<equiv> 0x06"
abbreviation (input) READLOCKED :: u8 where "READLOCKED \<equiv> 0x07"
abbreviation (input) WRITELOCKED :: u8 where "WRITELOCKED \<equiv> 0x08"
abbreviation (input) ACTIVEKEY :: u8 where "ACTIVEKEY \<equiv> 0x0a"
abbreviation (input) MAXRANGES :: u8 where "MAXRANGES \<equiv> 0x04"
abbreviation (input) MBRENABLE :: u8 where "MBRENABLE \<equiv> 0x01"
abbreviation (input) MBRDONE :: u8 where "MBRDONE \<equiv> 0x02"
abbreviation (input) HOSTPROPERTIES :: u8 where "HOSTPROPERTIES \<equiv> 0x00"
abbreviation (input) DTA_TOKENID_BYTESTRING :: u8 where "DTA_TOKENID_BYTESTRING \<equiv> 0xe0"
abbreviation (input) DTA_TOKENID_SINT :: u8 where "DTA_TOKENID_SINT \<equiv> 0xe1"
abbreviation (input) DTA_TOKENID_UINT :: u8 where "DTA_TOKENID_UINT \<equiv> 0xe2"
abbreviation (input) DTA_TOKENID_TOKEN :: u8 where "DTA_TOKENID_TOKEN \<equiv> 0xe3"
abbreviation (input) STARTLIST :: u8 where "STARTLIST \<equiv> 0xf0"
abbreviation (input) ENDLIST :: u8 where "ENDLIST \<equiv> 0xf1"
abbreviation (input) STARTNAME :: u8 where "STARTNAME \<equiv> 0xf2"
abbreviation (input) ENDNAME :: u8 where "ENDNAME \<equiv> 0xf3"
abbreviation (input) CALL :: u8 where "CALL \<equiv> 0xf8"
abbreviation (input) ENDOFDATA :: u8 where "ENDOFDATA \<equiv> 0xf9"
abbreviation (input) ENDOFSESSION :: u8 where "ENDOFSESSION \<equiv> 0xfa"
abbreviation (input) STARTTRANSACTON :: u8 where "STARTTRANSACTON \<equiv> 0xfb"
abbreviation (input) ENDTRANSACTON :: u8 where "ENDTRANSACTON \<equiv> 0xfc"
abbreviation (input) EMPTYATOM :: u8 where "EMPTYATOM \<equiv> 0xff"
abbreviation (input) WHERE :: u8 where "WHERE \<equiv> 0x00"

subsection \<open>OPAL_TINY_ATOM\<close>

abbreviation (input) UINT_00 :: u8 where "UINT_00 \<equiv> 0x00"
abbreviation (input) UINT_01 :: u8 where "UINT_01 \<equiv> 0x01"
abbreviation (input) UINT_02 :: u8 where "UINT_02 \<equiv> 0x02"
abbreviation (input) UINT_03 :: u8 where "UINT_03 \<equiv> 0x03"
abbreviation (input) UINT_04 :: u8 where "UINT_04 \<equiv> 0x04"
abbreviation (input) UINT_05 :: u8 where "UINT_05 \<equiv> 0x05"
abbreviation (input) UINT_06 :: u8 where "UINT_06 \<equiv> 0x06"
abbreviation (input) UINT_07 :: u8 where "UINT_07 \<equiv> 0x07"
abbreviation (input) UINT_08 :: u8 where "UINT_08 \<equiv> 0x08"
abbreviation (input) UINT_09 :: u8 where "UINT_09 \<equiv> 0x09"
abbreviation (input) UINT_10 :: u8 where "UINT_10 \<equiv> 0x0a"
abbreviation (input) UINT_11 :: u8 where "UINT_11 \<equiv> 0x0b"
abbreviation (input) UINT_12 :: u8 where "UINT_12 \<equiv> 0x0c"
abbreviation (input) UINT_13 :: u8 where "UINT_13 \<equiv> 0x0d"
abbreviation (input) UINT_14 :: u8 where "UINT_14 \<equiv> 0x0e"
abbreviation (input) UINT_15 :: u8 where "UINT_15 \<equiv> 0x0f"

subsection \<open>OPAL_SHORT_ATOM\<close>

abbreviation (input) UINT_3 :: u8 where "UINT_3 \<equiv> 0x83"
abbreviation (input) BYTESTRING4 :: u8 where "BYTESTRING4 \<equiv> 0xa4"
abbreviation (input) BYTESTRING8 :: u8 where "BYTESTRING8 \<equiv> 0xa8"

subsection \<open>OPAL_LOCKINGSTATE\<close>

abbreviation (input) READWRITE :: u8 where "READWRITE \<equiv> 0x01"
abbreviation (input) READONLY :: u8 where "READONLY \<equiv> 0x02"
abbreviation (input) LOCKED :: u8 where "LOCKED \<equiv> 0x03"
abbreviation (input) ARCHIVELOCKED :: u8 where "ARCHIVELOCKED \<equiv> 0x04"
abbreviation (input) ARCHIVEUNLOCKED :: u8 where "ARCHIVEUNLOCKED \<equiv> 0x05"

subsection \<open>OPALSTATUSCODE\<close>

abbreviation (input) SUCCESS :: u8 where "SUCCESS \<equiv> 0x00"
abbreviation (input) NOT_AUTHORIZED :: u8 where "NOT_AUTHORIZED \<equiv> 0x01"
abbreviation (input) SP_BUSY :: u8 where "SP_BUSY \<equiv> 0x03"
abbreviation (input) SP_FAILED :: u8 where "SP_FAILED \<equiv> 0x04"
abbreviation (input) SP_DISABLED :: u8 where "SP_DISABLED \<equiv> 0x05"
abbreviation (input) SP_FROZEN :: u8 where "SP_FROZEN \<equiv> 0x06"
abbreviation (input) NO_SESSIONS_AVAILABLE :: u8 where "NO_SESSIONS_AVAILABLE \<equiv> 0x07"
abbreviation (input) UNIQUENESS_CONFLICT :: u8 where "UNIQUENESS_CONFLICT \<equiv> 0x08"
abbreviation (input) INSUFFICIENT_SPACE :: u8 where "INSUFFICIENT_SPACE \<equiv> 0x09"
abbreviation (input) INSUFFICIENT_ROWS :: u8 where "INSUFFICIENT_ROWS \<equiv> 0x0a"
abbreviation (input) INVALID_FUNCTION :: u8 where "INVALID_FUNCTION \<equiv> 0x0b"
abbreviation (input) INVALID_PARAMETER :: u8 where "INVALID_PARAMETER \<equiv> 0x0c"
abbreviation (input) INVALID_REFERENCE :: u8 where "INVALID_REFERENCE \<equiv> 0x0d"
abbreviation (input) TPER_MALFUNCTION :: u8 where "TPER_MALFUNCTION \<equiv> 0x0f"
abbreviation (input) TRANSACTION_FAILURE :: u8 where "TRANSACTION_FAILURE \<equiv> 0x10"
abbreviation (input) RESPONSE_OVERFLOW :: u8 where "RESPONSE_OVERFLOW \<equiv> 0x11"
abbreviation (input) AUTHORITY_LOCKED_OUT :: u8 where "AUTHORITY_LOCKED_OUT \<equiv> 0x12"
abbreviation (input) FAIL :: u8 where "FAIL \<equiv> 0x3f"

section \<open>Facts about the tables\<close>

lemma OPALUID_rows:
  "OPALUID OPAL_SMUID_UID = [0x00, 0x00, 0x00, 0x00, 0x00, 0x00, 0x00, 0xff]"
  "OPALUID OPAL_THISSP_UID = [0x00, 0x00, 0x00, 0x00, 0x00, 0x00, 0x00, 0x01]"
  "OPALUID OPAL_ADMINSP_UID = [0x00, 0x00, 0x02, 0x05, 0x00, 0x00, 0x00, 0x01]"
  "OPALUID OPAL_LOCKINGSP_UID = [0x00, 0x00, 0x02, 0x05, 0x00, 0x00, 0x00, 0x02]"
  "OPALUID ENTERPRISE_LOCKINGSP_UID = [0x00, 0x00, 0x02, 0x05, 0x00, 0x01, 0x00, 0x01]"
  "OPALUID OPAL_ANYBODY_UID = [0x00, 0x00, 0x00, 0x09, 0x00, 0x00, 0x00, 0x01]"
  "OPALUID OPAL_SID_UID = [0x00, 0x00, 0x00, 0x09, 0x00, 0x00, 0x00, 0x06]"
  "OPALUID OPAL_ADMIN1_UID = [0x00, 0x00, 0x00, 0x09, 0x00, 0x01, 0x00, 0x01]"
  "OPALUID OPAL_USER1_UID = [0x00, 0x00, 0x00, 0x09, 0x00, 0x03, 0x00, 0x01]"
  "OPALUID OPAL_USER2_UID = [0x00, 0x00, 0x00, 0x09, 0x00, 0x03, 0x00, 0x02]"
  "OPALUID OPAL_PSID_UID = [0x00, 0x00, 0x00, 0x09, 0x00, 0x01, 0xff, 0x01]"
  "OPALUID ENTERPRISE_BANDMASTER0_UID = [0x00, 0x00, 0x00, 0x09, 0x00, 0x00, 0x80, 0x01]"
  "OPALUID ENTERPRISE_ERASEMASTER_UID = [0x00, 0x00, 0x00, 0x09, 0x00, 0x00, 0x84, 0x01]"
  "OPALUID OPAL_LOCKINGRANGE_GLOBAL = [0x00, 0x00, 0x08, 0x02, 0x00, 0x00, 0x00, 0x01]"
  "OPALUID OPAL_LOCKINGRANGE_ACE_RDLOCKED = [0x00, 0x00, 0x00, 0x08, 0x00, 0x03, 0xe0, 0x01]"
  "OPALUID OPAL_LOCKINGRANGE_ACE_WRLOCKED = [0x00, 0x00, 0x00, 0x08, 0x00, 0x03, 0xe8, 0x01]"
  "OPALUID OPAL_LOCKINGRANGE_GLOBAL_ACE_RDLOCKED = [0x00, 0x00, 0x00, 0x08, 0x00, 0x03, 0xe0, 0x00]"
  "OPALUID OPAL_LOCKINGRANGE_GLOBAL_ACE_WRLOCKED = [0x00, 0x00, 0x00, 0x08, 0x00, 0x03, 0xe8, 0x00]"
  "OPALUID OPAL_MBRControl_Set_DoneToDOR = [0x00, 0x00, 0x00, 0x08, 0x00, 0x03, 0xf8, 0x01]"
  "OPALUID OPAL_MBRCONTROL = [0x00, 0x00, 0x08, 0x03, 0x00, 0x00, 0x00, 0x01]"
  "OPALUID OPAL_MBR = [0x00, 0x00, 0x08, 0x04, 0x00, 0x00, 0x00, 0x00]"
  "OPALUID OPAL_AUTHORITY_TABLE = [0x00, 0x00, 0x00, 0x09, 0x00, 0x00, 0x00, 0x00]"
  "OPALUID OPAL_C_PIN_TABLE = [0x00, 0x00, 0x00, 0x0b, 0x00, 0x00, 0x00, 0x00]"
  "OPALUID OPAL_LOCKING_INFO_TABLE = [0x00, 0x00, 0x08, 0x01, 0x00, 0x00, 0x00, 0x01]"
  "OPALUID ENTERPRISE_LOCKING_INFO_TABLE = [0x00, 0x00, 0x08, 0x01, 0x00, 0x00, 0x00, 0x00]"
  "OPALUID OPAL_C_PIN_MSID = [0x00, 0x00, 0x00, 0x0b, 0x00, 0x00, 0x84, 0x02]"
  "OPALUID OPAL_C_PIN_SID = [0x00, 0x00, 0x00, 0x0b, 0x00, 0x00, 0x00, 0x01]"
  "OPALUID OPAL_C_PIN_ADMIN1 = [0x00, 0x00, 0x00, 0x0b, 0x00, 0x01, 0x00, 0x01]"
  "OPALUID OPAL_HALF_UID_AUTHORITY_OBJ_REF = [0x00, 0x00, 0x0c, 0x05, 0xff, 0xff, 0xff, 0xff]"
  "OPALUID OPAL_HALF_UID_BOOLEAN_ACE = [0x00, 0x00, 0x04, 0x0e, 0xff, 0xff, 0xff, 0xff]"
  "OPALUID OPAL_UID_HEXFF = [0xff, 0xff, 0xff, 0xff, 0xff, 0xff, 0xff, 0xff]"
  by (simp_all add: OPALUID_def OPALUID_table_def)

lemma OPALMETHOD_rows:
  "OPALMETHOD PROPERTIES = [0x00, 0x00, 0x00, 0x00, 0x00, 0x00, 0xff, 0x01]"
  "OPALMETHOD STARTSESSION = [0x00, 0x00, 0x00, 0x00, 0x00, 0x00, 0xff, 0x02]"
  "OPALMETHOD REVERT = [0x00, 0x00, 0x00, 0x06, 0x00, 0x00, 0x02, 0x02]"
  "OPALMETHOD ACTIVATE = [0x00, 0x00, 0x00, 0x06, 0x00, 0x00, 0x02, 0x03]"
  "OPALMETHOD EGET = [0x00, 0x00, 0x00, 0x06, 0x00, 0x00, 0x00, 0x06]"
  "OPALMETHOD ESET = [0x00, 0x00, 0x00, 0x06, 0x00, 0x00, 0x00, 0x07]"
  "OPALMETHOD NEXT = [0x00, 0x00, 0x00, 0x06, 0x00, 0x00, 0x00, 0x08]"
  "OPALMETHOD EAUTHENTICATE = [0x00, 0x00, 0x00, 0x06, 0x00, 0x00, 0x00, 0x0c]"
  "OPALMETHOD GETACL = [0x00, 0x00, 0x00, 0x06, 0x00, 0x00, 0x00, 0x0d]"
  "OPALMETHOD GENKEY = [0x00, 0x00, 0x00, 0x06, 0x00, 0x00, 0x00, 0x10]"
  "OPALMETHOD REVERTSP = [0x00, 0x00, 0x00, 0x06, 0x00, 0x00, 0x00, 0x11]"
  "OPALMETHOD GET = [0x00, 0x00, 0x00, 0x06, 0x00, 0x00, 0x00, 0x16]"
  "OPALMETHOD SET = [0x00, 0x00, 0x00, 0x06, 0x00, 0x00, 0x00, 0x17]"
  "OPALMETHOD AUTHENTICATE = [0x00, 0x00, 0x00, 0x06, 0x00, 0x00, 0x00, 0x1c]"
  "OPALMETHOD RANDOM = [0x00, 0x00, 0x00, 0x06, 0x00, 0x00, 0x06, 0x01]"
  "OPALMETHOD ERASE = [0x00, 0x00, 0x00, 0x06, 0x00, 0x00, 0x08, 0x03]"
  by (simp_all add: OPALMETHOD_def OPALMETHOD_table_def)

lemma length_OPALUID [simp]: "length (OPALUID u) = 8"
  by (cases u) (simp_all add: OPALUID_rows)

lemma length_OPALMETHOD [simp]: "length (OPALMETHOD m) = 8"
  by (cases m) (simp_all add: OPALMETHOD_rows)

lemma uid_of_int_num: "uid_of_int (int (uid_num u)) = Ret u"
  by (cases u) (simp_all add: uid_of_int_def opal_uids_def vec_at_def)

lemma inj_OPALUID: "OPALUID u = OPALUID v \<longleftrightarrow> u = v"
proof -
  have "distinct OPALUID_table"
    by (simp add: OPALUID_table_def)
  moreover have "uid_num x < length OPALUID_table" for x
    by (cases x) (simp_all add: OPALUID_table_def)
  ultimately have "OPALUID u = OPALUID v \<longleftrightarrow> uid_num u = uid_num v"
    by (simp add: OPALUID_def nth_eq_iff_index_eq)
  also have "\<dots> \<longleftrightarrow> u = v"
    by (metis uid_of_int_num outcome.inject)
  finally show ?thesis .
qed

end
