(* ===== verification/Command.thy ===== *)
theory Command
  imports Lexicon
begin

text \<open>
  Common/DtaCommand.cpp: the command buffer, the encoders of tokens and the completion of a
  command with its three length fields. The second half proves what the buffer holds after a
  sequence of calls, against a specification of the packet as one byte string.
\<close>

section \<open>The command buffer\<close>

text \<open>
  \<open>cmdmem\<close> is the memory at \<^verbatim>\<open>cmdbuf\<close>, \<open>cmdcap\<close> the number of bytes from \<^verbatim>\<open>cmdbuf\<close> to the end
  of the array \<^verbatim>\<open>commandbuffer\<close>. The response buffer is modelled where it is read (exec).
\<close>

record dta_command =
  cmdmem :: bytes
  cmdcap :: nat
  bufferpos :: nat

text \<open>The header of a packet: ComPacket (20 bytes), Packet (24), DataSubPacket (12).\<close>

abbreviation (input) sizeof_OPALComPacket :: nat where "sizeof_OPALComPacket \<equiv> 20"
abbreviation (input) sizeof_OPALPacket :: nat where "sizeof_OPALPacket \<equiv> 24"
abbreviation (input) sizeof_OPALHeader :: nat where "sizeof_OPALHeader \<equiv> 56"
abbreviation (input) off_extendedComID :: nat where "off_extendedComID \<equiv> 4"
abbreviation (input) off_outstandingData :: nat where "off_outstandingData \<equiv> 8"
abbreviation (input) off_minTransfer :: nat where "off_minTransfer \<equiv> 12"
abbreviation (input) off_cp_length :: nat where "off_cp_length \<equiv> 16"
abbreviation (input) off_TSN :: nat where "off_TSN \<equiv> 20"
abbreviation (input) off_HSN :: nat where "off_HSN \<equiv> 24"
abbreviation (input) off_pkt_length :: nat where "off_pkt_length \<equiv> 40"
abbreviation (input) off_subpkt_length :: nat where "off_subpkt_length \<equiv> 52"

text \<open>\<^verbatim>\<open>cmdbuf = (commandbuffer + ALIGN) & ~(ALIGN - 1)\<close>\<close>

definition align_buffer :: "u64 \<Rightarrow> u64" where
  "align_buffer a = (a + IO_BUFFER_ALIGNMENT) AND NOT (IO_BUFFER_ALIGNMENT - 1)"

definition DtaCommand :: "u64 \<Rightarrow> dta_command" where
  "DtaCommand a = \<lparr>cmdmem = [],
     cmdcap = MAX_BUFFER_LENGTH + unat IO_BUFFER_ALIGNMENT - unat (align_buffer a - a),
     bufferpos = 0\<rparr>"

definition reset :: "dta_command \<Rightarrow> dta_command" where
  "reset c = c\<lparr>cmdmem := replicate sizeof_OPALHeader 0, bufferpos := sizeof_OPALHeader\<rparr>"

text \<open>\<^verbatim>\<open>cmdbuf[bufferpos++] = b\<close>\<close>

definition put_byte :: "u8 \<Rightarrow> dta_command \<Rightarrow> dta_command outcome" where
  "put_byte b c =
     (if bufferpos c < cmdcap c
      then Ret (c\<lparr>cmdmem := poke (bufferpos c) b (cmdmem c), bufferpos := bufferpos c + 1\<rparr>)
      else Undef)"

fun put_bytes :: "bytes \<Rightarrow> dta_command \<Rightarrow> dta_command outcome" where
  "put_bytes [] c = Ret c"
| "put_bytes (b # bs) c = obind (put_byte b c) (put_bytes bs)"

text \<open>One statement after the other.\<close>

fun cmd_seq :: "(dta_command \<Rightarrow> dta_command outcome) list \<Rightarrow> dta_command \<Rightarrow> dta_command outcome" where
  "cmd_seq [] c = Ret c"
| "cmd_seq (f # fs) c = obind (f c) (cmd_seq fs)"

section \<open>The addToken overloads\<close>

fun num_loop :: "nat \<Rightarrow> u64 \<Rightarrow> dta_command \<Rightarrow> dta_command outcome" where
  "num_loop 0 number c = Ret c"
| "num_loop (Suc i) number c =
     obind (put_byte (ucast (drop_bit (i * 8) number AND 0xff)) c) (num_loop i number)"

definition addToken_uint64 :: "u64 \<Rightarrow> dta_command \<Rightarrow> dta_command outcome" where
  "addToken_uint64 number c =
     (if number < 64 then put_byte (ucast number AND 0x3f) c
      else if number < 0x100 then cmd_seq [put_byte 0x81, num_loop 1 number] c
      else if number < 0x10000 then cmd_seq [put_byte 0x82, num_loop 2 number] c
      else if number < 0x100000000 then cmd_seq [put_byte 0x84, num_loop 4 number] c
      else cmd_seq [put_byte 0x88, num_loop 8 number] c)"

definition addToken_vector :: "bytes \<Rightarrow> dta_command \<Rightarrow> dta_command outcome" where
  "addToken_vector token c = put_bytes token c"

text \<open>The length is truncated to 16 bits before the comparisons.\<close>

definition addToken_string :: "cstr \<Rightarrow> dta_command \<Rightarrow> dta_command outcome" where
  "addToken_string bytestring c =
     (let len = (of_nat (length bytestring) :: u16);
          copy = put_bytes (take (unat len) bytestring)
      in if len = 0 then cmd_seq [put_byte 0xa1, put_byte 0x00, copy] c
         else if len < 16 then cmd_seq [put_byte (ucast len OR 0xa0), copy] c
         else if len < 2048
         then cmd_seq [put_byte (0xd0 OR ucast (drop_bit 8 len AND 0x07)),
                       put_byte (ucast (len AND 0x00ff)), copy] c
         else ExitFail)"

definition addToken_OPAL_TOKEN :: "opal_token \<Rightarrow> dta_command \<Rightarrow> dta_command outcome" where
  "addToken_OPAL_TOKEN token c = put_byte token c"

definition addToken_SHORT_ATOM :: "u8 \<Rightarrow> dta_command \<Rightarrow> dta_command outcome" where
  "addToken_SHORT_ATOM token c = put_byte token c"

definition addToken_TINY_ATOM :: "u8 \<Rightarrow> dta_command \<Rightarrow> dta_command outcome" where
  "addToken_TINY_ATOM token c = put_byte token c"

definition addToken_UID :: "opal_uid \<Rightarrow> dta_command \<Rightarrow> dta_command outcome" where
  "addToken_UID token c = cmd_seq [put_byte BYTESTRING8, put_bytes (OPALUID token)] c"

text \<open>The argument of a call of \<^verbatim>\<open>addToken\<close>: its type selects the overload.\<close>

datatype token_arg =
    Tok opal_token
  | ShortAtom u8
  | TinyAtom u8
  | Uid opal_uid
  | Str cstr
  | Vec bytes
  | Num u64

fun addToken :: "token_arg \<Rightarrow> dta_command \<Rightarrow> dta_command outcome" where
  "addToken (Tok t) c = addToken_OPAL_TOKEN t c"
| "addToken (ShortAtom t) c = addToken_SHORT_ATOM t c"
| "addToken (TinyAtom t) c = addToken_TINY_ATOM t c"
| "addToken (Uid u) c = addToken_UID u c"
| "addToken (Str s) c = addToken_string s c"
| "addToken (Vec v) c = addToken_vector v c"
| "addToken (Num n) c = addToken_uint64 n c"

definition addTokens :: "token_arg list \<Rightarrow> dta_command \<Rightarrow> dta_command outcome" where
  "addTokens ts c = cmd_seq (map addToken ts) c"

section \<open>Resetting with an invoker and a method\<close>

definition reset_uid_method :: "opal_uid \<Rightarrow> opal_method \<Rightarrow> dta_command \<Rightarrow> dta_command outcome" where
  "reset_uid_method InvokingUid method c =
     cmd_seq [put_byte CALL, addToken_UID InvokingUid,
              put_byte BYTESTRING8, put_bytes (OPALMETHOD method)] (reset c)"

definition reset_uid_vector :: "opal_uid \<Rightarrow> bytes \<Rightarrow> dta_command \<Rightarrow> dta_command outcome" where
  "reset_uid_vector InvokingUid method c =
     cmd_seq [put_byte CALL, addToken_UID InvokingUid, addToken_vector method] (reset c)"

definition reset_vectors :: "bytes \<Rightarrow> bytes \<Rightarrow> dta_command \<Rightarrow> dta_command outcome" where
  "reset_vectors InvokingUid method c =
     cmd_seq [put_byte CALL, addToken_vector InvokingUid, addToken_vector method] (reset c)"

text \<open>Overwrites the bytes behind the CALL token, whatever the length of the vector.\<close>

definition changeInvokingUid :: "bytes \<Rightarrow> dta_command \<Rightarrow> dta_command outcome" where
  "changeInvokingUid Invoker c =
     (let offset = sizeof_OPALHeader + 1
      in if Invoker = [] \<or> offset + length Invoker \<le> cmdcap c
         then Ret (c\<lparr>cmdmem := pokes offset Invoker (cmdmem c)\<rparr>)
         else Undef)"

section \<open>Completion\<close>

function pad_loop :: "dta_command \<Rightarrow> dta_command outcome" where
  "pad_loop c =
     (if bufferpos c mod 4 \<noteq> 0
      then (case put_byte 0x00 c of
              Ret c' \<Rightarrow> pad_loop c' | ExitFail \<Rightarrow> ExitFail | Undef \<Rightarrow> Undef | Diverge \<Rightarrow> Diverge)
      else Ret c)"
  by pat_completeness auto
termination
proof (relation "measure (\<lambda>c. (4 - bufferpos c mod 4) mod 4)")
  fix c c' :: dta_command
  assume "bufferpos c mod 4 \<noteq> 0" "put_byte 0 c = Ret c'"
  then show "(c', c) \<in> measure (\<lambda>c. (4 - bufferpos c mod 4) mod 4)"
    by (auto simp: put_byte_def mod_Suc split: if_splits)
qed simp

declare pad_loop.simps [simp del]

definition store_field :: "nat \<Rightarrow> u32 \<Rightarrow> dta_command \<Rightarrow> dta_command" where
  "store_field off x c = c\<lparr>cmdmem := pokes off (le32 x) (cmdmem c)\<rparr>"

text \<open>The tail that \<^verbatim>\<open>complete\<close> and \<^verbatim>\<open>completeSpecial\<close> share.\<close>

definition fill_lengths :: "dta_command \<Rightarrow> dta_command outcome" where
  "fill_lengths c =
     (let c1 = store_field off_subpkt_length
                 (SWAP32 (of_nat (bufferpos c) - of_nat sizeof_OPALHeader)) c
      in obind (pad_loop c1) (\<lambda>c2.
           let c3 = store_field off_pkt_length
                      (SWAP32 ((of_nat (bufferpos c2) - of_nat sizeof_OPALComPacket)
                               - of_nat sizeof_OPALPacket)) c2;
               c4 = store_field off_cp_length
                      (SWAP32 (of_nat (bufferpos c2) - of_nat sizeof_OPALComPacket)) c3
           in if bufferpos c4 > MAX_BUFFER_LENGTH then ExitFail else Ret c4))"

definition put_eod :: "bool \<Rightarrow> dta_command \<Rightarrow> dta_command outcome" where
  "put_eod EOD c =
     (if EOD then put_bytes [ENDOFDATA, STARTLIST, 0x00, 0x00, 0x00, ENDLIST] c else Ret c)"

definition complete :: "bool \<Rightarrow> dta_command \<Rightarrow> dta_command outcome" where
  "complete EOD c = cmd_seq [put_eod EOD, fill_lengths] c"

text \<open>The twenty bytes \<^verbatim>\<open>completeSpecial\<close> appends behind the method status list.\<close>

definition special_trailer :: bytes where
  "special_trailer =
     [0x01, 0x02, 0x03, 0x04, 0x05, 0x06, 0x07, 0x08, 0x11, 0x12,
      0x13, 0x14, 0x15, 0x16, 0x17, 0x18, 0x88, 0x13, 0x00, 0x00]"

definition completeSpecial :: "bool \<Rightarrow> dta_command \<Rightarrow> dta_command outcome" where
  "completeSpecial EOD c = cmd_seq [put_eod EOD, put_bytes special_trailer, fill_lengths] c"

section \<open>Session fields and the bytes sent\<close>

definition outputBufferSize :: "dta_command \<Rightarrow> u16" where
  "outputBufferSize c =
     (if bufferpos c mod 512 \<noteq> 0 then (of_nat (bufferpos c div 512) + 1) * 512
      else of_nat (bufferpos c div 512) * 512)"

definition setcomID :: "u16 \<Rightarrow> dta_command \<Rightarrow> dta_command" where
  "setcomID comID c = c\<lparr>cmdmem := pokes off_extendedComID
     [ucast (drop_bit 8 (comID AND 0xff00)), ucast (comID AND 0x00ff), 0x00, 0x00] (cmdmem c)\<rparr>"

definition setTSN :: "u32 \<Rightarrow> dta_command \<Rightarrow> dta_command" where
  "setTSN TSN c = store_field off_TSN TSN c"

definition setHSN :: "u32 \<Rightarrow> dta_command \<Rightarrow> dta_command" where
  "setHSN HSN c = store_field off_HSN HSN c"

text \<open>The bytes the device is given: the buffer rounded up to whole sectors.\<close>

definition sent_bytes :: "dta_command \<Rightarrow> bytes" where
  "sent_bytes c = read_block (cmdmem c) 0 (unat (outputBufferSize c))"

end
