(* ===== verification/Packet.thy ===== *)
theory Packet
  imports Command
begin

text \<open>
  What the command buffer holds: every token argument has one encoding (\<open>enc\<close>), a sequence of
  calls appends the encodings, and completing a command lays the header of the packet in front.
\<close>

section \<open>Appending at the end of the buffer\<close>

text \<open>The buffer is filled up to \<open>bufferpos\<close> and holds at least a header.\<close>

definition filled :: "dta_command \<Rightarrow> bool" where
  "filled c \<longleftrightarrow> length (cmdmem c) = bufferpos c \<and> sizeof_OPALHeader \<le> bufferpos c"

definition append_cmd :: "bytes \<Rightarrow> dta_command \<Rightarrow> dta_command" where
  "append_cmd bs c = c\<lparr>cmdmem := cmdmem c @ bs, bufferpos := bufferpos c + length bs\<rparr>"

lemma append_cmd_simps [simp]:
  "cmdmem (append_cmd bs c) = cmdmem c @ bs"
  "cmdcap (append_cmd bs c) = cmdcap c"
  "bufferpos (append_cmd bs c) = bufferpos c + length bs"
  "append_cmd [] c = c"
  "append_cmd ys (append_cmd xs c) = append_cmd (xs @ ys) c"
  by (simp_all add: append_cmd_def)

lemma filled_append [simp, intro]: "filled c \<Longrightarrow> filled (append_cmd bs c)"
  by (simp add: filled_def)

lemma put_byte_filled:
  "filled c \<Longrightarrow> put_byte b c =
     (if bufferpos c < cmdcap c then Ret (append_cmd [b] c) else Undef)"
  unfolding put_byte_def append_cmd_def filled_def by (auto simp: poke_end [symmetric])

lemma put_bytes_filled:
  "filled c \<Longrightarrow> put_bytes bs c =
     (if bs = [] \<or> bufferpos c + length bs \<le> cmdcap c then Ret (append_cmd bs c) else Undef)"
proof (induction bs arbitrary: c)
  case (Cons b bs)
  have "filled (append_cmd [b] c)" using Cons.prems by simp
  from Cons.IH [OF this] Cons.prems show ?case by (auto simp: put_byte_filled)
qed simp

lemma cmd_seq_fun: "cmd_seq [] = Ret" "cmd_seq (f # fs) = (\<lambda>c. obind (f c) (cmd_seq fs))"
  by auto

text \<open>An operation that appends \<open>bs\<close>, and runs off the buffer when they do not fit.\<close>

definition appends :: "bytes \<Rightarrow> (dta_command \<Rightarrow> dta_command outcome) \<Rightarrow> bool" where
  "appends bs f \<longleftrightarrow> (\<forall>c. filled c \<longrightarrow>
     f c = (if bs = [] \<or> bufferpos c + length bs \<le> cmdcap c then Ret (append_cmd bs c) else Undef))"

named_theorems appends_intros \<open>which bytes an operation appends\<close>

lemma appendsD: "appends bs f \<Longrightarrow> filled c \<Longrightarrow>
    f c = (if bs = [] \<or> bufferpos c + length bs \<le> cmdcap c then Ret (append_cmd bs c) else Undef)"
  by (simp add: appends_def)

lemma appends_put_byte [appends_intros]: "appends [b] (put_byte b)"
  by (simp add: appends_def put_byte_filled Suc_le_eq)

lemma appends_put_bytes [appends_intros]: "appends bs (put_bytes bs)"
  by (simp add: appends_def put_bytes_filled)

lemma appends_seq_Nil [appends_intros]: "appends [] (cmd_seq [])"
  by (simp add: appends_def)

lemma appends_bind:
  assumes f: "appends xs f" and g: "appends ys g"
  shows "appends (xs @ ys) (\<lambda>c. obind (f c) g)"
  unfolding appends_def by (auto simp: appendsD [OF f] appendsD [OF g])

lemma appends_seq_Cons [appends_intros]:
  "appends xs f \<Longrightarrow> appends ys (cmd_seq fs) \<Longrightarrow> appends (xs @ ys) (cmd_seq (f # fs))"
  using appends_bind [of xs f ys "cmd_seq fs"] by (simp add: appends_def)

lemma appends_cong: "appends xs f \<Longrightarrow> xs = ys \<Longrightarrow> (\<And>c. g c = f c) \<Longrightarrow> appends ys g"
  by (simp add: appends_def)

section \<open>The encoding of a token argument\<close>

text \<open>The \<open>k\<close> low bytes of a number, most significant first.\<close>

fun be_bytes :: "nat \<Rightarrow> nat \<Rightarrow> bytes" where
  "be_bytes 0 n = []"
| "be_bytes (Suc k) n = of_nat (n div 256 ^ k) # be_bytes k n"

definition enc_num :: "nat \<Rightarrow> bytes" where
  "enc_num n = (if n < 64 then [of_nat n]
     else if n < 256 then 0x81 # be_bytes 1 n
     else if n < 256 ^ 2 then 0x82 # be_bytes 2 n
     else if n < 256 ^ 4 then 0x84 # be_bytes 4 n
     else 0x88 # be_bytes 8 n)"

text \<open>An atom that holds a byte string: short, medium, or (from 2048 on) none.\<close>

definition enc_bytes :: "bytes \<Rightarrow> bytes option" where
  "enc_bytes s = (let n = length s in
     if n = 0 then Some [0xa1, 0x00]
     else if n < 16 then Some ((0xa0 + of_nat n) # s)
     else if n < 2048 then Some ([0xd0 + of_nat (n div 256), of_nat n] @ s)
     else None)"

fun enc :: "token_arg \<Rightarrow> bytes option" where
  "enc (Tok t) = Some [t]"
| "enc (ShortAtom t) = Some [t]"
| "enc (TinyAtom t) = Some [t]"
| "enc (Uid u) = Some (0xa8 # OPALUID u)"
| "enc (Str s) = enc_bytes (take (length s mod 65536) s)"
| "enc (Vec v) = Some v"
| "enc (Num n) = Some (enc_num (unat n))"

fun enc_all :: "token_arg list \<Rightarrow> bytes option" where
  "enc_all [] = Some []"
| "enc_all (t # ts) = (case enc t of None \<Rightarrow> None
     | Some xs \<Rightarrow> (case enc_all ts of None \<Rightarrow> None | Some ys \<Rightarrow> Some (xs @ ys)))"

lemma length_be_bytes [simp]: "length (be_bytes k n) = k"
  by (induction k) auto

lemma be_bytes_numeral [simp]:
  "be_bytes 1 n = [of_nat n]"
  "be_bytes (numeral k) n = of_nat (n div 256 ^ pred_numeral k) # be_bytes (pred_numeral k) n"
  by (simp_all add: numeral_eq_Suc)

lemma byte_of_number:
  "(ucast (drop_bit (k * 8) (x :: u64) AND 0xff) :: u8) = of_nat (unat x div 256 ^ k)"
proof -
  have "(ucast (drop_bit (k * 8) x AND 0xff) :: u8) = ucast (drop_bit (k * 8) x)"
    unfolding byte_masks by (rule bit_word_eqI) (auto simp: bit_simps)
  also have "\<dots> = of_nat (unat (drop_bit (k * 8) x))"
    by (simp add: of_nat_unat)
  also have "unat (drop_bit (k * 8) x) = drop_bit (k * 8) (unat x)"
    by (rule unat_drop_bit_eq)
  also have "\<dots> = unat x div 256 ^ k"
    by (simp add: drop_bit_eq_div mult.commute [of k] power_mult)
  finally show ?thesis .
qed

lemma appends_num_loop: "appends (be_bytes k (unat x)) (num_loop k x)"
proof (induction k)
  case 0
  show ?case by (simp add: appends_def)
next
  case (Suc k)
  show ?case
    by (rule appends_cong [OF appends_bind [OF appends_put_byte Suc]])
      (simp_all add: byte_of_number)
qed

lemma appends_if: "(b \<Longrightarrow> appends xs f) \<Longrightarrow> (\<not> b \<Longrightarrow> appends ys g) \<Longrightarrow>
    appends (if b then xs else ys) (\<lambda>c. if b then f c else g c)"
  by (simp add: appends_def)

lemma number_below [simp]:
  "(x :: u64) < 64 \<longleftrightarrow> unat x < 64"
  "x < 0x100 \<longleftrightarrow> unat x < 256"
  "x < 0x10000 \<longleftrightarrow> unat x < 65536"
  "x < 0x100000000 \<longleftrightarrow> unat x < 4294967296"
  by (simp_all add: word_less_nat_alt)

lemma appends_num_atom: "appends (a # be_bytes k (unat x)) (cmd_seq [put_byte a, num_loop k x])"
  using appends_seq_Cons [OF appends_put_byte
      appends_seq_Cons [OF appends_num_loop appends_seq_Nil], of a k x]
  by simp

lemma tiny_number:
  assumes "unat (x :: u64) < 64"
  shows "(ucast x AND 0x3f :: u8) = of_nat (unat x)"
proof -
  have "x < 2 ^ 6" using assms by (simp add: word_less_nat_alt)
  then have m: "x AND mask 6 = x" by (rule less_mask_eq)
  have mask_6: "(0x3f :: u8) = mask 6" by (simp add: mask_eq_exp_minus_1)
  have "(ucast x AND 0x3f :: u8) = ucast (x AND mask 6)"
    unfolding mask_6 by (rule bit_word_eqI) (auto simp: bit_simps)
  then show ?thesis by (simp add: m of_nat_unat)
qed

lemma appends_number: "appends (enc_num (unat x)) (addToken_uint64 x)"
  unfolding enc_num_def addToken_uint64_def number_below
  apply (simp only: power_numeral Num.pow.simps Num.sqr.simps)
  apply (intro appends_if appends_num_atom)
  apply (simp add: tiny_number appends_put_byte)
  done

lemma word16_below [simp]:
  "(x :: u16) = 0 \<longleftrightarrow> unat x = 0"
  "x < 16 \<longleftrightarrow> unat x < 16" "x < 2048 \<longleftrightarrow> unat x < 2048"
  by (simp_all add: word_less_nat_alt unat_eq_0)


lemma or_prefix:
  "n < 16 \<Longrightarrow> (of_nat n OR 0xa0 :: u8) = 0xa0 + of_nat n"
  "n < 8 \<Longrightarrow> (0xd0 OR of_nat n :: u8) = 0xd0 + of_nat n"
proof -
  have "\<forall>n\<in>{..<16}. (of_nat n OR 0xa0 :: u8) = 0xa0 + of_nat n"
    by (simp add: lessThan_nat_numeral)
  then show "n < 16 \<Longrightarrow> (of_nat n OR 0xa0 :: u8) = 0xa0 + of_nat n" by simp
  have "\<forall>n\<in>{..<8}. (0xd0 OR of_nat n :: u8) = 0xd0 + of_nat n"
    by (simp add: lessThan_nat_numeral)
  then show "n < 8 \<Longrightarrow> (0xd0 OR of_nat n :: u8) = 0xd0 + of_nat n" by simp
qed

lemma len_prefix:
  "unat (l :: u16) < 16 \<Longrightarrow> (ucast l OR 0xa0 :: u8) = 0xa0 + of_nat (unat l)"
  "unat l < 2048 \<Longrightarrow> (0xd0 OR ucast (drop_bit 8 l AND 0x07) :: u8) = 0xd0 + of_nat (unat l div 256)"
  "(ucast (l AND 0x00ff) :: u8) = of_nat (unat l)"
proof -
  have u: "(ucast y :: u8) = of_nat (unat y)" for y :: u16 by (simp add: of_nat_unat)
  show "unat l < 16 \<Longrightarrow> (ucast l OR 0xa0 :: u8) = 0xa0 + of_nat (unat l)"
    by (simp only: u or_prefix)
  show "(ucast (l AND 0x00ff) :: u8) = of_nat (unat l)"
    unfolding u [symmetric] byte_masks by (rule bit_word_eqI) (auto simp: bit_simps)
  assume l: "unat l < 2048"
  then have d: "unat l div 256 < 8" by simp
  have "drop_bit 8 l AND 0x07 = take_bit 3 (drop_bit 8 l)"
    by (simp add: take_bit_eq_mask mask_eq_exp_minus_1)
  then have "unat (drop_bit 8 l AND 0x07) = take_bit 3 (drop_bit 8 (unat l))"
    by (simp only: unsigned_take_bit_eq unat_drop_bit_eq)
  also have "\<dots> = unat l div 256" using d by (simp add: take_bit_eq_mod drop_bit_eq_div)
  finally show "(0xd0 OR ucast (drop_bit 8 l AND 0x07) :: u8) = 0xd0 + of_nat (unat l div 256)"
    by (simp only: u or_prefix(2) [OF d])
qed


lemma appends_string:
  assumes e: "enc_bytes (take (length s mod 65536) s) = Some bs"
  shows "appends bs (addToken_string s)"
proof -
  define l where "l = (of_nat (length s) :: u16)"
  have ul: "unat l = length s mod 65536" by (simp add: l_def unat_of_nat)
  define t where "t = take (unat l) s"
  have lt: "length t = unat l" by (simp add: t_def ul)
  have nz: "appends (xs @ ys @ []) (cmd_seq [f, put_bytes ys])" if "appends xs f" for xs ys f
    by (intro appends_intros that)
  have two: "appends ([a, b] @ t) (cmd_seq [put_byte a, put_byte b, put_bytes t])" for a b
    using appends_seq_Cons [OF appends_put_byte nz [OF appends_put_byte]] by simp
  have one: "appends (a # t) (cmd_seq [put_byte a, put_bytes t])" for a
    using nz [OF appends_put_byte] by simp
  have e': "enc_bytes t = Some bs" using e by (simp add: t_def ul)
  consider "unat l = 0" | "0 < unat l" "unat l < 16" | "16 \<le> unat l" "unat l < 2048"
    using e' by (cases "unat l = 0"; cases "unat l < 16"; cases "unat l < 2048")
      (auto simp: enc_bytes_def lt)
  then show ?thesis
  proof cases
    case 1
    then have "t = []" using lt by simp
    with 1 e' show ?thesis
      by (intro appends_cong [OF two [of "0xa1" "0x00"]])
        (simp_all add: enc_bytes_def addToken_string_def flip: l_def)
  next
    case 2
    with e' show ?thesis
      by (intro appends_cong [OF one [of "0xa0 + of_nat (unat l)"]])
        (simp_all add: enc_bytes_def lt addToken_string_def len_prefix Let_def flip: l_def t_def)
  next
    case 3
    with e' show ?thesis
      by (intro appends_cong [OF two
           [of "0xd0 + of_nat (unat l div 256)" "of_nat (unat l)"]])
        (simp_all add: enc_bytes_def lt addToken_string_def len_prefix Let_def flip: l_def t_def)
  qed
qed


lemma string_too_long:
  assumes "enc_bytes (take (length s mod 65536) s) = None"
  shows "addToken_string s c = ExitFail"
proof -
  have "2048 \<le> length s mod 65536"
    using assms by (auto simp: enc_bytes_def Let_def split: if_splits)
  then show ?thesis by (simp add: addToken_string_def Let_def unat_of_nat)
qed

lemma appends_uid: "appends (0xa8 # OPALUID u) (addToken_UID u)"
  using appends_seq_Cons [OF appends_put_byte [of BYTESTRING8]
      appends_seq_Cons [OF appends_put_bytes appends_seq_Nil], of "OPALUID u"]
  by (simp add: appends_def addToken_UID_def)

theorem appends_token: "enc t = Some bs \<Longrightarrow> appends bs (addToken t)"
  by (cases t)
    (auto simp: addToken_OPAL_TOKEN_def addToken_SHORT_ATOM_def addToken_TINY_ATOM_def
      addToken_vector_def
      intro: appends_cong [OF appends_put_byte] appends_cong [OF appends_put_bytes]
        appends_cong [OF appends_uid] appends_cong [OF appends_string]
        appends_cong [OF appends_number])

lemma token_too_long: "enc t = None \<Longrightarrow> addToken t c = ExitFail"
  by (cases t) (auto simp: string_too_long)

lemma appends_tokens: "enc_all ts = Some bs \<Longrightarrow> appends bs (addTokens ts)"
proof (induction ts arbitrary: bs)
  case Nil
  then show ?case by (simp add: appends_def addTokens_def)
next
  case (Cons t ts)
  then obtain xs ys where e: "enc t = Some xs" "enc_all ts = Some ys" "bs = xs @ ys"
    by (auto split: option.splits)
  show ?case
    by (rule appends_cong [OF appends_bind [OF appends_token [OF e(1)] Cons.IH [OF e(2)]]])
      (simp_all add: e addTokens_def)
qed


section \<open>The layout of a packet\<close>

text \<open>
  ComPacket: reserved, extendedComID, outstandingData and minTransfer, length; Packet: TSN, HSN,
  sequence number to acknowledgement, length; DataSubPacket: reserved and kind, length.
\<close>

definition header :: "bytes \<Rightarrow> bytes \<Rightarrow> bytes \<Rightarrow> bytes \<Rightarrow> bytes \<Rightarrow> bytes \<Rightarrow> bytes" where
  "header cid cpl tsn hsn pkl spl =
     replicate 4 0 @ cid @ replicate 8 0 @ cpl @ tsn @ hsn @ replicate 12 0 @ pkl @
     replicate 8 0 @ spl"

definition padding :: "nat \<Rightarrow> bytes" where
  "padding n = replicate ((4 - n mod 4) mod 4) 0"

definition packet :: "bytes \<Rightarrow> bytes \<Rightarrow> bytes \<Rightarrow> bytes \<Rightarrow> bytes" where
  "packet cid tsn hsn body = (let padded = body @ padding (length body) in
     header cid (be32 (of_nat (length padded + 36))) tsn hsn
       (be32 (of_nat (length padded + 12))) (be32 (of_nat (length body))) @ padded)"

lemma pokes_middle:
  "i = length xs \<Longrightarrow> length bs = length ys \<Longrightarrow> pokes i bs (xs @ ys @ zs) = xs @ bs @ zs"
proof (induction bs arbitrary: i xs ys)
  case (Cons b bs)
  then obtain y ys' where ys: "ys = y # ys'" by (cases ys) auto
  have "pokes (length (xs @ [b])) bs ((xs @ [b]) @ ys' @ zs) = (xs @ [b]) @ bs @ zs"
    by (rule Cons.IH) (use Cons.prems ys in simp_all)
  with Cons.prems(1) show ?case by (simp add: ys poke_def list_update_append)
qed simp

lemma length_header [simp]:
  "length cid = 4 \<Longrightarrow> length cpl = 4 \<Longrightarrow> length tsn = 4 \<Longrightarrow> length hsn = 4 \<Longrightarrow> length pkl = 4 \<Longrightarrow>
   length spl = 4 \<Longrightarrow> length (header cid cpl tsn hsn pkl spl) = sizeof_OPALHeader"
  by (simp add: header_def)

lemma header_zero: "header (replicate 4 0) (replicate 4 0) (replicate 4 0) (replicate 4 0)
    (replicate 4 0) (replicate 4 0) = replicate sizeof_OPALHeader 0"
  by (simp add: header_def flip: replicate_add)

lemma pokes_header [mem_simps]:
  assumes "length cid = 4" "length cpl = 4" "length tsn = 4" "length hsn = 4" "length pkl = 4"
    "length spl = 4" "length bs = 4"
  shows
    "pokes off_extendedComID bs (header cid cpl tsn hsn pkl spl @ r) = header bs cpl tsn hsn pkl spl @ r"
    "pokes off_cp_length bs (header cid cpl tsn hsn pkl spl @ r) = header cid bs tsn hsn pkl spl @ r"
    "pokes off_TSN bs (header cid cpl tsn hsn pkl spl @ r) = header cid cpl bs hsn pkl spl @ r"
    "pokes off_HSN bs (header cid cpl tsn hsn pkl spl @ r) = header cid cpl tsn bs pkl spl @ r"
    "pokes off_pkt_length bs (header cid cpl tsn hsn pkl spl @ r) = header cid cpl tsn hsn bs spl @ r"
    "pokes off_subpkt_length bs (header cid cpl tsn hsn pkl spl @ r) = header cid cpl tsn hsn pkl bs @ r"
proof -
  let ?z = "replicate 4 (0::u8)" and ?z8 = "replicate 8 (0::u8)" and ?z12 = "replicate 12 (0::u8)"
  have mid: "pokes i bs (xs @ ys @ zs) = xs @ bs @ zs" if "i = length xs" "length ys = 4" for i xs ys zs
    by (rule pokes_middle) (use that assms in simp_all)
  show "pokes off_extendedComID bs (header cid cpl tsn hsn pkl spl @ r) = header bs cpl tsn hsn pkl spl @ r"
    using mid [of _ ?z cid] assms by (simp add: header_def)
  show "pokes off_cp_length bs (header cid cpl tsn hsn pkl spl @ r) = header cid bs tsn hsn pkl spl @ r"
    using mid [of _ "?z @ cid @ ?z8" cpl] assms by (simp add: header_def)
  show "pokes off_TSN bs (header cid cpl tsn hsn pkl spl @ r) = header cid cpl bs hsn pkl spl @ r"
    using mid [of _ "?z @ cid @ ?z8 @ cpl" tsn] assms by (simp add: header_def)
  show "pokes off_HSN bs (header cid cpl tsn hsn pkl spl @ r) = header cid cpl tsn bs pkl spl @ r"
    using mid [of _ "?z @ cid @ ?z8 @ cpl @ tsn" hsn] assms by (simp add: header_def)
  show "pokes off_pkt_length bs (header cid cpl tsn hsn pkl spl @ r) = header cid cpl tsn hsn bs spl @ r"
    using mid [of _ "?z @ cid @ ?z8 @ cpl @ tsn @ hsn @ ?z12" pkl] assms by (simp add: header_def)
  show "pokes off_subpkt_length bs (header cid cpl tsn hsn pkl spl @ r) = header cid cpl tsn hsn pkl bs @ r"
    using mid [of _ "?z @ cid @ ?z8 @ cpl @ tsn @ hsn @ ?z12 @ pkl @ ?z8" spl] assms
    by (simp add: header_def)
qed

section \<open>Completing a command\<close>

lemma padding_step: "n mod 4 \<noteq> 0 \<Longrightarrow> padding n = 0 # padding (Suc n)"
  by (auto simp: padding_def mod_Suc Suc_diff_le simp flip: replicate_Suc)

lemma pad_loop_filled:
  "filled c \<Longrightarrow> pad_loop c =
     (if padding (bufferpos c) = [] \<or> bufferpos c + length (padding (bufferpos c)) \<le> cmdcap c
      then Ret (append_cmd (padding (bufferpos c)) c) else Undef)"
proof (induction c rule: pad_loop.induct)
  case (1 c)
  show ?case
  proof (cases "bufferpos c mod 4 = 0")
    case True
    then show ?thesis by (simp add: pad_loop.simps padding_def)
  next
    case False
    then show ?thesis
      using 1 by (auto simp: pad_loop.simps [of c] put_byte_filled padding_step)
  qed
qed


lemma padding_header [simp]: "padding (sizeof_OPALHeader + n) = padding n"
  by (simp add: padding_def mod_add_left_eq [symmetric, of sizeof_OPALHeader])

lemma length_packet [simp]:
  "length cid = 4 \<Longrightarrow> length tsn = 4 \<Longrightarrow> length hsn = 4 \<Longrightarrow>
   length (packet cid tsn hsn body) = sizeof_OPALHeader + length body + length (padding (length body))"
  by (simp add: packet_def Let_def)

text \<open>A command under construction: what the header holds so far, and the body behind it.\<close>

definition holds :: "dta_command \<Rightarrow> bytes \<Rightarrow> bytes \<Rightarrow> bytes \<Rightarrow> bytes \<Rightarrow> bool" where
  "holds c cid tsn hsn body \<longleftrightarrow> length cid = 4 \<and> length tsn = 4 \<and> length hsn = 4 \<and>
     bufferpos c = sizeof_OPALHeader + length body \<and>
     (\<exists>x y z. length x = 4 \<and> length y = 4 \<and> length z = 4 \<and>
        cmdmem c = header cid x tsn hsn y z @ body)"

lemma holds_filled: "holds c cid tsn hsn body \<Longrightarrow> filled c"
  by (auto simp: holds_def filled_def)

lemma holds_reset: "holds (reset c) (replicate 4 0) (replicate 4 0) (replicate 4 0) []"
  unfolding holds_def reset_def
  by (auto intro!: exI [of _ "replicate 4 0"] simp: header_zero)

lemma holds_append: "holds c cid tsn hsn body \<Longrightarrow> holds (append_cmd bs c) cid tsn hsn (body @ bs)"
  by (auto simp: holds_def)

lemma holds_appends:
  assumes "holds c cid tsn hsn body" and "appends bs f"
    and "sizeof_OPALHeader + length body + length bs \<le> cmdcap c"
  shows "f c = Ret (append_cmd bs c)"
  using appendsD [OF assms(2) holds_filled [OF assms(1)]] assms(1, 3) by (simp add: holds_def)

lemma be32_of_diff:
  "be32 (of_nat (m + n) - of_nat m) = be32 (of_nat n)"
  by simp

lemma fill_lengths_packet:
  fixes body :: bytes
  defines "wlen \<equiv> sizeof_OPALHeader + length body + length (padding (length body))"
  assumes h: "holds c cid tsn hsn body" and fits: "wlen \<le> cmdcap c"
  shows "fill_lengths c =
    (if wlen > MAX_BUFFER_LENGTH then ExitFail
     else Ret (c\<lparr>cmdmem := packet cid tsn hsn body, bufferpos := wlen\<rparr>))"
proof -
  from h obtain x y z where l: "length cid = 4" "length tsn = 4" "length hsn = 4"
      "length x = 4" "length y = 4" "length z = 4"
    and mem: "cmdmem c = header cid x tsn hsn y z @ body"
    and pos: "bufferpos c = sizeof_OPALHeader + length body"
    by (auto simp: holds_def)
  define p where "p = padding (length body)"
  define n where "n = length (body @ p)"
  define spl where "spl = be32 (of_nat (length body))"
  define c1 where "c1 = c\<lparr>cmdmem := header cid x tsn hsn y spl @ body\<rparr>"
  have 1: "store_field off_subpkt_length (SWAP32 (of_nat (bufferpos c) - of_nat sizeof_OPALHeader)) c = c1"
    unfolding store_field_def le32_SWAP32 c1_def mem pos be32_of_diff spl_def
    by (simp only: pokes_header l length_be32)
  have pos1: "bufferpos c1 = sizeof_OPALHeader + length body" by (simp add: c1_def pos)
  have f1: "filled c1" by (simp add: filled_def pos1) (simp add: c1_def spl_def l)
  have pad: "pad_loop c1 = Ret (append_cmd p c1)"
    using fits by (simp add: pad_loop_filled [OF f1] pos1 p_def wlen_def) (simp add: c1_def)
  let ?c2 = "append_cmd p c1"
  have pos2: "bufferpos ?c2 = wlen" "wlen = sizeof_OPALHeader + n"
    by (simp_all add: pos1 wlen_def p_def n_def)
  have pk: "(of_nat wlen - of_nat sizeof_OPALComPacket) - of_nat sizeof_OPALPacket = (of_nat (n + 12) :: u32)"
    and cp: "of_nat wlen - of_nat sizeof_OPALComPacket = (of_nat (n + 36) :: u32)"
    by (simp_all add: pos2)
  show ?thesis
    unfolding fill_lengths_def 1
    unfolding Let_def pad obind.simps pos2(1) pk cp
    unfolding store_field_def le32_SWAP32
    by (cases c) (use pos in \<open>simp add: c1_def pokes_header l spl_def append_cmd_def packet_def
      Let_def wlen_def p_def n_def algebra_simps\<close>)
qed


text \<open>A completed command, and what the setters of the session fields do to it.\<close>

definition is_packet :: "dta_command \<Rightarrow> bytes \<Rightarrow> bytes \<Rightarrow> bytes \<Rightarrow> bytes \<Rightarrow> bool" where
  "is_packet c cid tsn hsn body \<longleftrightarrow> length cid = 4 \<and> length tsn = 4 \<and> length hsn = 4 \<and>
     cmdmem c = packet cid tsn hsn body \<and>
     bufferpos c = sizeof_OPALHeader + length body + length (padding (length body)) \<and>
     bufferpos c \<le> MAX_BUFFER_LENGTH"

definition comid_field :: "u16 \<Rightarrow> bytes" where
  "comid_field comID = rev (le16 comID) @ [0x00, 0x00]"

lemma setHSN_packet: "is_packet c cid tsn hsn body \<Longrightarrow> is_packet (setHSN h c) cid tsn (le32 h) body"
  unfolding is_packet_def setHSN_def store_field_def
  by (auto simp: packet_def Let_def pokes_header)

lemma setTSN_packet: "is_packet c cid tsn hsn body \<Longrightarrow> is_packet (setTSN t c) cid (le32 t) hsn body"
  unfolding is_packet_def setTSN_def store_field_def
  by (auto simp: packet_def Let_def pokes_header)

lemma length_comid_field [simp]: "length (comid_field x) = 4"
  by (simp add: comid_field_def le16_def)

lemma comid_field_bytes:
  "[ucast (drop_bit 8 (x AND 0xff00)), ucast (x AND 0x00ff), 0x00, 0x00] = comid_field x"
  unfolding comid_field_def le16_def byte_masks
  by (auto intro!: bit_word_eqI simp: bit_simps)

lemma setcomID_packet:
  "is_packet c cid tsn hsn body \<Longrightarrow> is_packet (setcomID x c) (comid_field x) tsn hsn body"
  unfolding is_packet_def setcomID_def comid_field_bytes
  by (auto simp: packet_def Let_def pokes_header)

section \<open>Capacity, sectors\<close>

text \<open>For an array that does not wrap around the address space.\<close>

lemma unat_align_buffer:
  assumes "unat a + 1024 < 2 ^ 64"
  shows "unat (align_buffer a) = (unat a div 1024 + 1) * 1024"
proof -
  have mask_10: "IO_BUFFER_ALIGNMENT - 1 = mask 10" by (simp add: mask_eq_exp_minus_1)
  have "align_buffer a = push_bit 10 (drop_bit 10 (a + 1024))"
    unfolding align_buffer_def mask_10 by (auto intro!: bit_word_eqI simp: bit_simps)
  then have "unat (align_buffer a) = take_bit 64 (push_bit 10 (drop_bit 10 (unat (a + 1024))))"
    by (simp add: unsigned_push_bit_eq unat_drop_bit_eq)
  also have "unat (a + 1024) = unat a + 1024" using assms by (simp add: unat_word_ariths)
  also have "push_bit 10 (drop_bit 10 (unat a + 1024)) = (unat a div 1024 + 1) * 1024"
  proof -
    have "(unat a + 1024) div 1024 = unat a div 1024 + 1" by simp
    then show ?thesis by (simp only: push_bit_eq_mult drop_bit_eq_div) simp
  qed
  also have "take_bit 64 \<dots> = (unat a div 1024 + 1) * 1024"
    by (rule take_bit_nat_eq_self)
      (use assms div_times_less_eq_dividend [of "unat a" 1024] in simp)
  finally show ?thesis .
qed

lemma cmdcap_DtaCommand:
  assumes "unat a + 1024 < 2 ^ 64"
  shows "MAX_BUFFER_LENGTH \<le> cmdcap (DtaCommand a)"
    "cmdcap (DtaCommand a) \<le> MAX_BUFFER_LENGTH + 1024"
    "unat (align_buffer a) - unat a + cmdcap (DtaCommand a) = MAX_BUFFER_LENGTH + 1024"
proof -
  have "unat a \<le> unat (align_buffer a)" "unat (align_buffer a) - unat a \<le> 1024"
    by (simp_all add: unat_align_buffer [OF assms])
  moreover from this have "unat (align_buffer a - a) = unat (align_buffer a) - unat a"
    by (simp add: unat_sub word_le_nat_alt)
  ultimately show "MAX_BUFFER_LENGTH \<le> cmdcap (DtaCommand a)"
    "cmdcap (DtaCommand a) \<le> MAX_BUFFER_LENGTH + 1024"
    "unat (align_buffer a) - unat a + cmdcap (DtaCommand a) = MAX_BUFFER_LENGTH + 1024"
    by (simp_all add: DtaCommand_def)
qed

lemma outputBufferSize_sectors:
  assumes "bufferpos c \<le> MAX_BUFFER_LENGTH"
  shows "unat (outputBufferSize c) = (bufferpos c + 511) div 512 * 512"
proof -
  define k r where "k = bufferpos c div 512" and "r = bufferpos c mod 512"
  then have kr: "bufferpos c = 512 * k + r" "r < 512" by simp_all
  have "(bufferpos c + 511) div 512 = (if r = 0 then k else k + 1)"
    by (rule div_nat_eqI) (use kr in simp_all)
  moreover have "outputBufferSize c = of_nat (512 * (if r = 0 then k else k + 1))"
    by (simp add: outputBufferSize_def flip: k_def r_def)
  moreover have "512 * (if r = 0 then k else k + 1) < 2 ^ 16"
    using kr assms by (cases "r = 0") simp_all
  ultimately show ?thesis
    by (simp only: unat_of_nat take_bit_nat_eq_self len_of_numeral_defs mult.commute) simp
qed


lemma sent_bytes_packet:
  assumes "is_packet c cid tsn hsn body"
  shows "sent_bytes c = packet cid tsn hsn body @
    replicate ((bufferpos c + 511) div 512 * 512 - bufferpos c) 0"
proof -
  have "length (cmdmem c) = bufferpos c" "bufferpos c \<le> MAX_BUFFER_LENGTH"
    using assms by (auto simp: is_packet_def)
  moreover have "bufferpos c \<le> (bufferpos c + 511) div 512 * 512" by linarith
  ultimately show ?thesis
    using assms unfolding sent_bytes_def read_block_def
    by (simp add: outputBufferSize_sectors is_packet_def)
qed

section \<open>Building a whole command\<close>

definition eod_bytes :: "bool \<Rightarrow> bytes" where
  "eod_bytes EOD = (if EOD then [0xf9, 0xf0, 0x00, 0x00, 0x00, 0xf1] else [])"

definition wire_size :: "bytes \<Rightarrow> nat" where
  "wire_size body = sizeof_OPALHeader + length body + length (padding (length body))"

lemma appends_eod [appends_intros]: "appends (eod_bytes EOD) (put_eod EOD)"
  by (auto simp: eod_bytes_def put_eod_def appends_def put_bytes_filled simp del: put_bytes.simps)

lemma complete_packet:
  assumes "holds c cid tsn hsn body" and "wire_size (body @ eod_bytes EOD) \<le> cmdcap c"
  shows "complete EOD c = (if wire_size (body @ eod_bytes EOD) > MAX_BUFFER_LENGTH then ExitFail
     else Ret (c\<lparr>cmdmem := packet cid tsn hsn (body @ eod_bytes EOD),
                bufferpos := wire_size (body @ eod_bytes EOD)\<rparr>))"
proof -
  have e: "put_eod EOD c = Ret (append_cmd (eod_bytes EOD) c)"
    by (rule holds_appends [OF assms(1) appends_eod]) (use assms(2) in \<open>simp add: wire_size_def\<close>)
  show ?thesis
    using fill_lengths_packet [OF holds_append [OF assms(1)], of "eod_bytes EOD"] assms(2)
    by (simp add: complete_def e wire_size_def obind_Ret_right append_cmd_def)
qed

lemma completeSpecial_packet:
  fixes body EOD
  defines "full \<equiv> body @ eod_bytes EOD @ special_trailer"
  assumes "holds c cid tsn hsn body" and "wire_size full \<le> cmdcap c"
  shows "completeSpecial EOD c = (if wire_size full > MAX_BUFFER_LENGTH then ExitFail
     else Ret (c\<lparr>cmdmem := packet cid tsn hsn full, bufferpos := wire_size full\<rparr>))"
proof -
  have "appends (eod_bytes EOD @ special_trailer @ []) (cmd_seq [put_eod EOD, put_bytes special_trailer])"
    by (intro appends_intros)
  from holds_appends [OF assms(2) this]
  have e: "cmd_seq [put_eod EOD, put_bytes special_trailer] c
      = Ret (append_cmd (eod_bytes EOD @ special_trailer) c)"
    using assms(3) by (simp add: full_def wire_size_def)
  have "completeSpecial EOD c
      = obind (cmd_seq [put_eod EOD, put_bytes special_trailer] c) (cmd_seq [fill_lengths])"
    by (simp add: completeSpecial_def obind_assoc cmd_seq_fun)
  then have "completeSpecial EOD c = fill_lengths (append_cmd (eod_bytes EOD @ special_trailer) c)"
    by (simp only: e obind.simps) (simp add: obind_Ret_right cmd_seq_fun)
  then show ?thesis
    using fill_lengths_packet [OF holds_append [OF assms(2)], of "eod_bytes EOD @ special_trailer"]
      assms(3)
    by (simp add: full_def wire_size_def append_cmd_def)
qed

text \<open>The three ways to start a command put a call, an invoker and a method behind the header.\<close>

definition call_head :: "bytes \<Rightarrow> bytes \<Rightarrow> bytes" where
  "call_head uid method = 0xf8 # uid @ method"

lemma reset_uid_method_run:
  "56 + length (call_head (0xa8 # OPALUID u) (0xa8 # OPALMETHOD m)) \<le> cmdcap c \<Longrightarrow>
   reset_uid_method u m c = Ret (append_cmd (call_head (0xa8 # OPALUID u) (0xa8 # OPALMETHOD m)) (reset c))"
proof -
  have "appends ([0xf8] @ (0xa8 # OPALUID u) @ [0xa8] @ OPALMETHOD m @ [])
     (cmd_seq [put_byte CALL, addToken_UID u, put_byte BYTESTRING8, put_bytes (OPALMETHOD m)])"
    by (intro appends_intros appends_uid)
  from holds_appends [OF holds_reset this, of c]
  show "56 + length (call_head (0xa8 # OPALUID u) (0xa8 # OPALMETHOD m)) \<le> cmdcap c \<Longrightarrow> ?thesis"
    by (simp add: reset_uid_method_def call_head_def reset_def)
qed

lemma reset_vectors_run:
  "56 + length (call_head uid method) \<le> cmdcap c \<Longrightarrow>
   reset_vectors uid method c = Ret (append_cmd (call_head uid method) (reset c))"
proof -
  have "appends ([0xf8] @ uid @ method @ [])
     (cmd_seq [put_byte CALL, addToken_vector uid, addToken_vector method])"
    unfolding addToken_vector_def by (intro appends_intros)
  from holds_appends [OF holds_reset this, of c]
  show "56 + length (call_head uid method) \<le> cmdcap c \<Longrightarrow> ?thesis"
    by (simp add: reset_vectors_def call_head_def reset_def)
qed

lemma reset_uid_vector_run:
  "56 + length (call_head (0xa8 # OPALUID u) method) \<le> cmdcap c \<Longrightarrow>
   reset_uid_vector u method c = Ret (append_cmd (call_head (0xa8 # OPALUID u) method) (reset c))"
proof -
  have "appends ([0xf8] @ (0xa8 # OPALUID u) @ method @ [])
     (cmd_seq [put_byte CALL, addToken_UID u, addToken_vector method])"
    unfolding addToken_vector_def by (intro appends_intros appends_uid)
  from holds_appends [OF holds_reset this, of c]
  show "56 + length (call_head (0xa8 # OPALUID u) method) \<le> cmdcap c \<Longrightarrow> ?thesis"
    by (simp add: reset_uid_vector_def call_head_def reset_def)
qed

text \<open>A command built in the order every operation uses.\<close>

lemma build_packet:
  fixes tok uid meth :: bytes and EOD :: bool
  defines "body \<equiv> call_head uid meth @ tok @ eod_bytes EOD"
  assumes start: "start c = Ret (append_cmd (call_head uid meth) (reset c))"
    and tok: "enc_all ts = Some tok"
    and fits: "wire_size body \<le> MAX_BUFFER_LENGTH" "MAX_BUFFER_LENGTH \<le> cmdcap c"
  shows "\<exists>c'. cmd_seq [start, addTokens ts, complete EOD] c = Ret c' \<and>
    cmdcap c' = cmdcap c \<and> is_packet c' (replicate 4 0) (replicate 4 0) (replicate 4 0) body"
proof -
  let ?z = "replicate 4 (0 :: u8)"
  let ?c1 = "append_cmd (call_head uid meth) (reset c)"
  let ?c2 = "append_cmd tok ?c1"
  have cap: "cmdcap (reset c) = cmdcap c" by (simp add: reset_def)
  have h1: "holds ?c1 ?z ?z ?z (call_head uid meth)"
    using holds_append [OF holds_reset] by fastforce
  then have h2: "holds ?c2 ?z ?z ?z (call_head uid meth @ tok)"
    by (rule holds_append)
  have "addTokens ts ?c1 = Ret ?c2"
    by (rule holds_appends [OF h1 appends_tokens [OF tok]])
      (use fits in \<open>simp add: body_def wire_size_def cap\<close>)
  moreover have "complete EOD ?c2 = Ret (?c2\<lparr>cmdmem := packet ?z ?z ?z body, bufferpos := wire_size body\<rparr>)"
    using complete_packet [OF h2, of EOD] fits by (simp add: body_def cap)
  ultimately show ?thesis
    using fits by (simp add: start cap is_packet_def wire_size_def)
qed


section \<open>Properties\<close>

definition call_body :: "opal_uid \<Rightarrow> opal_method \<Rightarrow> bytes \<Rightarrow> bytes" where
  "call_body u m tok = call_head (0xa8 # OPALUID u) (0xa8 # OPALMETHOD m) @ tok @ eod_bytes True"

lemma call_packet:
  assumes "enc_all ts = Some tok" "wire_size (call_body u m tok) \<le> MAX_BUFFER_LENGTH"
    and "MAX_BUFFER_LENGTH \<le> cmdcap c"
  shows "\<exists>c'. cmd_seq [reset_uid_method u m, addTokens ts, complete True] c = Ret c' \<and>
    cmdcap c' = cmdcap c \<and>
    is_packet c' (replicate 4 0) (replicate 4 0) (replicate 4 0) (call_body u m tok)"
  unfolding call_body_def
  by (rule build_packet)
    (use assms in \<open>simp_all add: reset_uid_method_run wire_size_def call_body_def\<close>)

text \<open>C1. A method call built by \<^verbatim>\<open>reset\<close>, any sequence of \<^verbatim>\<open>addToken\<close> calls and \<^verbatim>\<open>complete\<close>,
  then stamped with the host session number, the TPer session number and the ComID, goes to the
  device as exactly the packet of the specification: header fields in network order with the three
  lengths of the padded body, the encoded tokens in call order, the method status list, and zeros up
  to a whole number of sectors.\<close>

theorem command_is_packet:
  assumes tok: "enc_all ts = Some tok"
    and fits: "wire_size (call_body u m tok) \<le> MAX_BUFFER_LENGTH"
    and mem: "unat a + 1024 < 2 ^ 64"
  shows "\<exists>c. cmd_seq [reset_uid_method u m, addTokens ts, complete True] (DtaCommand a) = Ret c \<and>
    sent_bytes (setcomID cid (setTSN tsn (setHSN hsn c))) =
      packet (comid_field cid) (le32 tsn) (le32 hsn) (call_body u m tok) @
      replicate ((bufferpos c + 511) div 512 * 512 - bufferpos c) 0 \<and>
    bufferpos c = wire_size (call_body u m tok)"
proof -
  from call_packet [OF tok fits cmdcap_DtaCommand(1) [OF mem]] obtain c where
    c: "cmd_seq [reset_uid_method u m, addTokens ts, complete True] (DtaCommand a) = Ret c"
      "is_packet c (replicate 4 0) (replicate 4 0) (replicate 4 0) (call_body u m tok)" by blast
  have "is_packet (setcomID cid (setTSN tsn (setHSN hsn c)))
      (comid_field cid) (le32 tsn) (le32 hsn) (call_body u m tok)"
    by (rule setcomID_packet [OF setTSN_packet [OF setHSN_packet [OF c(2)]]])
  from sent_bytes_packet [OF this] c show ?thesis
    by (auto simp: setcomID_def setTSN_def setHSN_def store_field_def is_packet_def wire_size_def)
qed

theorem command_is_packet_witness:
  "\<exists>c. cmd_seq [reset_uid_method OPAL_THISSP_UID GET, addTokens [Tok STARTLIST, Num 1000, Tok ENDLIST],
      complete True] (DtaCommand 4096) = Ret c \<and>
    sent_bytes (setcomID 0x07fe (setTSN 1 (setHSN 2 c))) =
      packet (comid_field 0x07fe) (le32 1) (le32 2)
        (call_body OPAL_THISSP_UID GET [0xf0, 0x82, 0x03, 0xe8, 0xf1]) @
      replicate ((bufferpos c + 511) div 512 * 512 - bufferpos c) 0 \<and>
    bufferpos c = wire_size (call_body OPAL_THISSP_UID GET [0xf0, 0x82, 0x03, 0xe8, 0xf1])"
  by (rule command_is_packet)
    (simp_all add: enc_num_def call_body_def call_head_def eod_bytes_def
      wire_size_def padding_def)

end
