(* ===== verification/Framing.thy ===== *)
theory Framing
  imports Packet
begin

text \<open>
  What holds for every command that was completed, whatever bytes were written into its body: its
  three length fields agree with each other and with the number of bytes sent.
\<close>

section \<open>Fields of the header\<close>

lemma load32_cong: "(\<And>k. k < 4 \<Longrightarrow> peek m (i + k) = peek m' (i + k)) \<Longrightarrow> load32 m i = load32 m' i"
proof -
  assume k: "\<And>k. k < 4 \<Longrightarrow> peek m (i + k) = peek m' (i + k)"
  show ?thesis using k [of 0] k [of 1] k [of 2] k [of 3] by (simp add: load32_def)
qed

lemma load32_pokes_other:
  "i + 4 \<le> j \<or> j + length bs \<le> i \<Longrightarrow> load32 (pokes j bs m) i = load32 m i"
  by (rule load32_cong) (auto simp: peek_pokes)

lemma load32_pokes_same: "SWAP32 (load32 (pokes i (be32 x) m) i) = x"
  by (rule load32_be32) (simp add: peek_pokes)

section \<open>Consistent lengths\<close>

definition framed :: "dta_command \<Rightarrow> bool" where
  "framed c \<longleftrightarrow> (\<exists>n. bufferpos c = sizeof_OPALHeader + n + length (padding n) \<and>
     bufferpos c \<le> MAX_BUFFER_LENGTH \<and>
     SWAP32 (load32 (cmdmem c) off_subpkt_length) = of_nat n \<and>
     SWAP32 (load32 (cmdmem c) off_pkt_length) = of_nat (n + length (padding n) + 12) \<and>
     SWAP32 (load32 (cmdmem c) off_cp_length) = of_nat (n + length (padding n) + 36))"

lemma put_byte_shape:
  "put_byte b c = Ret c' \<Longrightarrow> bufferpos c' = bufferpos c + 1 \<and>
     (\<forall>i < bufferpos c. peek (cmdmem c') i = peek (cmdmem c) i)"
  by (auto simp: put_byte_def peek_poke split: if_splits)

lemma pad_loop_shape:
  "pad_loop c = Ret c' \<Longrightarrow> bufferpos c' = bufferpos c + length (padding (bufferpos c)) \<and>
     (\<forall>i < bufferpos c. peek (cmdmem c') i = peek (cmdmem c) i)"
proof (induction c rule: pad_loop.induct)
  case (1 c)
  show ?case
  proof (cases "bufferpos c mod 4 = 0")
    case True
    then show ?thesis using "1.prems" by (simp add: pad_loop.simps [of c] padding_def)
  next
    case False
    then obtain c1 where c1: "put_byte 0 c = Ret c1" "pad_loop c1 = Ret c'"
      using "1.prems" by (auto simp: pad_loop.simps [of c] split: outcome.splits)
    from put_byte_shape [OF c1(1)] "1.IH" [OF False c1(1) c1(2)] show ?thesis
      by (simp add: padding_step [OF False])
  qed
qed

lemma store_field_simps [simp]:
  "bufferpos (store_field i x c) = bufferpos c"
  "cmdmem (store_field i x c) = pokes i (le32 x) (cmdmem c)"
  by (simp_all add: store_field_def)

lemma fill_lengths_framed:
  assumes f: "fill_lengths c = Ret c'" and pos: "sizeof_OPALHeader \<le> bufferpos c"
  shows "framed c'"
proof -
  define n where "n = bufferpos c - sizeof_OPALHeader"
  have n: "bufferpos c = sizeof_OPALHeader + n" using pos by (simp add: n_def)
  define c1 where "c1 = store_field off_subpkt_length (SWAP32 (of_nat n)) c"
  have c1: "store_field off_subpkt_length (SWAP32 (of_nat (bufferpos c) - of_nat sizeof_OPALHeader)) c = c1"
    by (simp add: c1_def n)
  obtain c2 where c2: "pad_loop c1 = Ret c2"
    using f unfolding fill_lengths_def c1 by (auto simp: Let_def obind_eq_Ret)
  have shape: "bufferpos c2 = sizeof_OPALHeader + n + length (padding n)"
      "\<And>i. i < sizeof_OPALHeader \<Longrightarrow> peek (cmdmem c2) i = peek (cmdmem c1) i"
    using pad_loop_shape [OF c2] by (simp_all add: c1_def n)
  let ?p = "n + length (padding n)"
  have pk: "of_nat (?p + 36) - of_nat sizeof_OPALPacket = (of_nat (?p + 12) :: u32)"
    and cp: "of_nat (bufferpos c2) - of_nat sizeof_OPALComPacket = (of_nat (?p + 36) :: u32)"
    by (simp_all add: shape(1))
  define c4 where "c4 = store_field off_cp_length (SWAP32 (of_nat (?p + 36)))
       (store_field off_pkt_length (SWAP32 (of_nat (?p + 12))) c2)"
  have "fill_lengths c = (if bufferpos c2 > MAX_BUFFER_LENGTH then ExitFail else Ret c4)"
    unfolding fill_lengths_def c1 Let_def c2 obind.simps pk cp store_field_simps c4_def ..
  with f have c': "c' = c4" and small: "bufferpos c2 \<le> MAX_BUFFER_LENGTH"
    by (auto split: if_splits)
  have "load32 (cmdmem c2) off_subpkt_length = load32 (cmdmem c1) off_subpkt_length"
    by (rule load32_cong) (simp add: shape(2))
  then have sp: "SWAP32 (load32 (cmdmem c2) off_subpkt_length) = of_nat n"
    by (simp add: c1_def le32_SWAP32 load32_pokes_same del: of_nat_add)
  show ?thesis
    unfolding framed_def
    by (rule exI [of _ n])
      (simp add: c' c4_def shape(1) small [unfolded shape(1)] sp le32_SWAP32 load32_pokes_same
        load32_pokes_other del: of_nat_add pokes.simps)
qed

text \<open>The setters of the session fields keep the lengths.\<close>

lemma framed_setters:
  assumes "framed c"
  shows "framed (setHSN hsn c)" "framed (setTSN tsn c)" "framed (setcomID cid c)"
  using assms unfolding framed_def setHSN_def setTSN_def setcomID_def
  by (simp_all add: load32_pokes_other del: pokes.simps of_nat_add)

section \<open>Commands that were completed\<close>

text \<open>\<open>grows f\<close>: once the buffer holds a header, \<open>f\<close> leaves it with one.\<close>

definition grows :: "(dta_command \<Rightarrow> dta_command outcome) \<Rightarrow> bool" where
  "grows f \<longleftrightarrow> (\<forall>c c'. f c = Ret c' \<longrightarrow> sizeof_OPALHeader \<le> bufferpos c \<longrightarrow> bufferpos c \<le> bufferpos c')"

definition opens :: "(dta_command \<Rightarrow> dta_command outcome) \<Rightarrow> bool" where
  "opens f \<longleftrightarrow> (\<forall>c c'. f c = Ret c' \<longrightarrow> sizeof_OPALHeader \<le> bufferpos c')"

definition closes :: "(dta_command \<Rightarrow> dta_command outcome) \<Rightarrow> bool" where
  "closes f \<longleftrightarrow> (\<forall>c c'. f c = Ret c' \<longrightarrow> sizeof_OPALHeader \<le> bufferpos c \<longrightarrow> framed c')"

named_theorems command_shape \<open>how the calls on a command change its buffer\<close>

lemma grows_put_byte [command_shape]: "grows (put_byte b)"
  by (auto simp: grows_def dest: put_byte_shape)

lemma grows_Ret [command_shape]: "grows Ret"
  by (simp add: grows_def)

lemma grows_bind: "grows f \<Longrightarrow> grows g \<Longrightarrow> grows (\<lambda>c. obind (f c) g)"
  unfolding grows_def by (fastforce simp: obind_eq_Ret)

lemma grows_put_bytes [command_shape]: "grows (put_bytes bs)"
proof (induction bs)
  case (Cons b bs)
  have "put_bytes (b # bs) = (\<lambda>c. obind (put_byte b c) (put_bytes bs))" by auto
  then show ?case using grows_bind [OF grows_put_byte Cons] by simp
qed (simp add: grows_def)

lemma grows_seq [command_shape]: "list_all grows fs \<Longrightarrow> grows (cmd_seq fs)"
proof (induction fs)
  case (Cons f fs)
  then show ?case using grows_bind [of f "cmd_seq fs"] by (simp add: cmd_seq_fun)
qed (simp add: grows_def)

lemma grows_num_loop: "grows (num_loop k x)"
proof (induction k)
  case (Suc k)
  have "num_loop (Suc k) x =
      (\<lambda>c. obind (put_byte (ucast (drop_bit (k * 8) x AND 0xff)) c) (num_loop k x))" by auto
  then show ?case using grows_bind [OF grows_put_byte Suc] by simp
qed (simp add: grows_def)

lemma grows_if: "grows f \<Longrightarrow> grows g \<Longrightarrow> grows (\<lambda>c. if b then f c else g c)"
  by (simp add: grows_def)

lemma grows_seq2: "grows f \<Longrightarrow> grows g \<Longrightarrow> grows (cmd_seq [f, g])"
  by (rule grows_seq) simp

lemma grows_seq3: "grows f \<Longrightarrow> grows g \<Longrightarrow> grows k \<Longrightarrow> grows (cmd_seq [f, g, k])"
  by (rule grows_seq) simp

lemma grows_number: "grows (addToken_uint64 n)"
proof -
  have "addToken_uint64 n = (\<lambda>c. if n < 64 then put_byte (ucast n AND 0x3f) c
      else if n < 0x100 then cmd_seq [put_byte 0x81, num_loop 1 n] c
      else if n < 0x10000 then cmd_seq [put_byte 0x82, num_loop 2 n] c
      else if n < 0x100000000 then cmd_seq [put_byte 0x84, num_loop 4 n] c
      else cmd_seq [put_byte 0x88, num_loop 8 n] c)"
    by (rule ext) (simp only: addToken_uint64_def)
  then show ?thesis
    by (simp only:) (intro grows_if grows_seq2 grows_put_byte grows_num_loop)
qed

lemma grows_string: "grows (addToken_string s)"
proof -
  define l where "l = (of_nat (length s) :: u16)"
  define t where "t = take (unat l) s"
  have "addToken_string s = (\<lambda>c. if l = 0 then cmd_seq [put_byte 0xa1, put_byte 0x00, put_bytes t] c
      else if l < 16 then cmd_seq [put_byte (ucast l OR 0xa0), put_bytes t] c
      else if l < 2048
      then cmd_seq [put_byte (0xd0 OR ucast (drop_bit 8 l AND 0x07)),
                    put_byte (ucast (l AND 0x00ff)), put_bytes t] c
      else ExitFail)"
    by (rule ext) (simp only: addToken_string_def Let_def l_def t_def)
  moreover have "grows (\<lambda>c. ExitFail)" by (simp add: grows_def)
  ultimately show ?thesis
    by (simp only:) (intro grows_if grows_seq2 grows_seq3 grows_put_byte grows_put_bytes)
qed

lemma grows_token: "grows (addToken t)"
proof (cases t)
  case (Uid u)
  have "addToken t = cmd_seq [put_byte BYTESTRING8, put_bytes (OPALUID u)]"
    by (rule ext) (simp add: Uid addToken_UID_def)
  then show ?thesis by (simp only:) (intro grows_seq2 grows_put_byte grows_put_bytes)
next
  case (Str s)
  then have "addToken t = addToken_string s" by auto
  then show ?thesis by (simp only: grows_string)
next
  case (Vec v)
  then have "addToken t = put_bytes v" by (auto simp: addToken_vector_def)
  then show ?thesis by (simp only: grows_put_bytes)
next
  case (Num n)
  then have "addToken t = addToken_uint64 n" by auto
  then show ?thesis by (simp only: grows_number)
next
  case (Tok b)
  then have "addToken t = put_byte b" by (auto simp: addToken_OPAL_TOKEN_def)
  then show ?thesis by (simp only: grows_put_byte)
next
  case (ShortAtom b)
  then have "addToken t = put_byte b" by (auto simp: addToken_SHORT_ATOM_def)
  then show ?thesis by (simp only: grows_put_byte)
next
  case (TinyAtom b)
  then have "addToken t = put_byte b" by (auto simp: addToken_TINY_ATOM_def)
  then show ?thesis by (simp only: grows_put_byte)
qed

lemma grows_tokens [command_shape]: "grows (addTokens ts)"
proof -
  have "addTokens ts = cmd_seq (map addToken ts)" by (rule ext) (simp add: addTokens_def)
  moreover have "list_all grows (map addToken ts)" by (simp add: list_all_iff grows_token)
  ultimately show ?thesis by (simp only: grows_seq)
qed

lemma grows_change [command_shape]: "grows (changeInvokingUid v)"
  by (auto simp: grows_def changeInvokingUid_def Let_def split: if_splits)

lemma grows_eod: "grows (put_eod EOD)"
  using grows_put_bytes grows_Ret unfolding put_eod_def grows_def
  by (cases EOD) (simp_all del: put_bytes.simps)

lemma opens_start:
  "grows g \<Longrightarrow> opens (\<lambda>c. g (reset c))"
  unfolding opens_def grows_def by (fastforce simp: reset_def)

lemma opens_resets [command_shape]:
  "opens (reset_uid_method u m)" "opens (reset_uid_vector u v)" "opens (reset_vectors v v')"
  "opens (Ret \<circ> reset)"
proof -
  have uid: "grows (addToken_UID u)" using grows_token [of "Uid u"] by (simp add: grows_def)
  have vec: "grows (addToken_vector v)" for v using grows_token [of "Vec v"] by (simp add: grows_def)
  show "opens (reset_uid_method u m)"
    using opens_start [OF grows_seq, of "[put_byte CALL, addToken_UID u, put_byte BYTESTRING8, put_bytes (OPALMETHOD m)]"]
      uid grows_put_byte grows_put_bytes by (simp add: opens_def reset_uid_method_def)
  show "opens (reset_uid_vector u v)"
    using opens_start [OF grows_seq, of "[put_byte CALL, addToken_UID u, addToken_vector v]"]
      uid vec grows_put_byte by (simp add: opens_def reset_uid_vector_def)
  show "opens (reset_vectors v v')"
    using opens_start [OF grows_seq, of "[put_byte CALL, addToken_vector v, addToken_vector v']"]
      vec grows_put_byte by (simp add: opens_def reset_vectors_def)
  show "opens (Ret \<circ> reset)" by (simp add: opens_def reset_def)
qed

lemma closes_complete [command_shape]: "closes (complete EOD)" "closes (completeSpecial EOD)"
proof -
  have l: "closes (\<lambda>c. obind (f c) fill_lengths)" if "grows f" for f
    using that unfolding closes_def grows_def obind_eq_Ret
    by (blast intro: fill_lengths_framed order_trans)
  show "closes (complete EOD)"
    using l [OF grows_eod] by (simp add: closes_def complete_def obind_Ret_right cmd_seq_fun)
  show "closes (completeSpecial EOD)"
    using l [OF grows_seq2 [OF grows_eod grows_put_bytes [of special_trailer]], of EOD]
    by (simp add: closes_def completeSpecial_def obind_assoc cmd_seq_fun obind_Ret_right)
qed

lemma seq_framed:
  assumes "opens f" "list_all grows gs" "closes k" "cmd_seq (f # gs @ [k]) c = Ret c'"
  shows "framed c'"
proof -
  have app: "cmd_seq (xs @ ys) c = obind (cmd_seq xs c) (cmd_seq ys)" for xs ys c
  proof (induction xs arbitrary: c)
    case (Cons x xs)
    then have "cmd_seq (xs @ ys) = (\<lambda>c. obind (cmd_seq xs c) (cmd_seq ys))" by blast
    then show ?case by (simp add: obind_assoc)
  qed simp
  obtain c1 c2 where "f c = Ret c1" "cmd_seq gs c1 = Ret c2" "k c2 = Ret c'"
    using assms(4) by (auto simp: app obind_eq_Ret cmd_seq_fun)
  then show ?thesis
    using assms(1, 3) grows_seq [OF assms(2)] unfolding opens_def grows_def closes_def
    by (meson order_trans)
qed

text \<open>The two shapes of a command under construction.\<close>

lemma framed3:
  "cmd_seq [f, g, k] c = Ret c' \<Longrightarrow> opens f \<Longrightarrow> grows g \<Longrightarrow> closes k \<Longrightarrow> framed c'"
  using seq_framed [of f "[g]" k c c'] by simp

lemma framed4:
  "cmd_seq [f, g, g', k] c = Ret c' \<Longrightarrow> opens f \<Longrightarrow> grows g \<Longrightarrow> grows g' \<Longrightarrow> closes k \<Longrightarrow> framed c'"
  using seq_framed [of f "[g, g']" k c c'] by simp

end
