(* ===== verification/Response.thy ===== *)
theory Response
  imports Command
begin

text \<open>
  Common/DtaResponse.cpp: the bytes a device returned, cut into tokens, and the accessors that
  read a token as a number, a byte string or raw bytes.
\<close>

section \<open>The tokenizer\<close>

text \<open>The 56 bytes of the header, and the tokens.\<close>

record dta_response =
  h :: bytes
  response :: "bytes list"

abbreviation h_outstandingData :: "dta_response \<Rightarrow> u32" where
  "h_outstandingData r \<equiv> load32 (h r) off_outstandingData"
abbreviation h_minTransfer :: "dta_response \<Rightarrow> u32" where
  "h_minTransfer r \<equiv> load32 (h r) off_minTransfer"
abbreviation h_cp_length :: "dta_response \<Rightarrow> u32" where
  "h_cp_length r \<equiv> load32 (h r) off_cp_length"
abbreviation h_pkt_length :: "dta_response \<Rightarrow> u32" where
  "h_pkt_length r \<equiv> load32 (h r) off_pkt_length"
abbreviation h_subpkt_length :: "dta_response \<Rightarrow> u32" where
  "h_subpkt_length r \<equiv> load32 (h r) off_subpkt_length"

text \<open>A buffer with the number of bytes that may be read; reading behind them is undefined.\<close>

definition rd :: "nat \<Rightarrow> bytes \<Rightarrow> nat \<Rightarrow> u8 outcome" where
  "rd cap m i = (if i < cap then Ret (peek m i) else Undef)"

definition token_length :: "nat \<Rightarrow> bytes \<Rightarrow> nat \<Rightarrow> nat outcome" where
  "token_length cap m q = obind (rd cap m q) (\<lambda>b0.
     if b0 AND 0x80 = 0 then Ret 1
     else if b0 AND 0x40 = 0 then Ret (unat (b0 AND 0x0f) + 1)
     else if b0 AND 0x20 = 0
     then obind (rd cap m (q + 1)) (\<lambda>b1. Ret (unat (b0 AND 0x07) * 256 + unat b1 + 2))
     else if b0 AND 0x10 = 0
     then obind (rd cap m (q + 1)) (\<lambda>b1. obind (rd cap m (q + 2)) (\<lambda>b2.
          obind (rd cap m (q + 3)) (\<lambda>b3.
            Ret (unat b1 * 65536 + unat b2 * 256 + unat b3 + 4))))
     else Ret 1)"

lemma token_length_pos: "token_length cap m q = Ret n \<Longrightarrow> 0 < n"
  by (auto simp: token_length_def rd_def split: if_splits)

text \<open>
  The loop of \<^verbatim>\<open>init\<close> from position \<open>cpos\<close> behind the header, for a data length \<open>len\<close> the
  device claims: nothing but the end of the buffer bounds it. An empty atom is dropped.
\<close>

function tokenize :: "nat \<Rightarrow> bytes \<Rightarrow> nat \<Rightarrow> nat \<Rightarrow> bytes list outcome" where
  "tokenize cap m len cpos =
     (if cpos < len
      then (case token_length cap m (sizeof_OPALHeader + cpos) of
              Ret n \<Rightarrow>
                if sizeof_OPALHeader + cpos + n \<le> cap
                then let bytestring = read_block m (sizeof_OPALHeader + cpos) n
                     in obind (tokenize cap m len (cpos + n)) (\<lambda>ts.
                          Ret (if bytestring \<noteq> [EMPTYATOM] then bytestring # ts else ts))
                else Undef
            | ExitFail \<Rightarrow> ExitFail | Undef \<Rightarrow> Undef | Diverge \<Rightarrow> Diverge)
      else Ret [])"
  by pat_completeness auto
termination
  by (relation "measure (\<lambda>(cap, m, len, cpos). len - cpos)") (auto dest: token_length_pos)

declare tokenize.simps [simp del]

definition init :: "nat \<Rightarrow> bytes \<Rightarrow> dta_response outcome" where
  "init cap buffer =
     (let hd = read_block buffer 0 sizeof_OPALHeader
      in obind (tokenize cap buffer (unat (SWAP32 (load32 hd off_subpkt_length))) 0) (\<lambda>ts.
           Ret \<lparr>h = hd, response = ts\<rparr>))"

section \<open>Reading a token\<close>

text \<open>\<^verbatim>\<open>response[tokenNum]\<close>, and its first byte.\<close>

definition token_at :: "dta_response \<Rightarrow> u32 \<Rightarrow> bytes outcome" where
  "token_at r tokenNum = vec_at (response r) (unat tokenNum)"

definition first_byte :: "bytes \<Rightarrow> u8 outcome" where
  "first_byte t = vec_at t 0"

definition tokenIs_token :: "bytes \<Rightarrow> opal_token outcome" where
  "tokenIs_token t = obind (first_byte t) (\<lambda>b. Ret (
     if b AND 0x80 = 0
     then (if b AND 0x40 \<noteq> 0 then DTA_TOKENID_SINT else DTA_TOKENID_UINT)
     else if b AND 0x40 = 0
     then (if b AND 0x20 \<noteq> 0 then DTA_TOKENID_BYTESTRING
           else if b AND 0x10 \<noteq> 0 then DTA_TOKENID_SINT else DTA_TOKENID_UINT)
     else if b AND 0x20 = 0
     then (if b AND 0x10 \<noteq> 0 then DTA_TOKENID_BYTESTRING
           else if b AND 0x08 \<noteq> 0 then DTA_TOKENID_SINT else DTA_TOKENID_UINT)
     else if b AND 0x10 = 0
     then (if b AND 0x02 \<noteq> 0 then DTA_TOKENID_BYTESTRING
           else if b AND 0x01 \<noteq> 0 then DTA_TOKENID_SINT else DTA_TOKENID_UINT)
     else b))"

definition tokenIs :: "dta_response \<Rightarrow> u32 \<Rightarrow> opal_token outcome" where
  "tokenIs r tokenNum = obind (token_at r tokenNum) tokenIs_token"

definition getLength :: "dta_response \<Rightarrow> u32 \<Rightarrow> u32 outcome" where
  "getLength r tokenNum = obind (token_at r tokenNum) (\<lambda>t. Ret (of_nat (length t)))"

text \<open>
  \<^verbatim>\<open>whatever |= ((uint64_t) response[tokenNum][i] << (8 * b))\<close> from the last byte down to byte 1:
  the argument holds the bytes from the last one on; shifting by 64 or more is undefined.
\<close>

fun or_bytes :: "nat \<Rightarrow> u64 \<Rightarrow> bytes \<Rightarrow> u64 outcome" where
  "or_bytes b whatever [] = Ret whatever"
| "or_bytes b whatever (x # xs) =
     (if 8 * b < 64 then or_bytes (b + 1) (whatever OR push_bit (8 * b) (ucast x)) xs else Undef)"

definition getUint64_token :: "bytes \<Rightarrow> u64 outcome" where
  "getUint64_token t = obind (first_byte t) (\<lambda>b0.
     if b0 AND 0x80 = 0
     then (if b0 AND 0x40 \<noteq> 0 then ExitFail else Ret (ucast (b0 AND 0x3f)))
     else if b0 AND 0x40 = 0
     then (if b0 AND 0x10 \<noteq> 0 then ExitFail else or_bytes 0 0 (rev (tl t)))
     else ExitFail)"

definition getUint64 :: "dta_response \<Rightarrow> u32 \<Rightarrow> u64 outcome" where
  "getUint64 r tokenNum = obind (token_at r tokenNum) getUint64_token"

definition getUint32 :: "dta_response \<Rightarrow> u32 \<Rightarrow> u32 outcome" where
  "getUint32 r tokenNum = obind (getUint64 r tokenNum) (\<lambda>i. Ret (ucast i))"

definition getUint16 :: "dta_response \<Rightarrow> u32 \<Rightarrow> u16 outcome" where
  "getUint16 r tokenNum = obind (getUint64 r tokenNum) (\<lambda>i. Ret (ucast i))"

definition getUint8 :: "dta_response \<Rightarrow> u32 \<Rightarrow> u8 outcome" where
  "getUint8 r tokenNum = obind (getUint64 r tokenNum) (\<lambda>i. Ret (ucast i))"

definition getRawToken :: "dta_response \<Rightarrow> u32 \<Rightarrow> bytes outcome" where
  "getRawToken r tokenNum = token_at r tokenNum"

text \<open>The bytes behind the length prefix; a control token gives the empty string here and ends the
  program in \<open>getBytes\<close>.\<close>

definition getString_token :: "bytes \<Rightarrow> bytes outcome" where
  "getString_token t = obind (first_byte t) (\<lambda>b0.
     if b0 AND 0x80 = 0 then ExitFail
     else if b0 AND 0x40 = 0 then Ret (drop 1 t)
     else if b0 AND 0x20 = 0 then Ret (drop 2 t)
     else if b0 AND 0x10 = 0 then Ret (drop 4 t)
     else Ret [])"

definition getString :: "dta_response \<Rightarrow> u32 \<Rightarrow> bytes outcome" where
  "getString r tokenNum = obind (token_at r tokenNum) getString_token"

definition getBytes_token :: "bytes \<Rightarrow> bytes outcome" where
  "getBytes_token t = obind (first_byte t) (\<lambda>b0.
     if b0 AND 0x80 = 0 then ExitFail
     else if b0 AND 0x40 = 0 then Ret (drop 1 t)
     else if b0 AND 0x20 = 0 then Ret (drop 2 t)
     else if b0 AND 0x10 = 0 then Ret (drop 4 t)
     else ExitFail)"

text \<open>\<open>n\<close> is the size of the caller's array.\<close>

definition getBytes :: "dta_response \<Rightarrow> u32 \<Rightarrow> nat \<Rightarrow> bytes outcome" where
  "getBytes r tokenNum n = obind (token_at r tokenNum) (\<lambda>t. obind (getBytes_token t) (\<lambda>bs.
     if length bs \<le> n then Ret bs else Undef))"

definition getTokenCount :: "dta_response \<Rightarrow> u32" where
  "getTokenCount r = of_nat (length (response r))"

end
