(* ===== verification/DiskInfo.thy ===== *)
theory DiskInfo
  imports Response
begin

text \<open>
  Common/DtaStructures.h: what is known about a disk (\<^verbatim>\<open>OPAL_DiskInfo\<close>) and the feature descriptors
  of a Discovery 0 response, read at their offsets in the packed structures.
\<close>

section \<open>Disk information\<close>

datatype dta_device_type =
  DEVICE_TYPE_ATA | DEVICE_TYPE_SAS | DEVICE_TYPE_NVME | DEVICE_TYPE_USB | DEVICE_TYPE_OTHER

text \<open>One-bit fields are Booleans; the NUL bytes that end the three strings are left out.\<close>

record opal_disk_info =
  Unknown :: u8
  VendorSpecific :: u8
  TPer :: bool
  Locking :: bool
  Geometry :: bool
  Enterprise :: bool
  SingleUser :: bool
  DataStore :: bool
  OPAL20 :: bool
  OPAL10 :: bool
  Properties :: bool
  ANY_OPAL_SSC :: bool
  BlockSIDAuthentication :: bool
  NSLocking :: bool
  NSGeometry :: bool
  TPer_ACKNACK :: bool
  TPer_async :: bool
  TPer_bufferMgt :: bool
  TPer_comIDMgt :: bool
  TPer_streaming :: bool
  TPer_sync :: bool
  Locking_locked :: bool
  Locking_lockingEnabled :: bool
  Locking_lockingSupported :: bool
  Locking_MBRDone :: bool
  Locking_MBREnabled :: bool
  Locking_mediaEncrypt :: bool
  Geometry_align :: bool
  Geometry_alignmentGranularity :: u64
  Geometry_logicalBlockSize :: u32
  Geometry_lowestAlignedLBA :: u64
  Enterprise_rangeCrossing :: bool
  Enterprise_basecomID :: u16
  Enterprise_numcomID :: u16
  SingleUser_any :: bool
  SingleUser_all :: bool
  SingleUser_policy :: bool
  SingleUser_lockingObjects :: u32
  BlockSIDAuthentication_SIDValueState :: bool
  BlockSIDAuthentication_SIDBlockedState :: bool
  BlockSIDAuthentication_HardwareReset :: bool
  NSLocking_version :: u8
  NSLocking_length :: u8
  NSLocking_range_C :: u8
  NSLocking_range_P :: u8
  NSLocking_Max_Key_Count :: u32
  NSLocking_Unused_Key_Count :: u32
  NSLocking_Max_Range_Per_NS :: u32
  NSGeometry_version :: u8
  NSGeometry_length :: u8
  NSGeometry_align :: u8
  NSGeometry_logicalBlockSize :: u32
  NSGeometry_alignmentGranularity :: u64
  NSGeometry_lowestAlignedLBA :: u64
  DataStore_maxTables :: u16
  DataStore_maxTableSize :: u32
  DataStore_alignment :: u32
  OPAL10_basecomID :: u16
  OPAL10_numcomIDs :: u16
  OPAL20_basecomID :: u16
  OPAL20_numcomIDs :: u16
  OPAL20_initialPIN :: u8
  OPAL20_revertedPIN :: u8
  OPAL20_numAdmins :: u16
  OPAL20_numUsers :: u16
  OPAL20_rangeCrossing :: u8
  devType :: dta_device_type
  serialNum :: bytes
  firmwareRev :: bytes
  modelNum :: bytes

definition zero_disk_info :: opal_disk_info where
  "zero_disk_info = \<lparr>Unknown = 0,
     VendorSpecific = 0,
     TPer = False,
     Locking = False,
     Geometry = False,
     Enterprise = False,
     SingleUser = False,
     DataStore = False,
     OPAL20 = False,
     OPAL10 = False,
     Properties = False,
     ANY_OPAL_SSC = False,
     BlockSIDAuthentication = False,
     NSLocking = False,
     NSGeometry = False,
     TPer_ACKNACK = False,
     TPer_async = False,
     TPer_bufferMgt = False,
     TPer_comIDMgt = False,
     TPer_streaming = False,
     TPer_sync = False,
     Locking_locked = False,
     Locking_lockingEnabled = False,
     Locking_lockingSupported = False,
     Locking_MBRDone = False,
     Locking_MBREnabled = False,
     Locking_mediaEncrypt = False,
     Geometry_align = False,
     Geometry_alignmentGranularity = 0,
     Geometry_logicalBlockSize = 0,
     Geometry_lowestAlignedLBA = 0,
     Enterprise_rangeCrossing = False,
     Enterprise_basecomID = 0,
     Enterprise_numcomID = 0,
     SingleUser_any = False,
     SingleUser_all = False,
     SingleUser_policy = False,
     SingleUser_lockingObjects = 0,
     BlockSIDAuthentication_SIDValueState = False,
     BlockSIDAuthentication_SIDBlockedState = False,
     BlockSIDAuthentication_HardwareReset = False,
     NSLocking_version = 0,
     NSLocking_length = 0,
     NSLocking_range_C = 0,
     NSLocking_range_P = 0,
     NSLocking_Max_Key_Count = 0,
     NSLocking_Unused_Key_Count = 0,
     NSLocking_Max_Range_Per_NS = 0,
     NSGeometry_version = 0,
     NSGeometry_length = 0,
     NSGeometry_align = 0,
     NSGeometry_logicalBlockSize = 0,
     NSGeometry_alignmentGranularity = 0,
     NSGeometry_lowestAlignedLBA = 0,
     DataStore_maxTables = 0,
     DataStore_maxTableSize = 0,
     DataStore_alignment = 0,
     OPAL10_basecomID = 0,
     OPAL10_numcomIDs = 0,
     OPAL20_basecomID = 0,
     OPAL20_numcomIDs = 0,
     OPAL20_initialPIN = 0,
     OPAL20_revertedPIN = 0,
     OPAL20_numAdmins = 0,
     OPAL20_numUsers = 0,
     OPAL20_rangeCrossing = 0,
     devType = DEVICE_TYPE_ATA,
     serialNum = replicate 20 0,
     firmwareRev = replicate 8 0,
     modelNum = replicate 40 0\<rparr>"


section \<open>Feature codes\<close>

abbreviation (input) FC_TPER :: u16 where "FC_TPER \<equiv> 0x0001"
abbreviation (input) FC_LOCKING :: u16 where "FC_LOCKING \<equiv> 0x0002"
abbreviation (input) FC_GEOMETRY :: u16 where "FC_GEOMETRY \<equiv> 0x0003"
abbreviation (input) FC_ENTERPRISE :: u16 where "FC_ENTERPRISE \<equiv> 0x0100"
abbreviation (input) FC_DATASTORE :: u16 where "FC_DATASTORE \<equiv> 0x0202"
abbreviation (input) FC_SINGLEUSER :: u16 where "FC_SINGLEUSER \<equiv> 0x0201"
abbreviation (input) FC_OPALV100 :: u16 where "FC_OPALV100 \<equiv> 0x0200"
abbreviation (input) FC_OPALV200 :: u16 where "FC_OPALV200 \<equiv> 0x0203"
abbreviation (input) FC_BLOCKSIDAUTH :: u16 where "FC_BLOCKSIDAUTH \<equiv> 0x0402"
abbreviation (input) FC_NSLocking :: u16 where "FC_NSLocking \<equiv> 0x0403"
abbreviation (input) FC_NSGeometry :: u16 where "FC_NSGeometry \<equiv> 0x0405"

section \<open>Feature descriptors\<close>

text \<open>
  \<open>need q n\<close>: the descriptor at \<open>q\<close> is read up to its n-th byte. Behind the 2048 bytes that were
  cleared before the request the buffer holds nothing that was ever written.
\<close>

definition need :: "nat \<Rightarrow> nat \<Rightarrow> unit outcome" where
  "need q n = (if q + n \<le> MIN_BUFFER_LENGTH then Ret () else Undef)"

definition featureCode :: "bytes \<Rightarrow> nat \<Rightarrow> u16" where
  "featureCode m q = SWAP16 (load16 m q)"

definition tper_feature :: "bytes \<Rightarrow> nat \<Rightarrow> opal_disk_info \<Rightarrow> opal_disk_info" where
  "tper_feature m q d = (let f = peek m (q + 4) in d\<lparr>
     TPer := True, TPer_ACKNACK := bit f 2, TPer_async := bit f 1, TPer_bufferMgt := bit f 3,
     TPer_comIDMgt := bit f 6, TPer_streaming := bit f 4, TPer_sync := bit f 0\<rparr>)"

definition locking_feature :: "bytes \<Rightarrow> nat \<Rightarrow> opal_disk_info \<Rightarrow> opal_disk_info" where
  "locking_feature m q d = (let f = peek m (q + 4) in d\<lparr>
     Locking := True, Locking_locked := bit f 2, Locking_lockingEnabled := bit f 1,
     Locking_lockingSupported := bit f 0, Locking_MBRDone := bit f 5,
     Locking_MBREnabled := bit f 4, Locking_mediaEncrypt := bit f 3\<rparr>)"

definition geometry_feature :: "bytes \<Rightarrow> nat \<Rightarrow> opal_disk_info \<Rightarrow> opal_disk_info" where
  "geometry_feature m q d = d\<lparr>
     Geometry := True, Geometry_align := bit (peek m (q + 4)) 0,
     Geometry_alignmentGranularity := SWAP64 (load64 m (q + 16)),
     Geometry_logicalBlockSize := SWAP32 (load32 m (q + 12)),
     Geometry_lowestAlignedLBA := SWAP64 (load64 m (q + 24))\<rparr>"

definition enterprise_feature :: "bytes \<Rightarrow> nat \<Rightarrow> opal_disk_info \<Rightarrow> opal_disk_info" where
  "enterprise_feature m q d = d\<lparr>
     Enterprise := True, ANY_OPAL_SSC := True,
     Enterprise_rangeCrossing := bit (peek m (q + 8)) 0,
     Enterprise_basecomID := SWAP16 (load16 m (q + 4)),
     Enterprise_numcomID := SWAP16 (load16 m (q + 6))\<rparr>"

definition opalv100_feature :: "bytes \<Rightarrow> nat \<Rightarrow> opal_disk_info \<Rightarrow> opal_disk_info" where
  "opalv100_feature m q d = d\<lparr>
     OPAL10 := True, ANY_OPAL_SSC := True,
     OPAL10_basecomID := SWAP16 (load16 m (q + 4)),
     OPAL10_numcomIDs := SWAP16 (load16 m (q + 6))\<rparr>"

definition singleuser_feature :: "bytes \<Rightarrow> nat \<Rightarrow> opal_disk_info \<Rightarrow> opal_disk_info" where
  "singleuser_feature m q d = (let f = peek m (q + 8) in d\<lparr>
     SingleUser := True, SingleUser_all := bit f 1, SingleUser_any := bit f 0,
     SingleUser_policy := bit f 2,
     SingleUser_lockingObjects := SWAP32 (load32 m (q + 4))\<rparr>)"

definition datastore_feature :: "bytes \<Rightarrow> nat \<Rightarrow> opal_disk_info \<Rightarrow> opal_disk_info" where
  "datastore_feature m q d = d\<lparr>
     DataStore := True, DataStore_maxTables := SWAP16 (load16 m (q + 6)),
     DataStore_maxTableSize := SWAP32 (load32 m (q + 8)),
     DataStore_alignment := SWAP32 (load32 m (q + 12))\<rparr>"

definition opalv200_feature :: "bytes \<Rightarrow> nat \<Rightarrow> opal_disk_info \<Rightarrow> opal_disk_info" where
  "opalv200_feature m q d = d\<lparr>
     OPAL20 := True, ANY_OPAL_SSC := True,
     OPAL20_basecomID := SWAP16 (load16 m (q + 4)),
     OPAL20_initialPIN := peek m (q + 13), OPAL20_revertedPIN := peek m (q + 14),
     OPAL20_numcomIDs := SWAP16 (load16 m (q + 6)),
     OPAL20_numAdmins := SWAP16 (load16 m (q + 9)),
     OPAL20_numUsers := SWAP16 (load16 m (q + 11)),
     OPAL20_rangeCrossing := peek m (q + 8) AND 1\<rparr>"

definition blocksid_feature :: "bytes \<Rightarrow> nat \<Rightarrow> opal_disk_info \<Rightarrow> opal_disk_info" where
  "blocksid_feature m q d = d\<lparr>
     BlockSIDAuthentication := True,
     BlockSIDAuthentication_SIDValueState := bit (peek m (q + 4)) 0,
     BlockSIDAuthentication_SIDBlockedState := bit (peek m (q + 4)) 1,
     BlockSIDAuthentication_HardwareReset := bit (peek m (q + 5)) 0\<rparr>"

definition nslocking_feature :: "bytes \<Rightarrow> nat \<Rightarrow> opal_disk_info \<Rightarrow> opal_disk_info" where
  "nslocking_feature m q d = d\<lparr>
     NSLocking := True,
     NSLocking_version := drop_bit 4 (peek m (q + 2)),
     NSLocking_length := peek m (q + 3),
     NSLocking_range_P := drop_bit 6 (peek m (q + 4)) AND 1,
     NSLocking_range_C := drop_bit 7 (peek m (q + 4)) AND 1,
     NSLocking_Max_Key_Count := SWAP32 (load32 m (q + 8)),
     NSLocking_Unused_Key_Count := SWAP32 (load32 m (q + 12)),
     NSLocking_Max_Range_Per_NS := SWAP32 (load32 m (q + 16))\<rparr>"

definition nsgeometry_feature :: "bytes \<Rightarrow> nat \<Rightarrow> opal_disk_info \<Rightarrow> opal_disk_info" where
  "nsgeometry_feature m q d = d\<lparr>
     NSGeometry := True,
     NSGeometry_version := drop_bit 4 (peek m (q + 2)),
     NSGeometry_length := peek m (q + 3),
     NSGeometry_align := peek m (q + 4) AND 1,
     NSGeometry_alignmentGranularity := SWAP64 (load64 m (q + 16)),
     NSGeometry_logicalBlockSize := SWAP32 (load32 m (q + 12)),
     NSGeometry_lowestAlignedLBA := SWAP64 (load64 m (q + 24))\<rparr>"

text \<open>The default branch of both parsers: the counters wrap at 256.\<close>

definition other_feature :: "bytes \<Rightarrow> nat \<Rightarrow> opal_disk_info \<Rightarrow> opal_disk_info" where
  "other_feature m q d =
     (if 0xbfff < featureCode m q then d\<lparr>VendorSpecific := VendorSpecific d + 1\<rparr>
      else d\<lparr>Unknown := Unknown d + 1\<rparr>)"

section \<open>The parsers\<close>

text \<open>One pass of the loop body of \<^verbatim>\<open>discovery0\<close> and of \<^verbatim>\<open>discovery0_NS\<close>.\<close>

definition feature :: "bytes \<Rightarrow> nat \<Rightarrow> opal_disk_info \<Rightarrow> opal_disk_info outcome" where
  "feature m q d =
     (let fc = featureCode m q;
          handle = (\<lambda>n f. obind (need q n) (\<lambda>_. Ret (f m q d)))
      in obind (need q 4) (\<lambda>_.
         if fc = FC_TPER then handle 5 tper_feature
         else if fc = FC_LOCKING then handle 5 locking_feature
         else if fc = FC_GEOMETRY then handle 32 geometry_feature
         else if fc = FC_ENTERPRISE then handle 9 enterprise_feature
         else if fc = FC_OPALV100 then handle 8 opalv100_feature
         else if fc = FC_SINGLEUSER then handle 9 singleuser_feature
         else if fc = FC_DATASTORE then handle 16 datastore_feature
         else if fc = FC_OPALV200 then handle 15 opalv200_feature
         else if fc = FC_BLOCKSIDAUTH then handle 6 blocksid_feature
         else if fc = FC_NSLocking then handle 20 nslocking_feature
         else handle 4 other_feature))"

definition feature_NS :: "bytes \<Rightarrow> nat \<Rightarrow> opal_disk_info \<Rightarrow> opal_disk_info outcome" where
  "feature_NS m q d =
     (let fc = featureCode m q;
          handle = (\<lambda>n f. obind (need q n) (\<lambda>_. Ret (f m q d)))
      in obind (need q 4) (\<lambda>_.
         if fc = FC_NSGeometry then handle 32 nsgeometry_feature
         else handle 4 other_feature))"

text \<open>The loop: the descriptor at \<open>cpos\<close> is always parsed, the next one while it starts before \<open>epos\<close>.\<close>

function features :: "(bytes \<Rightarrow> nat \<Rightarrow> opal_disk_info \<Rightarrow> opal_disk_info outcome) \<Rightarrow>
    bytes \<Rightarrow> nat \<Rightarrow> nat \<Rightarrow> opal_disk_info \<Rightarrow> opal_disk_info outcome" where
  "features step m epos cpos d =
     (case step m cpos d of
        Ret d' \<Rightarrow>
          let cpos' = cpos + (unat (peek m (cpos + 3)) + 4)
          in if cpos' < epos then features step m epos cpos' d' else Ret d'
      | ExitFail \<Rightarrow> ExitFail | Undef \<Rightarrow> Undef | Diverge \<Rightarrow> Diverge)"
  by pat_completeness auto
termination
  by (relation "measure (\<lambda>(step, m, epos, cpos, d). epos - cpos)") auto

declare features.simps [simp del]

text \<open>The header's length field says where the last descriptor ends; the descriptors start at 48.\<close>

definition parse_discovery :: "(bytes \<Rightarrow> nat \<Rightarrow> opal_disk_info \<Rightarrow> opal_disk_info outcome) \<Rightarrow>
    bytes \<Rightarrow> opal_disk_info \<Rightarrow> opal_disk_info outcome" where
  "parse_discovery step m d = features step m (unat (SWAP32 (load32 m 0))) 48 d"

end
