(* ===== verification/Device.thy ===== *)
theory Device
  imports DiskInfo
begin

text \<open>
  Common/DtaDev.cpp, Common/DtaHashPwd.cpp and the device part of linux/DtaDevOS.cpp: the state of a
  device object, the disk behind it as the outside world, requests to the disk, Discovery 0 and the
  hashing of passwords.
\<close>

section \<open>State\<close>

datatype atacommand = IF_RECV | IF_SEND | IDENTIFY

text \<open>The dynamic class of a device object, and the class of its drive object.\<close>

datatype dev_class = Generic | Opal1 | Opal2 | EnterpriseDev

datatype drive_kind = LinuxNvme | LinuxSata

datatype sedutiloutput = sedutilNormal | sedutilReadable | sedutilJSON

record dta_session =
  TSN :: u32
  HSN :: u32
  willAbort :: bool
  hashPwd :: bool
  SecurityProtocol :: u8
  sessionauth :: u8

text \<open>What a listing prints, as data.\<close>

datatype report =
    RangeReport u32 u64 u64 bool bool bool bool
  | MSIDReport cstr
  | ProgressReport u32 u32 u32
  | BandReport u16 bytes bytes u64 u64 bool bool bool bool bool
  | TextReport string

record 'd dta_dev =
  dev_cls :: dev_class
  no_hash_passwords :: bool
  output_format :: sedutiloutput
  isOpen :: bool
  disk_info :: opal_disk_info
  dev_response :: dta_response
  propertiesResponse :: dta_response
  session :: "dta_session option"
  tperMaxPacket :: u32
  tperMaxToken :: u32
  drive :: "drive_kind option"
  console :: "report list"
  disk :: 'd

text \<open>
  What lies outside: the drive classes (each request may change the disk \<open>'d\<close>; a receive fills the
  buffer), the key derivation function of the cifra library, the address the allocator gives a
  command, and the files.
\<close>

record 'd env =
  drive_init :: "drive_kind \<Rightarrow> cstr \<Rightarrow> 'd \<Rightarrow> bool \<times> 'd"
  drive_identify :: "drive_kind \<Rightarrow> opal_disk_info \<Rightarrow> 'd \<Rightarrow> opal_disk_info \<times> 'd"
  drive_sendCmd :: "drive_kind \<Rightarrow> atacommand \<Rightarrow> u8 \<Rightarrow> u16 \<Rightarrow> bytes \<Rightarrow> 'd \<Rightarrow> u8 \<times> bytes \<times> 'd"
  pbkdf2 :: "bytes \<Rightarrow> bytes \<Rightarrow> nat \<Rightarrow> nat \<Rightarrow> bytes"
  cmd_addr :: u64
  file_of :: "cstr \<Rightarrow> bytes option"

type_synonym ('d, 'a) devop = "('d dta_dev, 'a) op"

definition empty_response :: dta_response where
  "empty_response = \<lparr>h = replicate sizeof_OPALHeader 0, response = []\<rparr>"

text \<open>A device object before \<^verbatim>\<open>init\<close>.\<close>

definition new_dev :: "dev_class \<Rightarrow> 'd \<Rightarrow> 'd dta_dev" where
  "new_dev c d = \<lparr>dev_cls = c, no_hash_passwords = False, output_format = sedutilNormal,
     isOpen = False, disk_info = zero_disk_info, dev_response = empty_response,
     propertiesResponse = empty_response, session = None,
     tperMaxPacket = 2048, tperMaxToken = 1950, drive = None, console = [], disk = d\<rparr>"

definition report :: "report \<Rightarrow> ('d, unit) devop" where
  "report r = put_op (\<lambda>w. w\<lparr>console := console w @ [r]\<rparr>)"

section \<open>Accessors of DtaDev\<close>

definition isOpal2 :: "'d dta_dev \<Rightarrow> bool" where "isOpal2 w = OPAL20 (disk_info w)"
definition isOpal1 :: "'d dta_dev \<Rightarrow> bool" where "isOpal1 w = OPAL10 (disk_info w)"
definition isEprise :: "'d dta_dev \<Rightarrow> bool" where "isEprise w = Enterprise (disk_info w)"
definition isAnySSC :: "'d dta_dev \<Rightarrow> bool" where "isAnySSC w = ANY_OPAL_SSC (disk_info w)"
definition isPresent :: "'d dta_dev \<Rightarrow> bool" where "isPresent w = isOpen w"
definition MBREnabled :: "'d dta_dev \<Rightarrow> bool" where "MBREnabled w = Locking_MBREnabled (disk_info w)"
definition MBRDone :: "'d dta_dev \<Rightarrow> bool" where "MBRDone w = Locking_MBRDone (disk_info w)"
definition Locked :: "'d dta_dev \<Rightarrow> bool" where "Locked w = Locking_locked (disk_info w)"
definition LockingEnabled :: "'d dta_dev \<Rightarrow> bool" where
  "LockingEnabled w = Locking_lockingEnabled (disk_info w)"
definition getFirmwareRev :: "'d dta_dev \<Rightarrow> cstr" where
  "getFirmwareRev w = c_str (firmwareRev (disk_info w))"
definition getModelNum :: "'d dta_dev \<Rightarrow> cstr" where
  "getModelNum w = c_str (modelNum (disk_info w))"
definition getSerialNum :: "'d dta_dev \<Rightarrow> bytes" where
  "getSerialNum w = serialNum (disk_info w)"
definition getDevType :: "'d dta_dev \<Rightarrow> dta_device_type" where
  "getDevType w = devType (disk_info w)"

section \<open>Requests to the disk (DtaDevOS)\<close>

definition sendCmd :: "'d env \<Rightarrow> atacommand \<Rightarrow> u8 \<Rightarrow> u16 \<Rightarrow> bytes \<Rightarrow> 'd dta_dev \<Rightarrow>
    (u8 \<times> bytes) \<times> 'd dta_dev" where
  "sendCmd E cmd protocol comID buffer w =
     (if \<not> isOpen w then ((0xfe, buffer), w)
      else case drive w of
        None \<Rightarrow> ((0xff, buffer), w)
      | Some k \<Rightarrow>
          (case drive_sendCmd E k cmd protocol comID buffer (disk w) of
             (rc, buffer', d) \<Rightarrow> ((rc, read_block buffer' 0 (length buffer)), w\<lparr>disk := d\<rparr>)))"

definition sendCmd_op :: "'d env \<Rightarrow> atacommand \<Rightarrow> u8 \<Rightarrow> u16 \<Rightarrow> bytes \<Rightarrow> ('d, u8 \<times> bytes) devop" where
  "sendCmd_op E cmd protocol comID buffer = (\<lambda>w. apfst Ret (sendCmd E cmd protocol comID buffer w))"

section \<open>Discovery 0\<close>

definition discovery_request :: "'d env \<Rightarrow> u16 \<Rightarrow>
    (bytes \<Rightarrow> nat \<Rightarrow> opal_disk_info \<Rightarrow> opal_disk_info outcome) \<Rightarrow>
    ('d, unit) devop \<Rightarrow> ('d, unit) devop" where
  "discovery_request E comID step rest =
     bind_op (sendCmd_op E IF_RECV 0x01 comID (replicate MIN_BUFFER_LENGTH 0)) (\<lambda>(lastRC, buf).
       if lastRC \<noteq> 0 then ret ()
       else bind_op (get_op disk_info) (\<lambda>d.
         bind_op (lift_op (parse_discovery step buf d)) (\<lambda>d'.
           bind_op (put_op (\<lambda>w. w\<lparr>disk_info := d'\<rparr>)) (\<lambda>_. rest))))"

definition discovery0_NS :: "'d env \<Rightarrow> ('d, unit) devop" where
  "discovery0_NS E = discovery_request E 0x0002 feature_NS (ret ())"

definition discovery0 :: "'d env \<Rightarrow> ('d, unit) devop" where
  "discovery0 E = discovery_request E 0x0001 feature (discovery0_NS E)"

text \<open>\<^verbatim>\<open>DtaDevOS::init\<close>: the path chooses the drive class.\<close>

definition drive_of_path :: "cstr \<Rightarrow> drive_kind option" where
  "drive_of_path p =
     (if mem_prefix (lit ''/dev/nvme'') p then Some LinuxNvme
      else if mem_prefix (lit ''/dev/s'') p then Some LinuxSata else None)"

definition DtaDevOS_init :: "'d env \<Rightarrow> cstr \<Rightarrow> ('d, unit) devop" where
  "DtaDevOS_init E devref =
     bind_op (put_op (\<lambda>w. w\<lparr>disk_info := zero_disk_info\<rparr>)) (\<lambda>_.
       case drive_of_path devref of
         None \<Rightarrow> put_op (\<lambda>w. w\<lparr>isOpen := False\<rparr>)
       | Some k \<Rightarrow>
           bind_op (put_op (\<lambda>w. w\<lparr>drive := Some k\<rparr>)) (\<lambda>_.
             bind_op (\<lambda>w. case drive_init E k devref (disk w) of (ok, d) \<Rightarrow> (Ret ok, w\<lparr>disk := d\<rparr>)) (\<lambda>ok.
               if ok then
                 bind_op (put_op (\<lambda>w. w\<lparr>isOpen := True\<rparr>)) (\<lambda>_.
                   bind_op (\<lambda>w. case drive_identify E k (disk_info w) (disk w) of
                       (di, d) \<Rightarrow> (Ret (), w\<lparr>disk_info := di, disk := d\<rparr>)) (\<lambda>_.
                     bind_op (get_op (\<lambda>w. devType (disk_info w))) (\<lambda>t.
                       if t \<noteq> DEVICE_TYPE_OTHER then discovery0 E else ret ())))
               else put_op (\<lambda>w. w\<lparr>isOpen := False\<rparr>))))"

section \<open>Hashing passwords\<close>

text \<open>The result is a medium atom: the prefix 0xd0, the length, the hash. An empty password is not
  hashed.\<close>

definition DtaHashPassword :: "'d env \<Rightarrow> cstr \<Rightarrow> bytes \<Rightarrow> nat \<Rightarrow> u8 \<Rightarrow> bytes" where
  "DtaHashPassword E password salt iter hashsize =
     (let hash = (if strnlen password 32 = 0 then []
                  else read_block (pbkdf2 E (take (strnlen password 256) password) salt iter
                                     (unat hashsize)) 0 (unat hashsize))
      in 0xd0 # of_nat (length hash) # hash)"

definition DtaHashPwd :: "'d env \<Rightarrow> cstr \<Rightarrow> 'd dta_dev \<Rightarrow> bytes" where
  "DtaHashPwd E password d =
     (if no_hash_passwords d
      then let hash = take (strnlen password 32) password in 0xd0 # of_nat (length hash) # hash
      else DtaHashPassword E password (take 20 (getSerialNum d)) 75000 32)"

end
