(* ===== verification/Session.thy ===== *)
theory Session
  imports Device Packet
begin

text \<open>
  Common/DtaSession.cpp with the \<^verbatim>\<open>comID\<close> and \<^verbatim>\<open>exec\<close> methods of the device classes: sending a
  command and polling for the reply, the status of a reply, starting, authenticating and ending a
  session.
\<close>

section \<open>Sending a command to the device\<close>

definition comID :: "'d dta_dev \<Rightarrow> u16" where
  "comID w = (case dev_cls w of
       Generic \<Rightarrow> 0xff
     | Opal1 \<Rightarrow> OPAL10_basecomID (disk_info w)
     | Opal2 \<Rightarrow> OPAL20_basecomID (disk_info w)
     | EnterpriseDev \<Rightarrow> Enterprise_basecomID (disk_info w))"

text \<open>
  The receive loop: a reply that announces outstanding data and no minimum transfer is asked for
  again, without bound. \<^verbatim>\<open>None\<close> is a loop that never ends.
\<close>

partial_function (option) poll :: "'d env \<Rightarrow> u8 \<Rightarrow> 'd dta_dev \<Rightarrow> ((u8 \<times> bytes) \<times> 'd dta_dev) option" where
  "poll E protocol w =
     (let r = sendCmd E IF_RECV protocol (comID w) (replicate MIN_BUFFER_LENGTH 0) w;
          hdr = snd (fst r)
      in if load32 hdr off_outstandingData \<noteq> 0 \<and> load32 hdr off_minTransfer = 0
         then poll E protocol (snd r) else Some r)"

definition poll_op :: "'d env \<Rightarrow> u8 \<Rightarrow> ('d, u8 \<times> bytes) devop" where
  "poll_op E protocol = (\<lambda>w. case poll E protocol w of
       None \<Rightarrow> (Diverge, w) | Some (r, w') \<Rightarrow> (Ret r, w'))"

text \<open>\<^verbatim>\<open>exec\<close> of the Opal and the Enterprise class: a failed request leaves the response alone.\<close>

definition exec_io :: "'d env \<Rightarrow> dta_command \<Rightarrow> dta_response \<Rightarrow> u8 \<Rightarrow> ('d, u8 \<times> dta_response) devop" where
  "exec_io E cmd resp protocol =
     bind_op (get_op comID) (\<lambda>cid.
     bind_op (sendCmd_op E IF_SEND protocol cid (sent_bytes cmd)) (\<lambda>(rc, _).
       if rc \<noteq> 0 then ret (rc, resp)
       else bind_op (poll_op E protocol) (\<lambda>(rc, buf).
         if rc \<noteq> 0 then ret (rc, resp)
         else bind_op (lift_op (init MIN_BUFFER_LENGTH buf)) (\<lambda>r. ret (0, r)))))"

definition exec :: "'d env \<Rightarrow> dta_command \<Rightarrow> dta_response \<Rightarrow> u8 \<Rightarrow> ('d, u8 \<times> dta_response) devop" where
  "exec E cmd resp protocol = (\<lambda>w. case dev_cls w of
       Generic \<Rightarrow> (Ret (0xff, resp), w)
     | _ \<Rightarrow> exec_io E cmd resp protocol w)"

section \<open>The session object\<close>

definition DtaSession :: dta_session where
  "DtaSession = \<lparr>TSN = 0, HSN = 0, willAbort = False, hashPwd = True,
     SecurityProtocol = 0x01, sessionauth = 0\<rparr>"

text \<open>\<^verbatim>\<open>session = new DtaSession(this)\<close>; the pointer is invalid before it and after \<^verbatim>\<open>delete\<close>.\<close>

definition new_session :: "('d, unit) devop" where
  "new_session = put_op (\<lambda>w. w\<lparr>session := Some DtaSession\<rparr>)"

definition this_session :: "('d, dta_session) devop" where
  "this_session = (\<lambda>w. case session w of None \<Rightarrow> (Undef, w) | Some s \<Rightarrow> (Ret s, w))"

definition update_session :: "(dta_session \<Rightarrow> dta_session) \<Rightarrow> ('d, unit) devop" where
  "update_session f = bind_op this_session (\<lambda>s. put_op (\<lambda>w. w\<lparr>session := Some (f s)\<rparr>))"

definition authuser :: "('d, u8) devop" where
  "authuser = bind_op this_session (\<lambda>s. ret (sessionauth s))"

definition setProtocol :: "u8 \<Rightarrow> ('d, unit) devop" where
  "setProtocol v = update_session (\<lambda>s. s\<lparr>SecurityProtocol := v\<rparr>)"

definition dontHashPwd :: "('d, unit) devop" where
  "dontHashPwd = update_session (\<lambda>s. s\<lparr>hashPwd := False\<rparr>)"

definition expectAbort :: "('d, unit) devop" where
  "expectAbort = update_session (\<lambda>s. s\<lparr>willAbort := True\<rparr>)"

section \<open>The status of a reply\<close>

definition reply_status :: "dta_response \<Rightarrow> u8 outcome" where
  "reply_status r =
     (if h_cp_length r = 0 \<or> h_pkt_length r = 0 \<or> h_subpkt_length r = 0
      then Ret DTAERROR_COMMAND_ERROR
      else obind (tokenIs r 0) (\<lambda>t0.
        if t0 = ENDOFSESSION then Ret 0
        else obind (tokenIs r (getTokenCount r - 1)) (\<lambda>tl.
          if tl \<noteq> ENDLIST then Ret DTAERROR_NO_METHOD_STATUS
          else obind (tokenIs r (getTokenCount r - 5)) (\<lambda>ts.
            if ts \<noteq> STARTLIST then Ret DTAERROR_NO_METHOD_STATUS
            else getUint8 r (getTokenCount r - 4)))))"

text \<open>The command goes out with the session's numbers and the ComID of the device.\<close>

definition sendCommand :: "'d env \<Rightarrow> dta_command \<Rightarrow> dta_response \<Rightarrow> ('d, u8 \<times> dta_response) devop" where
  "sendCommand E cmd resp =
     bind_op this_session (\<lambda>s.
     bind_op (get_op comID) (\<lambda>cid.
     bind_op (exec E (setcomID cid (setTSN (TSN s) (setHSN (HSN s) cmd))) resp
                (SecurityProtocol s)) (\<lambda>(exec_rc, reply').
       if exec_rc \<noteq> 0 then ret (exec_rc, reply')
       else bind_op (lift_op (reply_status reply')) (\<lambda>rc. ret (rc, reply')))))"

text \<open>\<^verbatim>\<open>session->sendCommand(cmd, response)\<close> with the response object of the device.\<close>

definition sendCommand_dev :: "'d env \<Rightarrow> dta_command \<Rightarrow> ('d, u8) devop" where
  "sendCommand_dev E cmd =
     bind_op (get_op dev_response) (\<lambda>r.
     bind_op (sendCommand E cmd r) (\<lambda>(rc, r').
     bind_op (put_op (\<lambda>w. w\<lparr>dev_response := r'\<rparr>)) (\<lambda>_. ret rc)))"

definition methodStatus :: "u8 \<Rightarrow> string" where
  "methodStatus status =
     (if status = AUTHORITY_LOCKED_OUT then ''AUTHORITY_LOCKED_OUT''
      else if status = FAIL then ''FAIL''
      else if status = INSUFFICIENT_ROWS then ''INSUFFICIENT_ROWS''
      else if status = INSUFFICIENT_SPACE then ''INSUFFICIENT_SPACE''
      else if status = INVALID_FUNCTION then ''INVALID_FUNCTION''
      else if status = INVALID_PARAMETER then ''INVALID_PARAMETER''
      else if status = INVALID_REFERENCE then ''INVALID_REFERENCE''
      else if status = NOT_AUTHORIZED then ''NOT_AUTHORIZED''
      else if status = NO_SESSIONS_AVAILABLE then ''NO_SESSIONS_AVAILABLE''
      else if status = RESPONSE_OVERFLOW then ''RESPONSE_OVERFLOW''
      else if status = SP_BUSY then ''SP_BUSY''
      else if status = SP_DISABLED then ''SP_DISABLED''
      else if status = SP_FAILED then ''SP_FAILED''
      else if status = SP_FROZEN then ''SP_FROZEN''
      else if status = SUCCESS then ''SUCCESS''
      else if status = TPER_MALFUNCTION then ''TPER_MALFUNCTION''
      else if status = TRANSACTION_FAILURE then ''TRANSACTION_FAILURE''
      else if status = UNIQUENESS_CONFLICT then ''UNIQUENESS_CONFLICT''
      else ''Unknown status code'')"

section \<open>Starting and ending\<close>

text \<open>A new command object with the given calls on it.\<close>

definition build :: "'d env \<Rightarrow> (dta_command \<Rightarrow> dta_command outcome) list \<Rightarrow> ('d, dta_command) devop" where
  "build E calls = lift_op (cmd_seq calls (DtaCommand (cmd_addr E)))"

text \<open>How a challenge is given to the device: hashed as a ready-made token, or as a string.\<close>

definition challenge_token :: "'d env \<Rightarrow> dta_session \<Rightarrow> 'd dta_dev \<Rightarrow> cstr \<Rightarrow> token_arg" where
  "challenge_token E s d pwd = (if hashPwd s then Vec (DtaHashPwd E pwd d) else Str pwd)"

definition auth_args :: "'d env \<Rightarrow> dta_session \<Rightarrow> 'd dta_dev \<Rightarrow> cstr option \<Rightarrow> bytes \<Rightarrow> token_arg list" where
  "auth_args E s d HostChallenge SignAuthority =
     (case HostChallenge of
        Some pwd \<Rightarrow>
          if 0xa8 # OPALUID OPAL_UID_HEXFF \<noteq> SignAuthority \<and> \<not> isEprise d
          then [Tok STARTNAME, TinyAtom UINT_00, challenge_token E s d pwd, Tok ENDNAME,
                Tok STARTNAME, TinyAtom UINT_03, Vec SignAuthority, Tok ENDNAME]
          else []
      | None \<Rightarrow> [])"

definition timeout_args :: "'d dta_dev \<Rightarrow> token_arg list" where
  "timeout_args d = (if isEprise d
     then [Tok STARTNAME, Str (lit ''SessionTimeout''), Num 60000, Tok ENDNAME] else [])"

definition authenticate_args :: "'d env \<Rightarrow> dta_session \<Rightarrow> 'd dta_dev \<Rightarrow> bytes \<Rightarrow> cstr option \<Rightarrow>
    token_arg list" where
  "authenticate_args E s d Authority Challenge =
     [Tok STARTLIST, Vec Authority] @
     (case Challenge of
        Some pwd \<Rightarrow>
          if pwd \<noteq> [] then
            [Tok STARTNAME, if isEprise d then Str (lit ''Challenge'') else TinyAtom UINT_00,
             challenge_token E s d pwd, Tok ENDNAME]
          else []
      | None \<Rightarrow> []) @
     [Tok ENDLIST]"

definition authenticate :: "'d env \<Rightarrow> bytes \<Rightarrow> cstr option \<Rightarrow> ('d, u8) devop" where
  "authenticate E Authority Challenge =
     bind_op this_session (\<lambda>s. bind_op (get_op id) (\<lambda>d.
     bind_op (build E
       [reset_uid_method OPAL_THISSP_UID (if isEprise d then EAUTHENTICATE else AUTHENTICATE),
        addTokens (authenticate_args E s d Authority Challenge),
        complete True]) (\<lambda>cmd.
     bind_op (sendCommand E cmd empty_response) (\<lambda>(lastRC, reply).
       if lastRC \<noteq> 0 then ret lastRC
       else bind_op (lift_op (getUint8 reply 1)) (\<lambda>ok.
         if ok = 0 then ret DTAERROR_AUTH_FAILED else ret 0)))))"

definition start_args :: "'d env \<Rightarrow> dta_session \<Rightarrow> 'd dta_dev \<Rightarrow> opal_uid \<Rightarrow> cstr option \<Rightarrow> bytes \<Rightarrow>
    token_arg list" where
  "start_args E s d SP HostChallenge SignAuthority =
     [Tok STARTLIST, Num 105, Uid SP, TinyAtom UINT_01] @
     auth_args E s d HostChallenge SignAuthority @ timeout_args d @ [Tok ENDLIST]"

text \<open>\<^verbatim>\<open>HSN = SWAP32(response.getUint32(4)); TSN = SWAP32(response.getUint32(5))\<close>\<close>

definition take_numbers :: "dta_response \<Rightarrow> ('d, unit) devop" where
  "take_numbers reply =
     bind_op (lift_op (getUint32 reply 4)) (\<lambda>hsn.
     bind_op (update_session (\<lambda>s. s\<lparr>HSN := SWAP32 hsn\<rparr>)) (\<lambda>_.
     bind_op (lift_op (getUint32 reply 5)) (\<lambda>tsn.
     update_session (\<lambda>s. s\<lparr>TSN := SWAP32 tsn\<rparr>))))"

definition start :: "'d env \<Rightarrow> opal_uid \<Rightarrow> cstr option \<Rightarrow> bytes \<Rightarrow> ('d, u8) devop" where
  "start E SP HostChallenge SignAuthority =
     bind_op this_session (\<lambda>s. bind_op (get_op id) (\<lambda>d.
     bind_op (build E
       [reset_uid_method OPAL_SMUID_UID STARTSESSION,
        addTokens (start_args E s d SP HostChallenge SignAuthority), complete True]) (\<lambda>cmd.
     bind_op (sendCommand E cmd empty_response) (\<lambda>(lastRC, reply).
       if lastRC \<noteq> 0 then ret lastRC
       else bind_op (take_numbers reply) (\<lambda>_.
         if HostChallenge \<noteq> None \<and> isEprise d
         then authenticate E SignAuthority HostChallenge else ret 0)))))"

text \<open>The two overloads: an authority from the table, and no authority.\<close>

definition start_uid :: "'d env \<Rightarrow> opal_uid \<Rightarrow> cstr option \<Rightarrow> opal_uid \<Rightarrow> ('d, u8) devop" where
  "start_uid E SP HostChallenge SignAuthority =
     start E SP HostChallenge (BYTESTRING8 # OPALUID SignAuthority)"

definition start_anon :: "'d env \<Rightarrow> opal_uid \<Rightarrow> ('d, u8) devop" where
  "start_anon E SP = start_uid E SP None OPAL_UID_HEXFF"

text \<open>\<^verbatim>\<open>delete session\<close>: the destructor ends the session unless the device was expected to.\<close>

definition delete_session :: "'d env \<Rightarrow> ('d, unit) devop" where
  "delete_session E =
     bind_op this_session (\<lambda>s.
     bind_op (if willAbort s then ret ()
              else bind_op (build E [Ret \<circ> reset, addToken (Tok ENDOFSESSION), complete False]) (\<lambda>cmd.
                   bind_op (sendCommand E cmd empty_response) (\<lambda>_. ret ()))) (\<lambda>_.
     put_op (\<lambda>w. w\<lparr>session := None\<rparr>)))"

end
