(* ===== verification/OpalTables.thy ===== *)
theory OpalTables
  imports Session
begin

text \<open>
  Common/DtaDevOpal.cpp, first part: reading and writing table cells inside a session, the exchange of
  properties, the MSID and SID passwords, users and their passwords, and the raw commands.
\<close>

section \<open>Patterns the operations share\<close>

definition seq_op :: "('w, unit) op \<Rightarrow> ('w, 'a) op \<Rightarrow> ('w, 'a) op" where
  "seq_op m k = bind_op m (\<lambda>_. k)"

text \<open>\<^verbatim>\<open>session = new DtaSession(this); if ((lastRC = session->start(...)) != 0) { delete session;
  return lastRC; }\<close>\<close>

definition in_session :: "'d env \<Rightarrow> ('d, u8) devop \<Rightarrow> ('d, u8) devop \<Rightarrow> ('d, u8) devop" where
  "in_session E st k = seq_op new_session (check_cleanup (delete_session E) st k)"

text \<open>\<^verbatim>\<open>if ((lastRC = m) != 0) { delete session; return lastRC; }\<close>\<close>

definition checked :: "'d env \<Rightarrow> ('d, u8) devop \<Rightarrow> ('d, u8) devop \<Rightarrow> ('d, u8) devop" where
  "checked E m k = check_cleanup (delete_session E) m k"

text \<open>\<^verbatim>\<open>delete session; return rc;\<close>\<close>

definition finish :: "'d env \<Rightarrow> 'a \<Rightarrow> ('d, 'a) devop" where
  "finish E rc = seq_op (delete_session E) (ret rc)"

text \<open>A command built in place and sent with the response object of the device.\<close>

definition call_dev :: "'d env \<Rightarrow> (dta_command \<Rightarrow> dta_command outcome) list \<Rightarrow> ('d, u8) devop" where
  "call_dev E calls = bind_op (build E calls) (\<lambda>cmd. sendCommand_dev E cmd)"

text \<open>A value read from the response object of the device.\<close>

definition from_response :: "(dta_response \<Rightarrow> 'a outcome) \<Rightarrow> ('d, 'a) devop" where
  "from_response f = bind_op (get_op dev_response) (\<lambda>r. lift_op (f r))"

section \<open>Tables\<close>

text \<open>A table or object identifier as a token.\<close>

definition uid_token :: "opal_uid \<Rightarrow> bytes" where
  "uid_token u = BYTESTRING8 # OPALUID u"

definition setTable :: "'d env \<Rightarrow> bytes \<Rightarrow> opal_token \<Rightarrow> bytes \<Rightarrow> ('d, u8) devop" where
  "setTable E table name value = call_dev E
     [reset_uid_method OPAL_AUTHORITY_TABLE SET, changeInvokingUid table,
      addTokens [Tok STARTLIST, Tok STARTNAME, Tok VALUES, Tok STARTLIST, Tok STARTNAME,
                 Tok name, Vec value,
                 Tok ENDNAME, Tok ENDLIST, Tok ENDNAME, Tok ENDLIST],
      complete True]"

definition setTable_token :: "'d env \<Rightarrow> bytes \<Rightarrow> opal_token \<Rightarrow> opal_token \<Rightarrow> ('d, u8) devop" where
  "setTable_token E table name value = setTable E table name [value]"

definition getTable :: "'d env \<Rightarrow> bytes \<Rightarrow> u16 \<Rightarrow> u16 \<Rightarrow> ('d, u8) devop" where
  "getTable E table startcol endcol = call_dev E
     [reset_uid_method OPAL_AUTHORITY_TABLE GET, changeInvokingUid table,
      addTokens [Tok STARTLIST, Tok STARTLIST, Tok STARTNAME, Tok STARTCOLUMN, Num (ucast startcol),
                 Tok ENDNAME, Tok STARTNAME, Tok ENDCOLUMN, Num (ucast endcol), Tok ENDNAME,
                 Tok ENDLIST, Tok ENDLIST],
      complete True]"

section \<open>Properties\<close>

text \<open>The host properties sent, and the scan of the reply for the two limits. \<open>i\<close> is the token
  index; a property that is not named by a byte string ends the scan, as does the second limit.\<close>

definition host_property :: "string \<Rightarrow> u64 \<Rightarrow> token_arg list" where
  "host_property name v = [Tok STARTNAME, Str (lit name), Num v, Tok ENDNAME]"

function scan_properties :: "dta_response \<Rightarrow> nat \<Rightarrow> u32 \<times> u32 \<Rightarrow> (u32 \<times> u32) outcome" where
  "scan_properties r i (maxPacket, maxToken) =
     (if i < unat (getTokenCount r)
      then obind (tokenIs r (of_nat i)) (\<lambda>t.
        if t \<noteq> STARTNAME then scan_properties r (i + 1) (maxPacket, maxToken)
        else obind (tokenIs r (of_nat (i + 1))) (\<lambda>t1.
          if t1 \<noteq> DTA_TOKENID_BYTESTRING then Ret (maxPacket, maxToken)
          else obind (getString r (of_nat (i + 1))) (\<lambda>s.
            if strcaseeq (lit ''MaxComPacketSize'') (c_str s)
            then obind (getUint32 r (of_nat (i + 2))) (\<lambda>v. scan_properties r (i + 3) (v, maxToken))
            else if strcaseeq (lit ''MaxIndTokenSize'') (c_str s)
            then obind (getUint32 r (of_nat (i + 2))) (\<lambda>v. Ret (maxPacket, v))
            else scan_properties r (i + 3) (maxPacket, maxToken))))
      else Ret (maxPacket, maxToken))"
  by pat_completeness auto
termination
  by (relation "measure (\<lambda>(r, i, lim). unat (getTokenCount r) - i)") auto

declare scan_properties.simps [simp del]

text \<open>The session object is made for its \<^verbatim>\<open>sendCommand\<close> only, and is not deleted.\<close>

definition properties :: "'d env \<Rightarrow> ('d, u8) devop" where
  "properties E =
     seq_op new_session (
     bind_op (build E
       [reset_uid_method OPAL_SMUID_UID PROPERTIES,
        addTokens ([Tok STARTLIST, Tok STARTNAME, Tok HOSTPROPERTIES, Tok STARTLIST] @
          host_property ''MaxComPacketSize'' 2048 @ host_property ''MaxPacketSize'' 2028 @
          host_property ''MaxIndTokenSize'' 1992 @ host_property ''MaxPackets'' 1 @
          host_property ''MaxSubpackets'' 1 @ host_property ''MaxMethods'' 1 @
          [Tok ENDLIST, Tok ENDNAME, Tok ENDLIST]),
        complete True]) (\<lambda>props.
     bind_op (get_op propertiesResponse) (\<lambda>r.
     bind_op (sendCommand E props r) (\<lambda>(lastRC, r').
     seq_op (put_op (\<lambda>w. w\<lparr>propertiesResponse := r'\<rparr>)) (
       if lastRC \<noteq> 0 then ret lastRC
       else seq_op (put_op (\<lambda>w. w\<lparr>disk_info := (disk_info w)\<lparr>Properties := True\<rparr>\<rparr>)) (
         bind_op (get_op (\<lambda>w. (tperMaxPacket w, tperMaxToken w))) (\<lambda>lim.
         bind_op (lift_op (scan_properties r' 0 lim)) (\<lambda>(p, t).
         seq_op (put_op (\<lambda>w. w\<lparr>tperMaxPacket := p, tperMaxToken := t\<rparr>)) (ret 0)))))))))"

text \<open>\<^verbatim>\<open>DtaDevOpal::init\<close>: a failed exchange is only logged.\<close>

definition DtaDevOpal_init :: "'d env \<Rightarrow> cstr \<Rightarrow> ('d, unit) devop" where
  "DtaDevOpal_init E devref =
     seq_op (DtaDevOS_init E devref) (bind_op (properties E) (\<lambda>_. ret ()))"

section \<open>MSID and SID\<close>

definition getDefaultPassword :: "'d env \<Rightarrow> ('d, u8) devop" where
  "getDefaultPassword E =
     in_session E (start_anon E OPAL_ADMINSP_UID)
       (checked E (getTable E (uid_token OPAL_C_PIN_MSID) (ucast PIN) (ucast PIN))
         (finish E 0))"

definition printDefaultPassword :: "'d env \<Rightarrow> ('d, u8) devop" where
  "printDefaultPassword E =
     check (getDefaultPassword E)
       (bind_op (from_response (\<lambda>r. getString r 4)) (\<lambda>s.
          seq_op (report (MSIDReport (c_str s))) (ret 0)))"

text \<open>The new PIN as the token the table is given: hashed, or the plain password.\<close>

definition plain_pin :: "cstr \<Rightarrow> bytes" where
  "plain_pin p = 0xd0 # of_nat (strnlen p 255) # take (strnlen p 255) p"

definition setSIDPassword :: "'d env \<Rightarrow> cstr \<Rightarrow> cstr \<Rightarrow> u8 \<Rightarrow> u8 \<Rightarrow> ('d, u8) devop" where
  "setSIDPassword E oldpassword newpassword hasholdpwd hashnewpwd =
     seq_op new_session (
     seq_op (if hasholdpwd = 0 then dontHashPwd else ret ()) (
     checked E (start_uid E OPAL_ADMINSP_UID (Some oldpassword) OPAL_SID_UID) (
     bind_op (get_op (\<lambda>d. if hashnewpwd \<noteq> 0 then DtaHashPwd E newpassword d
                          else plain_pin newpassword)) (\<lambda>hash.
     checked E (setTable E (uid_token OPAL_C_PIN_SID) PIN hash) (
     finish E 0)))))"

definition takeOwnership :: "'d env \<Rightarrow> cstr \<Rightarrow> ('d, u8) devop" where
  "takeOwnership E newpassword =
     check (getDefaultPassword E)
       (bind_op (from_response (\<lambda>r. getString r 4)) (\<lambda>msid.
          check (setSIDPassword E (c_str msid) newpassword 0 1) (ret 0)))"

section \<open>Users\<close>

text \<open>The identifier of a user's authority (0) or of its PIN row (10).\<close>

definition getAuth4User :: "cstr \<Rightarrow> u8 \<Rightarrow> (u8 \<times> bytes) outcome" where
  "getAuth4User userid uidorcpin =
     (if uidorcpin \<noteq> 0 \<and> uidorcpin \<noteq> 10
      then Ret (DTAERROR_INVALID_PARAMETER, [BYTESTRING8, 0x00, 0x00, 0x00])
      else let kind = (if uidorcpin \<noteq> 0 then 0x0b else 0x09) in
        if mem_prefix (lit ''User'') userid
        then obind (atoi (drop 4 userid)) (\<lambda>n.
          Ret (0, [BYTESTRING8, 0x00, 0x00, 0x00, kind, 0x00, 0x03, 0x00, of_int n]))
        else if mem_prefix (lit ''Admin'') userid
        then obind (atoi (drop 5 userid)) (\<lambda>n.
          Ret (0, [BYTESTRING8, 0x00, 0x00, 0x00, kind, 0x00, 0x01, 0x00, of_int n]))
        else Ret (DTAERROR_INVALID_PARAMETER, []))"

text \<open>What follows a started session in the three operations on a user.\<close>

definition set_user_pin :: "'d env \<Rightarrow> cstr \<Rightarrow> cstr \<Rightarrow> ('d, u8) devop" where
  "set_user_pin E userid newpassword =
     bind_op (lift_op (getAuth4User userid 10)) (\<lambda>(lastRC, userCPIN).
       if lastRC \<noteq> 0 then finish E lastRC
       else bind_op (get_op (DtaHashPwd E newpassword)) (\<lambda>hash.
         checked E (setTable E userCPIN PIN hash) (finish E 0)))"

definition setPassword :: "'d env \<Rightarrow> cstr \<Rightarrow> cstr \<Rightarrow> cstr \<Rightarrow> ('d, u8) devop" where
  "setPassword E password userid newpassword =
     in_session E (start_uid E OPAL_LOCKINGSP_UID (Some password) OPAL_ADMIN1_UID)
       (set_user_pin E userid newpassword)"

text \<open>The authority a user signs in with: the first seven bytes of the row, then the number.\<close>

definition sum_authority :: "opal_uid \<Rightarrow> u8 \<Rightarrow> bytes" where
  "sum_authority u n = BYTESTRING8 # take 7 (OPALUID u) @ [n]"

definition setNewPassword_SUM :: "'d env \<Rightarrow> cstr \<Rightarrow> cstr \<Rightarrow> cstr \<Rightarrow> ('d, u8) devop" where
  "setNewPassword_SUM E password userid newpassword =
     (let signed_in = (\<lambda>u n. checked E
            (start E OPAL_LOCKINGSP_UID (Some password) (sum_authority u (of_int n)))
            (set_user_pin E userid newpassword))
      in seq_op new_session (
        if mem_prefix (lit ''Admin'') userid
        then bind_op (lift_op (atoi (drop 5 userid))) (signed_in OPAL_ADMIN1_UID)
        else if mem_prefix (lit ''User'') userid
        then bind_op (lift_op (atoi (drop 4 userid))) (signed_in OPAL_USER1_UID)
        else finish E DTAERROR_INVALID_PARAMETER))"

definition enableUser :: "'d env \<Rightarrow> cstr \<Rightarrow> cstr \<Rightarrow> opal_token \<Rightarrow> ('d, u8) devop" where
  "enableUser E password userid status =
     in_session E (start_uid E OPAL_LOCKINGSP_UID (Some password) OPAL_ADMIN1_UID)
       (bind_op (lift_op (getAuth4User userid 0)) (\<lambda>(lastRC, userUID).
          if lastRC \<noteq> 0 then finish E lastRC
          else checked E (setTable_token E userUID 0x05 status) (finish E 0)))"

section \<open>Raw commands\<close>

text \<open>A hexadecimal digit as the code reads it: bit 6 tells letters from digits.\<close>

definition hex_digit :: "u8 \<Rightarrow> u8" where
  "hex_digit c = (if c AND 0x40 \<noteq> 0 then (c AND 0x0f) + 9 else c AND 0x0f)"

fun hex_bytes :: "cstr \<Rightarrow> bytes" where
  "hex_bytes (a # b # cs) = (16 * hex_digit a + hex_digit b) # hex_bytes cs"
| "hex_bytes _ = []"

definition sp_arg :: "cstr \<Rightarrow> opal_uid outcome" where
  "sp_arg sp = obind (atoi sp) uid_of_int"

definition objDump :: "'d env \<Rightarrow> cstr \<Rightarrow> cstr \<Rightarrow> cstr \<Rightarrow> cstr \<Rightarrow> ('d, u8) devop" where
  "objDump E sp auth pass objID =
     (if strnlen auth 32 \<noteq> 16 then ret DTAERROR_INVALID_PARAMETER
      else if strnlen objID 32 \<noteq> 16 then ret DTAERROR_INVALID_PARAMETER
      else let authority = BYTESTRING8 # hex_bytes (take 16 auth);
               object = BYTESTRING8 # hex_bytes (take 16 objID)
        in bind_op (build E
             [reset_uid_method OPAL_AUTHORITY_TABLE GET, changeInvokingUid object,
              addTokens [Tok STARTLIST, Tok STARTLIST, Tok ENDLIST, Tok ENDLIST],
              complete True]) (\<lambda>get.
           seq_op new_session (
           bind_op (lift_op (sp_arg sp)) (\<lambda>spid.
           checked E (start E spid (Some pass) authority) (
           checked E (sendCommand_dev E get) (finish E 0))))))"

definition rawCmd :: "'d env \<Rightarrow> cstr \<Rightarrow> cstr \<Rightarrow> cstr \<Rightarrow> cstr \<Rightarrow> cstr \<Rightarrow> cstr \<Rightarrow> ('d, u8) devop" where
  "rawCmd E sp hexauth pass hexinvokingUID hexmethod hexparms =
     (if strnlen hexauth 32 \<noteq> 16 then ret DTAERROR_INVALID_PARAMETER
      else if strnlen hexinvokingUID 32 \<noteq> 16 then ret DTAERROR_INVALID_PARAMETER
      else if strnlen hexmethod 32 \<noteq> 16 then ret DTAERROR_INVALID_PARAMETER
      else if 1020 < strnlen hexparms 1024 then ret DTAERROR_INVALID_PARAMETER
      else if strnlen hexparms 1024 mod 2 \<noteq> 0 then ret DTAERROR_INVALID_PARAMETER
      else let authority = BYTESTRING8 # hex_bytes (take 16 hexauth);
               invokingUID = BYTESTRING8 # hex_bytes (take 16 hexinvokingUID);
               method = BYTESTRING8 # hex_bytes (take 16 hexmethod);
               parms = hex_bytes (take (strnlen hexparms 1024) hexparms)
        in bind_op (build E
             [reset_uid_vector OPAL_AUTHORITY_TABLE method, changeInvokingUid invokingUID,
              addTokens [Vec parms], complete True]) (\<lambda>cmd.
           seq_op new_session (
           bind_op (lift_op (sp_arg sp)) (\<lambda>spid.
           checked E (start E spid (Some pass) authority) (
           checked E (sendCommand_dev E cmd) (finish E 0))))))"

end
