(* ===== verification/OpalRanges.thy ===== *)
theory OpalRanges
  imports OpalTables
begin

text \<open>
  Common/DtaDevOpal.cpp, second part: the locking ranges. Every operation is a session of its own as
  Admin1, or, in single user mode, as the user the range belongs to.
\<close>

section \<open>Identifiers and value lists\<close>

text \<open>The object of a locking range: 0000080200000001 is global, 00000802000300nn the others.\<close>

definition range_object :: "u8 \<Rightarrow> bytes" where
  "range_object n = (uid_token OPAL_LOCKINGRANGE_GLOBAL)[6 := 0x03, 8 := n]"

definition LR_of :: "u8 \<Rightarrow> bytes" where
  "LR_of lockingrange =
     (if lockingrange \<noteq> 0 then range_object lockingrange else uid_token OPAL_LOCKINGRANGE_GLOBAL)"

definition named :: "opal_token \<Rightarrow> token_arg \<Rightarrow> token_arg list" where
  "named name v = [Tok STARTNAME, Tok name, v, Tok ENDNAME]"

text \<open>The body of a SET: the values, each with its name.\<close>

definition set_values :: "token_arg list \<Rightarrow> token_arg list" where
  "set_values vs = [Tok STARTLIST, Tok STARTNAME, Tok VALUES, Tok STARTLIST] @ vs @
     [Tok ENDLIST, Tok ENDNAME, Tok ENDLIST]"

definition set_call :: "bytes \<Rightarrow> token_arg list \<Rightarrow> (dta_command \<Rightarrow> dta_command outcome) list" where
  "set_call LR vs =
     [reset_uid_method OPAL_AUTHORITY_TABLE SET, changeInvokingUid LR, addTokens (set_values vs),
      complete True]"

section \<open>Status\<close>

record lrStatus =
  lockingrange_num :: u8
  lr_start :: u64
  lr_size :: u64
  RLKEna :: bool
  WLKEna :: bool
  RLocked :: bool
  WLocked :: bool

text \<open>The columns RANGESTART to WRITELOCKED: name and value alternate between list tokens.\<close>

definition read_status :: "u8 \<Rightarrow> dta_response \<Rightarrow> lrStatus outcome" where
  "read_status lockingrange r =
     obind (getUint64 r 4) (\<lambda>s. obind (getUint64 r 8) (\<lambda>l.
     obind (getUint8 r 12) (\<lambda>re. obind (getUint8 r 16) (\<lambda>we.
     obind (getUint8 r 20) (\<lambda>rl. obind (getUint8 r 24) (\<lambda>wl.
       Ret \<lparr>lockingrange_num = lockingrange, lr_start = s, lr_size = l, RLKEna = (re \<noteq> 0),
             WLKEna = (we \<noteq> 0), RLocked = (rl \<noteq> 0), WLocked = (wl \<noteq> 0)\<rparr>))))))"

text \<open>\<^verbatim>\<open>lrStatus_t\<close> as a sum: only a command status of 0 comes with the other fields set.\<close>

definition getLockingRange_status :: "'d env \<Rightarrow> u8 \<Rightarrow> cstr \<Rightarrow> ('d, u8 + lrStatus) devop" where
  "getLockingRange_status E lockingrange password =
     seq_op new_session (
     bind_op (start_uid E OPAL_LOCKINGSP_UID (Some password) OPAL_ADMIN1_UID) (\<lambda>lastRC.
       if lastRC \<noteq> 0 then finish E (Inl lastRC)
       else bind_op (getTable E (LR_of lockingrange) (ucast RANGESTART) (ucast WRITELOCKED)) (\<lambda>lastRC.
         if lastRC \<noteq> 0 then finish E (Inl lastRC)
         else bind_op (get_op (\<lambda>w. getTokenCount (dev_response w))) (\<lambda>n.
           if n < 24 then finish E (Inl DTAERROR_NO_LOCKING_INFO)
           else bind_op (from_response (read_status lockingrange)) (\<lambda>st.
             finish E (Inr st))))))"

definition range_report :: "u32 \<Rightarrow> lrStatus \<Rightarrow> report" where
  "range_report n st = RangeReport n (lr_start st) (lr_size st) (RLKEna st) (WLKEna st)
     (RLocked st) (WLocked st)"

definition printLockingRangeStatus :: "'d env \<Rightarrow> u8 \<Rightarrow> cstr \<Rightarrow> ('d, u8) devop" where
  "printLockingRangeStatus E lockingrange Admin1Password =
     bind_op (getLockingRange_status E lockingrange Admin1Password) (\<lambda>res. case res of
       Inl rc \<Rightarrow> ret rc
     | Inr st \<Rightarrow> seq_op (report (range_report (ucast lockingrange) st)) (ret 0))"

text \<open>The loop of \<^verbatim>\<open>listLockingRanges\<close>: \<open>n\<close> ranges are left, the next one is \<open>i\<close>; \<open>LR\<close> changes from
  the global object to those of the other ranges on the way.\<close>

fun list_loop :: "'d env \<Rightarrow> nat \<Rightarrow> u32 \<Rightarrow> bytes \<Rightarrow> ('d, u8) devop" where
  "list_loop E 0 i LR = finish E 0"
| "list_loop E (Suc n) i LR =
     (let LR1 = (if i \<noteq> 0 then LR[8 := ucast i] else LR)
      in checked E (getTable E LR1 (ucast RANGESTART) (ucast WRITELOCKED))
           (bind_op (from_response (read_status (ucast i))) (\<lambda>st.
              seq_op (report (range_report i st))
                (list_loop E n (i + 1) (LR1[6 := 0x03])))))"

definition listLockingRanges :: "'d env \<Rightarrow> cstr \<Rightarrow> int \<Rightarrow> ('d, u8) devop" where
  "listLockingRanges E password rangeid =
     in_session E (start_uid E OPAL_LOCKINGSP_UID (Some password) OPAL_ADMIN1_UID)
       (checked E (getTable E (uid_token OPAL_LOCKING_INFO_TABLE) (ucast MAXRANGES) (ucast MAXRANGES))
         (bind_op (from_response (\<lambda>r. tokenIs r 4)) (\<lambda>t.
            if t \<noteq> DTA_TOKENID_UINT then finish E DTAERROR_NO_LOCKING_INFO
            else bind_op (from_response (\<lambda>r. getUint32 r 4)) (\<lambda>m.
              list_loop E (unat (m + 1)) 0 (uid_token OPAL_LOCKINGRANGE_GLOBAL)))))"

section \<open>Rekeying\<close>

text \<open>Both rekey operations after the session was started: the key's identifier comes from the
  device and overwrites the invoker of the next command.\<close>

definition rekey_range :: "'d env \<Rightarrow> bytes \<Rightarrow> ('d, u8) devop" where
  "rekey_range E LR =
     checked E (getTable E LR (ucast ACTIVEKEY) (ucast ACTIVEKEY))
       (bind_op (from_response (\<lambda>r. getRawToken r 4)) (\<lambda>key.
          checked E (call_dev E
            [reset_uid_method OPAL_AUTHORITY_TABLE GENKEY, changeInvokingUid key,
             addTokens [Tok STARTLIST, Tok ENDLIST], complete True])
          (finish E 0)))"

definition rekeyLockingRange :: "'d env \<Rightarrow> u8 \<Rightarrow> cstr \<Rightarrow> ('d, u8) devop" where
  "rekeyLockingRange E lockingrange password =
     in_session E (start_uid E OPAL_LOCKINGSP_UID (Some password) OPAL_ADMIN1_UID)
       (rekey_range E (LR_of lockingrange))"

definition rekeyLockingRange_SUM :: "'d env \<Rightarrow> bytes \<Rightarrow> bytes \<Rightarrow> cstr \<Rightarrow> ('d, u8) devop" where
  "rekeyLockingRange_SUM E LR UID password =
     in_session E (start E OPAL_LOCKINGSP_UID (Some password) UID) (rekey_range E LR)"

section \<open>Setting up and configuring\<close>

definition range_values :: "u64 \<Rightarrow> u64 \<Rightarrow> opal_token \<Rightarrow> opal_token \<Rightarrow> token_arg list" where
  "range_values lba_start lba_count lockenabled locked =
     named RANGESTART (Num lba_start) @ named RANGELENGTH (Num lba_count) @
     named READLOCKENABLED (Tok lockenabled) @ named WRITELOCKENABLED (Tok lockenabled) @
     named READLOCKED (Tok locked) @ named WRITELOCKED (Tok locked)"

definition setupLockingRange :: "'d env \<Rightarrow> u8 \<Rightarrow> u64 \<Rightarrow> u64 \<Rightarrow> cstr \<Rightarrow> ('d, u8) devop" where
  "setupLockingRange E lockingrange lba_start lba_count password =
     (if lockingrange < 1 then ret DTAERROR_UNSUPORTED_LOCKING_RANGE
      else check
        (in_session E (start_uid E OPAL_LOCKINGSP_UID (Some password) OPAL_ADMIN1_UID)
          (checked E (call_dev E (set_call (range_object lockingrange)
               (range_values lba_start lba_count OPAL_FALSE OPAL_FALSE)))
            (finish E 0)))
        (check (rekeyLockingRange E lockingrange password) (ret 0)))"

definition setupLockingRange_SUM :: "'d env \<Rightarrow> u8 \<Rightarrow> u64 \<Rightarrow> u64 \<Rightarrow> cstr \<Rightarrow> ('d, u8) devop" where
  "setupLockingRange_SUM E lockingrange lba_start lba_count password =
     (if lockingrange < 1 then ret DTAERROR_UNSUPORTED_LOCKING_RANGE
      else let LR = range_object lockingrange;
               auth = sum_authority OPAL_USER1_UID (lockingrange + 1)
        in check
          (in_session E (start E OPAL_LOCKINGSP_UID (Some password) auth)
            (checked E (call_dev E (set_call LR
                 (range_values lba_start lba_count OPAL_TRUE OPAL_FALSE)))
              (finish E 0)))
          (check (rekeyLockingRange_SUM E LR auth password) (ret 0)))"

definition configureLockingRange :: "'d env \<Rightarrow> u8 \<Rightarrow> u8 \<Rightarrow> cstr \<Rightarrow> ('d, u8) devop" where
  "configureLockingRange E lockingrange enabled password =
     in_session E (start_uid E OPAL_LOCKINGSP_UID (Some password) OPAL_ADMIN1_UID)
       (checked E (call_dev E (set_call (LR_of lockingrange)
          (named READLOCKENABLED (Tok (if enabled AND DTA_READLOCKINGENABLED \<noteq> 0
                                       then OPAL_TRUE else OPAL_FALSE)) @
           named WRITELOCKENABLED (Tok (if enabled AND DTA_WRITELOCKINGENABLED \<noteq> 0
                                        then OPAL_TRUE else OPAL_FALSE)))))
         (finish E 0))"

section \<open>Locking and unlocking\<close>

text \<open>The switch over the locking state: read locked, write locked, and whether the write column is
  left out for the archive user.\<close>

definition locking_state :: "u8 \<Rightarrow> (opal_token \<times> opal_token \<times> bool) option" where
  "locking_state s =
     (if s = READWRITE then Some (OPAL_FALSE, OPAL_FALSE, False)
      else if s = ARCHIVEUNLOCKED then Some (OPAL_FALSE, OPAL_TRUE, True)
      else if s = READONLY then Some (OPAL_FALSE, OPAL_TRUE, False)
      else if s = ARCHIVELOCKED then Some (OPAL_TRUE, OPAL_TRUE, True)
      else if s = LOCKED then Some (OPAL_TRUE, OPAL_TRUE, False)
      else None)"

definition setLockingRange :: "'d env \<Rightarrow> u8 \<Rightarrow> u8 \<Rightarrow> cstr \<Rightarrow> ('d, u8) devop" where
  "setLockingRange E lockingrange lockingstate Admin1Password =
     (case locking_state lockingstate of
        None \<Rightarrow> ret DTAERROR_INVALID_PARAMETER
      | Some (readlocked, writelocked, archiveuser) \<Rightarrow>
          in_session E (start_uid E OPAL_LOCKINGSP_UID (Some Admin1Password) OPAL_ADMIN1_UID)
            (checked E (call_dev E
               [reset_uid_method OPAL_AUTHORITY_TABLE SET, changeInvokingUid (LR_of lockingrange),
                addTokens (set_values (named READLOCKED (Tok readlocked) @
                  (if \<not> archiveuser then named WRITELOCKED (Tok writelocked) else []))),
                completeSpecial True])
              (finish E 0)))"

definition locking_state_SUM :: "u8 \<Rightarrow> (opal_token \<times> opal_token) option" where
  "locking_state_SUM s =
     (if s = READWRITE then Some (OPAL_FALSE, OPAL_FALSE)
      else if s = READONLY then Some (OPAL_FALSE, OPAL_TRUE)
      else if s = LOCKED then Some (OPAL_TRUE, OPAL_TRUE)
      else None)"

definition setLockingRange_SUM :: "'d env \<Rightarrow> u8 \<Rightarrow> u8 \<Rightarrow> cstr \<Rightarrow> ('d, u8) devop" where
  "setLockingRange_SUM E lockingrange lockingstate password =
     (case locking_state_SUM lockingstate of
        None \<Rightarrow> ret DTAERROR_INVALID_PARAMETER
      | Some (readlocked, writelocked) \<Rightarrow>
          in_session E (start E OPAL_LOCKINGSP_UID (Some password)
              (sum_authority OPAL_USER1_UID (lockingrange + 1)))
            (checked E (call_dev E (set_call (LR_of lockingrange)
               (named READLOCKENABLED (Tok OPAL_TRUE) @ named WRITELOCKENABLED (Tok OPAL_TRUE) @
                named READLOCKED (Tok readlocked) @ named WRITELOCKED (Tok writelocked))))
              (finish E 0)))"

definition eraseLockingRange_SUM :: "'d env \<Rightarrow> u8 \<Rightarrow> cstr \<Rightarrow> ('d, u8) devop" where
  "eraseLockingRange_SUM E lockingrange password =
     in_session E (start_uid E OPAL_LOCKINGSP_UID (Some password) OPAL_ADMIN1_UID)
       (checked E (call_dev E
          [reset_uid_method OPAL_AUTHORITY_TABLE ERASE, changeInvokingUid (LR_of lockingrange),
           addTokens [Tok STARTLIST, Tok ENDLIST], complete True])
         (finish E 0))"

text \<open>The two operations of the interface that the Opal SSC does not have: they do nothing and
  report success.\<close>

definition setBandsEnabled :: "int \<Rightarrow> cstr \<Rightarrow> ('d, u8) devop" where
  "setBandsEnabled lockingrange password = ret 0"

definition eraseLockingRange :: "u8 \<Rightarrow> cstr \<Rightarrow> ('d, u8) devop" where
  "eraseLockingRange lockingrange password = ret 0"

end
