(* ===== verification/OpalAdmin.thy ===== *)
theory OpalAdmin
  imports OpalRanges
begin

text \<open>
  Common/DtaDevOpal.cpp, third part: the MBR shadow and its image, the life cycle of the Locking SP,
  reverting, and the set-up flows that chain the other operations.
\<close>

section \<open>MBR shadow\<close>

definition setLockingSPvalue :: "'d env \<Rightarrow> opal_uid \<Rightarrow> opal_token \<Rightarrow> opal_token \<Rightarrow> cstr \<Rightarrow> ('d, u8) devop" where
  "setLockingSPvalue E table_uid name value password =
     in_session E (start_uid E OPAL_LOCKINGSP_UID (Some password) OPAL_ADMIN1_UID)
       (checked E (setTable_token E (uid_token table_uid) name value) (finish E 0))"

definition setMBRDone :: "'d env \<Rightarrow> u8 \<Rightarrow> cstr \<Rightarrow> ('d, u8) devop" where
  "setMBRDone E mbrstate Admin1Password =
     (if mbrstate \<noteq> 0
      then check (setLockingSPvalue E OPAL_MBRCONTROL MBRDONE OPAL_TRUE Admin1Password) (ret 0)
      else check (setLockingSPvalue E OPAL_MBRCONTROL MBRDONE OPAL_FALSE Admin1Password) (ret 0))"

definition setMBREnable :: "'d env \<Rightarrow> u8 \<Rightarrow> cstr \<Rightarrow> ('d, u8) devop" where
  "setMBREnable E mbrstate Admin1Password =
     check (setMBRDone E 1 Admin1Password) (
       if mbrstate \<noteq> 0
       then check (setLockingSPvalue E OPAL_MBRCONTROL MBRENABLE OPAL_TRUE Admin1Password) (ret 0)
       else check (setLockingSPvalue E OPAL_MBRCONTROL MBRENABLE OPAL_FALSE Admin1Password) (ret 0))"

section \<open>The PBA image\<close>

text \<open>The block size: the smaller of the packet and token limits, less the overhead; unsigned, so
  limits below the overhead wrap around.\<close>

definition pba_blockSize :: "'d dta_dev \<Rightarrow> u32" where
  "pba_blockSize w =
     (let b0 = (if of_nat MAX_BUFFER_LENGTH > tperMaxPacket w then tperMaxPacket w
                else of_nat MAX_BUFFER_LENGTH);
          b1 = (if b0 > tperMaxToken w - 4 then tperMaxToken w - 4 else b0)
      in b1 - (of_nat sizeof_OPALHeader + 50))"

definition pba_block :: "'d env \<Rightarrow> u32 \<Rightarrow> bytes \<Rightarrow> ('d, u8) devop" where
  "pba_block E filepos buffer =
     (let blockSize = of_nat (length buffer) :: u32;
          lengthtoken = [0xe2, ucast (drop_bit 16 blockSize AND 0xff),
                         ucast (drop_bit 8 blockSize AND 0xff), ucast (blockSize AND 0xff)]
      in call_dev E
        [reset_uid_method OPAL_MBR SET,
         addTokens [Tok STARTLIST, Tok STARTNAME, Tok WHERE, Num (ucast filepos), Tok ENDNAME,
                    Tok STARTNAME, Tok VALUES, Vec lengthtoken, Vec buffer, Tok ENDNAME,
                    Tok ENDLIST],
         complete True])"

text \<open>
  The loop over the file, from \<open>filepos\<close>: the last block is short. The end of the file never shows
  in the stream's state, since no read goes behind it. A block size of zero never advances.
\<close>

partial_function (option) pba_loop :: "'d env \<Rightarrow> bytes \<Rightarrow> u32 \<Rightarrow> u32 \<Rightarrow> u32 \<Rightarrow> 'd dta_dev \<Rightarrow>
    (u8 outcome \<times> 'd dta_dev) option" where
  "pba_loop E file eofpos filepos blockSize w =
     (if eofpos = filepos then Some (Ret 0, w)
      else let bs = (if eofpos - filepos < blockSize then eofpos - filepos else blockSize)
        in case pba_block E filepos (take (unat bs) (drop (unat filepos) file)) w of
             (Ret rc, w1) \<Rightarrow>
               if rc \<noteq> 0 then Some (Ret rc, w1)
               else pba_loop E file eofpos (filepos + bs) bs
                      (w1\<lparr>console := console w1 @ [ProgressReport (filepos + bs) eofpos bs]\<rparr>)
           | (ExitFail, w1) \<Rightarrow> Some (ExitFail, w1)
           | (Undef, w1) \<Rightarrow> Some (Undef, w1)
           | (Diverge, w1) \<Rightarrow> Some (Diverge, w1))"

definition pba_loop_op :: "'d env \<Rightarrow> bytes \<Rightarrow> u32 \<Rightarrow> u32 \<Rightarrow> u32 \<Rightarrow> ('d, u8) devop" where
  "pba_loop_op E file eofpos filepos blockSize = (\<lambda>w.
     case pba_loop E file eofpos filepos blockSize w of None \<Rightarrow> (Diverge, w) | Some r \<Rightarrow> r)"

text \<open>The size of the file is truncated to 32 bits.\<close>

definition loadPBA :: "'d env \<Rightarrow> cstr \<Rightarrow> cstr \<Rightarrow> ('d, u8) devop" where
  "loadPBA E password filename =
     bind_op (get_op pba_blockSize) (\<lambda>blockSize.
       case file_of E filename of
         None \<Rightarrow> ret DTAERROR_OPEN_ERR
       | Some file \<Rightarrow>
           in_session E (start_uid E OPAL_LOCKINGSP_UID (Some password) OPAL_ADMIN1_UID)
             (checked E (pba_loop_op E file (of_nat (length file)) 0 blockSize)
               (finish E 0)))"

section \<open>Life cycle of the Locking SP\<close>

text \<open>The check both activations make before they change anything.\<close>

definition if_inactive :: "'d env \<Rightarrow> ('d, u8) devop \<Rightarrow> ('d, u8) devop" where
  "if_inactive E k =
     checked E (getTable E (uid_token OPAL_LOCKINGSP_UID) 0x06 0x06)
       (bind_op (from_response (\<lambda>r. obind (getUint8 r 3) (\<lambda>name.
           if name \<noteq> 0x06 then Ret False
           else obind (getUint8 r 4) (\<lambda>value. Ret (value = 0x08))))) (\<lambda>inactive.
          if \<not> inactive then finish E DTAERROR_INVALID_LIFECYCLE else k))"

definition activateLockingSP :: "'d env \<Rightarrow> cstr \<Rightarrow> ('d, u8) devop" where
  "activateLockingSP E password =
     in_session E (start_uid E OPAL_ADMINSP_UID (Some password) OPAL_SID_UID)
       (if_inactive E
         (checked E (call_dev E [reset_uid_method OPAL_LOCKINGSP_UID ACTIVATE,
              addTokens [Tok STARTLIST, Tok ENDLIST], complete True])
           (finish E 0)))"

definition activateLockingSP_SUM :: "'d env \<Rightarrow> u8 \<Rightarrow> cstr \<Rightarrow> ('d, u8) devop" where
  "activateLockingSP_SUM E lockingrange password =
     in_session E (start_uid E OPAL_ADMINSP_UID (Some password) OPAL_SID_UID)
       (if_inactive E
         (checked E (call_dev E [reset_uid_method OPAL_LOCKINGSP_UID ACTIVATE,
              addTokens [Tok STARTLIST, Tok STARTNAME, ShortAtom UINT_3, TinyAtom UINT_06,
                         TinyAtom UINT_00, TinyAtom UINT_00, Tok STARTLIST,
                         Vec (LR_of lockingrange), Tok ENDLIST, Tok ENDNAME, Tok ENDLIST],
              complete True])
           (seq_op (put_op (\<lambda>w. w\<lparr>disk_info := (disk_info w)\<lparr>Locking_lockingEnabled := True\<rparr>\<rparr>))
             (finish E 0))))"

section \<open>Reverting\<close>

text \<open>A revert ends the session on the device; the destructor must not end it again.\<close>

definition revertLockingSP :: "'d env \<Rightarrow> cstr \<Rightarrow> u8 \<Rightarrow> ('d, u8) devop" where
  "revertLockingSP E password keep =
     in_session E (start_uid E OPAL_LOCKINGSP_UID (Some password) OPAL_ADMIN1_UID)
       (checked E (call_dev E [reset_uid_method OPAL_THISSP_UID REVERTSP,
            addTokens ([Tok STARTLIST] @
              (if keep \<noteq> 0 then [Tok STARTNAME, Vec [0x83, 0x06, 0x00, 0x00], Tok OPAL_TRUE, Tok ENDNAME]
               else []) @
              [Tok ENDLIST]),
            complete True])
         (seq_op expectAbort (finish E 0)))"

definition revertTPer :: "'d env \<Rightarrow> cstr \<Rightarrow> u8 \<Rightarrow> u8 \<Rightarrow> ('d, u8) devop" where
  "revertTPer E password PSID AdminSP =
     seq_op new_session (
     seq_op (if PSID \<noteq> 0 then dontHashPwd else ret ()) (
     checked E (start_uid E OPAL_ADMINSP_UID (Some password)
                  (if PSID \<noteq> 0 then OPAL_PSID_UID else OPAL_SID_UID)) (
     bind_op (build E [reset_uid_method OPAL_ADMINSP_UID REVERT,
          addTokens [Tok STARTLIST, Tok ENDLIST], complete True]) (\<lambda>cmd.
     seq_op expectAbort (
     checked E (sendCommand_dev E cmd) (
     finish E 0))))))"

section \<open>Set-up flows\<close>

definition initialSetup :: "'d env \<Rightarrow> cstr \<Rightarrow> ('d, u8) devop" where
  "initialSetup E password =
     check (takeOwnership E password) (
     check (activateLockingSP E password) (
     check (configureLockingRange E 0 DTA_DISABLELOCKING password) (
     check (setLockingRange E 0 READWRITE password) (
     check (setMBRDone E 1 password) (
     check (setMBREnable E 1 password) (
     ret 0))))))"

text \<open>\<^verbatim>\<open>std::to_string\<close> on the numbers 1 to 256.\<close>

definition digit :: "nat \<Rightarrow> u8" where
  "digit n = 0x30 + of_nat (n mod 10)"

definition to_string :: "nat \<Rightarrow> cstr" where
  "to_string n = (if n < 10 then [digit n] else if n < 100 then [digit (n div 10), digit n]
     else [digit (n div 100), digit (n div 10), digit n])"

definition setup_SUM :: "'d env \<Rightarrow> u8 \<Rightarrow> u64 \<Rightarrow> u64 \<Rightarrow> cstr \<Rightarrow> cstr \<Rightarrow> ('d, u8) devop" where
  "setup_SUM E lockingrange lba_start lba_count Admin1Password password =
     (let defaultPW = [];
          userId = lit ''User'' @ to_string (unat lockingrange + 1);
          enable = check (setLockingRange_SUM E lockingrange READWRITE defaultPW)
                     (check (setNewPassword_SUM E defaultPW userId password) (ret 0));
          configured = check (eraseLockingRange_SUM E lockingrange Admin1Password)
            (bind_op (getLockingRange_status E lockingrange Admin1Password) (\<lambda>res. case res of
               Inl rc \<Rightarrow> ret rc
             | Inr st \<Rightarrow>
                 if lba_start \<noteq> lr_start st \<or> lba_count \<noteq> lr_size st
                 then check (setupLockingRange_SUM E lockingrange lba_start lba_count defaultPW) enable
                 else enable))
      in bind_op (get_op disk_info) (\<lambda>d.
        if \<not> Locking d \<or> \<not> SingleUser d then ret DTAERROR_INVALID_COMMAND
        else if Locking_lockingEnabled d \<and> \<not> SingleUser_any d then ret DTAERROR_INVALID_COMMAND
        else if \<not> Locking_lockingEnabled d
        then check (takeOwnership E Admin1Password)
             (check (activateLockingSP_SUM E lockingrange Admin1Password)
             (check (setupLockingRange_SUM E lockingrange lba_start lba_count defaultPW)
              configured))
        else configured))"

end
