(* ===== verification/Client.thy ===== *)
theory Client
  imports Framing OpalAdmin
begin

text \<open>
  The interface between the operations of a device class and the exchange of commands with the disk.
  The locale \<open>op_frame\<close> takes a preorder on device states that holds over the exchange of a well-framed
  command, and carries it along the structure of the operations. \<open>session_ops\<close> adds what the session object
  goes through: its construction, the start of a session, its flags, its deletion; it reaches every
  operation. \<open>session_client\<close> is the special case of a relation that holds over every local update.
\<close>

section \<open>Local updates\<close>

text \<open>What an operation cannot change without asking the disk: everything but its session object,
  the response objects, the limits and the two flags it learned, and what it printed.\<close>

definition core :: "'d dta_dev \<Rightarrow> dev_class \<times> bool \<times> sedutiloutput \<times> bool \<times> drive_kind option \<times>
    opal_disk_info \<times> 'd" where
  "core w = (dev_cls w, no_hash_passwords w, output_format w, isOpen w, drive w,
     (disk_info w)\<lparr>Properties := False, Locking_lockingEnabled := False\<rparr>, disk w)"

definition local_step :: "'d dta_dev \<Rightarrow> 'd dta_dev \<Rightarrow> bool" where
  "local_step w w' \<longleftrightarrow> core w' = core w"

lemma local_updates [simp]:
  "local_step w w"
  "local_step w (w\<lparr>session := s\<rparr>)"
  "local_step w (w\<lparr>dev_response := r\<rparr>)"
  "local_step w (w\<lparr>propertiesResponse := r\<rparr>)"
  "local_step w (w\<lparr>tperMaxPacket := p, tperMaxToken := t\<rparr>)"
  "local_step w (w\<lparr>console := c\<rparr>)"
  "local_step w (w\<lparr>disk_info := (disk_info w)\<lparr>Properties := f\<rparr>\<rparr>)"
  "local_step w (w\<lparr>disk_info := (disk_info w)\<lparr>Locking_lockingEnabled := g\<rparr>\<rparr>)"
  by (simp_all add: local_step_def core_def)

text \<open>The local updates that leave the session object alone.\<close>

definition inner_step :: "'d dta_dev \<Rightarrow> 'd dta_dev \<Rightarrow> bool" where
  "inner_step w w' \<longleftrightarrow> local_step w w' \<and> session w' = session w"

lemma inner_updates:
  "inner_step w w"
  "inner_step w (w\<lparr>dev_response := r\<rparr>)"
  "inner_step w (w\<lparr>propertiesResponse := r\<rparr>)"
  "inner_step w (w\<lparr>tperMaxPacket := p, tperMaxToken := t\<rparr>)"
  "inner_step w (w\<lparr>console := c\<rparr>)"
  "inner_step w (w\<lparr>disk_info := (disk_info w)\<lparr>Properties := f\<rparr>\<rparr>)"
  "inner_step w (w\<lparr>disk_info := (disk_info w)\<lparr>Locking_lockingEnabled := g\<rparr>\<rparr>)"
  by (simp_all add: inner_step_def)

text \<open>The flags of a session can change without its numbers.\<close>

definition keeps_numbers :: "(dta_session \<Rightarrow> dta_session) \<Rightarrow> bool" where
  "keeps_numbers f \<longleftrightarrow> (\<forall>s. TSN (f s) = TSN s \<and> HSN (f s) = HSN s)"

section \<open>The structure of the operations\<close>

locale op_frame =
  fixes E :: "'d env" and R :: "'d dta_dev \<Rightarrow> 'd dta_dev \<Rightarrow> bool"
  assumes transitive: "transp R"
    and reflexive: "reflp R"
    and io: "framed cmd \<Longrightarrow> steps R (sendCommand E cmd resp)"
begin

lemma cl_refl: "R w w"
  by (rule reflpD [OF reflexive])

lemma cl_ret [frame_intros]: "steps R (ret x)" "steps R (lift_op r)" "steps R (get_op f)"
  by (rule steps_pure [OF reflexive])+

lemma cl_bind [frame_intros]:
  "steps R m \<Longrightarrow> (\<And>x. steps R (f x)) \<Longrightarrow> steps R (bind_op m f)"
  by (rule steps_bind [OF transitive])

lemma cl_seq [frame_intros]: "steps R m \<Longrightarrow> steps R k \<Longrightarrow> steps R (seq_op m k)"
  unfolding seq_op_def by (rule cl_bind)

lemma cl_if [frame_intros]: "(b \<Longrightarrow> steps R m) \<Longrightarrow> (\<not> b \<Longrightarrow> steps R n) \<Longrightarrow> steps R (if b then m else n)"
  by simp

lemma cl_check [frame_intros]: "steps R m \<Longrightarrow> steps R k \<Longrightarrow> steps R (check m k)"
  by (rule steps_check [OF reflexive transitive])

lemma cl_check_cleanup [frame_intros]:
  "steps R c \<Longrightarrow> steps R m \<Longrightarrow> steps R k \<Longrightarrow> steps R (check_cleanup c m k)"
  by (rule steps_check_cleanup [OF reflexive transitive])

lemma cl_case_prod [frame_intros]: "(\<And>x y. steps R (f x y)) \<Longrightarrow> steps R (case p of (x, y) \<Rightarrow> f x y)"
  by (simp add: split_beta)

lemma cl_case_option [frame_intros]:
  "steps R m \<Longrightarrow> (\<And>x. steps R (f x)) \<Longrightarrow> steps R (case p of None \<Rightarrow> m | Some x \<Rightarrow> f x)"
  by (simp split: option.split)

lemma cl_case_sum [frame_intros]:
  "(\<And>x. steps R (f x)) \<Longrightarrow> (\<And>y. steps R (g y)) \<Longrightarrow> steps R (case p of Inl x \<Rightarrow> f x | Inr y \<Rightarrow> g y)"
  by (simp split: sum.split)

lemma cl_this_session [frame_intros]: "steps R this_session"
  by (auto simp: steps_def this_session_def cl_refl split: option.split)

lemma cl_authuser [frame_intros]: "steps R authuser"
  unfolding authuser_def by (intro frame_intros)

lemmas cl_sendCommand = io

text \<open>A command that was built and completed is well framed.\<close>

lemma cl_build:
  "(\<And>c. cmd_seq calls (DtaCommand (cmd_addr E)) = Ret c \<Longrightarrow> steps R (f c)) \<Longrightarrow>
   steps R (bind_op (build E calls) f)"
proof (rule stepsI)
  fix w
  assume f: "\<And>c. cmd_seq calls (DtaCommand (cmd_addr E)) = Ret c \<Longrightarrow> steps R (f c)"
  show "R w (snd (bind_op (build E calls) f w))"
  proof (cases "cmd_seq calls (DtaCommand (cmd_addr E))")
    case (Ret c)
    then show ?thesis using stepsD [OF f [OF Ret]] by (simp add: bind_op_def build_def lift_op_def)
  qed (simp_all add: bind_op_def build_def lift_op_def cl_refl)
qed

lemma cl_build3 [frame_intros]:
  "opens g \<Longrightarrow> grows g1 \<Longrightarrow> closes k \<Longrightarrow> (\<And>c. framed c \<Longrightarrow> steps R (f c)) \<Longrightarrow>
   steps R (bind_op (build E [g, g1, k]) f)"
  by (rule cl_build) (blast dest: framed3)

lemma cl_build4 [frame_intros]:
  "opens g \<Longrightarrow> grows g1 \<Longrightarrow> grows g2 \<Longrightarrow> closes k \<Longrightarrow> (\<And>c. framed c \<Longrightarrow> steps R (f c)) \<Longrightarrow>
   steps R (bind_op (build E [g, g1, g2, k]) f)"
  by (rule cl_build) (blast dest: framed4)

lemma cl_authenticate [frame_intros]: "steps R (authenticate E a c)"
  unfolding authenticate_def
  by (intro frame_intros command_shape cl_sendCommand)

end

section \<open>The session object\<close>

locale session_ops = op_frame +
  assumes inner: "inner_step w w' \<Longrightarrow> R w w'"
    and opened: "R w (w\<lparr>session := Some DtaSession\<rparr>)"
    and flags: "keeps_numbers f \<Longrightarrow> steps R (update_session f)"
    and started: "steps R (start E sp c a)"
    and closed: "R w (w\<lparr>session := None\<rparr>)"
begin

lemma cl_put: "(\<And>w. inner_step w (f w)) \<Longrightarrow> steps R (put_op f)"
  by (simp add: steps_def put_op_def inner)

lemma cl_open_close [frame_intros]: "steps R new_session" "steps R (put_op (\<lambda>w. w\<lparr>session := None\<rparr>))"
  by (simp_all add: steps_def new_session_def put_op_def opened closed)

lemma cl_flags [frame_intros]: "steps R dontHashPwd" "steps R expectAbort" "steps R (setProtocol v)"
  unfolding dontHashPwd_def expectAbort_def setProtocol_def by (rule flags, simp add: keeps_numbers_def)+

lemma cl_report [frame_intros]: "steps R (report r)"
  unfolding report_def by (rule cl_put) (rule inner_updates)

lemma cl_sendCommand_dev: "framed cmd \<Longrightarrow> steps R (sendCommand_dev E cmd)"
  unfolding sendCommand_dev_def by (intro frame_intros cl_sendCommand cl_put inner_updates)

lemma cl_call3 [frame_intros]:
  "opens g \<Longrightarrow> grows g1 \<Longrightarrow> closes k \<Longrightarrow> steps R (call_dev E [g, g1, k])"
  unfolding call_dev_def by (intro cl_build3 cl_sendCommand_dev)

lemma cl_call4 [frame_intros]:
  "opens g \<Longrightarrow> grows g1 \<Longrightarrow> grows g2 \<Longrightarrow> closes k \<Longrightarrow> steps R (call_dev E [g, g1, g2, k])"
  unfolding call_dev_def by (intro cl_build4 cl_sendCommand_dev)

lemma cl_start [frame_intros]: "steps R (start E sp c a)"
  by (rule started)

lemma cl_start_uid [frame_intros]: "steps R (start_uid E sp c a)"
  unfolding start_uid_def by (rule cl_start)

lemma cl_start_anon [frame_intros]: "steps R (start_anon E sp)"
  unfolding start_anon_def by (rule cl_start_uid)

lemma grows_addToken [command_shape]: "grows (addToken t)"
  by (rule grows_token)

lemma cl_delete_session [frame_intros]: "steps R (delete_session E)"
  unfolding delete_session_def
  by (intro frame_intros command_shape cl_sendCommand)

end

section \<open>A relation over every local update\<close>

locale session_client = op_frame +
  assumes local: "local_step w w' \<Longrightarrow> R w w'"
begin

lemma local_session: "steps R (update_session f)"
  unfolding update_session_def
  by (intro cl_bind cl_this_session) (simp add: steps_def put_op_def local)

lemma cl_take_numbers: "steps R (take_numbers r)"
  unfolding take_numbers_def by (intro frame_intros local_session)

lemma local_start: "steps R (start E sp c a)"
  unfolding start_def by (intro frame_intros command_shape cl_sendCommand cl_take_numbers)

end

sublocale session_client \<subseteq> session_ops
  by unfold_locales (simp_all add: local inner_step_def local_session local_start)

end
