(* ===== verification/OpalClient.thy ===== *)
theory OpalClient
  imports Client
begin

text \<open>Every operation of the Opal class is a client of \<open>session_ops\<close>.\<close>

context session_ops
begin

lemma cl_finish [frame_intros]: "steps R (finish E rc)"
  unfolding finish_def by (intro frame_intros)

lemma cl_in_session [frame_intros]: "steps R st \<Longrightarrow> steps R k \<Longrightarrow> steps R (in_session E st k)"
  unfolding in_session_def by (intro frame_intros)

lemma cl_checked [frame_intros]: "steps R m \<Longrightarrow> steps R k \<Longrightarrow> steps R (checked E m k)"
  unfolding checked_def by (intro frame_intros)

lemma cl_from_response [frame_intros]: "steps R (from_response f)"
  unfolding from_response_def by (intro frame_intros)

lemma cl_setTable [frame_intros]: "steps R (setTable E t n v)"
  unfolding setTable_def by (intro frame_intros command_shape)

lemma cl_setTable_token [frame_intros]: "steps R (setTable_token E t n v)"
  unfolding setTable_token_def by (rule cl_setTable)

lemma cl_getTable [frame_intros]: "steps R (getTable E t a b)"
  unfolding getTable_def by (intro frame_intros command_shape)

lemma cl_properties [frame_intros]: "steps R (properties E)"
  unfolding properties_def
  by (intro frame_intros command_shape cl_sendCommand cl_put inner_updates)

lemma cl_getDefaultPassword [frame_intros]: "steps R (getDefaultPassword E)"
  unfolding getDefaultPassword_def by (intro frame_intros)

lemma cl_printDefaultPassword [frame_intros]: "steps R (printDefaultPassword E)"
  unfolding printDefaultPassword_def by (intro frame_intros)

lemma cl_setSIDPassword [frame_intros]: "steps R (setSIDPassword E a b c d)"
  unfolding setSIDPassword_def by (intro frame_intros)

lemma cl_takeOwnership [frame_intros]: "steps R (takeOwnership E p)"
  unfolding takeOwnership_def by (intro frame_intros)

lemma cl_set_user_pin [frame_intros]: "steps R (set_user_pin E u p)"
  unfolding set_user_pin_def by (intro frame_intros)

lemma cl_setPassword [frame_intros]: "steps R (setPassword E p u n)"
  unfolding setPassword_def by (intro frame_intros)

lemma cl_setNewPassword_SUM [frame_intros]: "steps R (setNewPassword_SUM E p u n)"
  unfolding setNewPassword_SUM_def Let_def by (intro frame_intros)

lemma cl_enableUser [frame_intros]: "steps R (enableUser E p u s)"
  unfolding enableUser_def by (intro frame_intros)

lemma cl_objDump [frame_intros]: "steps R (objDump E sp a p i)"
  unfolding objDump_def Let_def by (intro frame_intros command_shape cl_sendCommand_dev)

lemma cl_rawCmd [frame_intros]: "steps R (rawCmd E sp a p i m x)"
  unfolding rawCmd_def Let_def by (intro frame_intros command_shape cl_sendCommand_dev)

lemma cl_getLockingRange_status [frame_intros]: "steps R (getLockingRange_status E n p)"
  unfolding getLockingRange_status_def by (intro frame_intros)

lemma cl_printLockingRangeStatus [frame_intros]: "steps R (printLockingRangeStatus E n p)"
  unfolding printLockingRangeStatus_def by (intro frame_intros)

lemma cl_list_loop [frame_intros]: "steps R (list_loop E n i LR)"
  by (induction n arbitrary: i LR)
    (simp add: cl_finish, simp only: list_loop.simps Let_def, intro frame_intros)

lemma cl_listLockingRanges [frame_intros]: "steps R (listLockingRanges E p i)"
  unfolding listLockingRanges_def by (intro frame_intros)

lemma cl_rekey_range [frame_intros]: "steps R (rekey_range E LR)"
  unfolding rekey_range_def by (intro frame_intros command_shape)

lemma cl_rekeyLockingRange [frame_intros]: "steps R (rekeyLockingRange E n p)"
  unfolding rekeyLockingRange_def by (intro frame_intros)

lemma cl_rekeyLockingRange_SUM [frame_intros]: "steps R (rekeyLockingRange_SUM E LR u p)"
  unfolding rekeyLockingRange_SUM_def by (intro frame_intros)

lemma cl_set_call [frame_intros]: "steps R (call_dev E (set_call LR vs))"
  unfolding set_call_def by (intro frame_intros command_shape)

lemma cl_setupLockingRange [frame_intros]: "steps R (setupLockingRange E n a b p)"
  unfolding setupLockingRange_def by (intro frame_intros)

lemma cl_setupLockingRange_SUM [frame_intros]: "steps R (setupLockingRange_SUM E n a b p)"
  unfolding setupLockingRange_SUM_def Let_def by (intro frame_intros)

lemma cl_configureLockingRange [frame_intros]: "steps R (configureLockingRange E n e p)"
  unfolding configureLockingRange_def by (intro frame_intros)

lemma cl_setLockingRange [frame_intros]: "steps R (setLockingRange E n s p)"
  unfolding setLockingRange_def by (intro frame_intros command_shape)

lemma cl_setLockingRange_SUM [frame_intros]: "steps R (setLockingRange_SUM E n s p)"
  unfolding setLockingRange_SUM_def by (intro frame_intros)

lemma cl_eraseLockingRange_SUM [frame_intros]: "steps R (eraseLockingRange_SUM E n p)"
  unfolding eraseLockingRange_SUM_def by (intro frame_intros command_shape)

lemma cl_setLockingSPvalue [frame_intros]: "steps R (setLockingSPvalue E u n v p)"
  unfolding setLockingSPvalue_def by (intro frame_intros)

lemma cl_setMBRDone [frame_intros]: "steps R (setMBRDone E s p)"
  unfolding setMBRDone_def by (intro frame_intros)

lemma cl_setMBREnable [frame_intros]: "steps R (setMBREnable E s p)"
  unfolding setMBREnable_def by (intro frame_intros)

lemma cl_pba_block [frame_intros]: "steps R (pba_block E pos buf)"
  unfolding pba_block_def Let_def by (intro frame_intros command_shape)

lemma pba_loop_rel:
  assumes "pba_loop E img eofpos filepos bs w = Some r"
  shows "R w (snd r)"
proof -
  have "E = E \<longrightarrow> R w (snd r)"
  proof (rule pba_loop.raw_induct [where P = "\<lambda>E' img eofpos filepos bs w r. E' = E \<longrightarrow> R w (snd r)",
        OF _ assms])
    fix rec E' img eofpos filepos bs w r
    assume IH: "\<And>E' img eofpos filepos bs w r. rec E' img eofpos filepos bs w = Some r \<Longrightarrow>
        E' = E \<longrightarrow> R w (snd r)"
      and body: "(if eofpos = filepos then Some (Ret 0, w)
      else let bs = (if eofpos - filepos < bs then eofpos - filepos else bs)
        in case pba_block E' filepos (take (unat bs) (drop (unat filepos) img)) w of
             (Ret rc, w1) \<Rightarrow>
               if rc \<noteq> 0 then Some (Ret rc, w1)
               else rec E' img eofpos (filepos + bs) bs
                      (w1\<lparr>console := console w1 @ [ProgressReport (filepos + bs) eofpos bs]\<rparr>)
           | (ExitFail, w1) \<Rightarrow> Some (ExitFail, w1)
           | (Undef, w1) \<Rightarrow> Some (Undef, w1)
           | (Diverge, w1) \<Rightarrow> Some (Diverge, w1)) = Some r"
    show "E' = E \<longrightarrow> R w (snd r)"
    proof (cases "eofpos = filepos")
      case True
      then have "snd r = w" using body by auto
      then show ?thesis using cl_refl [of w] by simp
    next
      case False
      define b where "b = (if eofpos - filepos < bs then eofpos - filepos else bs)"
      show ?thesis
      proof
        assume E: "E' = E"
        obtain out w1 where step: "pba_block E filepos (take (unat b) (drop (unat filepos) img)) w = (out, w1)"
          by (cases "pba_block E filepos (take (unat b) (drop (unat filepos) img)) w")
        have R1: "R w w1" by (rule steps_result [OF cl_pba_block step])
        let ?w2 = "w1\<lparr>console := console w1 @ [ProgressReport (filepos + b) eofpos b]\<rparr>"
        show "R w (snd r)"
        proof (cases "out = Ret 0")
          case True
          then have "rec E img eofpos (filepos + b) b ?w2 = Some r"
            using body False step by (simp add: E b_def [symmetric] Let_def)
          from IH [OF this] have "R ?w2 (snd r)" by blast
          moreover have "R w1 ?w2" by (rule inner) (rule inner_updates)
          ultimately show ?thesis using R1 transitive by (blast dest: transpD)
        next
          case other: False
          then have "snd r = w1"
            using body False step
            by (cases out) (auto simp: E b_def [symmetric] Let_def split: if_splits)
          then show ?thesis using R1 by simp
        qed
      qed
    qed
  qed
  then show ?thesis by simp
qed

lemma cl_pba_loop [frame_intros]: "steps R (pba_loop_op E img eofpos filepos bs)"
  by (auto simp: steps_def pba_loop_op_def cl_refl pba_loop_rel split: option.split)

lemma cl_loadPBA [frame_intros]: "steps R (loadPBA E p f)"
  unfolding loadPBA_def by (intro frame_intros)

lemma cl_if_inactive [frame_intros]: "steps R k \<Longrightarrow> steps R (if_inactive E k)"
  unfolding if_inactive_def by (intro frame_intros)

lemma cl_activateLockingSP [frame_intros]: "steps R (activateLockingSP E p)"
  unfolding activateLockingSP_def by (intro frame_intros command_shape)

lemma cl_activateLockingSP_SUM [frame_intros]: "steps R (activateLockingSP_SUM E n p)"
  unfolding activateLockingSP_SUM_def
  by (intro frame_intros command_shape cl_put inner_updates)

lemma cl_revertLockingSP [frame_intros]: "steps R (revertLockingSP E p k)"
  unfolding revertLockingSP_def by (intro frame_intros command_shape)

lemma cl_revertTPer [frame_intros]: "steps R (revertTPer E p ps a)"
  unfolding revertTPer_def by (intro frame_intros command_shape cl_sendCommand_dev)

lemma cl_initialSetup [frame_intros]: "steps R (initialSetup E p)"
  unfolding initialSetup_def by (intro frame_intros)

lemma cl_setup_SUM [frame_intros]: "steps R (setup_SUM E n a b p q)"
  unfolding setup_SUM_def Let_def by (intro frame_intros)

end

end
