(* ===== verification/EntTables.thy ===== *)
theory EntTables
  imports OpalTables
begin

text \<open>
  Common/DtaDevEnterprise.cpp, first part: identifiers of bands and band masters, the tables, whose
  columns have names here, the number of ranges, the MSID and the passwords.
\<close>

section \<open>Identifiers\<close>

definition is_NULL_UID :: "bytes \<Rightarrow> bool" where
  "is_NULL_UID v \<longleftrightarrow> length v = 9 \<and> v ! 0 = 0xa8 \<and> v ! 1 = 0x00 \<and> v ! 2 = 0x00 \<and> v ! 3 = 0x00 \<and>
     v ! 4 = 0x00 \<and> v ! 5 = 0x00 \<and> v ! 6 = 0x00 \<and> v ! 7 = 0x00 \<and> v ! 8 = 0x00"

definition set8 :: "bytes \<Rightarrow> bytes" where
  "set8 value = BYTESTRING8 # take 8 value"

text \<open>The row of a band: its number plus one in the last two bytes, as the code masks them.\<close>

definition setband :: "bytes \<Rightarrow> u16 \<Rightarrow> bytes" where
  "setband v i = (let j = i + 1 in
     v[7 := (ucast (drop_bit 8 j) OR v ! 7) AND 0xF0, 8 := ucast j])"

definition user2cpin :: "bytes \<Rightarrow> bytes" where
  "user2cpin src = src[4 := 0x0B]"

definition bandmaster :: "u16 \<Rightarrow> bytes" where
  "bandmaster i = setband (set8 (OPALUID ENTERPRISE_BANDMASTER0_UID)) i"

definition band :: "u16 \<Rightarrow> bytes" where
  "band i = setband (set8 (OPALUID OPAL_LOCKINGRANGE_GLOBAL)) i"

definition erasemaster :: bytes where
  "erasemaster = set8 (OPALUID ENTERPRISE_ERASEMASTER_UID)"

section \<open>Tables\<close>

text \<open>The arguments of an Enterprise Set: an empty selection, then the columns.\<close>

definition ent_columns :: "token_arg list \<Rightarrow> token_arg list" where
  "ent_columns vs = [Tok STARTLIST, Tok STARTLIST, Tok ENDLIST, Tok STARTLIST, Tok STARTLIST] @ vs @
     [Tok ENDLIST, Tok ENDLIST, Tok ENDLIST]"

definition column :: "string \<Rightarrow> token_arg list \<Rightarrow> token_arg list" where
  "column name v = [Tok STARTNAME, Str (lit name)] @ v @ [Tok ENDNAME]"

definition ent_setTable :: "'d env \<Rightarrow> bytes \<Rightarrow> string \<Rightarrow> bytes \<Rightarrow> ('d, u8) devop" where
  "ent_setTable E table name value = call_dev E
     [reset_uid_method OPAL_AUTHORITY_TABLE ESET, changeInvokingUid table,
      addTokens (ent_columns (column name [Vec value])), complete True]"

definition ent_setTable_token :: "'d env \<Rightarrow> bytes \<Rightarrow> string \<Rightarrow> opal_token \<Rightarrow> ('d, u8) devop" where
  "ent_setTable_token E table name value = ent_setTable E table name [value]"

definition ent_getTable :: "'d env \<Rightarrow> bytes \<Rightarrow> string \<Rightarrow> string \<Rightarrow> ('d, u8) devop" where
  "ent_getTable E table startcol endcol = call_dev E
     [reset_uid_method OPAL_AUTHORITY_TABLE EGET, changeInvokingUid table,
      addTokens ([Tok STARTLIST, Tok STARTLIST] @ column ''startColumn'' [Str (lit startcol)] @
                 column ''endColumn'' [Str (lit endcol)] @ [Tok ENDLIST, Tok ENDLIST]),
      complete True]"

text \<open>A Set on a row with the method and the invoker given as tokens.\<close>

definition ent_set_row :: "bytes \<Rightarrow> token_arg list \<Rightarrow> (dta_command \<Rightarrow> dta_command outcome) list" where
  "ent_set_row object vs =
     [reset_vectors object (set8 (OPALMETHOD ESET)), addTokens (ent_columns vs), complete True]"

section \<open>Properties and the MSID\<close>

text \<open>The host properties are sent under a name; the limits in the reply are not read.\<close>

definition ent_properties :: "'d env \<Rightarrow> ('d, u8) devop" where
  "ent_properties E =
     seq_op new_session (
     bind_op (build E
       [reset_uid_method OPAL_SMUID_UID PROPERTIES,
        addTokens ([Tok STARTLIST, Tok STARTNAME, Str (lit ''HostProperties''), Tok STARTLIST] @
          host_property ''MaxComPacketSize'' 2048 @ host_property ''MaxPacketSize'' 2028 @
          host_property ''MaxIndTokenSize'' 1992 @ host_property ''MaxPackets'' 1 @
          host_property ''MaxSubpackets'' 1 @ host_property ''MaxMethods'' 1 @
          [Tok ENDLIST, Tok ENDNAME, Tok ENDLIST]),
        complete True]) (\<lambda>props.
     bind_op (get_op propertiesResponse) (\<lambda>r.
     bind_op (sendCommand E props r) (\<lambda>(lastRC, r').
     seq_op (put_op (\<lambda>w. w\<lparr>propertiesResponse := r'\<rparr>)) (
       if lastRC \<noteq> 0 then ret lastRC
       else seq_op (put_op (\<lambda>w. w\<lparr>disk_info := (disk_info w)\<lparr>Properties := True\<rparr>\<rparr>)) (ret 0))))))"

definition ent_getDefaultPassword :: "'d env \<Rightarrow> ('d, u8) devop" where
  "ent_getDefaultPassword E =
     in_session E (start_anon E OPAL_ADMINSP_UID)
       (checked E (ent_getTable E (uid_token OPAL_C_PIN_MSID) ''PIN'' ''PIN'') (finish E 0))"

text \<open>The MSID is the sixth token of the reply.\<close>

definition msid :: "('d, bytes) devop" where
  "msid = from_response (\<lambda>r. getString r 5)"

definition ent_printDefaultPassword :: "'d env \<Rightarrow> ('d, u8) devop" where
  "ent_printDefaultPassword E =
     check (ent_getDefaultPassword E)
       (bind_op msid (\<lambda>s. seq_op (report (MSIDReport (c_str s))) (ret 0)))"

section \<open>The number of ranges\<close>

text \<open>Both look-ups return a code or the number; the second asks the table of the Opal SSC.\<close>

definition getMaxRangesOpal :: "'d env \<Rightarrow> ('d, u8 + u16) devop" where
  "getMaxRangesOpal E =
     seq_op new_session (
     bind_op (start_anon E ENTERPRISE_LOCKINGSP_UID) (\<lambda>lastRC.
       if lastRC \<noteq> 0 then finish E (Inl lastRC)
       else bind_op (ent_getTable E (set8 (OPALUID OPAL_LOCKING_INFO_TABLE)) ''MaxRanges'' ''MaxRanges'') (\<lambda>lastRC.
         if lastRC \<noteq> 0 then finish E (Inl lastRC)
         else seq_op (delete_session E)
           (bind_op (from_response (\<lambda>r. getUint16 r 5)) (\<lambda>n. ret (Inr n))))))"

definition getMaxRanges :: "'d env \<Rightarrow> ('d, u8 + u16) devop" where
  "getMaxRanges E =
     seq_op new_session (
     bind_op (start_anon E ENTERPRISE_LOCKINGSP_UID) (\<lambda>lastRC.
       if lastRC \<noteq> 0 then finish E (Inl lastRC)
       else bind_op (ent_getTable E (set8 (OPALUID ENTERPRISE_LOCKING_INFO_TABLE)) ''MaxRanges'' ''MaxRanges'') (\<lambda>lastRC.
         if lastRC \<noteq> 0 then seq_op (delete_session E) (getMaxRangesOpal E)
         else seq_op (delete_session E)
           (bind_op (from_response (\<lambda>r. getUint16 r 5)) (\<lambda>n. ret (Inr n))))))"

text \<open>\<^verbatim>\<open>if ((lastRC = getMaxRanges(...)) != 0) return lastRC;\<close> and the use of the number.\<close>

definition with_max_ranges :: "'d env \<Rightarrow> (u16 \<Rightarrow> ('d, u8) devop) \<Rightarrow> ('d, u8) devop" where
  "with_max_ranges E k = bind_op (getMaxRanges E) (\<lambda>res. case res of Inl rc \<Rightarrow> ret rc | Inr n \<Rightarrow> k n)"

text \<open>The bounds check of the operations on one range.\<close>

definition range_in_bounds :: "u8 \<Rightarrow> u16 \<Rightarrow> bool" where
  "range_in_bounds lockingrange MaxRanges \<longleftrightarrow>
     \<not> (MaxRanges = 0 \<or> MaxRanges \<ge> 1024) \<and> \<not> (ucast lockingrange > MaxRanges)"

section \<open>Passwords\<close>

definition ent_setSIDPassword :: "'d env \<Rightarrow> cstr \<Rightarrow> cstr \<Rightarrow> u8 \<Rightarrow> u8 \<Rightarrow> ('d, u8) devop" where
  "ent_setSIDPassword E oldpassword newpassword hasholdpwd hashnewpwd =
     (let user = set8 (OPALUID OPAL_SID_UID);
          usercpin = set8 (OPALUID OPAL_C_PIN_SID);
          set_pin = bind_op (get_op (\<lambda>d. if hashnewpwd \<noteq> 0 then DtaHashPwd E newpassword d
                                         else plain_pin newpassword)) (\<lambda>hash.
             checked E (ent_setTable E usercpin ''PIN'' hash) (finish E 0))
      in if oldpassword = []
         then check (ent_getDefaultPassword E)
           (bind_op msid (\<lambda>defaultPassword.
            seq_op new_session (seq_op dontHashPwd (
            checked E (start E OPAL_ADMINSP_UID (Some (c_str defaultPassword)) user) set_pin))))
         else seq_op new_session (
           seq_op (if hasholdpwd = 0 then dontHashPwd else ret ()) (
           checked E (start E OPAL_ADMINSP_UID (Some oldpassword) user) set_pin)))"

text \<open>Whose password: a band master up to 1023, or the erase master.\<close>

definition ent_user :: "cstr \<Rightarrow> bytes option outcome" where
  "ent_user userid =
     (if 11 > strnlen userid 15 then Ret None
      else if mem_prefix (lit ''BandMaster'') userid
      then obind (atoi (drop 10 userid)) (\<lambda>n.
        let b = of_int n :: u16 in if 1023 < b then Ret None else Ret (Some (bandmaster b)))
      else if mem_prefix (lit ''EraseMaster'') userid then Ret (Some erasemaster)
      else Ret None)"

definition ent_setPassword :: "'d env \<Rightarrow> cstr \<Rightarrow> cstr \<Rightarrow> cstr \<Rightarrow> ('d, u8) devop" where
  "ent_setPassword E password userid newpassword =
     (let change = (\<lambda>user pwd newpwd.
          seq_op new_session (
          seq_op (if password = [] then dontHashPwd else ret ()) (
          checked E (start E ENTERPRISE_LOCKINGSP_UID (Some pwd) user) (
          bind_op (get_op (\<lambda>d. if newpassword = [] then plain_pin newpwd
                               else DtaHashPwd E newpwd d)) (\<lambda>hash.
          checked E (ent_setTable E (user2cpin user) ''PIN'' hash) (finish E 0))))))
      in bind_op (lift_op (ent_user userid)) (\<lambda>u. case u of
           None \<Rightarrow> ret DTAERROR_INVALID_PARAMETER
         | Some user \<Rightarrow>
             if password = [] \<or> newpassword = []
             then check (ent_getDefaultPassword E)
               (bind_op msid (\<lambda>defaultPassword.
                  change user (if password = [] then c_str defaultPassword else password)
                              (if newpassword = [] then c_str defaultPassword else newpassword)))
             else change user password newpassword))"

text \<open>The band masters from \<open>i\<close> on, \<open>n\<close> of them: a failure counts for the first one only. The row
  identifier is changed in place.\<close>

fun init_bandmasters :: "'d env \<Rightarrow> cstr \<Rightarrow> cstr \<Rightarrow> nat \<Rightarrow> u16 \<Rightarrow> bytes \<Rightarrow> ('d, u8) devop" where
  "init_bandmasters E defaultPassword newPassword 0 i user = ret 0"
| "init_bandmasters E defaultPassword newPassword (Suc n) i user =
     (let user' = setband user i;
          next = init_bandmasters E defaultPassword newPassword n (i + 1) user'
      in seq_op new_session (seq_op dontHashPwd (
         bind_op (start E ENTERPRISE_LOCKINGSP_UID (Some defaultPassword) user') (\<lambda>lastRC.
           if lastRC \<noteq> 0
           then seq_op (delete_session E) (if i = 0 then ret lastRC else next)
           else bind_op (get_op (DtaHashPwd E newPassword)) (\<lambda>hash.
             bind_op (ent_setTable E (user2cpin user') ''PIN'' hash) (\<lambda>lastRC.
               if lastRC \<noteq> 0 \<and> i = 0 then finish E lastRC
               else seq_op (delete_session E) next))))))"

definition initLSPUsers :: "'d env \<Rightarrow> cstr \<Rightarrow> cstr \<Rightarrow> ('d, u8) devop" where
  "initLSPUsers E defaultPassword newPassword =
     seq_op new_session (seq_op dontHashPwd (
     checked E (start E ENTERPRISE_LOCKINGSP_UID (Some defaultPassword) erasemaster) (
     bind_op (get_op (DtaHashPwd E newPassword)) (\<lambda>hash.
     checked E (ent_setTable E (user2cpin erasemaster) ''PIN'' hash) (
     seq_op (delete_session E) (
     with_max_ranges E (\<lambda>MaxRanges.
       if MaxRanges = 0 \<or> MaxRanges \<ge> 1024 then ret DTAERROR_UNSUPORTED_LOCKING_RANGE
       else init_bandmasters E defaultPassword newPassword (unat MaxRanges + 1) 0
              (set8 (OPALUID ENTERPRISE_BANDMASTER0_UID)))))))))"

definition ent_takeOwnership :: "'d env \<Rightarrow> cstr \<Rightarrow> ('d, u8) devop" where
  "ent_takeOwnership E newpassword =
     check (ent_getDefaultPassword E)
       (bind_op msid (\<lambda>defaultPassword.
          check (ent_setSIDPassword E (c_str defaultPassword) newpassword 0 1)
            (check (initLSPUsers E (c_str defaultPassword) newpassword) (ret 0))))"

end
