(* ===== verification/EntRanges.thy ===== *)
theory EntRanges
  imports EntTables
begin

text \<open>
  Common/DtaDevEnterprise.cpp, second part: the bands, reverting, erasing, raw commands, and the
  operations of the interface the Enterprise SSC does not have.
\<close>

section \<open>Configuring and rekeying a band\<close>

definition ent_configureLockingRange :: "'d env \<Rightarrow> u8 \<Rightarrow> u8 \<Rightarrow> cstr \<Rightarrow> ('d, u8) devop" where
  "ent_configureLockingRange E lockingrange enabled password =
     in_session E (start E ENTERPRISE_LOCKINGSP_UID (Some password) (bandmaster (ucast lockingrange)))
       (checked E (call_dev E (ent_set_row (band (ucast lockingrange))
          (column ''ReadLockEnabled''
             [Tok (if enabled AND DTA_READLOCKINGENABLED \<noteq> 0 then OPAL_TRUE else OPAL_FALSE)] @
           column ''WriteLockEnabled''
             [Tok (if enabled AND DTA_WRITELOCKINGENABLED \<noteq> 0 then OPAL_TRUE else OPAL_FALSE)] @
           column ''LockOnReset'' [Tok STARTLIST, TinyAtom UINT_00, Tok ENDLIST])))
         (finish E 0))"

definition ent_rekeyLockingRange :: "'d env \<Rightarrow> u8 \<Rightarrow> cstr \<Rightarrow> ('d, u8) devop" where
  "ent_rekeyLockingRange E lockingrange password =
     in_session E (start E ENTERPRISE_LOCKINGSP_UID (Some password) (bandmaster (ucast lockingrange)))
       (checked E (ent_getTable E (band (ucast lockingrange)) ''ActiveKey'' ''ActiveKey'')
         (bind_op (from_response (\<lambda>r. getRawToken r 5)) (\<lambda>ActiveKey.
            if is_NULL_UID ActiveKey then finish E 0
            else checked E (call_dev E
                   [reset_uid_method OPAL_AUTHORITY_TABLE GENKEY, changeInvokingUid ActiveKey,
                    addTokens [Tok STARTLIST, Tok ENDLIST], complete True])
                 (finish E 0))))"

section \<open>Setting up, locking and erasing a band\<close>

definition ent_setupLockingRange :: "'d env \<Rightarrow> u8 \<Rightarrow> u64 \<Rightarrow> u64 \<Rightarrow> cstr \<Rightarrow> ('d, u8) devop" where
  "ent_setupLockingRange E lockingrange lba_start lba_count password =
     with_max_ranges E (\<lambda>MaxRanges.
       if \<not> range_in_bounds lockingrange MaxRanges then ret DTAERROR_UNSUPORTED_LOCKING_RANGE
       else bind_op (build E (ent_set_row (band (ucast lockingrange))
           (column ''RangeStart'' [Num lba_start] @ column ''RangeLength'' [Num lba_count] @
            column ''ReadLockEnabled'' [Tok OPAL_FALSE] @ column ''WriteLockEnabled'' [Tok OPAL_FALSE] @
            column ''ReadLocked'' [Tok OPAL_FALSE] @ column ''WriteLocked'' [Tok OPAL_FALSE] @
            column ''LockOnReset'' [Tok STARTLIST, Tok ENDLIST]))) (\<lambda>set.
         in_session E (start E ENTERPRISE_LOCKINGSP_UID (Some password) (bandmaster (ucast lockingrange)))
           (checked E (sendCommand_dev E set) (finish E 0))))"

definition ent_locking_state :: "u8 \<Rightarrow> opal_token option" where
  "ent_locking_state s =
     (if s = READWRITE then Some OPAL_FALSE
      else if s = READONLY then None
      else if s = LOCKED then Some OPAL_TRUE
      else None)"

definition ent_setLockingRange :: "'d env \<Rightarrow> u8 \<Rightarrow> u8 \<Rightarrow> cstr \<Rightarrow> ('d, u8) devop" where
  "ent_setLockingRange E lockingrange lockingstate password =
     (case ent_locking_state lockingstate of
        None \<Rightarrow> ret DTAERROR_INVALID_PARAMETER
      | Some locked \<Rightarrow>
          with_max_ranges E (\<lambda>MaxRanges.
            if \<not> range_in_bounds lockingrange MaxRanges then ret DTAERROR_UNSUPORTED_LOCKING_RANGE
            else bind_op (build E (ent_set_row (band (ucast lockingrange))
                (column ''WriteLocked'' [Tok locked] @ column ''ReadLocked'' [Tok locked]))) (\<lambda>set.
              in_session E
                (start E ENTERPRISE_LOCKINGSP_UID (Some password) (bandmaster (ucast lockingrange)))
                (checked E (sendCommand_dev E set) (finish E 0)))))"

definition ent_eraseLockingRange :: "'d env \<Rightarrow> u8 \<Rightarrow> cstr \<Rightarrow> ('d, u8) devop" where
  "ent_eraseLockingRange E lockingrange password =
     (let erase = (\<lambda>defaultPassword pwd.
          with_max_ranges E (\<lambda>MaxRanges.
            if \<not> range_in_bounds lockingrange MaxRanges then ret DTAERROR_UNSUPORTED_LOCKING_RANGE
            else bind_op (build E
                [reset_vectors (band (ucast lockingrange)) (set8 (OPALMETHOD ERASE)),
                 addTokens [Tok STARTLIST, Tok ENDLIST], complete True]) (\<lambda>erase.
              seq_op new_session (
              seq_op (if defaultPassword \<noteq> [] then dontHashPwd else ret ()) (
              checked E (start E ENTERPRISE_LOCKINGSP_UID (Some pwd) erasemaster) (
              checked E (sendCommand_dev E erase) (finish E 0)))))))
      in if password = []
         then check (ent_getDefaultPassword E)
           (bind_op msid (\<lambda>defaultPassword. erase defaultPassword (c_str defaultPassword)))
         else erase [] password)"

section \<open>Listing\<close>

text \<open>The columns Name to LockOnReset: each name is followed by its value four tokens on.\<close>

definition band_report :: "u16 \<Rightarrow> dta_response \<Rightarrow> report outcome" where
  "band_report i r =
     obind (getString r 5) (\<lambda>Name. obind (getString r 9) (\<lambda>CommonName.
     obind (getUint64 r 13) (\<lambda>RangeStart. obind (getUint64 r 17) (\<lambda>RangeLength.
     obind (getUint8 r 21) (\<lambda>rle. obind (getUint8 r 25) (\<lambda>wle.
     obind (getUint8 r 29) (\<lambda>rl. obind (getUint8 r 33) (\<lambda>wl.
     obind (tokenIs r 37) (\<lambda>t.
     obind (if t = STARTLIST then obind (tokenIs r 38) (\<lambda>t'. Ret (t' = DTA_TOKENID_UINT))
            else Ret False) (\<lambda>LockOnReset.
       Ret (BandReport i Name CommonName RangeStart RangeLength (rle \<noteq> 0) (wle \<noteq> 0) (rl \<noteq> 0) (wl \<noteq> 0)
              LockOnReset)))))))))))"

text \<open>The loop over the bands: the last code of a session that could not be started, and whether a
  band was listed. A band that is not found counts as neither.\<close>

fun ent_list_loop :: "'d env \<Rightarrow> bytes \<Rightarrow> cstr \<Rightarrow> nat \<Rightarrow> u16 \<Rightarrow> bytes \<Rightarrow> bytes \<Rightarrow> u8 \<Rightarrow> bool \<Rightarrow>
    ('d, u8 \<times> bool) devop" where
  "ent_list_loop E defaultPassword pwd 0 i user table failRC one_succeeded = ret (failRC, one_succeeded)"
| "ent_list_loop E defaultPassword pwd (Suc n) i user table failRC one_succeeded =
     (let user' = setband user i; table' = setband table i;
          next = ent_list_loop E defaultPassword pwd n (i + 1) user' table'
      in seq_op new_session (
         seq_op (if defaultPassword \<noteq> [] then dontHashPwd else ret ()) (
         bind_op (start E ENTERPRISE_LOCKINGSP_UID (Some pwd) user') (\<lambda>curRC.
           if curRC \<noteq> 0 then seq_op (delete_session E) (next curRC one_succeeded)
           else bind_op (ent_getTable E table' ''Name'' ''LockOnReset'') (\<lambda>rc.
             if rc \<noteq> 0 then seq_op (delete_session E) (next failRC one_succeeded)
             else bind_op (from_response (band_report i)) (\<lambda>b.
               seq_op (delete_session E) (seq_op (report b) (next failRC True))))))))"

text \<open>\<^verbatim>\<open>rangeid\<close> is a signed 16-bit number, -1 for all bands.\<close>

definition ent_listLockingRanges :: "'d env \<Rightarrow> cstr \<Rightarrow> int \<Rightarrow> ('d, u8) devop" where
  "ent_listLockingRanges E password rangeid =
     (let bands = (\<lambda>defaultPassword pwd MaxRanges.
          if MaxRanges \<ge> 1024 then ret DTAERROR_UNSUPORTED_LOCKING_RANGE
          else let first = (if rangeid = -1 then 0 else of_int rangeid) :: u16
            in bind_op (ent_list_loop E defaultPassword pwd
                   (if first \<le> MaxRanges then unat (MaxRanges - first) + 1 else 0) first
                   (set8 (OPALUID ENTERPRISE_BANDMASTER0_UID)) (set8 (OPALUID OPAL_LOCKINGRANGE_GLOBAL))
                   0 False) (\<lambda>(failRC, one_succeeded).
                 ret (if rangeid = -1 \<and> \<not> one_succeeded \<or> rangeid \<noteq> -1 then failRC else 0)));
          list = (\<lambda>defaultPassword pwd.
            if rangeid = -1 then with_max_ranges E (bands defaultPassword pwd)
            else bands defaultPassword pwd (of_int rangeid))
      in if password = []
         then check (ent_getDefaultPassword E)
           (bind_op msid (\<lambda>defaultPassword. list defaultPassword (c_str defaultPassword)))
         else list [] password)"

section \<open>Enabling band masters\<close>

fun enable_bands :: "'d env \<Rightarrow> bool \<Rightarrow> cstr \<Rightarrow> nat \<Rightarrow> u16 \<Rightarrow> bytes \<Rightarrow> ('d, u8) devop" where
  "enable_bands E useMSID pwd 0 i object = ret 0"
| "enable_bands E useMSID pwd (Suc n) i object =
     (let object' = setband object i
      in bind_op (build E (ent_set_row object' (column ''Enabled'' [Tok OPAL_TRUE]))) (\<lambda>cmd.
         seq_op new_session (
         seq_op (if useMSID then dontHashPwd else ret ()) (
         bind_op (start E ENTERPRISE_LOCKINGSP_UID (Some pwd) erasemaster) (\<lambda>rc.
         bind_op (if rc = 0 then sendCommand_dev E cmd else ret rc) (\<lambda>lastRC.
         seq_op (delete_session E) (
         if lastRC = 0 then enable_bands E useMSID pwd n (i + 1) object' else ret lastRC)))))))"

definition ent_setBandsEnabled :: "'d env \<Rightarrow> int \<Rightarrow> cstr \<Rightarrow> ('d, u8) devop" where
  "ent_setBandsEnabled E lockingrange password =
     with_max_ranges E (\<lambda>MaxRanges.
       if MaxRanges \<ge> 1024 then ret DTAERROR_UNSUPORTED_LOCKING_RANGE
       else let bands = (\<lambda>lo count.
              let enable = (\<lambda>useMSID pwd. enable_bands E useMSID pwd count lo
                              (set8 (OPALUID ENTERPRISE_BANDMASTER0_UID)))
              in if password \<noteq> [] then enable False password
                 else check (ent_getDefaultPassword E)
                   (bind_op msid (\<lambda>s. enable True (c_str s))))
         in if lockingrange < 0 then bands 0 (unat MaxRanges + 1)
            else if lockingrange > uint MaxRanges then ret DTAERROR_UNSUPORTED_LOCKING_RANGE
            else bands (of_int lockingrange) 1)"

section \<open>Reverting\<close>

definition ent_revertLockingSP :: "'d env \<Rightarrow> cstr \<Rightarrow> u8 \<Rightarrow> ('d, u8) devop" where
  "ent_revertLockingSP E password keep =
     in_session E (start_uid E OPAL_ADMINSP_UID (Some password) OPAL_SID_UID)
       (bind_op (build E [reset_uid_method OPAL_THISSP_UID REVERTSP,
            addTokens ([Tok STARTLIST] @ column ''KeepGlobalRangeKey'' [Num (ucast keep)] @ [Tok ENDLIST]),
            complete True]) (\<lambda>cmd.
          seq_op expectAbort (checked E (sendCommand_dev E cmd) (finish E 0))))"

definition ent_revertTPer :: "'d env \<Rightarrow> cstr \<Rightarrow> u8 \<Rightarrow> u8 \<Rightarrow> ('d, u8) devop" where
  "ent_revertTPer E password PSID AdminSP =
     seq_op new_session (
     seq_op (if PSID \<noteq> 0 then dontHashPwd else ret ()) (
     checked E (start_uid E OPAL_ADMINSP_UID (Some password)
                  (if PSID \<noteq> 0 then OPAL_PSID_UID else OPAL_SID_UID)) (
     bind_op (build E [if AdminSP \<noteq> 0 then reset_uid_method OPAL_ADMINSP_UID REVERT
                       else reset_uid_method OPAL_THISSP_UID REVERTSP,
                       addTokens [Tok STARTLIST, Tok ENDLIST], complete True]) (\<lambda>cmd.
     seq_op expectAbort (
     checked E (sendCommand_dev E cmd) (
     finish E 0))))))"

section \<open>Set-up\<close>

definition ent_initialSetup :: "'d env \<Rightarrow> cstr \<Rightarrow> ('d, u8) devop" where
  "ent_initialSetup E password =
     check (ent_takeOwnership E password) (
     check (ent_setLockingRange E 0 READWRITE password) (
     check (ent_configureLockingRange E 0 (DTA_READLOCKINGENABLED OR DTA_WRITELOCKINGENABLED) password) (
     ret 0)))"

section \<open>Raw commands\<close>

text \<open>Every failure of \<^verbatim>\<open>objDump\<close> is 0xff here; \<^verbatim>\<open>rawCmd\<close> is the one of the Opal class.\<close>

definition ent_objDump :: "'d env \<Rightarrow> cstr \<Rightarrow> cstr \<Rightarrow> cstr \<Rightarrow> cstr \<Rightarrow> ('d, u8) devop" where
  "ent_objDump E sp auth pass objID =
     (let ff = (\<lambda>m k. bind_op m (\<lambda>rc. if rc \<noteq> 0 then finish E 0xff else k))
      in if strnlen auth 32 \<noteq> 16 then ret 0xff
      else if strnlen objID 32 \<noteq> 16 then ret 0xff
      else let authority = BYTESTRING8 # hex_bytes (take 16 auth);
               object = BYTESTRING8 # hex_bytes (take 16 objID)
        in bind_op (build E
             [reset_uid_method OPAL_AUTHORITY_TABLE EGET, changeInvokingUid object,
              addTokens [Tok STARTLIST, Tok STARTLIST, Tok ENDLIST, Tok ENDLIST],
              complete True]) (\<lambda>get.
           seq_op new_session (
           bind_op (lift_op (sp_arg sp)) (\<lambda>spid.
           ff (start E spid (Some pass) authority) (
           ff (sendCommand_dev E get) (finish E 0))))))"

definition ent_rawCmd :: "'d env \<Rightarrow> cstr \<Rightarrow> cstr \<Rightarrow> cstr \<Rightarrow> cstr \<Rightarrow> cstr \<Rightarrow> cstr \<Rightarrow> ('d, u8) devop" where
  "ent_rawCmd E sp hexauth pass hexinvokingUID hexmethod hexparms =
     rawCmd E sp hexauth pass hexinvokingUID hexmethod hexparms"

section \<open>Operations the Enterprise SSC does not have\<close>

definition ent_setup_SUM :: "u8 \<Rightarrow> u64 \<Rightarrow> u64 \<Rightarrow> cstr \<Rightarrow> cstr \<Rightarrow> ('d, u8) devop" where
  "ent_setup_SUM lockingrange lba_start lba_count Admin1Password password = ret 1"
definition ent_setNewPassword_SUM :: "cstr \<Rightarrow> cstr \<Rightarrow> cstr \<Rightarrow> ('d, u8) devop" where
  "ent_setNewPassword_SUM password userid newpassword = ret 0"
definition ent_setMBREnable :: "u8 \<Rightarrow> cstr \<Rightarrow> ('d, u8) devop" where
  "ent_setMBREnable mbrstate Admin1Password = ret 0"
definition ent_setMBRDone :: "u8 \<Rightarrow> cstr \<Rightarrow> ('d, u8) devop" where
  "ent_setMBRDone mbrstate Admin1Password = ret 0"
definition ent_setupLockingRange_SUM :: "u8 \<Rightarrow> u64 \<Rightarrow> u64 \<Rightarrow> cstr \<Rightarrow> ('d, u8) devop" where
  "ent_setupLockingRange_SUM lockingrange lba_start lba_count password = ret 0"
definition ent_printLockingRangeStatus :: "u8 \<Rightarrow> cstr \<Rightarrow> ('d, u8) devop" where
  "ent_printLockingRangeStatus lockingrange Admin1Password = ret 1"
definition ent_setLockingRange_SUM :: "u8 \<Rightarrow> u8 \<Rightarrow> cstr \<Rightarrow> ('d, u8) devop" where
  "ent_setLockingRange_SUM lockingrange lockingstate password = ret DTAERROR_INVALID_PARAMETER"
definition ent_enableUser :: "cstr \<Rightarrow> cstr \<Rightarrow> opal_token \<Rightarrow> ('d, u8) devop" where
  "ent_enableUser password userid status = ret DTAERROR_INVALID_PARAMETER"
definition ent_loadPBA :: "cstr \<Rightarrow> cstr \<Rightarrow> ('d, u8) devop" where
  "ent_loadPBA password filename = ret DTAERROR_INVALID_PARAMETER"
definition ent_activateLockingSP :: "cstr \<Rightarrow> ('d, u8) devop" where
  "ent_activateLockingSP password = ret DTAERROR_INVALID_PARAMETER"
definition ent_activateLockingSP_SUM :: "u8 \<Rightarrow> cstr \<Rightarrow> ('d, u8) devop" where
  "ent_activateLockingSP_SUM lockingrange password = ret DTAERROR_INVALID_PARAMETER"
definition ent_eraseLockingRange_SUM :: "u8 \<Rightarrow> cstr \<Rightarrow> ('d, u8) devop" where
  "ent_eraseLockingRange_SUM lockingrange password = ret DTAERROR_INVALID_PARAMETER"

end
