(* ===== verification/EntClient.thy ===== *)
theory EntClient
  imports OpalClient EntRanges
begin

text \<open>Every operation of the Enterprise class is a client of \<open>session_ops\<close>.\<close>

lemma opens_if [command_shape]: "opens f \<Longrightarrow> opens g \<Longrightarrow> opens (if b then f else g)"
  by simp

context session_ops
begin

section \<open>Tables and look-ups\<close>

lemma cl_ent_setTable [frame_intros]: "steps R (ent_setTable E t n v)"
  unfolding ent_setTable_def by (intro frame_intros command_shape)

lemma cl_ent_setTable_token [frame_intros]: "steps R (ent_setTable_token E t n v)"
  unfolding ent_setTable_token_def by (rule cl_ent_setTable)

lemma cl_ent_getTable [frame_intros]: "steps R (ent_getTable E t a b)"
  unfolding ent_getTable_def by (intro frame_intros command_shape)

lemma cl_ent_properties [frame_intros]: "steps R (ent_properties E)"
  unfolding ent_properties_def
  by (intro frame_intros command_shape cl_sendCommand cl_put inner_updates)

lemma cl_msid [frame_intros]: "steps R msid"
  unfolding msid_def by (rule cl_from_response)

lemma cl_ent_getDefaultPassword [frame_intros]: "steps R (ent_getDefaultPassword E)"
  unfolding ent_getDefaultPassword_def by (intro frame_intros)

lemma cl_ent_printDefaultPassword [frame_intros]: "steps R (ent_printDefaultPassword E)"
  unfolding ent_printDefaultPassword_def by (intro frame_intros)

lemma cl_getMaxRangesOpal [frame_intros]: "steps R (getMaxRangesOpal E)"
  unfolding getMaxRangesOpal_def by (intro frame_intros)

lemma cl_getMaxRanges [frame_intros]: "steps R (getMaxRanges E)"
  unfolding getMaxRanges_def by (intro frame_intros)

lemma cl_with_max_ranges [frame_intros]: "(\<And>n. steps R (k n)) \<Longrightarrow> steps R (with_max_ranges E k)"
  unfolding with_max_ranges_def by (intro frame_intros)

section \<open>Passwords\<close>

lemma cl_ent_setSIDPassword [frame_intros]: "steps R (ent_setSIDPassword E a b c d)"
  unfolding ent_setSIDPassword_def Let_def by (intro frame_intros)

lemma cl_ent_setPassword [frame_intros]: "steps R (ent_setPassword E p u n)"
  unfolding ent_setPassword_def Let_def by (intro frame_intros)

lemma cl_init_bandmasters [frame_intros]: "steps R (init_bandmasters E d p n i u)"
  by (induction n arbitrary: i u)
    (simp add: cl_ret, simp only: init_bandmasters.simps Let_def, intro frame_intros)

lemma cl_initLSPUsers [frame_intros]: "steps R (initLSPUsers E d p)"
  unfolding initLSPUsers_def by (intro frame_intros)

lemma cl_ent_takeOwnership [frame_intros]: "steps R (ent_takeOwnership E p)"
  unfolding ent_takeOwnership_def by (intro frame_intros)

section \<open>Bands\<close>

lemma cl_ent_set_row [frame_intros]: "steps R (call_dev E (ent_set_row b vs))"
  unfolding ent_set_row_def by (intro frame_intros command_shape)

lemma cl_build_row [frame_intros]:
  "(\<And>c. framed c \<Longrightarrow> steps R (f c)) \<Longrightarrow> steps R (bind_op (build E (ent_set_row b vs)) f)"
  unfolding ent_set_row_def by (intro frame_intros command_shape)

lemma cl_ent_configureLockingRange [frame_intros]: "steps R (ent_configureLockingRange E n e p)"
  unfolding ent_configureLockingRange_def by (intro frame_intros)

lemma cl_ent_rekeyLockingRange [frame_intros]: "steps R (ent_rekeyLockingRange E n p)"
  unfolding ent_rekeyLockingRange_def by (intro frame_intros command_shape)

lemma cl_ent_setupLockingRange [frame_intros]: "steps R (ent_setupLockingRange E n a b p)"
  unfolding ent_setupLockingRange_def by (intro frame_intros cl_sendCommand_dev)

lemma cl_ent_setLockingRange [frame_intros]: "steps R (ent_setLockingRange E n s p)"
  unfolding ent_setLockingRange_def by (intro frame_intros cl_sendCommand_dev)

lemma cl_ent_eraseLockingRange [frame_intros]: "steps R (ent_eraseLockingRange E n p)"
  unfolding ent_eraseLockingRange_def Let_def
  by (intro frame_intros command_shape cl_sendCommand_dev)

lemma cl_ent_list_loop [frame_intros]: "steps R (ent_list_loop E d p n i u t f s)"
  by (induction n arbitrary: i u t f s)
    (simp add: cl_ret, simp only: ent_list_loop.simps Let_def, intro frame_intros)

lemma cl_ent_listLockingRanges [frame_intros]: "steps R (ent_listLockingRanges E p i)"
  unfolding ent_listLockingRanges_def Let_def by (intro frame_intros)

lemma cl_enable_bands [frame_intros]: "steps R (enable_bands E m p n i obj)"
  by (induction n arbitrary: i obj)
    (simp add: cl_ret, simp only: enable_bands.simps Let_def, intro frame_intros cl_sendCommand_dev)

lemma cl_ent_setBandsEnabled [frame_intros]: "steps R (ent_setBandsEnabled E n p)"
  unfolding ent_setBandsEnabled_def Let_def by (intro frame_intros)

section \<open>Reverting, set-up and raw commands\<close>

lemma cl_ent_revertLockingSP [frame_intros]: "steps R (ent_revertLockingSP E p k)"
  unfolding ent_revertLockingSP_def by (intro frame_intros command_shape cl_sendCommand_dev)

lemma cl_ent_revertTPer [frame_intros]: "steps R (ent_revertTPer E p ps a)"
  unfolding ent_revertTPer_def by (intro frame_intros command_shape cl_sendCommand_dev)

lemma cl_ent_initialSetup [frame_intros]: "steps R (ent_initialSetup E p)"
  unfolding ent_initialSetup_def by (intro frame_intros)

lemma cl_ent_objDump [frame_intros]: "steps R (ent_objDump E sp a p i)"
  unfolding ent_objDump_def Let_def by (intro frame_intros command_shape cl_sendCommand_dev)

lemma cl_ent_rawCmd [frame_intros]: "steps R (ent_rawCmd E sp a p i m x)"
  unfolding ent_rawCmd_def by (rule cl_rawCmd)

lemma cl_ent_absent [frame_intros]:
  "steps R (ent_setup_SUM n a b p q)" "steps R (ent_setNewPassword_SUM p u q)"
  "steps R (ent_setMBREnable s p)" "steps R (ent_setMBRDone s p)"
  "steps R (ent_setupLockingRange_SUM n a b p)" "steps R (ent_printLockingRangeStatus n p)"
  "steps R (ent_setLockingRange_SUM n s p)" "steps R (ent_enableUser p u t)"
  "steps R (ent_loadPBA p v)" "steps R (ent_activateLockingSP p)"
  "steps R (ent_activateLockingSP_SUM n p)" "steps R (ent_eraseLockingRange_SUM n p)"
  by (simp_all add: ent_setup_SUM_def ent_setNewPassword_SUM_def ent_setMBREnable_def
      ent_setMBRDone_def ent_setupLockingRange_SUM_def ent_printLockingRangeStatus_def
      ent_setLockingRange_SUM_def ent_enableUser_def ent_loadPBA_def ent_activateLockingSP_def
      ent_activateLockingSP_SUM_def ent_eraseLockingRange_SUM_def cl_ret)

end

end
