(* ===== verification/Interface.thy ===== *)
theory Interface
  imports EntClient
begin

text \<open>
  The interface the command line drives: the virtual methods of Common/DtaDev.h as data, the class
  that runs each (Common/DtaDevGeneric.cpp, DtaDevOpal1.cpp, DtaDevOpal2.cpp, DtaDevEnterprise.cpp),
  and the constructors.
\<close>

section \<open>Calls\<close>

datatype dev_call =
    InitialSetup cstr
  | Setup_SUM u8 u64 u64 cstr cstr
  | SetSIDPassword cstr cstr u8 u8
  | SetPassword cstr cstr cstr
  | SetNewPassword_SUM cstr cstr cstr
  | LoadPBA cstr cstr
  | PrintLockingRangeStatus u8 cstr
  | SetLockingRange u8 u8 cstr
  | SetLockingRange_SUM u8 u8 cstr
  | ConfigureLockingRange u8 u8 cstr
  | SetupLockingRange u8 u64 u64 cstr
  | SetupLockingRange_SUM u8 u64 u64 cstr
  | ListLockingRanges cstr int
  | RekeyLockingRange u8 cstr
  | SetBandsEnabled int cstr
  | SetMBRDone u8 cstr
  | SetMBREnable u8 cstr
  | EnableUser cstr cstr opal_token
  | ActivateLockingSP cstr
  | ActivateLockingSP_SUM u8 cstr
  | EraseLockingRange_SUM u8 cstr
  | TakeOwnership cstr
  | RevertLockingSP cstr u8
  | RevertTPer cstr u8 u8
  | EraseLockingRange u8 cstr
  | ObjDump cstr cstr cstr cstr
  | RawCmd cstr cstr cstr cstr cstr cstr
  | PrintDefaultPassword

text \<open>The methods of the Opal classes, which differ in their ComID only.\<close>

fun opal_call :: "'d env \<Rightarrow> dev_call \<Rightarrow> ('d, u8) devop" where
  "opal_call E (InitialSetup a) = initialSetup E a"
| "opal_call E (Setup_SUM a b c d e) = setup_SUM E a b c d e"
| "opal_call E (SetSIDPassword a b c d) = setSIDPassword E a b c d"
| "opal_call E (SetPassword a b c) = setPassword E a b c"
| "opal_call E (SetNewPassword_SUM a b c) = setNewPassword_SUM E a b c"
| "opal_call E (LoadPBA a b) = loadPBA E a b"
| "opal_call E (PrintLockingRangeStatus a b) = printLockingRangeStatus E a b"
| "opal_call E (SetLockingRange a b c) = setLockingRange E a b c"
| "opal_call E (SetLockingRange_SUM a b c) = setLockingRange_SUM E a b c"
| "opal_call E (ConfigureLockingRange a b c) = configureLockingRange E a b c"
| "opal_call E (SetupLockingRange a b c d) = setupLockingRange E a b c d"
| "opal_call E (SetupLockingRange_SUM a b c d) = setupLockingRange_SUM E a b c d"
| "opal_call E (ListLockingRanges a b) = listLockingRanges E a b"
| "opal_call E (RekeyLockingRange a b) = rekeyLockingRange E a b"
| "opal_call E (SetBandsEnabled a b) = setBandsEnabled a b"
| "opal_call E (SetMBRDone a b) = setMBRDone E a b"
| "opal_call E (SetMBREnable a b) = setMBREnable E a b"
| "opal_call E (EnableUser a b c) = enableUser E a b c"
| "opal_call E (ActivateLockingSP a) = activateLockingSP E a"
| "opal_call E (ActivateLockingSP_SUM a b) = activateLockingSP_SUM E a b"
| "opal_call E (EraseLockingRange_SUM a b) = eraseLockingRange_SUM E a b"
| "opal_call E (TakeOwnership a) = takeOwnership E a"
| "opal_call E (RevertLockingSP a b) = revertLockingSP E a b"
| "opal_call E (RevertTPer a b c) = revertTPer E a b c"
| "opal_call E (EraseLockingRange a b) = eraseLockingRange a b"
| "opal_call E (ObjDump a b c d) = objDump E a b c d"
| "opal_call E (RawCmd a b c d e f) = rawCmd E a b c d e f"
| "opal_call E PrintDefaultPassword = printDefaultPassword E"

text \<open>The methods of the Enterprise class.\<close>

fun enterprise_call :: "'d env \<Rightarrow> dev_call \<Rightarrow> ('d, u8) devop" where
  "enterprise_call E (InitialSetup a) = ent_initialSetup E a"
| "enterprise_call E (Setup_SUM a b c d e) = ent_setup_SUM a b c d e"
| "enterprise_call E (SetSIDPassword a b c d) = ent_setSIDPassword E a b c d"
| "enterprise_call E (SetPassword a b c) = ent_setPassword E a b c"
| "enterprise_call E (SetNewPassword_SUM a b c) = ent_setNewPassword_SUM a b c"
| "enterprise_call E (LoadPBA a b) = ent_loadPBA a b"
| "enterprise_call E (PrintLockingRangeStatus a b) = ent_printLockingRangeStatus a b"
| "enterprise_call E (SetLockingRange a b c) = ent_setLockingRange E a b c"
| "enterprise_call E (SetLockingRange_SUM a b c) = ent_setLockingRange_SUM a b c"
| "enterprise_call E (ConfigureLockingRange a b c) = ent_configureLockingRange E a b c"
| "enterprise_call E (SetupLockingRange a b c d) = ent_setupLockingRange E a b c d"
| "enterprise_call E (SetupLockingRange_SUM a b c d) = ent_setupLockingRange_SUM a b c d"
| "enterprise_call E (ListLockingRanges a b) = ent_listLockingRanges E a b"
| "enterprise_call E (RekeyLockingRange a b) = ent_rekeyLockingRange E a b"
| "enterprise_call E (SetBandsEnabled a b) = ent_setBandsEnabled E a b"
| "enterprise_call E (SetMBRDone a b) = ent_setMBRDone a b"
| "enterprise_call E (SetMBREnable a b) = ent_setMBREnable a b"
| "enterprise_call E (EnableUser a b c) = ent_enableUser a b c"
| "enterprise_call E (ActivateLockingSP a) = ent_activateLockingSP a"
| "enterprise_call E (ActivateLockingSP_SUM a b) = ent_activateLockingSP_SUM a b"
| "enterprise_call E (EraseLockingRange_SUM a b) = ent_eraseLockingRange_SUM a b"
| "enterprise_call E (TakeOwnership a) = ent_takeOwnership E a"
| "enterprise_call E (RevertLockingSP a b) = ent_revertLockingSP E a b"
| "enterprise_call E (RevertTPer a b c) = ent_revertTPer E a b c"
| "enterprise_call E (EraseLockingRange a b) = ent_eraseLockingRange E a b"
| "enterprise_call E (ObjDump a b c d) = ent_objDump E a b c d"
| "enterprise_call E (RawCmd a b c d e f) = ent_rawCmd E a b c d e f"
| "enterprise_call E PrintDefaultPassword = ent_printDefaultPassword E"

text \<open>The generic class supports no call.\<close>

definition generic_call :: "dev_call \<Rightarrow> ('d, u8) devop" where
  "generic_call c = ret 0xff"

definition invoke :: "'d env \<Rightarrow> dev_call \<Rightarrow> ('d, u8) devop" where
  "invoke E c = (\<lambda>w. case dev_cls w of
       Generic \<Rightarrow> generic_call c w
     | EnterpriseDev \<Rightarrow> enterprise_call E c w
     | _ \<Rightarrow> opal_call E c w)"

section \<open>Constructors\<close>

definition assert_op :: "('w \<Rightarrow> bool) \<Rightarrow> ('w, unit) op" where
  "assert_op P = bind_op (get_op P) (\<lambda>b. lift_op (if b then Ret () else ExitFail))"

definition DtaDevGeneric :: "'d env \<Rightarrow> cstr \<Rightarrow> ('d, unit) devop" where
  "DtaDevGeneric E devref = DtaDevOS_init E devref"

definition DtaDevOpal1 :: "'d env \<Rightarrow> cstr \<Rightarrow> ('d, unit) devop" where
  "DtaDevOpal1 E devref = seq_op (DtaDevOpal_init E devref) (assert_op isOpal1)"

definition DtaDevOpal2 :: "'d env \<Rightarrow> cstr \<Rightarrow> ('d, unit) devop" where
  "DtaDevOpal2 E devref = seq_op (DtaDevOpal_init E devref) (assert_op isOpal2)"

definition DtaDevEnterprise :: "'d env \<Rightarrow> cstr \<Rightarrow> ('d, unit) devop" where
  "DtaDevEnterprise E devref =
     seq_op (DtaDevOS_init E devref) (seq_op (assert_op isEprise)
       (bind_op (ent_properties E) (\<lambda>_. ret ())))"

section \<open>Every call is a client of the session interface\<close>

context session_ops
begin

lemma cl_opal_call: "steps R (opal_call E c)"
  by (cases c) (simp_all add: frame_intros setBandsEnabled_def eraseLockingRange_def)

lemma cl_enterprise_call: "steps R (enterprise_call E c)"
  by (cases c) (simp_all add: frame_intros)

lemma cl_invoke: "steps R (invoke E c)"
proof (rule stepsI)
  fix w
  show "R w (snd (invoke E c w))"
    using stepsD [OF cl_opal_call] stepsD [OF cl_enterprise_call]
    by (cases "dev_cls w") (simp_all add: invoke_def generic_call_def ret_def cl_refl)
qed

end

end
