(* ===== verification/Options.thy ===== *)
theory Options
  imports Interface
begin

text \<open>
  Common/DtaOptions.cpp: the command line. The chain of \<^verbatim>\<open>BEGIN_OPTION\<close> macros is a table: for each
  command its name, the number of arguments \<^verbatim>\<open>CHECKARGS\<close> wants, and the steps that read them. Positions in
  \<^verbatim>\<open>argv\<close> are kept in 8 bits, as in the code.
\<close>

section \<open>The options\<close>

datatype sedutiloption =
    opt_deadbeef | opt_initialSetup | opt_setSIDPassword | opt_setup_SUM | opt_setAdmin1Pwd |
    opt_setPassword | opt_setPassword_SUM | opt_loadPBAimage | opt_printLockingRangeStatus |
    opt_setLockingRange | opt_revertTPer | opt_revertNoErase | opt_setLockingRange_SUM |
    opt_revertLockingSP | opt_PSIDrevert | opt_PSIDrevertAdminSP |
    opt_yesIreallywanttoERASEALLmydatausingthePSID | opt_enableLockingRange |
    opt_disableLockingRange | opt_readonlyLockingRange | opt_setupLockingRange |
    opt_setupLockingRange_SUM | opt_listLockingRanges | opt_listLockingRange |
    opt_rekeyLockingRange | opt_setBandsEnabled | opt_setBandEnabled | opt_setMBREnable |
    opt_setMBRDone | opt_enableuser | opt_activateLockingSP | opt_activateLockingSP_SUM |
    opt_eraseLockingRange_SUM | opt_query | opt_scan | opt_isValidSED | opt_eraseLockingRange |
    opt_takeOwnership | opt_validatePBKDF2 | opt_objDump | opt_printDefaultPassword | opt_rawCmd

record dta_options =
  o_password :: u8
  o_userid :: u8
  o_newpassword :: u8
  o_pbafile :: u8
  o_device :: u8
  o_action :: sedutiloption
  o_mbrstate :: u8
  o_lockingrange :: u8
  o_lockingstate :: u8
  o_lrstart :: u8
  o_lrlength :: u8
  o_no_hash_passwords :: bool
  o_output_format :: sedutiloutput

definition zero_options :: dta_options where
  "zero_options = \<lparr>o_password = 0, o_userid = 0, o_newpassword = 0, o_pbafile = 0, o_device = 0,
     o_action = opt_deadbeef, o_mbrstate = 0, o_lockingrange = 0, o_lockingstate = 0, o_lrstart = 0,
     o_lrlength = 0, o_no_hash_passwords = False, o_output_format = sedutilNormal\<rparr>"

datatype opt_field = F_password | F_userid | F_newpassword | F_pbafile | F_device | F_mbrstate |
  F_lockingrange | F_lockingstate | F_lrstart | F_lrlength

fun set_field :: "opt_field \<Rightarrow> u8 \<Rightarrow> dta_options \<Rightarrow> dta_options" where
  "set_field F_password v s = s\<lparr>o_password := v\<rparr>"
| "set_field F_userid v s = s\<lparr>o_userid := v\<rparr>"
| "set_field F_newpassword v s = s\<lparr>o_newpassword := v\<rparr>"
| "set_field F_pbafile v s = s\<lparr>o_pbafile := v\<rparr>"
| "set_field F_device v s = s\<lparr>o_device := v\<rparr>"
| "set_field F_mbrstate v s = s\<lparr>o_mbrstate := v\<rparr>"
| "set_field F_lockingrange v s = s\<lparr>o_lockingrange := v\<rparr>"
| "set_field F_lockingstate v s = s\<lparr>o_lockingstate := v\<rparr>"
| "set_field F_lrstart v s = s\<lparr>o_lrstart := v\<rparr>"
| "set_field F_lrlength v s = s\<lparr>o_lrlength := v\<rparr>"

section \<open>The table of commands\<close>

text \<open>What a command does with its arguments: a run of \<^verbatim>\<open>TESTARG\<close>s closed by \<^verbatim>\<open>TESTFAIL\<close>, an
  \<^verbatim>\<open>OPTION_IS\<close>, or arguments that are skipped.\<close>

datatype opt_step =
    TESTARGS opt_field "(string \<times> u8) list"
  | OPTION_IS opt_field
  | SKIP u8

abbreviation range_arg :: opt_step where
  "range_arg \<equiv> TESTARGS F_lockingrange [(''0'', 0), (''1'', 1), (''2'', 2), (''3'', 3), (''4'', 4), (''5'', 5),
     (''6'', 6), (''7'', 7), (''8'', 8), (''9'', 9), (''10'', 10), (''11'', 11), (''12'', 12), (''13'', 13),
     (''14'', 14), (''15'', 15)]"

abbreviation on_off_arg :: opt_step where
  "on_off_arg \<equiv> TESTARGS F_mbrstate [(''ON'', 1), (''on'', 1), (''off'', 0), (''OFF'', 0)]"

abbreviation state_arg :: opt_step where
  "state_arg \<equiv> TESTARGS F_lockingstate [(''RW'', READWRITE), (''rw'', READWRITE), (''RO'', READONLY),
     (''ro'', READONLY), (''LK'', LOCKED), (''lk'', LOCKED)]"

type_synonym command_row = "string \<times> nat \<times> sedutiloption \<times> opt_step list"

definition setup_commands :: "command_row list" where
  "setup_commands = [
     (''initialSetup'', 2, opt_initialSetup, [OPTION_IS F_password, OPTION_IS F_device]),
      (''setSIDPassword'', 3, opt_setSIDPassword, 
        [OPTION_IS F_password, OPTION_IS F_newpassword, OPTION_IS F_device]),
      (''setup_SUM'', 6, opt_setup_SUM, 
        [range_arg, OPTION_IS F_lrstart, OPTION_IS F_lrlength, OPTION_IS F_password, OPTION_IS F_newpassword, OPTION_IS F_device]),
      (''setAdmin1Pwd'', 3, opt_setAdmin1Pwd, 
        [OPTION_IS F_password, OPTION_IS F_newpassword, OPTION_IS F_device]),
      (''loadPBAimage'', 3, opt_loadPBAimage, 
        [OPTION_IS F_password, OPTION_IS F_pbafile, OPTION_IS F_device]),
      (''revertTPer'', 2, opt_revertTPer, [OPTION_IS F_password, OPTION_IS F_device]),
      (''revertNoErase'', 2, opt_revertNoErase, [OPTION_IS F_password, OPTION_IS F_device]),
      (''PSIDrevert'', 2, opt_PSIDrevert, [OPTION_IS F_password, OPTION_IS F_device]),
      (''PSIDrevertAdminSP'', 2, opt_PSIDrevertAdminSP, [OPTION_IS F_password, OPTION_IS F_device]),
      (''yesIreallywanttoERASEALLmydatausingthePSID'', 2, opt_yesIreallywanttoERASEALLmydatausingthePSID, 
        [OPTION_IS F_password, OPTION_IS F_device]),
      (''enableuser'', 2, opt_enableuser, 
        [OPTION_IS F_password, OPTION_IS F_userid, OPTION_IS F_device]),
      (''activateLockingSP'', 2, opt_activateLockingSP, [OPTION_IS F_password, OPTION_IS F_device]),
      (''activateLockingSP_SUM'', 3, opt_activateLockingSP_SUM, 
        [range_arg, OPTION_IS F_password, OPTION_IS F_device]),
      (''eraseLockingRange_SUM'', 3, opt_eraseLockingRange_SUM, 
        [range_arg, OPTION_IS F_password, OPTION_IS F_device]),
      (''query'', 1, opt_query, [OPTION_IS F_device]),
      (''scan'', 0, opt_scan, []),
      (''isValidSED'', 1, opt_isValidSED, [OPTION_IS F_device]),
      (''eraseLockingRange'', 3, opt_eraseLockingRange, 
        [range_arg, OPTION_IS F_password, OPTION_IS F_device]),
      (''takeOwnership'', 2, opt_takeOwnership, [OPTION_IS F_password, OPTION_IS F_device]),
      (''revertLockingSP'', 2, opt_revertLockingSP, [OPTION_IS F_password, OPTION_IS F_device]),
      (''setPassword'', 4, opt_setPassword, 
        [OPTION_IS F_password, OPTION_IS F_userid, OPTION_IS F_newpassword, OPTION_IS F_device]),
      (''setPassword_SUM'', 4, opt_setPassword_SUM, 
        [OPTION_IS F_password, OPTION_IS F_userid, OPTION_IS F_newpassword, OPTION_IS F_device]),
      (''validatePBKDF2'', 0, opt_validatePBKDF2, [])]"

definition locking_commands :: "command_row list" where
  "locking_commands = [
     (''setMBREnable'', 3, opt_setMBREnable, [on_off_arg, OPTION_IS F_password, OPTION_IS F_device]),
      (''setMBRDone'', 3, opt_setMBRDone, [on_off_arg, OPTION_IS F_password, OPTION_IS F_device]),
      (''printLockingRangeStatus'', 3, opt_printLockingRangeStatus, 
        [range_arg, OPTION_IS F_password, OPTION_IS F_device]),
      (''setLockingRange'', 4, opt_setLockingRange, 
        [range_arg, state_arg, OPTION_IS F_password, OPTION_IS F_device]),
      (''setLockingRange_SUM'', 4, opt_setLockingRange_SUM, 
        [range_arg, state_arg, OPTION_IS F_password, OPTION_IS F_device]),
      (''enableLockingRange'', 3, opt_enableLockingRange, 
        [range_arg, OPTION_IS F_password, OPTION_IS F_device]),
      (''disableLockingRange'', 3, opt_disableLockingRange, 
        [range_arg, OPTION_IS F_password, OPTION_IS F_device])]"

definition range_commands :: "command_row list" where
  "range_commands = [
     (''setupLockingRange'', 5, opt_setupLockingRange, 
        [range_arg, OPTION_IS F_lrstart, OPTION_IS F_lrlength, OPTION_IS F_password, OPTION_IS F_device]),
      (''setupLockingRange_SUM'', 5, opt_setupLockingRange_SUM, 
        [range_arg, OPTION_IS F_lrstart, OPTION_IS F_lrlength, OPTION_IS F_password, OPTION_IS F_device]),
      (''readonlyLockingRange'', 3, opt_readonlyLockingRange, 
        [range_arg, OPTION_IS F_password, OPTION_IS F_device]),
      (''listLockingRanges'', 2, opt_listLockingRanges, [OPTION_IS F_password, OPTION_IS F_device]),
      (''listLockingRange'', 3, opt_listLockingRange, 
        [range_arg, OPTION_IS F_password, OPTION_IS F_device]),
      (''rekeyLockingRange'', 3, opt_rekeyLockingRange, 
        [range_arg, OPTION_IS F_password, OPTION_IS F_device]),
      (''setBandsEnabled'', 2, opt_setBandsEnabled, [OPTION_IS F_password, OPTION_IS F_device]),
      (''setBandEnabled'', 3, opt_setBandEnabled, 
        [range_arg, OPTION_IS F_password, OPTION_IS F_device]),
      (''objDump'', 5, opt_objDump, [SKIP 4, OPTION_IS F_device]),
      (''printDefaultPassword'', 1, opt_printDefaultPassword, [OPTION_IS F_device]),
      (''rawCmd'', 7, opt_rawCmd, [SKIP 6, OPTION_IS F_device])]"

definition commands :: "command_row list" where
  "commands = setup_commands @ locking_commands @ range_commands"

section \<open>Parsing\<close>

record parse_state =
  argi :: u8
  baseOptions :: u8
  loggingLevel :: u16
  opts :: dta_options
  outputFormat :: sedutiloutput

definition arg_at :: "cstr list \<Rightarrow> nat \<Rightarrow> cstr outcome" where
  "arg_at argv n = vec_at argv n"

definition char_at :: "cstr \<Rightarrow> nat \<Rightarrow> u8 outcome" where
  "char_at s n = (if n < length s then Ret (s ! n) else if n = length s then Ret 0 else Undef)"

text \<open>\<^verbatim>\<open>&argv[i][2]\<close> as a string.\<close>

definition behind_dashes :: "cstr \<Rightarrow> cstr outcome" where
  "behind_dashes s = (if 2 \<le> length s then Ret (drop 2 s) else Undef)"

text \<open>A step: a code to return, or the state to go on in. The index is advanced in 8 bits.\<close>

fun run_step :: "cstr list \<Rightarrow> opt_step \<Rightarrow> parse_state \<Rightarrow> (u8 + parse_state) outcome" where
  "run_step argv (TESTARGS f lits) s =
     obind (arg_at argv (unat (argi s) + 1)) (\<lambda>a.
       case find (\<lambda>(l, v). strcaseeq (lit l) a) lits of
         None \<Rightarrow> Ret (Inl 1)
       | Some (l, v) \<Rightarrow> Ret (Inr (s\<lparr>opts := set_field f v (opts s), argi := argi s + 1\<rparr>)))"
| "run_step argv (OPTION_IS f) s = Ret (Inr (s\<lparr>argi := argi s + 1, opts := set_field f (argi s + 1) (opts s)\<rparr>))"
| "run_step argv (SKIP n) s = Ret (Inr (s\<lparr>argi := argi s + n\<rparr>))"

fun run_steps :: "cstr list \<Rightarrow> opt_step list \<Rightarrow> parse_state \<Rightarrow> (u8 + parse_state) outcome" where
  "run_steps argv [] s = Ret (Inr s)"
| "run_steps argv (t # ts) s = obind (run_step argv t s) (\<lambda>r. case r of
     Inl rc \<Rightarrow> Ret (Inl rc) | Inr s' \<Rightarrow> run_steps argv ts s')"

definition run_command :: "cstr list \<Rightarrow> cstr \<Rightarrow> parse_state \<Rightarrow> (u8 + parse_state) outcome" where
  "run_command argv a s =
     obind (behind_dashes a) (\<lambda>name.
       case find (\<lambda>(c, _). strcaseeq (lit c) name) commands of
         None \<Rightarrow> Ret (Inl DTAERROR_INVALID_COMMAND)
       | Some (c, args, act, ts) \<Rightarrow>
           if args + unat (baseOptions s) \<noteq> length argv then Ret (Inl 100)
           else run_steps argv ts (s\<lparr>opts := (opts s)\<lparr>o_action := act\<rparr>\<rparr>))"

text \<open>The body of the loop over the arguments.\<close>

definition parse_arg :: "cstr list \<Rightarrow> parse_state \<Rightarrow> (u8 + parse_state) outcome" where
  "parse_arg argv s =
     obind (arg_at argv (unat (argi s))) (\<lambda>a.
       if a = lit ''-h'' \<or> a = lit ''--help'' then Ret (Inl DTAERROR_INVALID_COMMAND)
       else obind (char_at a 1) (\<lambda>c1.
         if c1 = 0x76
         then let level = loggingLevel s + of_nat (length a - 1)
              in Ret (Inr (s\<lparr>baseOptions := baseOptions s + 1,
                             loggingLevel := if level > 7 then 7 else level\<rparr>))
         else if a = lit ''-n''
         then Ret (Inr (s\<lparr>baseOptions := baseOptions s + 1, opts := (opts s)\<lparr>o_no_hash_passwords := True\<rparr>\<rparr>))
         else if a = lit ''-l''
         then Ret (Inr (s\<lparr>baseOptions := baseOptions s + 1,
                          opts := (opts s)\<lparr>o_output_format := sedutilNormal\<rparr>, outputFormat := sedutilNormal\<rparr>))
         else obind (char_at a 0) (\<lambda>c0.
           if \<not> (c0 = 0x2d \<and> c1 = 0x2d) \<and> o_action (opts s) = opt_deadbeef
           then Ret (Inl DTAERROR_INVALID_COMMAND)
           else run_command argv a s)))"

text \<open>The loop: the index is compared with \<^verbatim>\<open>argc\<close> before every round and wraps at 256.\<close>

partial_function (option) parse_loop :: "cstr list \<Rightarrow> parse_state \<Rightarrow> (u8 + parse_state) outcome option" where
  "parse_loop argv s =
     (if unat (argi s) < length argv
      then (case parse_arg argv s of
              Ret (Inr s') \<Rightarrow> parse_loop argv (s'\<lparr>argi := argi s' + 1\<rparr>)
            | r \<Rightarrow> Some r)
      else Some (Ret (Inr s)))"

declare parse_loop.simps [code]

definition initial_parse :: parse_state where
  "initial_parse = \<lparr>argi = 1, baseOptions = 2, loggingLevel = 2, opts = zero_options,
     outputFormat = sedutilReadable\<rparr>"

definition DtaOptions :: "cstr list \<Rightarrow> (u8 + parse_state) outcome" where
  "DtaOptions argv =
     (if 2 > length argv then Ret (Inl DTAERROR_INVALID_COMMAND)
      else case parse_loop argv initial_parse of None \<Rightarrow> Diverge | Some r \<Rightarrow> r)"

section \<open>What an accepted command line looks like\<close>

text \<open>How many arguments a step passes, and what it may set.\<close>

fun step_args :: "opt_step \<Rightarrow> nat" where
  "step_args (SKIP n) = unat n"
| "step_args _ = 1"

abbreviation passed :: "opt_step list \<Rightarrow> nat" where
  "passed ts \<equiv> sum_list (map step_args ts)"

fun is_value :: "opt_field \<Rightarrow> bool" where
  "is_value F_mbrstate = True"
| "is_value F_lockingrange = True"
| "is_value F_lockingstate = True"
| "is_value _ = False"

fun step_ok :: "opt_step \<Rightarrow> bool" where
  "step_ok (TESTARGS f lits) \<longleftrightarrow> is_value f \<and> list_all (\<lambda>(l, v). v \<le> 15) lits"
| "step_ok (OPTION_IS f) \<longleftrightarrow> \<not> is_value f"
| "step_ok (SKIP n) \<longleftrightarrow> True"

text \<open>Every position is an argument, and the values are in their ranges.\<close>

definition in_range :: "nat \<Rightarrow> dta_options \<Rightarrow> bool" where
  "in_range n s \<longleftrightarrow> unat (o_password s) < n \<and> unat (o_userid s) < n \<and> unat (o_newpassword s) < n \<and>
     unat (o_pbafile s) < n \<and> unat (o_device s) < n \<and> unat (o_lrstart s) < n \<and> unat (o_lrlength s) < n \<and>
     o_mbrstate s \<le> 15 \<and> o_lockingrange s \<le> 15 \<and> o_lockingstate s \<le> 15"

lemma commands_ok: "list_all (\<lambda>(c, args, act, ts). list_all step_ok ts \<and> act \<noteq> opt_deadbeef \<and>
    passed ts = (if act = opt_enableuser then 3 else args) \<and> (act = opt_enableuser \<longrightarrow>
      args = 2 \<and> ts = [OPTION_IS F_password, OPTION_IS F_userid, OPTION_IS F_device])) commands"
  unfolding commands_def setup_commands_def locking_commands_def range_commands_def
  by (simp add: word_le_nat_alt)

lemma set_field_in_range:
  "in_range n s \<Longrightarrow> is_value f \<Longrightarrow> v \<le> 15 \<Longrightarrow> in_range n (set_field f v s)"
  "in_range n s \<Longrightarrow> \<not> is_value f \<Longrightarrow> unat v < n \<Longrightarrow> in_range n (set_field f v s)"
  by (cases f; simp add: in_range_def)+

lemma set_field_action [simp]: "o_action (set_field f v s) = o_action s"
  by (cases f) simp_all

lemma case_Inr: "(case r of Inl rc \<Rightarrow> Ret (Inl rc) | Inr x \<Rightarrow> f x) = Ret (Inr y) \<longleftrightarrow>
    (\<exists>x. r = Inr x \<and> f x = Ret (Inr y))"
  by (cases r) auto

lemma find_in: "find P xs = Some x \<Longrightarrow> x \<in> set xs \<and> P x"
  by (induction xs) (auto split: if_splits)

lemma run_TESTARGS:
  assumes "run_step argv (TESTARGS f lits) s = Ret (Inr s')"
  shows "\<exists>l v. (l, v) \<in> set lits \<and> s' = s\<lparr>opts := set_field f v (opts s), argi := argi s + 1\<rparr>"
proof -
  obtain a where a: "arg_at argv (unat (argi s) + 1) = Ret a" using assms by (auto simp: obind_eq_Ret)
  show ?thesis
  proof (cases "find (\<lambda>(l, v). strcaseeq (lit l) a) lits")
    case (Some lv)
    obtain l v where lv: "lv = (l, v)" by (cases lv)
    show ?thesis using assms a Some find_in [OF Some] unfolding lv by (intro exI [of _ l] exI [of _ v]) simp
  qed (use assms a in simp)
qed

lemma run_step_result:
  assumes "run_step argv t s = Ret (Inr s')" "step_ok t" "unat (argi s) + step_args t < length argv"
    and "length argv \<le> 255"
  shows "unat (argi s') = unat (argi s) + step_args t \<and> baseOptions s' = baseOptions s \<and>
    o_action (opts s') = o_action (opts s) \<and>
    (in_range (length argv) (opts s) \<longrightarrow> in_range (length argv) (opts s'))"
proof (cases t)
  case (TESTARGS f lits)
  then obtain l v where lv: "(l, v) \<in> set lits" "s' = s\<lparr>opts := set_field f v (opts s), argi := argi s + 1\<rparr>"
    using run_TESTARGS assms(1) by blast
  moreover have "v \<le> 15" using lv(1) assms(2) TESTARGS by (auto simp: list_all_iff)
  moreover have "unat (argi s + 1) = unat (argi s) + 1"
    using assms(3, 4) TESTARGS by (simp add: unat_word_ariths)
  ultimately show ?thesis using assms(2) TESTARGS set_field_in_range(1) by simp
next
  case (OPTION_IS f)
  then have "s' = s\<lparr>argi := argi s + 1, opts := set_field f (argi s + 1) (opts s)\<rparr>" using assms(1) by simp
  moreover have "unat (argi s + 1) = unat (argi s) + 1"
    using assms(3, 4) OPTION_IS by (simp add: unat_word_ariths)
  ultimately show ?thesis using assms(2, 3) OPTION_IS set_field_in_range(2) by simp
next
  case (SKIP n)
  then have "s' = s\<lparr>argi := argi s + n\<rparr>" using assms(1) by simp
  moreover have "unat (argi s + n) = unat (argi s) + unat n"
    using assms(3, 4) SKIP by (simp add: unat_word_ariths)
  ultimately show ?thesis using SKIP by simp
qed

lemma run_steps_result:
  assumes "run_steps argv ts s = Ret (Inr s')" "list_all step_ok ts" "unat (argi s) + passed ts < length argv"
    and "length argv \<le> 255"
  shows "unat (argi s') = unat (argi s) + passed ts \<and> o_action (opts s') = o_action (opts s) \<and>
    (in_range (length argv) (opts s) \<longrightarrow> in_range (length argv) (opts s'))"
  using assms(1-3)
proof (induction ts arbitrary: s)
  case (Cons t ts)
  then obtain s1 where 1: "run_step argv t s = Ret (Inr s1)" "run_steps argv ts s1 = Ret (Inr s')"
    by (auto simp: obind_eq_Ret case_Inr)
  have "unat (argi s) + step_args t < length argv" "step_ok t" using Cons.prems by simp_all
  note r = run_step_result [OF 1(1) this(2, 1) assms(4)]
  have "list_all step_ok ts" "unat (argi s1) + passed ts < length argv" using Cons.prems r by simp_all
  from Cons.IH [OF 1(2) this] r show ?case by simp
qed simp

definition accepted :: "cstr list \<Rightarrow> dta_options \<Rightarrow> bool" where
  "accepted argv s \<longleftrightarrow> (if o_action s = opt_enableuser then unat (o_device s) = length argv
     else in_range (length argv) s)"

text \<open>While only flags were seen, the number of arguments seen is the number the next command counts
  on.\<close>

definition flags_only :: "cstr list \<Rightarrow> parse_state \<Rightarrow> bool" where
  "flags_only argv s \<longleftrightarrow> o_action (opts s) = opt_deadbeef \<and> in_range (length argv) (opts s) \<and>
     unat (baseOptions s) = unat (argi s) + 1"

lemma run_command_row:
  assumes "run_command argv a s = Ret (Inr s')"
  shows "\<exists>c args act ts. (c, args, act, ts) \<in> set commands \<and> args + unat (baseOptions s) = length argv \<and>
    run_steps argv ts (s\<lparr>opts := (opts s)\<lparr>o_action := act\<rparr>\<rparr>) = Ret (Inr s')"
proof -
  obtain name where name: "behind_dashes a = Ret name" using assms by (auto simp: run_command_def obind_eq_Ret)
  show ?thesis
  proof (cases "find (\<lambda>(c, _). strcaseeq (lit c) name) commands")
    case (Some row)
    obtain c args act ts where row: "row = (c, args, act, ts)" by (cases row)
    show ?thesis using assms name Some find_in [OF Some] unfolding row
      by (intro exI [of _ c] exI [of _ args] exI [of _ act] exI [of _ ts]) (simp add: run_command_def split: if_splits)
  qed (use assms name in \<open>simp add: run_command_def\<close>)
qed

lemma run_command_result:
  assumes run: "run_command argv a s = Ret (Inr s')" and s: "flags_only argv s"
    and argv: "length argv \<le> 254" "unat (argi s) < length argv"
  shows "accepted argv (opts s') \<and> length argv \<le> unat (argi s' + 1)"
proof -
  obtain c args act ts where row: "(c, args, act, ts) \<in> set commands"
    and n: "args + unat (baseOptions s) = length argv"
    and st: "run_steps argv ts (s\<lparr>opts := (opts s)\<lparr>o_action := act\<rparr>\<rparr>) = Ret (Inr s')"
    using run_command_row [OF run] by blast
  have base: "unat (baseOptions s) = unat (argi s) + 1" using s by (simp add: flags_only_def)
  have ok: "list_all step_ok ts \<and> act \<noteq> opt_deadbeef \<and>
    passed ts = (if act = opt_enableuser then 3 else args) \<and> (act = opt_enableuser \<longrightarrow>
      args = 2 \<and> ts = [OPTION_IS F_password, OPTION_IS F_userid, OPTION_IS F_device])"
    using commands_ok row unfolding list_all_iff by fastforce
  have inr: "in_range (length argv) (opts (s\<lparr>opts := (opts s)\<lparr>o_action := act\<rparr>\<rparr>))"
    using s by (simp add: flags_only_def in_range_def)
  show ?thesis
  proof (cases "act = opt_enableuser")
    case True
    have i: "unat (argi s) + 3 = length argv" using n base ok True by simp
    have "unat (argi s + 3) = unat (argi s) + 3" "unat (argi s + 4) = unat (argi s) + 4"
      using i argv(1) by (simp_all add: unat_word_ariths)
    moreover have "o_action (opts s') = act \<and> o_device (opts s') = argi s + 3 \<and> argi s' = argi s + 3"
      using st ok True by (auto simp: add.assoc)
    ultimately show ?thesis using i True by (simp add: accepted_def add.assoc)
  next
    case False
    have lt: "unat (argi (s\<lparr>opts := (opts s)\<lparr>o_action := act\<rparr>\<rparr>)) + passed ts < length argv"
      using n base ok False by simp
    have "length argv \<le> 255" using argv(1) by simp
    from run_steps_result [OF st _ lt this] ok inr False n base
    have "unat (argi s') + 1 = length argv" "o_action (opts s') = act" "in_range (length argv) (opts s')"
      by simp_all
    moreover from this(1) argv(1) have "unat (argi s' + 1) = unat (argi s') + 1"
      by (simp add: unat_word_ariths)
    ultimately show ?thesis using False by (simp add: accepted_def)
  qed
qed

lemma parse_arg_result:
  assumes run: "parse_arg argv s = Ret (Inr s')" and s: "flags_only argv s"
    and argv: "length argv \<le> 254" "unat (argi s) < length argv"
  shows "flags_only argv (s'\<lparr>argi := argi s' + 1\<rparr>) \<and> argi s' = argi s \<or>
    accepted argv (opts s') \<and> length argv \<le> unat (argi s' + 1)"
proof -
  have base: "unat (baseOptions s) = unat (argi s) + 1" using s by (simp add: flags_only_def)
  then have w: "unat (baseOptions s + 1) = unat (baseOptions s) + 1" "unat (argi s + 1) = unat (argi s) + 1"
    using argv by (simp_all add: unat_word_ariths)
  have "(baseOptions s' = baseOptions s + 1 \<and> argi s' = argi s \<and> (\<exists>b m. opts s' = (opts s)\<lparr>o_no_hash_passwords := b,
      o_output_format := m\<rparr>)) \<or> (\<exists>a. run_command argv a s = Ret (Inr s'))"
  proof -
    obtain a c1 where a: "arg_at argv (unat (argi s)) = Ret a" "a \<noteq> lit ''-h''" "a \<noteq> lit ''--help''" "char_at a 1 = Ret c1"
      using run by (auto simp: parse_arg_def obind_eq_Ret split: if_splits)
    note run = run [unfolded parse_arg_def a(1) obind.simps, simplified a]
    have o: "\<exists>b m. opts s = (opts s)\<lparr>o_no_hash_passwords := b, o_output_format := m\<rparr>"
      by (rule exI [of _ "o_no_hash_passwords (opts s)"], rule exI [of _ "o_output_format (opts s)"]) simp
    consider "c1 = 0x76" | "c1 \<noteq> 0x76" "a = lit ''-n''" | "c1 \<noteq> 0x76" "a \<noteq> lit ''-n''" "a = lit ''-l''"
      | "c1 \<noteq> 0x76" "a \<noteq> lit ''-n''" "a \<noteq> lit ''-l''" by blast
    then show ?thesis
    proof cases
      case 1
      then show ?thesis using run o by (auto simp: Let_def)
    next
      case 2
      then have "s' = s\<lparr>baseOptions := baseOptions s + 1, opts := (opts s)\<lparr>o_no_hash_passwords := True\<rparr>\<rparr>"
        using run by simp
      moreover have "(opts s)\<lparr>o_no_hash_passwords := True\<rparr> =
          (opts s)\<lparr>o_no_hash_passwords := True, o_output_format := o_output_format (opts s)\<rparr>" by simp
      ultimately show ?thesis by (metis (no_types) parse_state.select_convs parse_state.surjective parse_state.update_convs)
    next
      case 3
      then have "s' = s\<lparr>baseOptions := baseOptions s + 1, opts := (opts s)\<lparr>o_output_format := sedutilNormal\<rparr>,
          outputFormat := sedutilNormal\<rparr>" using run by simp
      moreover have "(opts s)\<lparr>o_output_format := sedutilNormal\<rparr> =
          (opts s)\<lparr>o_no_hash_passwords := o_no_hash_passwords (opts s), o_output_format := sedutilNormal\<rparr>" by simp
      ultimately show ?thesis by (metis (no_types) parse_state.select_convs parse_state.surjective parse_state.update_convs)
    next
      case 4
      then show ?thesis using run by (auto simp: obind_eq_Ret split: if_splits)
    qed
  qed
  then show ?thesis
  proof
    assume a: "baseOptions s' = baseOptions s + 1 \<and> argi s' = argi s \<and> (\<exists>b m. opts s' = (opts s)\<lparr>o_no_hash_passwords := b,
      o_output_format := m\<rparr>)"
    then have "in_range (length argv) (opts s') \<and> o_action (opts s') = opt_deadbeef"
      using s by (auto simp: flags_only_def in_range_def)
    with a w base show ?thesis by (simp add: flags_only_def)
  qed (use run_command_result [OF _ s argv] in blast)
qed

text \<open>The loop ends, and what it accepts is in range.\<close>

lemma obind_not_Diverge: "r \<noteq> Diverge \<Longrightarrow> (\<And>x. f x \<noteq> Diverge) \<Longrightarrow> obind r f \<noteq> Diverge"
  by (cases r) auto

lemma if_not_Diverge: "a \<noteq> Diverge \<Longrightarrow> b \<noteq> Diverge \<Longrightarrow> (if c then a else b) \<noteq> Diverge"
  by simp

lemma run_step_not_Diverge: "run_step argv t s \<noteq> Diverge"
  by (cases t) (auto intro!: obind_not_Diverge simp: arg_at_def vec_at_def split: option.split)

lemma run_steps_not_Diverge: "run_steps argv ts s \<noteq> Diverge"
proof (induction ts arbitrary: s)
  case (Cons t ts)
  then show ?case
    unfolding run_steps.simps by (intro obind_not_Diverge run_step_not_Diverge) (auto split: sum.split)
qed simp

lemma parse_arg_not_Diverge: "parse_arg argv s \<noteq> Diverge"
proof -
  have "run_command argv a s \<noteq> Diverge" for a
    unfolding run_command_def
    by (intro obind_not_Diverge) (auto simp: behind_dashes_def run_steps_not_Diverge split: option.split)
  moreover have "char_at a n \<noteq> Diverge" "arg_at argv n \<noteq> Diverge" for a n
    by (simp_all add: char_at_def arg_at_def vec_at_def)
  ultimately show ?thesis
    unfolding parse_arg_def Let_def by (intro obind_not_Diverge if_not_Diverge) simp_all
qed

lemma parse_loop_result:
  assumes "length argv \<le> 254" "flags_only argv s"
  shows "\<exists>r. parse_loop argv s = Some r \<and> r \<noteq> Diverge \<and> (\<forall>s'. r = Ret (Inr s') \<longrightarrow> accepted argv (opts s'))"
  using assms(2)
proof (induction "length argv - unat (argi s)" arbitrary: s rule: less_induct)
  case less
  show ?case
  proof (cases "unat (argi s) < length argv")
    case False
    then show ?thesis
      using less.prems by (subst parse_loop.simps) (simp add: flags_only_def accepted_def)
  next
    case lt: True
    show ?thesis
    proof (cases "\<exists>s'. parse_arg argv s = Ret (Inr s')")
      case False
      then show ?thesis using lt parse_arg_not_Diverge [of argv s]
        by (subst parse_loop.simps) (auto split: outcome.split sum.split)
    next
      case True
      then obtain s' where s': "parse_arg argv s = Ret (Inr s')" by blast
      let ?s1 = "s'\<lparr>argi := argi s' + 1\<rparr>"
      have eq: "parse_loop argv s = parse_loop argv ?s1" using lt s' by (subst parse_loop.simps) simp
      from parse_arg_result [OF s' less.prems assms(1) lt] show ?thesis
      proof
        assume a: "flags_only argv ?s1 \<and> argi s' = argi s"
        then have f: "flags_only argv ?s1" by blast
        from a have "unat (argi ?s1) = unat (argi s) + 1" using lt assms(1) by (simp add: unat_word_ariths)
        then have "length argv - unat (argi ?s1) < length argv - unat (argi s)" using lt by simp
        from less.hyps [OF this f] show ?thesis unfolding eq .
      next
        assume "accepted argv (opts s') \<and> length argv \<le> unat (argi s' + 1)"
        then show ?thesis unfolding eq by (subst parse_loop.simps) simp
      qed
    qed
  qed
qed

lemma flags_only_initial: "2 \<le> length argv \<Longrightarrow> flags_only argv initial_parse"
  by (auto simp: flags_only_def initial_parse_def zero_options_def in_range_def)

lemma DtaOptions_result:
  assumes "length argv \<le> 254" "DtaOptions argv = Ret (Inr s)"
  shows "accepted argv (opts s) \<and> 2 \<le> length argv"
proof -
  have 2: "2 \<le> length argv" using assms(2) by (auto simp: DtaOptions_def split: if_splits)
  with parse_loop_result [OF assms(1) flags_only_initial] assms(2) show ?thesis
    by (fastforce simp: DtaOptions_def)
qed

lemma DtaOptions_ends: "length argv \<le> 254 \<Longrightarrow> DtaOptions argv \<noteq> Diverge"
  using parse_loop_result [OF _ flags_only_initial, of argv] by (cases "2 \<le> length argv") (auto simp: DtaOptions_def)

end
