(* ===== verification/Listing.thy ===== *)
theory Listing
  imports Interface
begin

text \<open>
  The listings, character by character: the \<^verbatim>\<open>puke\<close> methods of Common/DtaDev.cpp, DtaDevOpal.cpp and
  DtaDevEnterprise.cpp. Bytes of strings the device gave are printed up to their first NUL.
\<close>

section \<open>Numbers and strings\<close>

fun decimal :: "nat \<Rightarrow> string" where
  "decimal n = (if n < 10 then [char_of (n + 48)] else decimal (n div 10) @ [char_of (n mod 10 + 48)])"

declare decimal.simps [simp del]

text \<open>Lower-case hexadecimal digits, and \<^verbatim>\<open>HEXON(w)\<close>: the prefix and zeros up to the width.\<close>

definition hex_char :: "nat \<Rightarrow> char" where
  "hex_char d = char_of (if d < 10 then d + 48 else d + 87)"

fun hexadecimal :: "nat \<Rightarrow> string" where
  "hexadecimal n = (if n < 16 then [hex_char n] else hexadecimal (n div 16) @ [hex_char (n mod 16)])"

declare hexadecimal.simps [simp del]

definition hexon :: "nat \<Rightarrow> nat \<Rightarrow> string" where
  "hexon w n = ''0x'' @ replicate (w - length (hexadecimal n)) (CHR ''0'') @ hexadecimal n"

definition text_of :: "bytes \<Rightarrow> string" where
  "text_of b = map (\<lambda>x. char_of (unat x)) (c_str b)"

definition yes_no :: "bool \<Rightarrow> string" where
  "yes_no b = (if b then ''Y'' else ''N'')"

definition endl :: string where
  "endl = [CHR 0x0A]"

section \<open>DtaDev::puke\<close>

definition device_type_text :: "dta_device_type \<Rightarrow> string" where
  "device_type_text t = (case t of
       DEVICE_TYPE_ATA \<Rightarrow> '' ATA '' | DEVICE_TYPE_SAS \<Rightarrow> '' SAS '' | DEVICE_TYPE_USB \<Rightarrow> '' USB ''
     | DEVICE_TYPE_NVME \<Rightarrow> '' NVMe '' | DEVICE_TYPE_OTHER \<Rightarrow> '' OTHER '')"

definition tper_text :: "opal_disk_info \<Rightarrow> string" where
  "tper_text d = (if \<not> TPer d then [] else
     ''TPer function ('' @ hexon 4 0x0001 @ '')'' @ endl @
     ''    ACKNAK = '' @ yes_no (TPer_ACKNACK d) @
     '', ASYNC = '' @ (if TPer_async d then ''Y, '' else ''N. '') @
     ''BufferManagement = '' @ yes_no (TPer_bufferMgt d) @
     '', comIDManagement  = '' @ yes_no (TPer_comIDMgt d) @
     '', Streaming = '' @ yes_no (TPer_streaming d) @
     '', SYNC = '' @ yes_no (TPer_sync d) @ endl)"

definition locking_text :: "opal_disk_info \<Rightarrow> string" where
  "locking_text d = (if \<not> Locking d then [] else
     ''Locking function ('' @ hexon 4 0x0002 @ '')'' @ endl @
     ''    Locked = '' @ yes_no (Locking_locked d) @
     '', LockingEnabled = '' @ yes_no (Locking_lockingEnabled d) @
     '', LockingSupported = '' @ yes_no (Locking_lockingSupported d) @
     '', MBRDone = '' @ yes_no (Locking_MBRDone d) @
     '', MBREnabled = '' @ yes_no (Locking_MBREnabled d) @
     '', MediaEncrypt = '' @ yes_no (Locking_mediaEncrypt d) @ endl)"

text \<open>The product of granularity and block size is formed in 64 bits.\<close>

definition geometry_text :: "opal_disk_info \<Rightarrow> string" where
  "geometry_text d = (if \<not> Geometry d then [] else
     ''Geometry function ('' @ hexon 4 0x0003 @ '')'' @ endl @
     ''    Align = '' @ yes_no (Geometry_align d) @
     '', Alignment Granularity = '' @ decimal (unat (Geometry_alignmentGranularity d)) @
     '' ('' @ decimal (unat (Geometry_alignmentGranularity d * ucast (Geometry_logicalBlockSize d))) @ '')'' @
     '', Logical Block size = '' @ decimal (unat (Geometry_logicalBlockSize d)) @
     '', Lowest Aligned LBA = '' @ decimal (unat (Geometry_lowestAlignedLBA d)) @ endl)"

text \<open>The number of ComIDs is still printed in hexadecimal here.\<close>

definition enterprise_text :: "opal_disk_info \<Rightarrow> string" where
  "enterprise_text d = (if \<not> Enterprise d then [] else
     ''Enterprise function ('' @ hexon 4 0x0100 @ '')'' @ endl @
     ''    Range crossing = '' @ yes_no (Enterprise_rangeCrossing d) @
     '', Base comID = '' @ hexon 4 (unat (Enterprise_basecomID d)) @
     '', comIDs = '' @ hexadecimal (unat (Enterprise_numcomID d)) @ endl)"

definition opal10_text :: "opal_disk_info \<Rightarrow> string" where
  "opal10_text d = (if \<not> OPAL10 d then [] else
     ''Opal V1.0 function ('' @ hexon 4 0x0200 @ '')'' @ endl @
     ''Base comID = '' @ hexon 4 (unat (OPAL10_basecomID d)) @
     '', comIDs = '' @ decimal (unat (OPAL10_numcomIDs d)) @ endl)"

definition singleuser_text :: "opal_disk_info \<Rightarrow> string" where
  "singleuser_text d = (if \<not> SingleUser d then [] else
     ''SingleUser function ('' @ hexon 4 0x0201 @ '')'' @ endl @
     ''    ALL = '' @ yes_no (SingleUser_all d) @
     '', ANY = '' @ yes_no (SingleUser_any d) @
     '', Policy = '' @ yes_no (SingleUser_policy d) @
     '', Locking Objects = '' @ decimal (unat (SingleUser_lockingObjects d)) @ endl)"

definition datastore_text :: "opal_disk_info \<Rightarrow> string" where
  "datastore_text d = (if \<not> DataStore d then [] else
     ''DataStore function ('' @ hexon 4 0x0202 @ '')'' @ endl @
     ''    Max Tables = '' @ decimal (unat (DataStore_maxTables d)) @
     '', Max Size Tables = '' @ decimal (unat (DataStore_maxTableSize d)) @
     '', Table size alignment = '' @ decimal (unat (DataStore_alignment d)) @ endl)"

definition opal20_text :: "opal_disk_info \<Rightarrow> string" where
  "opal20_text d = (if \<not> OPAL20 d then [] else
     ''OPAL 2.0 function ('' @ hexon 4 0x0203 @ '')'' @ endl @
     ''    Base comID = '' @ hexon 4 (unat (OPAL20_basecomID d)) @
     '', Initial PIN = '' @ hexon 2 (unat (OPAL20_initialPIN d)) @
     '', Reverted PIN = '' @ hexon 2 (unat (OPAL20_revertedPIN d)) @
     '', comIDs = '' @ decimal (unat (OPAL20_numcomIDs d)) @ endl @
     ''    Locking Admins = '' @ decimal (unat (OPAL20_numAdmins d)) @
     '', Locking Users = '' @ decimal (unat (OPAL20_numUsers d)) @
     '', Range Crossing = '' @ yes_no (OPAL20_rangeCrossing d \<noteq> 0) @ endl)"

definition blocksid_text :: "opal_disk_info \<Rightarrow> string" where
  "blocksid_text d = (if \<not> BlockSIDAuthentication d then [] else
     ''Block SID Authentication ('' @ hexon 4 0x0402 @ '')'' @ endl @
     ''    SID equals MSID = '' @ yes_no (\<not> BlockSIDAuthentication_SIDValueState d) @
     '', SID blocked = '' @ yes_no (BlockSIDAuthentication_SIDBlockedState d) @
     '', HW Reset can clear  = '' @ yes_no (BlockSIDAuthentication_HardwareReset d) @ endl)"

definition nslocking_text :: "opal_disk_info \<Rightarrow> string" where
  "nslocking_text d = (if \<not> NSLocking d then [] else
     ''Namespace Locking function ('' @ hexon 4 0x0403 @ '')'' @ endl @
     ''    Version = '' @ hexon 1 (unat (NSLocking_version d)) @
     '', Length = '' @ hexon 1 (unat (NSLocking_length d)) @
     '', range_P = '' @ hexon 1 (unat (NSLocking_range_P d)) @
     '', range_C = '' @ hexon 1 (unat (NSLocking_range_C d)) @
     '', Max Key Count = '' @ decimal (unat (NSLocking_Max_Key_Count d)) @
     '', Unused Key Count  = '' @ decimal (unat (NSLocking_Unused_Key_Count d)) @
     '', Max Range Per NS  = '' @ decimal (unat (NSLocking_Max_Range_Per_NS d)) @ endl)"

definition nsgeometry_text :: "opal_disk_info \<Rightarrow> string" where
  "nsgeometry_text d = (if \<not> NSGeometry d then [] else
     ''Namespace Geometry function ('' @ hexon 4 0x0405 @ '')'' @ endl @
     ''    Align = '' @ yes_no (NSGeometry_align d \<noteq> 0) @
     '', Version = '' @ hexon 1 (unat (NSGeometry_version d)) @
     '', Length = '' @ hexon 1 (unat (NSGeometry_length d)) @
     '', Alignment Granularity = '' @ decimal (unat (NSGeometry_alignmentGranularity d)) @
     '' ('' @ decimal (unat (NSGeometry_alignmentGranularity d * ucast (NSGeometry_logicalBlockSize d))) @ '')'' @
     '', Logical Block size = '' @ decimal (unat (NSGeometry_logicalBlockSize d)) @
     '', Lowest Aligned LBA = '' @ decimal (unat (NSGeometry_lowestAlignedLBA d)) @ endl @ endl)"

definition unknown_text :: "opal_disk_info \<Rightarrow> string" where
  "unknown_text d = (if Unknown d = 0 then [] else
     ''**** '' @ decimal (unat (Unknown d)) @ '' **** Unknown function codes IGNORED '' @ endl)"

definition puke_text :: "cstr \<Rightarrow> opal_disk_info \<Rightarrow> string" where
  "puke_text dev d =
     endl @ text_of dev @ device_type_text (devType d) @
     text_of (modelNum d) @ '' '' @ text_of (firmwareRev d) @ '' '' @ text_of (serialNum d) @ endl @
     tper_text d @ locking_text d @ geometry_text d @ enterprise_text d @ opal10_text d @
     singleuser_text d @ datastore_text d @ opal20_text d @ blocksid_text d @ nslocking_text d @
     nsgeometry_text d @ unknown_text d"

section \<open>The properties of the Opal and the Enterprise class\<close>

definition property_text :: "dta_response \<Rightarrow> nat \<Rightarrow> string outcome" where
  "property_text r i =
     obind (getString r (of_nat (i + 1))) (\<lambda>name. obind (getUint64 r (of_nat (i + 2))) (\<lambda>v.
       Ret (''  '' @ map (\<lambda>x. char_of (unat x)) name @ '' = '' @ decimal (unat v))))"

text \<open>The loops of the two classes; \<open>i\<close> is the token index. A line ends after every sixth token, by the
  index behind the property, or after every third property.\<close>

function opal_properties_text :: "dta_response \<Rightarrow> nat \<Rightarrow> string outcome" where
  "opal_properties_text r i =
     (if i < unat (getTokenCount r)
      then obind (tokenIs r (of_nat i)) (\<lambda>t.
        if t = STARTNAME
        then obind (tokenIs r (of_nat (i + 1))) (\<lambda>t1.
          obind (if t1 \<noteq> DTA_TOKENID_BYTESTRING then Ret (endl @ ''Host Properties: '' @ endl)
                 else property_text r i) (\<lambda>s.
          obind (opal_properties_text r (i + 3)) (\<lambda>rest.
            Ret (s @ (if (i + 2) mod 6 = 0 then endl else []) @ rest))))
        else obind (opal_properties_text r (i + 1)) (\<lambda>rest.
          Ret ((if i mod 6 = 0 then endl else []) @ rest)))
      else Ret [])"
  by pat_completeness auto
termination
  by (relation "measure (\<lambda>(r, i). unat (getTokenCount r) - i)") auto

declare opal_properties_text.simps [simp del]

function ent_properties_text :: "dta_response \<Rightarrow> nat \<Rightarrow> nat \<Rightarrow> string outcome" where
  "ent_properties_text r i j =
     (let line_end = Ret (if j mod 3 \<noteq> 0 then endl else []) in
      if i < unat (getTokenCount r)
      then obind (tokenIs r (of_nat i)) (\<lambda>t.
        if t = ENDLIST
        then obind (tokenIs r (of_nat (i + 1))) (\<lambda>t1.
          if t1 = STARTNAME
          then obind (ent_properties_text r (i + 3) 1) (\<lambda>rest.
            Ret (endl @ ''Host Properties: '' @ endl @ rest))
          else line_end)
        else if t = STARTNAME
        then obind (tokenIs r (of_nat (i + 1))) (\<lambda>t1.
          if t1 = DTA_TOKENID_BYTESTRING
          then obind (property_text r i) (\<lambda>s.
            obind (ent_properties_text r (i + 3) (j + 1)) (\<lambda>rest.
              Ret (s @ (if (j + 1) mod 3 = 0 then endl else []) @ rest)))
          else ent_properties_text r (i + 1) j)
        else ent_properties_text r (i + 1) j)
      else line_end)"
  by pat_completeness auto
termination
  by (relation "measure (\<lambda>(r, i, j). unat (getTokenCount r) - i)") auto

declare ent_properties_text.simps [simp del]

definition opal_puke :: "cstr \<Rightarrow> ('d, unit) devop" where
  "opal_puke dev =
     seq_op (bind_op (get_op disk_info) (\<lambda>d. report (TextReport (puke_text dev d)))) (
     bind_op (get_op (\<lambda>w. Properties (disk_info w))) (\<lambda>p.
       if p then bind_op (get_op propertiesResponse) (\<lambda>r.
         bind_op (lift_op (opal_properties_text r 0)) (\<lambda>s.
           report (TextReport (endl @ ''TPer Properties: '' @ s))))
       else ret ()))"

definition ent_puke :: "cstr \<Rightarrow> ('d, unit) devop" where
  "ent_puke dev =
     seq_op (bind_op (get_op disk_info) (\<lambda>d. report (TextReport (puke_text dev d)))) (
     bind_op (get_op (\<lambda>w. Properties (disk_info w))) (\<lambda>p.
       if p then bind_op (get_op propertiesResponse) (\<lambda>r.
         bind_op (lift_op (ent_properties_text r 0 1)) (\<lambda>s.
           report (TextReport (endl @ ''TPer Properties: '' @ endl @ s))))
       else ret ()))"

text \<open>The virtual method: the generic class keeps that of \<^verbatim>\<open>DtaDev\<close>.\<close>

definition puke :: "cstr \<Rightarrow> ('d, unit) devop" where
  "puke dev = (\<lambda>w. case dev_cls w of
       Generic \<Rightarrow> bind_op (get_op disk_info) (\<lambda>d. report (TextReport (puke_text dev d))) w
     | EnterpriseDev \<Rightarrow> ent_puke dev w
     | _ \<Rightarrow> opal_puke dev w)"

end
