(* ===== verification/Sedutil.thy ===== *)
theory Sedutil
  imports Options Listing "HOL-Library.List_Lexorder"
begin

text \<open>
  The program: Common/sedutil.cpp, the scan of linux/DtaDevOS.cpp and the self test of
  Common/DtaHashPwd.cpp. A run gives the exit code, what was listed, and the disks afterwards. The names in
  \<^verbatim>\<open>/dev\<close> are an argument.
\<close>

type_synonym 'd run = "u8 outcome \<times> report list \<times> 'd"

section \<open>Device objects\<close>

definition new_device :: "'d env \<Rightarrow> dev_class \<Rightarrow> cstr \<Rightarrow> 'd \<Rightarrow> unit outcome \<times> 'd dta_dev" where
  "new_device E c devref d =
     (case c of Generic \<Rightarrow> DtaDevGeneric E devref | Opal1 \<Rightarrow> DtaDevOpal1 E devref
      | Opal2 \<Rightarrow> DtaDevOpal2 E devref | EnterpriseDev \<Rightarrow> DtaDevEnterprise E devref) (new_dev c d)"

text \<open>An outcome without a value, as the outcome of the run.\<close>

fun no_value :: "'a outcome \<Rightarrow> 'b outcome" where
  "no_value (Ret x) = Undef"
| "no_value ExitFail = ExitFail"
| "no_value Undef = Undef"
| "no_value Diverge = Diverge"

definition run_op :: "('d, u8) devop \<Rightarrow> 'd dta_dev \<Rightarrow> 'd run" where
  "run_op m w = (case m w of (r, w') \<Rightarrow> (r, console w', disk w'))"

section \<open>Scanning\<close>

definition in_class :: "u8 \<Rightarrow> u8 \<Rightarrow> u8 \<Rightarrow> bool" where
  "in_class lo hi c \<longleftrightarrow> lo \<le> c \<and> c \<le> hi"

text \<open>The three patterns given to \<^verbatim>\<open>fnmatch\<close>.\<close>

definition is_disk_name :: "cstr \<Rightarrow> bool" where
  "is_disk_name n \<longleftrightarrow>
     (length n = 3 \<and> take 2 n = lit ''sd'' \<and> in_class 0x61 0x7a (n ! 2)) \<or>
     (length n = 5 \<and> take 4 n = lit ''nvme'' \<and> in_class 0x30 0x39 (n ! 4)) \<or>
     (length n = 6 \<and> take 4 n = lit ''nvme'' \<and> in_class 0x30 0x39 (n ! 4) \<and> in_class 0x30 0x39 (n ! 5))"

definition pad_right :: "nat \<Rightarrow> string \<Rightarrow> string" where
  "pad_right n s = s @ replicate (n - length s) (CHR '' '')"

definition ssc_letters :: "string \<Rightarrow> 'd dta_dev \<Rightarrow> string" where
  "ssc_letters none w = (if isOpal1 w then ''1'' else none) @ (if isOpal2 w then ''2'' else none) @
     (if isEprise w then ''E'' else none)"

definition scan_line :: "cstr \<Rightarrow> 'd dta_dev \<Rightarrow> string" where
  "scan_line devname w = pad_right 10 (text_of devname) @
     (if isAnySSC w then '' '' @ ssc_letters '' '' w @ '' '' else '' No  '') @
     text_of (getModelNum w) @ '' '' @ text_of (getFirmwareRev w) @ endl"

fun scan_disks :: "'d env \<Rightarrow> cstr list \<Rightarrow> report list \<Rightarrow> 'd \<Rightarrow> 'd run" where
  "scan_disks E [] out d = (Ret 0, out @ [TextReport (''No more disks present ending scan'' @ endl)], d)"
| "scan_disks E (n # ns) out d =
     (let devname = take 22 (lit ''/dev/'' @ n) in
      case new_device E Generic devname d of
        (Ret _, w) \<Rightarrow> scan_disks E ns (out @ [TextReport (scan_line devname w)]) (disk w)
      | (r, w) \<Rightarrow> (no_value r, out @ [TextReport (pad_right 10 (text_of devname))], disk w))"

definition diskScan :: "'d env \<Rightarrow> cstr list \<Rightarrow> 'd \<Rightarrow> 'd run" where
  "diskScan E entries d =
     scan_disks E (sort (filter is_disk_name entries))
       [TextReport (''Scanning for Opal compliant disks'' @ endl)] d"

definition valid_line :: "cstr \<Rightarrow> 'd dta_dev \<Rightarrow> string" where
  "valid_line devname w = text_of devname @
     (if isAnySSC w then '' SED '' @ ssc_letters ''-'' w @ '' '' else '' NO --- '') @
     text_of (getModelNum w) @ '' '' @ text_of (getFirmwareRev w) @ endl"

definition isValidSEDDisk :: "'d env \<Rightarrow> cstr \<Rightarrow> 'd \<Rightarrow> 'd run" where
  "isValidSEDDisk E devname d =
     (case new_device E Generic devname d of
        (Ret _, w) \<Rightarrow> (Ret 0, if isPresent w then [TextReport (valid_line devname w)] else [], disk w)
      | (r, w) \<Rightarrow> (no_value r, [], disk w))"

section \<open>The self test of the key derivation\<close>

type_synonym pbkdf_test = "nat \<times> nat \<times> string \<times> string \<times> string"

definition pbkdf_tests :: "pbkdf_test list" where
  "pbkdf_tests =
     [(20, 1, ''password'', ''salt'', ''0c60c80f961f0e71f3a9b524af6012062fe037a6''),
      (20, 2, ''password'', ''salt'', ''ea6c014dc72d6f8ccd1ed92ace1d41f0d8de8957''),
      (20, 4096, ''password'', ''salt'', ''4b007901b765489abead49d926f721d065a429c1''),
      (25, 4096, ''passwordPASSWORDpassword'', ''saltSALTsaltSALTsaltSALTsaltSALTsalt'',
       ''3d2eec4fe41c849b80c8d83662c0e44a8b291a964cf2f07038'')]"

definition testresult :: "bytes \<Rightarrow> cstr \<Rightarrow> nat \<Rightarrow> bool" where
  "testresult result expected len \<longleftrightarrow>
     len \<le> 50 \<and> take len (drop 2 result) = hex_bytes (take (2 * len) expected)"

definition run_test :: "'d env \<Rightarrow> pbkdf_test \<Rightarrow> bool" where
  "run_test E = (\<lambda>(len, iter, pwd, salt, key).
     testresult (DtaHashPassword E (lit pwd) (lit salt) iter (of_nat len)) (lit key) len)"

definition test_lines :: "'d env \<Rightarrow> pbkdf_test \<Rightarrow> string" where
  "test_lines E = (\<lambda>(len, iter, pwd, salt, key).
     ''Password '' @ pwd @ '' Salt '' @ salt @ '' Iterations '' @ decimal iter @ '' Length '' @ decimal len @ endl @
     ''Expected Result: '' @ key @ endl @ ''Actual Result  : '' @
     concat (map (\<lambda>b. hex_char (unat b div 16) # [hex_char (unat b mod 16)])
       (take len (drop 2 (DtaHashPassword E (lit pwd) (lit salt) iter (of_nat len))))) @ endl)"

definition TestPBKDF2 :: "'d env \<Rightarrow> report list" where
  "TestPBKDF2 E = [TextReport
     (endl @ ''PKCS #5 PBKDF2 validation suite running ... '' @ endl @ endl @
      concat (map (test_lines E) pbkdf_tests) @
      endl @ ''PKCS #5 PBKDF2 validation suite ... '' @
      (if list_all (run_test E) pbkdf_tests then ''passed'' else ''**FAILED**'') @ endl)]"

section \<open>The switch of main\<close>

definition arg :: "cstr list \<Rightarrow> u8 \<Rightarrow> cstr outcome" where
  "arg argv n = arg_at argv (unat n)"

text \<open>The call an action makes on the device, with its arguments; \<open>None\<close> is the default branch.\<close>

definition device_call :: "cstr list \<Rightarrow> dta_options \<Rightarrow> dev_call option outcome" where
  "device_call argv s =
     (let password = arg argv (o_password s); newpassword = arg argv (o_newpassword s);
          userid = arg argv (o_userid s); lr = o_lockingrange s;
          on_password = (\<lambda>f. obind password (\<lambda>p. Ret (Some (f p))));
          block = (\<lambda>n. obind (arg argv n) (\<lambda>a. obind (atoll a) (\<lambda>v. Ret (of_int v :: u64))));
          back = (\<lambda>n. arg_at argv (length argv - n))
      in case o_action s of
        opt_initialSetup \<Rightarrow> on_password InitialSetup
      | opt_setup_SUM \<Rightarrow> obind (block (o_lrstart s)) (\<lambda>a. obind (block (o_lrlength s)) (\<lambda>b.
          obind newpassword (\<lambda>q. on_password (\<lambda>p. Setup_SUM lr a b p q))))
      | opt_setSIDPassword \<Rightarrow> obind newpassword (\<lambda>q. on_password (\<lambda>p. SetSIDPassword p q 1 1))
      | opt_setAdmin1Pwd \<Rightarrow> obind newpassword (\<lambda>q. on_password (\<lambda>p. SetPassword p (lit ''Admin1'') q))
      | opt_loadPBAimage \<Rightarrow> obind (arg argv (o_pbafile s)) (\<lambda>f. on_password (\<lambda>p. LoadPBA p f))
      | opt_printLockingRangeStatus \<Rightarrow> on_password (PrintLockingRangeStatus lr)
      | opt_setLockingRange \<Rightarrow> on_password (SetLockingRange lr (o_lockingstate s))
      | opt_setLockingRange_SUM \<Rightarrow> on_password (SetLockingRange_SUM lr (o_lockingstate s))
      | opt_enableLockingRange \<Rightarrow>
          on_password (ConfigureLockingRange lr (DTA_READLOCKINGENABLED OR DTA_WRITELOCKINGENABLED))
      | opt_disableLockingRange \<Rightarrow> on_password (ConfigureLockingRange lr DTA_DISABLELOCKING)
      | opt_readonlyLockingRange \<Rightarrow> on_password (ConfigureLockingRange lr DTA_WRITELOCKINGENABLED)
      | opt_setupLockingRange \<Rightarrow> obind (block (o_lrstart s)) (\<lambda>a. obind (block (o_lrlength s)) (\<lambda>b.
          on_password (SetupLockingRange lr a b)))
      | opt_setupLockingRange_SUM \<Rightarrow> obind (block (o_lrstart s)) (\<lambda>a. obind (block (o_lrlength s)) (\<lambda>b.
          on_password (SetupLockingRange_SUM lr a b)))
      | opt_listLockingRanges \<Rightarrow> on_password (\<lambda>p. ListLockingRanges p (- 1))
      | opt_listLockingRange \<Rightarrow> on_password (\<lambda>p. ListLockingRanges p (uint lr))
      | opt_rekeyLockingRange \<Rightarrow> on_password (RekeyLockingRange lr)
      | opt_setBandsEnabled \<Rightarrow> on_password (SetBandsEnabled (- 1))
      | opt_setBandEnabled \<Rightarrow> on_password (SetBandsEnabled (uint lr))
      | opt_setMBRDone \<Rightarrow> on_password (SetMBRDone (o_mbrstate s))
      | opt_setMBREnable \<Rightarrow> on_password (SetMBREnable (o_mbrstate s))
      | opt_enableuser \<Rightarrow> obind userid (\<lambda>u. on_password (\<lambda>p. EnableUser p u OPAL_TRUE))
      | opt_activateLockingSP \<Rightarrow> on_password ActivateLockingSP
      | opt_activateLockingSP_SUM \<Rightarrow> on_password (ActivateLockingSP_SUM lr)
      | opt_eraseLockingRange_SUM \<Rightarrow> on_password (EraseLockingRange_SUM lr)
      | opt_takeOwnership \<Rightarrow> on_password TakeOwnership
      | opt_revertLockingSP \<Rightarrow> on_password (\<lambda>p. RevertLockingSP p 0)
      | opt_setPassword \<Rightarrow> obind userid (\<lambda>u. obind newpassword (\<lambda>q. on_password (\<lambda>p. SetPassword p u q)))
      | opt_setPassword_SUM \<Rightarrow>
          obind userid (\<lambda>u. obind newpassword (\<lambda>q. on_password (\<lambda>p. SetNewPassword_SUM p u q)))
      | opt_revertTPer \<Rightarrow> on_password (\<lambda>p. RevertTPer p 0 0)
      | opt_revertNoErase \<Rightarrow> on_password (\<lambda>p. RevertLockingSP p 1)
      | opt_yesIreallywanttoERASEALLmydatausingthePSID \<Rightarrow> on_password (\<lambda>p. RevertTPer p 1 0)
      | opt_PSIDrevert \<Rightarrow> on_password (\<lambda>p. RevertTPer p 1 0)
      | opt_PSIDrevertAdminSP \<Rightarrow> on_password (\<lambda>p. RevertTPer p 1 1)
      | opt_eraseLockingRange \<Rightarrow> on_password (EraseLockingRange lr)
      | opt_objDump \<Rightarrow> obind (back 5) (\<lambda>a. obind (back 4) (\<lambda>b. obind (back 3) (\<lambda>c. obind (back 2) (\<lambda>e.
          Ret (Some (ObjDump a b c e))))))
      | opt_printDefaultPassword \<Rightarrow> Ret (Some PrintDefaultPassword)
      | opt_rawCmd \<Rightarrow> obind (back 7) (\<lambda>a. obind (back 6) (\<lambda>b. obind (back 5) (\<lambda>c. obind (back 4) (\<lambda>e.
          obind (back 3) (\<lambda>f. obind (back 2) (\<lambda>g. Ret (Some (RawCmd a b c e f g))))))))
      | _ \<Rightarrow> Ret None)"

definition device_action :: "'d env \<Rightarrow> cstr list \<Rightarrow> cstr \<Rightarrow> dta_options \<Rightarrow> ('d, u8) devop" where
  "device_action E argv dev s =
     (if o_action s = opt_query then seq_op (puke dev) (ret 0)
      else bind_op (lift_op (device_call argv s)) (\<lambda>c. case c of
             None \<Rightarrow> ret DTAERROR_INVALID_COMMAND | Some c \<Rightarrow> invoke E c))"

section \<open>main\<close>

text \<open>The class of the device object, by what the generic one found.\<close>

definition class_of :: "'d dta_dev \<Rightarrow> dev_class option" where
  "class_of t = (if isOpal2 t then Some Opal2 else if isOpal1 t then Some Opal1
     else if isEprise t then Some EnterpriseDev else None)"

definition on_device :: "'d env \<Rightarrow> cstr list \<Rightarrow> dta_options \<Rightarrow> cstr \<Rightarrow> 'd \<Rightarrow> 'd run" where
  "on_device E argv s dev d =
     (case new_device E Generic dev d of
        (Ret _, t) \<Rightarrow>
          if \<not> isPresent t \<or> \<not> isAnySSC t then (Ret DTAERROR_COMMAND_ERROR, console t, disk t)
          else (case class_of t of
            None \<Rightarrow> (Ret DTAERROR_INVALID_COMMAND, console t, disk t)
          | Some c \<Rightarrow>
              (case new_device E c dev (disk t) of
                 (Ret _, w) \<Rightarrow> run_op (device_action E argv dev s)
                   (w\<lparr>no_hash_passwords := o_no_hash_passwords s, output_format := o_output_format s\<rparr>)
               | (r, w) \<Rightarrow> (no_value r, console w, disk w)))
      | (r, t) \<Rightarrow> (no_value r, console t, disk t))"

definition sedutil_main :: "'d env \<Rightarrow> cstr list \<Rightarrow> cstr list \<Rightarrow> 'd \<Rightarrow> 'd run" where
  "sedutil_main E entries argv d =
     (case DtaOptions argv of
        Ret (Inl rc) \<Rightarrow> (Ret DTAERROR_COMMAND_ERROR, [], d)
      | Ret (Inr st) \<Rightarrow>
          (let s = opts st in
           if o_action s = opt_scan then diskScan E entries d
           else if o_action s = opt_validatePBKDF2 then (Ret DTAERROR_INVALID_COMMAND, TestPBKDF2 E, d)
           else if o_action s = opt_isValidSED
           then (case arg argv (o_device s) of
                   Ret dev \<Rightarrow> isValidSEDDisk E dev d | r \<Rightarrow> (no_value r, [], d))
           else (case arg argv (if int (unat (o_device s)) > int (length argv) - 1 then 0 else o_device s) of
                   Ret dev \<Rightarrow> on_device E argv s dev d | r \<Rightarrow> (no_value r, [], d)))
      | r \<Rightarrow> (no_value r, [], d))"

end
