(* ===== verification/Transport.thy ===== *)
theory Transport
  imports Client
begin

text \<open>
  What a command looks like to the drive, and the interface below the session: the locale
  \<open>transport\<close> takes a relation that holds over the two requests \<^verbatim>\<open>exec\<close> makes, a well-formed send and
  a receive of the fixed size, and gives \<open>session_client\<close>.
\<close>

section \<open>A well-formed send\<close>

text \<open>
  Whole sectors, no longer than the command buffer; the three lengths agree, the unused rest is less
  than a sector, and the packet is addressed to the given ComID.
\<close>

definition proper_send :: "u16 \<Rightarrow> bytes \<Rightarrow> bool" where
  "proper_send cid b \<longleftrightarrow>
     (let n = unat (SWAP32 (load32 b off_subpkt_length));
          wire = sizeof_OPALHeader + n + length (padding n)
      in length b mod 512 = 0 \<and> length b \<le> MAX_BUFFER_LENGTH \<and> wire \<le> length b \<and> length b < wire + 512 \<and>
         SWAP32 (load32 b off_pkt_length) = of_nat (n + length (padding n) + 12) \<and>
         SWAP32 (load32 b off_cp_length) = of_nat (n + length (padding n) + 36) \<and>
         take 4 (drop off_extendedComID b) = comid_field cid)"

lemma peek_read_block: "k < n \<Longrightarrow> peek (read_block m 0 n) k = peek m k"
  by (simp add: peek_def [of "read_block m 0 n"] nth_read_block)

lemma sector_up:
  fixes k :: nat
  shows "k \<le> (k + 511) div 512 * 512" "(k + 511) div 512 * 512 < k + 512"
proof -
  have e: "k + 511 = 512 * ((k + 511) div 512) + (k + 511) mod 512" by simp
  have "(k + 511) mod 512 < 512" by simp
  then show "k \<le> (k + 511) div 512 * 512" "(k + 511) div 512 * 512 < k + 512"
    using e by linarith+
qed

lemma sector_bound: "k \<le> 61440 \<Longrightarrow> (k + 511) div 512 * 512 \<le> (61440 :: nat)"
  using div_le_mono [of "k + 511" 61951 512] by simp

lemma proper_send_framed:
  assumes "framed c"
  shows "proper_send cid (sent_bytes (setcomID cid c))"
proof -
  let ?c = "setcomID cid c"
  obtain n where n: "bufferpos ?c = sizeof_OPALHeader + n + length (padding n)"
      "bufferpos ?c \<le> MAX_BUFFER_LENGTH"
      "SWAP32 (load32 (cmdmem ?c) off_subpkt_length) = of_nat n"
      "SWAP32 (load32 (cmdmem ?c) off_pkt_length) = of_nat (n + length (padding n) + 12)"
      "SWAP32 (load32 (cmdmem ?c) off_cp_length) = of_nat (n + length (padding n) + 36)"
    using framed_setters(3) [OF assms, of cid] unfolding framed_def by blast
  define len where "len = (bufferpos ?c + 511) div 512 * 512"
  have sent: "sent_bytes ?c = read_block (cmdmem ?c) 0 len"
    using outputBufferSize_sectors [OF n(2)] by (simp add: sent_bytes_def len_def)
  have len: "bufferpos ?c \<le> len" "len < bufferpos ?c + 512" "len mod 512 = 0"
    unfolding len_def by (simp_all add: sector_up)
  have "len \<le> MAX_BUFFER_LENGTH" unfolding len_def by (rule sector_bound) (rule n(2))
  moreover have "n < 2 ^ 32" using n(1, 2) by simp
  then have un: "unat (of_nat n :: u32) = n"
    by (simp only: unat_of_nat) (simp add: take_bit_nat_eq_self)
  moreover have field: "load32 (read_block (cmdmem ?c) 0 len) i = load32 (cmdmem ?c) i"
    if "i + 4 \<le> sizeof_OPALHeader" for i
    by (rule load32_cong) (use that n(1) len(1) in \<open>simp add: peek_read_block\<close>)
  moreover have "take 4 (drop off_extendedComID (read_block (cmdmem ?c) 0 len)) = comid_field cid"
  proof (rule nth_equalityI)
    fix k assume "k < length (take 4 (drop off_extendedComID (read_block (cmdmem ?c) 0 len)))"
    then have k: "k < 4" by simp
    have "take 4 (drop off_extendedComID (read_block (cmdmem ?c) 0 len)) ! k
        = peek (cmdmem ?c) (off_extendedComID + k)"
      using k n(1) len(1) by (simp add: nth_read_block)
    also have "\<dots> = comid_field cid ! k"
    proof -
      have "cmdmem ?c = pokes off_extendedComID (comid_field cid) (cmdmem c)"
        unfolding setcomID_def comid_field_bytes by simp
      then show ?thesis using k by (simp add: peek_pokes del: pokes.simps)
    qed
    finally show "take 4 (drop off_extendedComID (read_block (cmdmem ?c) 0 len)) ! k = comid_field cid ! k" .
  qed (use n(1) len(1) in simp)
  ultimately show ?thesis
    using n len unfolding proper_send_def sent
    by (simp add: field del: of_nat_add)
qed

section \<open>The interface below the session\<close>

text \<open>\<open>io_frame\<close>: a preorder that holds over the two requests.\<close>

locale io_frame =
  fixes E :: "'d env" and R :: "'d dta_dev \<Rightarrow> 'd dta_dev \<Rightarrow> bool"
  assumes rel_refl: "R w w"
    and rel_trans: "transp R"
    and send: "proper_send (comID w) b \<Longrightarrow> R w (snd (sendCmd E IF_SEND protocol (comID w) b w))"
    and recv: "R w (snd (sendCmd E IF_RECV protocol (comID w) (replicate MIN_BUFFER_LENGTH 0) w))"
begin

lemma step: "R w w' \<Longrightarrow> R w' w'' \<Longrightarrow> R w w''"
  by (rule transpD [OF rel_trans])

lemma poll_rel:
  assumes "poll E protocol w = Some r"
  shows "R w (snd r)"
proof -
  have "E = E \<and> protocol = protocol \<longrightarrow> R w (snd r)"
  proof (rule poll.raw_induct [where P = "\<lambda>E' p w r. E' = E \<and> p = protocol \<longrightarrow> R w (snd r)", OF _ assms])
    fix rec E' p w r
    assume IH: "\<And>E' p w r. rec E' p w = Some r \<Longrightarrow> E' = E \<and> p = protocol \<longrightarrow> R w (snd r)"
      and body: "(let r = sendCmd E' IF_RECV p (comID w) (replicate MIN_BUFFER_LENGTH 0) w;
          hdr = snd (fst r)
      in if load32 hdr off_outstandingData \<noteq> 0 \<and> load32 hdr off_minTransfer = 0
         then rec E' p (snd r) else Some r) = Some r"
    show "E' = E \<and> p = protocol \<longrightarrow> R w (snd r)"
    proof
      assume eq: "E' = E \<and> p = protocol"
      let ?r = "sendCmd E IF_RECV protocol (comID w) (replicate MIN_BUFFER_LENGTH 0) w"
      have 1: "R w (snd ?r)" by (rule recv)
      show "R w (snd r)"
      proof (cases "load32 (snd (fst ?r)) off_outstandingData \<noteq> 0 \<and> load32 (snd (fst ?r)) off_minTransfer = 0")
        case True
        with body eq have "rec E protocol (snd ?r) = Some r" by (simp only: Let_def if_True simp_thms)
        then have "R (snd ?r) (snd r)" using IH by blast
        with 1 show ?thesis by (rule step)
      next
        case False
        with body eq have "?r = r" by (simp only: Let_def if_False option.inject simp_thms)
        with 1 show ?thesis by simp
      qed
    qed
  qed
  then show ?thesis by simp
qed

lemma poll_op_rel: "R w (snd (poll_op E protocol w))"
  using poll_rel [of protocol w] rel_refl [of w]
  by (auto simp: poll_op_def split: option.split)

lemma exec_io_rel:
  assumes "proper_send (comID w) (sent_bytes cmd)"
  shows "R w (snd (exec_io E cmd resp protocol w))"
proof -
  obtain rc b w1 where s: "sendCmd E IF_SEND protocol (comID w) (sent_bytes cmd) w = ((rc, b), w1)"
    by (metis prod.collapse)
  have 1: "R w w1" using send [OF assms, of protocol] by (simp add: s)
  show ?thesis
  proof (cases "rc = 0")
    case True
    obtain p w2 where p: "poll_op E protocol w1 = (p, w2)" by (cases "poll_op E protocol w1")
    have 2: "R w w2" using poll_op_rel [of w1 protocol] step [OF 1] by (simp add: p)
    then show ?thesis using True s p
      by (cases p)
        (auto simp: exec_io_def bind_op_def sendCmd_op_def get_op_def lift_op_def ret_def split: outcome.split)
  qed (use 1 s in \<open>simp add: exec_io_def bind_op_def sendCmd_op_def get_op_def ret_def\<close>)
qed

lemma exec_rel:
  assumes "proper_send (comID w) (sent_bytes cmd)"
  shows "R w (snd (exec E cmd resp protocol w))"
  using exec_io_rel [OF assms] rel_refl [of w] by (cases "dev_cls w") (simp_all add: exec_def)

lemma sendCommand_rel:
  assumes "framed cmd"
  shows "steps R (sendCommand E cmd resp)"
proof (rule stepsI)
  fix w
  show "R w (snd (sendCommand E cmd resp w))"
  proof (cases "session w")
    case None
    then show ?thesis by (simp add: sendCommand_def this_session_def bind_op_def rel_refl)
  next
    case (Some s)
    let ?c = "setcomID (comID w) (setTSN (TSN s) (setHSN (HSN s) cmd))"
    have "proper_send (comID w) (sent_bytes ?c)"
      by (intro proper_send_framed framed_setters assms)
    from exec_rel [OF this]
    have x: "R w (snd (exec E ?c resp (SecurityProtocol s) w))" .
    obtain e w1 where e: "exec E ?c resp (SecurityProtocol s) w = (e, w1)" by fastforce
    show ?thesis using x e Some
      by (cases e)
        (auto simp: sendCommand_def this_session_def bind_op_def get_op_def lift_op_def ret_def
          split: outcome.split)
  qed
qed

end

text \<open>\<open>transport\<close>: it also holds over local updates, and so over every operation.\<close>

locale transport = io_frame +
  assumes rel_local: "local_step w w' \<Longrightarrow> R w w'"

sublocale transport \<subseteq> session_client E R
  by unfold_locales (rule rel_trans, rule reflpI, rule rel_refl, erule sendCommand_rel, erule rel_local)

section \<open>What a command changes\<close>

text \<open>Sending a command changes nothing of the device object; the response is returned.\<close>

definition only_disk :: "'d dta_dev \<Rightarrow> 'd dta_dev \<Rightarrow> bool" where
  "only_disk w w' \<longleftrightarrow> w' = w\<lparr>disk := disk w'\<rparr>"

lemma sendCmd_only_disk: "only_disk w (snd (sendCmd E c p cid b w))"
  by (simp add: only_disk_def sendCmd_def split: option.split prod.split)

interpretation plain: io_frame E only_disk for E :: "'d env"
proof unfold_locales
  show "transp (only_disk :: 'd dta_dev \<Rightarrow> _)"
    unfolding only_disk_def by (rule transpI) (metis dta_dev.update_convs(13) dta_dev.select_convs(13) dta_dev.surjective)
qed (simp_all add: sendCmd_only_disk, simp add: only_disk_def)

end
