(* ===== verification/Scripted.thy ===== *)
theory Scripted
  imports Device
begin

text \<open>
  An instance of the environment for concrete runs: the disk is the list of replies still to come.
  Every send succeeds, a receive takes the next reply, and fails when none is left.
\<close>

definition scripted :: "bytes list env" where
  "scripted = \<lparr>
     drive_init = (\<lambda>k p d. (True, d)),
     drive_identify = (\<lambda>k di d. (di\<lparr>devType := DEVICE_TYPE_ATA\<rparr>, d)),
     drive_sendCmd = (\<lambda>k c p cid b d. case c of
        IF_RECV \<Rightarrow> (case d of [] \<Rightarrow> (0x01, b, []) | r # rs \<Rightarrow> (0, r, rs))
      | _ \<Rightarrow> (0, b, d)),
     pbkdf2 = (\<lambda>pwd salt iter n. replicate n (if pwd = [] then 0 else hd pwd)),
     cmd_addr = 0x1000,
     file_of = (\<lambda>p. if p = [] then None else Some [0x01, 0x02, 0x03])\<rparr>"

text \<open>A device of the given class that was opened, with ComID 0x07fe.\<close>

definition open_dev :: "dev_class \<Rightarrow> bytes list \<Rightarrow> bytes list dta_dev" where
  "open_dev c replies = (new_dev c replies)\<lparr>isOpen := True, drive := Some LinuxSata,
     disk_info := zero_disk_info\<lparr>OPAL10_basecomID := 0x07fe, OPAL20_basecomID := 0x07fe,
       Enterprise_basecomID := 0x07fe\<rparr>\<rparr>"

end
