(* ===== verification/Wire.thy ===== *)
theory Wire
  imports Interface Transport Scripted
begin

text \<open>
  What the operations do to the drive and to the device object, for every call of the interface: the
  interface \<open>transport\<close> interpreted on three relations of the model.
\<close>

section \<open>Recording the requests\<close>

text \<open>A request as the drive sees it, with the code and the buffer the drive answers.\<close>

datatype request = Request atacommand u8 u16 bytes u8 bytes

text \<open>The environment that behaves as \<open>E\<close> and records every request next to the disk.\<close>

definition traced :: "'d env \<Rightarrow> ('d \<times> request list) env" where
  "traced E = \<lparr>
     drive_init = (\<lambda>k p (d, tr). apsnd (\<lambda>d. (d, tr)) (drive_init E k p d)),
     drive_identify = (\<lambda>k di (d, tr). apsnd (\<lambda>d. (d, tr)) (drive_identify E k di d)),
     drive_sendCmd = (\<lambda>k c p cid b (d, tr). case drive_sendCmd E k c p cid b d of
        (rc, b', d') \<Rightarrow> (rc, b', (d', tr @ [Request c p cid b rc b']))),
     pbkdf2 = pbkdf2 E, cmd_addr = cmd_addr E, file_of = file_of E\<rparr>"

text \<open>A request the code is entitled to make on a device with this ComID.\<close>

fun proper_request :: "u16 \<Rightarrow> request \<Rightarrow> bool" where
  "proper_request cid (Request IF_SEND p c b rc b') \<longleftrightarrow> c = cid \<and> proper_send cid b"
| "proper_request cid (Request IF_RECV p c b rc b') \<longleftrightarrow> c = cid \<and> b = replicate MIN_BUFFER_LENGTH 0"
| "proper_request cid (Request IDENTIFY p c b rc b') \<longleftrightarrow> False"

definition requests :: "('d \<times> request list) dta_dev \<Rightarrow> request list" where
  "requests w = snd (disk w)"

text \<open>From \<open>w\<close> to \<open>w'\<close> only proper requests were made.\<close>

definition proper_trace :: "('d \<times> request list) dta_dev \<Rightarrow> ('d \<times> request list) dta_dev \<Rightarrow> bool" where
  "proper_trace w w' \<longleftrightarrow> comID w' = comID w \<and>
     (\<exists>new. requests w' = requests w @ new \<and> list_all (proper_request (comID w)) new)"

lemma local_comID: "local_step w w' \<Longrightarrow> comID w' = comID w"
proof -
  assume "local_step w w'"
  then have c: "dev_cls w' = dev_cls w"
    and d: "(disk_info w')\<lparr>Properties := False, Locking_lockingEnabled := False\<rparr>
      = (disk_info w)\<lparr>Properties := False, Locking_lockingEnabled := False\<rparr>"
    by (simp_all add: local_step_def core_def)
  have "OPAL10_basecomID (disk_info w') = OPAL10_basecomID (disk_info w)"
    "OPAL20_basecomID (disk_info w') = OPAL20_basecomID (disk_info w)"
    "Enterprise_basecomID (disk_info w') = Enterprise_basecomID (disk_info w)"
    using arg_cong [OF d, of OPAL10_basecomID] arg_cong [OF d, of OPAL20_basecomID]
      arg_cong [OF d, of Enterprise_basecomID] by simp_all
  with c show ?thesis by (simp add: comID_def split: dev_class.split)
qed

lemma local_disk: "local_step w w' \<Longrightarrow> disk w' = disk w"
  by (simp add: local_step_def core_def)

lemma comID_disk [simp]: "comID (w\<lparr>disk := d\<rparr>) = comID w"
  by (simp add: comID_def split: dev_class.split)

lemma traced_sendCmd:
  assumes "\<And>rc b'. proper_request (comID w) (Request c p cid b rc b')"
  shows "proper_trace w (snd (sendCmd (traced E) c p cid b w))"
  using assms by (cases "disk w")
    (auto simp: sendCmd_def proper_trace_def requests_def traced_def
      split: option.split prod.split intro: exI [of _ "[]"])

interpretation wire: transport "traced E" proper_trace for E :: "'d env"
proof unfold_locales
  show "proper_trace w w" for w :: "('d \<times> request list) dta_dev"
    by (simp add: proper_trace_def)
  show "transp (proper_trace :: ('d \<times> request list) dta_dev \<Rightarrow> _)"
    by (rule transpI) (fastforce simp: proper_trace_def)
  fix w w' :: "('d \<times> request list) dta_dev" and b :: bytes and p :: u8
  show "local_step w w' \<Longrightarrow> proper_trace w w'"
    by (auto simp: proper_trace_def requests_def local_comID local_disk)
  show "proper_send (comID w) b \<Longrightarrow> proper_trace w (snd (sendCmd (traced E) IF_SEND p (comID w) b w))"
    by (rule traced_sendCmd) simp
  show "proper_trace w (snd (sendCmd (traced E) IF_RECV p (comID w) (replicate MIN_BUFFER_LENGTH 0) w))"
    by (rule traced_sendCmd) simp
qed

section \<open>What the device object keeps\<close>

text \<open>Everything Discovery 0 and the constructor learned.\<close>

definition config :: "'d dta_dev \<Rightarrow> dev_class \<times> bool \<times> sedutiloutput \<times> bool \<times> drive_kind option \<times>
    opal_disk_info" where
  "config w = (dev_cls w, no_hash_passwords w, output_format w, isOpen w, drive w,
     (disk_info w)\<lparr>Properties := False, Locking_lockingEnabled := False\<rparr>)"

definition same_config :: "'d dta_dev \<Rightarrow> 'd dta_dev \<Rightarrow> bool" where
  "same_config w w' \<longleftrightarrow> config w' = config w"

lemma sendCmd_config: "config (snd (sendCmd E c p cid b w)) = config w"
  by (simp add: sendCmd_def config_def split: option.split prod.split)

interpretation kept: transport E same_config for E :: "'d env"
  by unfold_locales
    (auto intro!: transpI simp: same_config_def sendCmd_config, simp add: local_step_def core_def config_def)

text \<open>A device that is not open is never asked anything.\<close>

definition quiet :: "'d dta_dev \<Rightarrow> 'd dta_dev \<Rightarrow> bool" where
  "quiet w w' \<longleftrightarrow> (\<not> isOpen w \<longrightarrow> \<not> isOpen w' \<and> disk w' = disk w)"

lemma sendCmd_quiet: "quiet w (snd (sendCmd E c p cid b w))"
  by (simp add: sendCmd_def quiet_def)

interpretation silent: transport E quiet for E :: "'d env"
  by unfold_locales
    (auto intro!: transpI simp: quiet_def sendCmd_quiet, simp_all add: local_step_def core_def sendCmd_def)

section \<open>For every call\<close>

text \<open>C5. Whatever call is made on a device, and however it ends, every request that reaches the
  drive is addressed to the device's ComID and is a receive of the fixed size or a well-formed packet.\<close>

theorem calls_make_proper_requests:
  "\<exists>new. requests (snd (invoke (traced E) c w)) = requests w @ new \<and>
     list_all (proper_request (comID w)) new"
  using stepsD [OF wire.cl_invoke, of w E c] by (auto simp: proper_trace_def)

text \<open>No call changes the class, the openness, the drive object or what Discovery 0 told about the
  device, except that the exchange of properties and a single user activation set one flag each.\<close>

lemma calls_keep_config:
  "config (snd (invoke E c w)) = config w"
  using stepsD [OF kept.cl_invoke, of w E c] by (simp add: same_config_def)

text \<open>C7. No call on a device that could not be opened reaches the drive.\<close>

theorem closed_device_is_left_alone:
  assumes "\<not> isOpen w"
  shows "disk (snd (invoke E c w)) = disk w \<and> \<not> isOpen (snd (invoke E c w))"
  using assms stepsD [OF silent.cl_invoke, of w E c] by (simp add: quiet_def)

theorem closed_device_is_left_alone_witness:
  "disk (snd (invoke scripted (InitialSetup [0x70]) (new_dev Opal2 [[0x01]]))) = [[0x01]] \<and>
     \<not> isOpen (snd (invoke scripted (InitialSetup [0x70]) (new_dev Opal2 [[0x01]])))"
  using closed_device_is_left_alone [of "new_dev Opal2 [[0x01]]" scripted "InitialSetup [0x70]"]
  by (simp add: new_dev_def)

end
