(* ===== verification/Program.thy ===== *)
theory Program
  imports Sedutil Wire
begin

text \<open>
  Properties of whole runs: what a command line can make the program do to a drive, and what an accepted
  command line looks like to the switch of \<^verbatim>\<open>main\<close>.
\<close>

section \<open>The requests of a run\<close>

text \<open>\<open>logs Q w w'\<close>: from \<open>w\<close> to \<open>w'\<close> only requests with \<open>Q\<close> were made.\<close>

definition logs :: "(request \<Rightarrow> bool) \<Rightarrow> ('d \<times> request list) dta_dev \<Rightarrow> ('d \<times> request list) dta_dev \<Rightarrow> bool" where
  "logs Q w w' \<longleftrightarrow> (\<exists>new. requests w' = requests w @ new \<and> list_all Q new)"

fun is_receive :: "request \<Rightarrow> bool" where
  "is_receive (Request c p cid b rc b') \<longleftrightarrow> c = IF_RECV \<and> b = replicate MIN_BUFFER_LENGTH 0"

definition well_formed :: "request \<Rightarrow> bool" where
  "well_formed q \<longleftrightarrow> (\<exists>cid. proper_request cid q)"

lemma receive_well_formed: "is_receive q \<Longrightarrow> well_formed q"
proof (cases q)
  case (Request c p cid b rc b')
  then show "is_receive q \<Longrightarrow> well_formed q" by (auto simp: well_formed_def intro: exI [of _ cid])
qed

lemma logs_refl: "reflp (logs Q)"
  by (rule reflpI) (simp add: logs_def)

lemma logs_trans: "transp (logs Q)"
  by (rule transpI) (fastforce simp: logs_def)

lemma logs_mono: "logs P w w' \<Longrightarrow> (\<And>q. P q \<Longrightarrow> Q q) \<Longrightarrow> logs Q w w'"
  unfolding logs_def by (metis (mono_tags, lifting) list.pred_mono_strong)

lemma proper_logs: "proper_trace w w' \<Longrightarrow> logs well_formed w w'"
  unfolding proper_trace_def logs_def well_formed_def by (metis (mono_tags, lifting) list.pred_mono_strong)

lemma steps_mono: "steps P m \<Longrightarrow> (\<And>w w'. P w w' \<Longrightarrow> Q w w') \<Longrightarrow> steps Q m"
  by (simp add: steps_def)

text \<open>Making a device object up to Discovery 0.\<close>

lemma logs_bind: "steps (logs Q) m \<Longrightarrow> (\<And>x. steps (logs Q) (f x)) \<Longrightarrow> steps (logs Q) (bind_op m f)"
  by (rule steps_bind [OF logs_trans])

lemma logs_put: "(\<And>w. disk (f w) = disk w) \<Longrightarrow> steps (logs Q) (put_op f)"
  by (simp add: steps_def put_op_def logs_def requests_def)

lemma logs_pure: "steps (logs Q) (ret x)" "steps (logs Q) (lift_op r)" "steps (logs Q) (get_op g)"
  by (rule steps_pure [OF logs_refl])+

lemma logs_receive: "steps (logs is_receive) (sendCmd_op (traced E) IF_RECV p cid (replicate MIN_BUFFER_LENGTH 0))"
proof (rule stepsI)
  fix w :: "('a \<times> request list) dta_dev"
  show "logs is_receive w (snd (sendCmd_op (traced E) IF_RECV p cid (replicate MIN_BUFFER_LENGTH 0) w))"
    by (cases "disk w")
      (auto simp: sendCmd_op_def sendCmd_def traced_def logs_def requests_def split: option.split prod.split)
qed

lemma logs_if: "steps R m \<Longrightarrow> steps R n \<Longrightarrow> steps R (if b then m else n)"
  by simp

lemma logs_case_prod: "(\<And>x y. steps R (f x y)) \<Longrightarrow> steps R (case p of (x, y) \<Rightarrow> f x y)"
  by (simp add: split_beta)

lemma logs_discovery_request: "steps (logs is_receive) rest \<Longrightarrow>
    steps (logs is_receive) (discovery_request (traced E) cid step rest)"
  unfolding discovery_request_def
  by (intro logs_bind logs_receive logs_if logs_case_prod logs_pure logs_put) simp_all

lemma logs_discovery0: "steps (logs is_receive) (discovery0 (traced E))"
  unfolding discovery0_def discovery0_NS_def by (intro logs_discovery_request logs_pure)

lemma logs_init: "steps (logs is_receive) (DtaDevOS_init (traced E) devref)"
proof -
  have 1: "steps (logs is_receive) (\<lambda>w. case drive_init (traced E) k devref (disk w) of (ok, d) \<Rightarrow> (Ret ok, w\<lparr>disk := d\<rparr>))"
    for k
  proof (rule stepsI)
    fix w :: "('a \<times> request list) dta_dev"
    show "logs is_receive w (snd (case drive_init (traced E) k devref (disk w) of (ok, d) \<Rightarrow> (Ret ok, w\<lparr>disk := d\<rparr>)))"
      by (cases "disk w") (auto simp: traced_def logs_def requests_def apsnd_def map_prod_def split: prod.split)
  qed
  have 2: "steps (logs is_receive) (\<lambda>w. case drive_identify (traced E) k (disk_info w) (disk w) of
      (di, d) \<Rightarrow> (Ret (), w\<lparr>disk_info := di, disk := d\<rparr>))" for k
  proof (rule stepsI)
    fix w :: "('a \<times> request list) dta_dev"
    show "logs is_receive w (snd (case drive_identify (traced E) k (disk_info w) (disk w) of
      (di, d) \<Rightarrow> (Ret (), w\<lparr>disk_info := di, disk := d\<rparr>)))"
      by (cases "disk w") (auto simp: traced_def logs_def requests_def apsnd_def map_prod_def split: prod.split)
  qed
  have case_opt: "steps R m \<Longrightarrow> (\<And>x. steps R (f x)) \<Longrightarrow> steps R (case p of None \<Rightarrow> m | Some x \<Rightarrow> f x)"
    for R :: "('a \<times> request list) dta_dev \<Rightarrow> _" and m :: "('a \<times> request list, unit) devop" and f and p :: "drive_kind option"
    by (simp split: option.split)
  show ?thesis
    unfolding DtaDevOS_init_def
    by (intro logs_bind case_opt logs_if logs_put logs_pure logs_discovery0 1 2) simp_all
qed

text \<open>The constructors: the generic one only receives, the others go on to exchange properties.\<close>

lemma logs_generic: "steps (logs is_receive) (DtaDevGeneric (traced E) dev)"
  unfolding DtaDevGeneric_def by (rule logs_init)

lemma logs_assert: "steps (logs Q) (assert_op P)"
  unfolding assert_op_def by (intro logs_bind logs_pure)

lemma logs_proper: "steps proper_trace m \<Longrightarrow> steps (logs well_formed) m"
  by (erule steps_mono) (rule proper_logs)

lemma logs_classes:
  "steps (logs well_formed) (DtaDevOpal1 (traced E) dev)"
  "steps (logs well_formed) (DtaDevOpal2 (traced E) dev)"
  "steps (logs well_formed) (DtaDevEnterprise (traced E) dev)"
proof -
  have i: "steps (logs well_formed) (DtaDevOS_init (traced E) dev)"
    by (rule steps_mono [OF logs_init]) (erule logs_mono, rule receive_well_formed)
  show "steps (logs well_formed) (DtaDevOpal1 (traced E) dev)" "steps (logs well_formed) (DtaDevOpal2 (traced E) dev)"
    "steps (logs well_formed) (DtaDevEnterprise (traced E) dev)"
    unfolding DtaDevOpal1_def DtaDevOpal2_def DtaDevEnterprise_def DtaDevOpal_init_def seq_op_def
    by (intro logs_bind i logs_assert logs_pure logs_proper [OF wire.cl_properties]
        logs_proper [OF wire.cl_ent_properties])+
qed

lemma new_device_logs:
  assumes "new_device (traced E) c dev (d, tr) = (r, w)"
  shows "\<exists>new. requests w = tr @ new \<and> list_all well_formed new \<and> (c = Generic \<longrightarrow> list_all is_receive new)"
proof -
  have tr: "requests (new_dev c (d, tr)) = tr" by (simp add: requests_def new_dev_def)
  let ?w0 = "new_dev c (d, tr)"
  have "logs well_formed ?w0 w \<and> (c = Generic \<longrightarrow> logs is_receive ?w0 w)"
  proof (cases c)
    case Generic
    then have "logs is_receive ?w0 w"
      using stepsD [OF logs_generic, of ?w0 E dev] assms by (simp add: new_device_def)
    then show ?thesis by (blast intro: logs_mono receive_well_formed)
  next
    case Opal1
    then show ?thesis using stepsD [OF logs_classes(1), of ?w0 E dev] assms by (simp add: new_device_def)
  next
    case Opal2
    then show ?thesis using stepsD [OF logs_classes(2), of ?w0 E dev] assms by (simp add: new_device_def)
  next
    case EnterpriseDev
    then show ?thesis using stepsD [OF logs_classes(3), of ?w0 E dev] assms by (simp add: new_device_def)
  qed
  then show ?thesis unfolding logs_def tr by auto
qed

lemma logs_report: "steps (logs Q) (report r)"
  unfolding report_def by (rule logs_put) simp

lemma logs_puke: "steps (logs Q) (puke dev)"
proof -
  have t: "steps (logs Q) (bind_op (get_op disk_info) (\<lambda>d. report (TextReport (puke_text dev d))))"
    by (intro logs_bind logs_pure logs_report)
  have p: "steps (logs Q) (opal_puke dev)" "steps (logs Q) (ent_puke dev)"
    unfolding opal_puke_def ent_puke_def seq_op_def by (intro logs_bind t logs_if logs_pure logs_report)+
  show ?thesis
    using t p by (auto simp: steps_def puke_def split: dev_class.split)
qed

lemma logs_action: "steps (logs well_formed) (device_action (traced E) argv dev s)"
proof -
  have c: "steps (logs well_formed) (case x of None \<Rightarrow> ret DTAERROR_INVALID_COMMAND | Some c \<Rightarrow> invoke (traced E) c)" for x
    by (cases x) (simp_all add: logs_pure logs_proper [OF wire.cl_invoke])
  show ?thesis
    unfolding device_action_def seq_op_def by (intro logs_if logs_bind logs_puke logs_pure c)
qed

definition run_requests :: "('d \<times> request list) run \<Rightarrow> request list" where
  "run_requests p = snd (snd (snd p))"

lemma scan_receives:
  "\<exists>new. run_requests (scan_disks (traced E) ns out (d, tr)) = tr @ new \<and> list_all is_receive new"
proof (induction ns arbitrary: out d tr)
  case Nil
  then show ?case by (simp add: run_requests_def)
next
  case (Cons n ns)
  obtain r w where nd: "new_device (traced E) Generic (take 22 (lit ''/dev/'' @ n)) (d, tr) = (r, w)"
    by (cases "new_device (traced E) Generic (take 22 (lit ''/dev/'' @ n)) (d, tr)")
  obtain d' tr' where w: "disk w = (d', tr')" by (cases "disk w")
  obtain new where new: "tr' = tr @ new" "list_all is_receive new"
    using new_device_logs [OF nd] w by (auto simp: requests_def)
  show ?case
  proof (cases "r = Ret ()")
    case True
    let ?out = "out @ [TextReport (scan_line (take 22 (lit ''/dev/'' @ n)) w)]"
    obtain new' where "run_requests (scan_disks (traced E) ns ?out (d', tr')) = tr' @ new'"
      "list_all is_receive new'" using Cons.IH by blast
    moreover have "scan_disks (traced E) (n # ns) out (d, tr) = scan_disks (traced E) ns ?out (d', tr')"
      using nd w unfolding True by (simp add: Let_def del: take_append)
    ultimately show ?thesis using new by simp
  next
    case False
    then have "run_requests (scan_disks (traced E) (n # ns) out (d, tr)) = tr'"
      using nd w by (cases r) (simp_all add: Let_def run_requests_def del: take_append)
    then show ?thesis using new by blast
  qed
qed

lemma valid_receives: "list_all is_receive (run_requests (isValidSEDDisk (traced E) dev (d, [])))"
proof -
  obtain r w where nd: "new_device (traced E) Generic dev (d, []) = (r, w)"
    by (cases "new_device (traced E) Generic dev (d, [])")
  from new_device_logs [OF this] have "list_all is_receive (requests w)" by auto
  with nd show ?thesis by (cases r) (simp_all add: isValidSEDDisk_def run_requests_def requests_def)
qed

lemma on_device_requests:
  fixes d :: 'd and E :: "'d env" and argv dev s
  defines "tr \<equiv> run_requests (on_device (traced E) argv s dev (d, []))"
  shows "list_all well_formed tr"
    "list_all is_receive tr \<or> (\<exists>t. new_device (traced E) Generic dev (d, []) = (Ret (), t) \<and> isPresent t \<and> isAnySSC t)"
proof -
  obtain r t where nd: "new_device (traced E) Generic dev (d, []) = (r, t)"
    by (cases "new_device (traced E) Generic dev (d, [])")
  obtain d1 tr1 where t: "disk t = (d1, tr1)" by (cases "disk t")
  have 1: "list_all well_formed tr1" "list_all is_receive tr1"
    using new_device_logs [OF nd] t by (auto simp: requests_def)
  let ?go = "r = Ret () \<and> isPresent t \<and> isAnySSC t"
  have stop: "tr = tr1" if "\<not> ?go"
    using that nd t by (cases r) (simp_all add: tr_def on_device_def run_requests_def)
  have "list_all well_formed tr" if go: ?go
  proof (cases "class_of t")
    case None
    then show ?thesis using nd go t 1 by (simp add: tr_def on_device_def run_requests_def)
  next
    case (Some c)
    obtain r2 w where nd2: "new_device (traced E) c dev (d1, tr1) = (r2, w)"
      by (cases "new_device (traced E) c dev (d1, tr1)")
    then have 2: "list_all well_formed (requests w)" using new_device_logs [OF nd2] 1 by auto
    show ?thesis
    proof (cases r2)
      case (Ret u)
      let ?w = "w\<lparr>no_hash_passwords := o_no_hash_passwords s, output_format := o_output_format s\<rparr>"
      let ?p = "device_action (traced E) argv dev s ?w"
      have "logs well_formed ?w (snd ?p)" by (rule stepsD [OF logs_action])
      moreover have "tr = requests (snd ?p)"
        using nd nd2 go t Some Ret
        by (simp add: tr_def on_device_def run_requests_def run_op_def requests_def split_beta)
      moreover have "requests ?w = requests w" by (simp add: requests_def)
      ultimately show ?thesis using 2 by (auto simp: logs_def)
    qed (use nd nd2 go t Some 2 in \<open>simp_all add: tr_def on_device_def run_requests_def requests_def\<close>)
  qed
  with stop 1(1) show "list_all well_formed tr" by blast
  show "list_all is_receive tr \<or> (\<exists>t. new_device (traced E) Generic dev (d, []) = (Ret (), t) \<and> isPresent t \<and> isAnySSC t)"
    using stop 1(2) nd by (cases ?go) auto
qed

text \<open>C18. Whatever the command line, the names in /dev and the answers of the drives: every request a run of
  the program makes is a receive of 2048 bytes or a well-formed packet, however the run ends.\<close>

theorem program_requests_well_formed:
  "list_all well_formed (run_requests (sedutil_main (traced E) entries argv (d, [])))"
proof -
  have scan: "list_all well_formed (run_requests (diskScan (traced E) entries (d, [])))"
    using scan_receives [of E _ _ d "[]"] unfolding diskScan_def
    by (metis append_Nil list.pred_mono_strong receive_well_formed)
  have valid: "list_all well_formed (run_requests (isValidSEDDisk (traced E) dev (d, [])))" for dev
    using valid_receives [of E dev d] by (metis (mono_tags, lifting) list.pred_mono_strong receive_well_formed)
  show ?thesis
    using scan valid on_device_requests(1) [of E argv _ _ d]
    by (auto simp: sedutil_main_def run_requests_def Let_def split: outcome.split sum.split)
qed

text \<open>C19. A run sends something to a drive only for an action on one device that answered Discovery 0 with a
  feature of a supported SSC. Scanning, asking whether a disk is one, the self test, rejected command lines
  and unsupported disks only ever receive.\<close>

theorem sends_need_supported_disk:
  "list_all is_receive (run_requests (sedutil_main (traced E) entries argv (d, []))) \<or>
   (\<exists>st dev t. DtaOptions argv = Ret (Inr st) \<and> dev \<in> set argv \<and>
      o_action (opts st) \<notin> {opt_scan, opt_validatePBKDF2, opt_isValidSED} \<and>
      new_device (traced E) Generic dev (d, []) = (Ret (), t) \<and> isPresent t \<and> isAnySSC t)"
proof (cases "\<exists>st. DtaOptions argv = Ret (Inr st)")
  case False
  then have "run_requests (sedutil_main (traced E) entries argv (d, [])) = []"
    by (auto simp: sedutil_main_def run_requests_def split: outcome.split sum.split)
  then show ?thesis by simp
next
  case True
  then obtain st where st: "DtaOptions argv = Ret (Inr st)" by blast
  let ?s = "opts st"
  have scan: "list_all is_receive (run_requests (diskScan (traced E) entries (d, [])))"
    using scan_receives [of E _ _ d "[]"] unfolding diskScan_def by (metis append_Nil)
  let ?n = "if int (unat (o_device ?s)) > int (length argv) - 1 then 0 else o_device ?s"
  show ?thesis
  proof (cases "o_action ?s \<in> {opt_scan, opt_validatePBKDF2, opt_isValidSED}")
    case True
    then have "list_all is_receive (run_requests (sedutil_main (traced E) entries argv (d, [])))"
      using st scan valid_receives [of E _ d]
      by (auto simp: sedutil_main_def Let_def run_requests_def split: outcome.split)
    then show ?thesis ..
  next
    case other: False
    show ?thesis
    proof (cases "arg argv ?n")
      case (Ret dev)
      then have "dev \<in> set argv" by (auto simp: arg_def arg_at_def vec_at_def split: if_splits)
      moreover have "run_requests (sedutil_main (traced E) entries argv (d, [])) =
          run_requests (on_device (traced E) argv ?s dev (d, []))"
        using st other Ret by (simp add: sedutil_main_def Let_def split del: if_split)
      ultimately show ?thesis using on_device_requests(2) [of E argv ?s dev d] st other by auto
    qed (use st other in \<open>simp_all add: sedutil_main_def Let_def run_requests_def split del: if_split\<close>)
  qed
qed

end
