(* ===== verification/CommandLine.thy ===== *)
theory CommandLine
  imports Program
begin

text \<open>What an accepted command line looks like to the switch of \<^verbatim>\<open>main\<close>.\<close>


abbreviation sample_line :: "cstr list" where
  "sample_line \<equiv> [lit ''sedutil-cli'', lit ''-n'', lit ''--setLockingRange'', lit ''3'', lit ''rw'', lit ''pw'', lit ''/dev/sda'']"

definition sample_options :: parse_state where
  "sample_options = \<lparr>argi = 7, baseOptions = 3, loggingLevel = 2, opts = zero_options
     \<lparr>o_password := 5, o_device := 6, o_action := opt_setLockingRange, o_lockingrange := 3, o_lockingstate := READWRITE,
      o_no_hash_passwords := True\<rparr>, outputFormat = sedutilReadable\<rparr>"

lemma sample_parse: "DtaOptions sample_line = Ret (Inr sample_options)"
  by code_simp


text \<open>C31. Parsing always comes to an end on command lines of at most 254 words. (The index wraps at 256, so
  longer ones can make the program loop.)\<close>

theorem parsing_ends: "length argv \<le> 254 \<Longrightarrow> DtaOptions argv \<noteq> Diverge"
  by (rule DtaOptions_ends)

theorem parsing_ends_witness: "DtaOptions [lit ''sedutil-cli'', lit ''--scan''] \<noteq> Diverge"
  by (rule parsing_ends) simp

text \<open>C32. The command enableuser can not work: \<^verbatim>\<open>CHECKARGS\<close> wants two arguments where the command takes three, so
  in every command line that is accepted the position of the device is that of the NULL behind the last
  argument, and \<^verbatim>\<open>main\<close> opens the name of the program itself as the device.\<close>

theorem enableuser_opens_program_name:
  assumes "length argv \<le> 254" "DtaOptions argv = Ret (Inr st)" "o_action (opts st) = opt_enableuser"
  shows "sedutil_main E entries argv d = on_device E argv (opts st) (argv ! 0) d"
proof -
  have "unat (o_device (opts st)) = length argv" "2 \<le> length argv"
    using DtaOptions_result [OF assms(1, 2)] assms(3) by (simp_all add: accepted_def)
  moreover from this have "argv \<noteq> []" by auto
  ultimately show ?thesis
    using assms(2, 3) by (simp add: sedutil_main_def arg_def arg_at_def vec_at_def)
qed

theorem enableuser_opens_program_name_witness:
  "\<exists>st :: parse_state. o_action (opts st) = opt_enableuser \<and>
    sedutil_main scripted [] [lit ''sedutil-cli'', lit ''--enableuser'', lit ''pw'', lit ''User1''] [] =
    on_device scripted [lit ''sedutil-cli'', lit ''--enableuser'', lit ''pw'', lit ''User1''] (opts st) (lit ''sedutil-cli'') []"
proof -
  let ?argv = "[lit ''sedutil-cli'', lit ''--enableuser'', lit ''pw'', lit ''User1'']"
  let ?st = "\<lparr>argi = 5, baseOptions = 2, loggingLevel = 2, opts = zero_options
     \<lparr>o_password := 2, o_userid := 3, o_device := 4, o_action := opt_enableuser\<rparr>, outputFormat = sedutilReadable\<rparr>"
  have "DtaOptions ?argv = Ret (Inr ?st)" by code_simp
  then have "sedutil_main scripted [] ?argv [] = on_device scripted ?argv (opts ?st) (?argv ! 0) []"
    by (rule enableuser_opens_program_name [rotated]) simp_all
  moreover have "o_action (opts ?st) = opt_enableuser" by simp
  ultimately show ?thesis unfolding nth_Cons_0 by blast
qed

end
