(* ===== verification/Usage.thy ===== *)
theory Usage
  imports Options
begin

text \<open>
  The help text of Common/DtaOptions.cpp (\<^verbatim>\<open>usage\<close>), line by line, held against the parser: the synopses in
  it are read back and compared with the table of commands, and the command lines it gives as examples
  are parsed. The version (a macro of the build) and the example of a device (\<^verbatim>\<open>os.h\<close>, one for each
  platform) are arguments.
\<close>

section \<open>The text\<close>

definition usage_lines :: "string \<Rightarrow> string \<Rightarrow> string list" where
  "usage_lines version device =
    [''sedutil v'' @ version @ '' Copyright 2014-2017 Bright Plaza Inc. <drivetrust@drivetrust.com>'',
     ''a utility to manage self encrypting drives that conform'',
     ''to the Trusted Computing Group OPAL 2.0 SSC specification'',
     ''General Usage:                     (see readme for extended commandset)'',
     ''sedutil-cli <-v> <-n> <action> <options> <device>'',
     ''-v (optional)                       increase verbosity, one to five v's'',
     ''-n (optional)                       no password hashing. Passwords will be sent in clear text!'',
     ''-l (optional)                       log style output to stderr only'',
     ''actions '',
     ''--scan '',
     ''                                Scans the devices on the system '',
     ''                                identifying Opal compliant devices '',
     ''--query <device>'',
     ''                                Display the Discovery 0 response of a device'',
     ''--isValidSED <device>'',
     ''                                Verify whether the given device is SED or not'',
     ''--listLockingRanges <password> <device>'',
     ''                                List all Locking Ranges'',
     ''--listLockingRange <0...n> <password> <device>'',
     ''                                List all Locking Ranges'',
     ''                                0 = GLobal 1..n  = LRn '',
     ''--rekeyLockingRange <0...n> <password> <device>'',
     ''                                0 = GLobal 1..n  = LRn '',
     ''                                Rekey Locking Range'',
     ''--setBandsEnabled <password> <device>'',
     ''                                Set Enabled for all Locking Ranges'',
     ''                                (passwort = \"\" for MSID) '',
     ''--setBandEnabled <0...n> <password> <device>'',
     ''                                Set Enabled for Locking Range[n]'',
     ''                                (passwort = \"\" for MSID) '',
     ''--eraseLockingRange <0...n> <password> <device>'',
     ''                                Erase a Locking Range'',
     ''                                0 = GLobal 1..n  = LRn '',
     ''--setupLockingRange <0...n> <RangeStart> <RangeLength> <password> <device>'',
     ''                                Setup a new Locking Range'',
     ''                                0 = GLobal 1..n  = LRn '',
     ''--initialSetup <SIDpassword> <device>'',
     ''                                Setup the device for use with sedutil'',
     ''                                <SIDpassword> is new SID and Admin1 password'',
     ''--setSIDPassword <SIDpassword> <newSIDpassword> <device> '',
     ''                                Change the SID password'',
     ''--setAdmin1Pwd <Admin1password> <newAdmin1password> <device> '',
     ''                                Change the Admin1 password'',
     ''--setPassword <oldpassword, \"\" for MSID> <userid> <newpassword> <device> '',
     ''                                Change the Enterprise password for userid'',
     ''                                \"EraseMaster\" or \"BandMaster<n>\", 0 <= n <= 1023'',
     ''--printLockingRangeStatus <0...n> <Admin1password> <device> '',
     ''                                Print the status of a Locking Range'',
     ''--setLockingRange <0...n> <RW|RO|LK> <Admin1password> <device> '',
     ''                                Set the status of a Locking Range'',
     ''                                0 = GLobal 1..n  = LRn '',
     ''--enableLockingRange <0...n> <Admin1password> <device> '',
     ''                                Enable a Locking Range'',
     ''                                0 = GLobal 1..n  = LRn '',
     ''--disableLockingRange <0...n> <Admin1password> <device> '',
     ''                                Disable a Locking Range'',
     ''                                0 = GLobal 1..n  = LRn '',
     ''--setMBREnable <on|off> <Admin1password> <device> '',
     ''                                Enable|Disable MBR shadowing '',
     ''--setMBRDone <on|off> <Admin1password> <device> '',
     ''                                set|unset MBRDone'',
     ''--loadPBAimage <Admin1password> <file> <device> '',
     ''                                Write <file> to MBR Shadow area'',
     ''--revertTPer <SIDpassword> <device>'',
     ''                                set the device back to factory defaults '',
     ''                                This **ERASES ALL DATA** '',
     ''--revertNoErase <Admin1password> <device>'',
     ''                                deactivate the Locking SP '',
     ''                                without erasing the data '',
     ''                                on GLOBAL RANGE *ONLY* '',
     ''--yesIreallywanttoERASEALLmydatausingthePSID <PSID> <device>'',
     ''                                revert the device using the PSID *ERASING* *ALL* the data '',
     ''--printDefaultPassword <device>'',
     ''                                print MSID '',
     [],
     ''Examples '',
     ''sedutil-cli --scan '',
     ''sedutil-cli --query '' @ device @ '' '',
     ''sedutil-cli --yesIreallywanttoERASEALLmydatausingthePSID <PSIDALLCAPSNODASHED> '' @ device @ '' '',
     ''sedutil-cli --initialSetup <newSIDpassword> '' @ device @ '' '']"

definition usage :: "string \<Rightarrow> string \<Rightarrow> string" where
  "usage version device = concat (map (\<lambda>l. l @ [CHR 0x0A]) (usage_lines version device))"

text \<open>The example of a device of each platform.\<close>

definition DEVICEEXAMPLE_linux :: string where
  "DEVICEEXAMPLE_linux = ''/dev/sdc''"

definition DEVICEEXAMPLE_windows :: string where
  "DEVICEEXAMPLE_windows = [CHR 0x5C, CHR 0x5C, CHR 0x2E, CHR 0x5C] @ ''PhysicalDrive3''"

section \<open>Reading it back\<close>

text \<open>A line that starts with two dashes is a synopsis: the name of a command up to the first space and a pair of
  angle brackets for each argument.\<close>

definition synopsis :: "string \<Rightarrow> (string \<times> nat) option" where
  "synopsis l = (if take 2 l = ''--''
     then Some (takeWhile (\<lambda>c. c \<noteq> CHR '' '') (drop 2 l), length (filter (\<lambda>c. c = CHR ''<'') l))
     else None)"

definition synopses :: "string list \<Rightarrow> (string \<times> nat) list" where
  "synopses ls = List.map_filter synopsis ls"

text \<open>The words of a command line, as a shell without quoting splits it.\<close>

fun words_from :: "string \<Rightarrow> string \<Rightarrow> string list" where
  "words_from w [] = (if w = [] then [] else [rev w])"
| "words_from w (c # cs) =
     (if c = CHR '' '' then (if w = [] then words_from [] cs else rev w # words_from [] cs)
      else words_from (c # w) cs)"

definition example_lines :: "string list \<Rightarrow> string list" where
  "example_lines ls = tl (dropWhile (\<lambda>l. l \<noteq> ''Examples '') ls)"

definition command_args :: "string \<Rightarrow> nat option" where
  "command_args name = map_option (\<lambda>(c, n, _). n) (find (\<lambda>(c, _). c = name) commands)"

section \<open>The text and the parser agree\<close>

lemma synopses_are: "synopses (usage_lines version device) =
    [(''scan'', 0), (''query'', 1), (''isValidSED'', 1), (''listLockingRanges'', 2), (''listLockingRange'', 3),
     (''rekeyLockingRange'', 3), (''setBandsEnabled'', 2), (''setBandEnabled'', 3), (''eraseLockingRange'', 3),
     (''setupLockingRange'', 5), (''initialSetup'', 2), (''setSIDPassword'', 3), (''setAdmin1Pwd'', 3),
     (''setPassword'', 4), (''printLockingRangeStatus'', 3), (''setLockingRange'', 4), (''enableLockingRange'', 3),
     (''disableLockingRange'', 3), (''setMBREnable'', 3), (''setMBRDone'', 3), (''loadPBAimage'', 3),
     (''revertTPer'', 2), (''revertNoErase'', 2), (''yesIreallywanttoERASEALLmydatausingthePSID'', 2),
     (''printDefaultPassword'', 1)]"
  by (simp add: synopses_def usage_lines_def synopsis_def map_filter_simps)

lemma synopses_match_commands:
  "\<forall>(name, n) \<in> set (synopses (usage_lines version device)). command_args name = Some n"
  by (simp add: synopses_are command_args_def commands_def setup_commands_def locking_commands_def
    range_commands_def)

lemma undocumented_commands:
  "filter (\<lambda>c. c \<notin> fst ` set (synopses (usage_lines version device))) (map fst commands) =
    [''setup_SUM'', ''PSIDrevert'', ''PSIDrevertAdminSP'', ''enableuser'', ''activateLockingSP'',
     ''activateLockingSP_SUM'', ''eraseLockingRange_SUM'', ''takeOwnership'', ''revertLockingSP'',
     ''setPassword_SUM'', ''validatePBKDF2'', ''setLockingRange_SUM'', ''setupLockingRange_SUM'',
     ''readonlyLockingRange'', ''objDump'', ''rawCmd'']"
  by (simp add: synopses_are commands_def setup_commands_def locking_commands_def
    range_commands_def)

text \<open>The examples, and what the parser makes of their words: the action, and the words behind it in the fields.\<close>

lemma example_words:
  "map (words_from []) (example_lines (usage_lines version DEVICEEXAMPLE_linux)) =
    [[''sedutil-cli'', ''--scan''], [''sedutil-cli'', ''--query'', ''/dev/sdc''],
     [''sedutil-cli'', ''--yesIreallywanttoERASEALLmydatausingthePSID'', ''<PSIDALLCAPSNODASHED>'', ''/dev/sdc''],
     [''sedutil-cli'', ''--initialSetup'', ''<newSIDpassword>'', ''/dev/sdc'']]"
  by (simp add: example_lines_def usage_lines_def DEVICEEXAMPLE_linux_def)

lemma example_words_windows:
  "map (words_from []) (example_lines (usage_lines version DEVICEEXAMPLE_windows)) =
    [[''sedutil-cli'', ''--scan''], [''sedutil-cli'', ''--query'', DEVICEEXAMPLE_windows],
     [''sedutil-cli'', ''--yesIreallywanttoERASEALLmydatausingthePSID'', ''<PSIDALLCAPSNODASHED>'', DEVICEEXAMPLE_windows],
     [''sedutil-cli'', ''--initialSetup'', ''<newSIDpassword>'', DEVICEEXAMPLE_windows]]"
  by (simp add: example_lines_def usage_lines_def DEVICEEXAMPLE_windows_def)

definition parsed_fields :: "string list \<Rightarrow> (sedutiloption \<times> u8 \<times> u8) option" where
  "parsed_fields ws = (case DtaOptions (map lit ws) of
     Ret (Inr s) \<Rightarrow> Some (o_action (opts s), o_password (opts s), o_device (opts s)) | _ \<Rightarrow> None)"

lemma examples_are_accepted:
  "map (\<lambda>l. parsed_fields (words_from [] l)) (example_lines (usage_lines version DEVICEEXAMPLE_linux)) =
    [Some (opt_scan, 0, 0), Some (opt_query, 0, 2),
     Some (opt_yesIreallywanttoERASEALLmydatausingthePSID, 2, 3), Some (opt_initialSetup, 2, 3)]"
proof -
  have "map parsed_fields (map (words_from []) (example_lines (usage_lines version DEVICEEXAMPLE_linux))) =
    [Some (opt_scan, 0, 0), Some (opt_query, 0, 2),
     Some (opt_yesIreallywanttoERASEALLmydatausingthePSID, 2, 3), Some (opt_initialSetup, 2, 3)]"
    unfolding example_words by code_simp
  then show ?thesis by (simp add: comp_def)
qed

text \<open>Each v of the flag raises the log level by one, from the level 2 of the start to at most 7: five of them
  reach the end, as the text says.\<close>

lemma verbosity_flag:
  assumes "vec_at argv (unat (argi s)) = Ret (lit (CHR ''-'' # replicate n CHR ''v''))" "0 < n"
    "unat (loggingLevel s) \<le> 7" "n < 65000"
  obtains s' where "parse_arg argv s = Ret (Inr s')" "unat (loggingLevel s') = min 7 (unat (loggingLevel s) + n)"
    "opts s' = opts s"
proof -
  let ?a = "lit (CHR ''-'' # replicate n CHR ''v'')"
  let ?l = "loggingLevel s + of_nat n :: u16"
  have n: "unat (of_nat n :: u16) = n" using assms(4) by (simp add: unat_of_nat take_bit_nat_eq_self_iff)
  then have l: "unat ?l = unat (loggingLevel s) + n"
    using assms(3, 4) by (simp add: unat_word_ariths)
  obtain m where m: "n = Suc m" using assms(2) by (cases n) auto
  have a: "?a ! 1 = 0x76" "length ?a = Suc n" by (simp_all add: lit_def m)
  have ne: "?a \<noteq> lit ''-h''" "?a \<noteq> lit ''--help''" using a(1) by (auto simp: lit_def)
  have "parse_arg argv s = Ret (Inr (s\<lparr>baseOptions := baseOptions s + 1,
      loggingLevel := if ?l > 7 then 7 else ?l\<rparr>))"
    using assms(1) ne a assms(2) by (simp add: parse_arg_def arg_at_def char_at_def Let_def)
  moreover have "unat (if ?l > 7 then 7 else ?l) = min 7 (unat (loggingLevel s) + n)"
    using l by (auto simp: word_less_nat_alt)
  ultimately show thesis
    by (intro that [of "s\<lparr>baseOptions := baseOptions s + 1, loggingLevel := if ?l > 7 then 7 else ?l\<rparr>"]) simp_all
qed

end
