(* ===== verification/PreBoot.thy ===== *)
theory PreBoot
  imports Sedutil
begin

text \<open>
  The pre-boot program (LinuxPBA): \<^verbatim>\<open>GetPassPhrase\<close> reads the keys, \<^verbatim>\<open>UnlockSEDs\<close> unlocks every Opal drive in
  /dev with the pass-phrase, \<^verbatim>\<open>main\<close> restarts the machine. The keys typed are a list of bytes; behind its
  end \<^verbatim>\<open>getchar\<close> gives EOF for ever. The terminal attributes are not modelled.
\<close>

section \<open>GetPassPhrase\<close>

definition BACKSPACE :: u8 where "BACKSPACE = 127"
definition RETURN :: u8 where "RETURN = 10"

text \<open>
  The loop over the keys, with the pass-phrase so far and what was printed. EOF becomes the byte 255, which is
  added to the pass-phrase like any other key: the loop does not end.
\<close>

fun read_keys :: "bool \<Rightarrow> bytes \<Rightarrow> bytes \<Rightarrow> string \<Rightarrow> (bytes \<times> string) outcome" where
  "read_keys show_asterisk [] password out = Diverge"
| "read_keys show_asterisk (ch # keys) password out =
     (if ch = RETURN then Ret (password, out)
      else if ch = BACKSPACE
      then (if length password \<noteq> 0
            then read_keys show_asterisk keys (take (length password - 1) password)
                   (out @ (if show_asterisk then map char_of [8::nat, 32, 8] else []))
            else read_keys show_asterisk keys password out)
      else if ch \<noteq> 27
      then read_keys show_asterisk keys (password @ [ch]) (out @ (if show_asterisk then ''*'' else []))
      else read_keys show_asterisk keys password out)"

definition GetPassPhrase :: "string \<Rightarrow> bool \<Rightarrow> bytes \<Rightarrow> (bytes \<times> string) outcome" where
  "GetPassPhrase prompt show_asterisk keys = read_keys show_asterisk keys [] (endl @ endl @ prompt)"

section \<open>UnlockSEDs\<close>

datatype unlock_result = NotOpal | NotLocked | Unlocked | Failed

text \<open>The calls on the device object: the shadow MBR first, then the global range; a failure of the first does
  not skip the second.\<close>

definition unlock_drive :: "'d env \<Rightarrow> cstr \<Rightarrow> ('d, unlock_result) devop" where
  "unlock_drive E password =
     bind_op (get_op Locked) (\<lambda>locked.
       if \<not> locked then ret NotLocked
       else bind_op (get_op MBREnabled) (\<lambda>mbr.
         bind_op (if mbr then setMBRDone E 1 password else ret 0) (\<lambda>rc1.
         bind_op (setLockingRange E 0 READWRITE password) (\<lambda>rc2.
           ret (if rc1 \<noteq> 0 \<or> rc2 \<noteq> 0 then Failed else Unlocked)))))"

definition result_text :: "unlock_result \<Rightarrow> string" where
  "result_text r = (case r of NotOpal \<Rightarrow> ''not OPAL  '' | NotLocked \<Rightarrow> ''is OPAL NOT LOCKED   ''
     | Unlocked \<Rightarrow> ''is OPAL Unlocked   '' | Failed \<Rightarrow> ''is OPAL Failed  '')"

definition unlock_line :: "cstr \<Rightarrow> 'd dta_dev \<Rightarrow> unlock_result \<Rightarrow> string" where
  "unlock_line devref w r = ''Drive '' @ pad_right 10 (text_of devref) @ '' '' @
     pad_right 40 (text_of (getModelNum w)) @ '' '' @ result_text r @ endl"

text \<open>The loop over the drives: it stops at the first that cannot be opened.\<close>

fun unlock_disks :: "'d env \<Rightarrow> cstr \<Rightarrow> cstr list \<Rightarrow> report list \<Rightarrow> 'd \<Rightarrow> 'd run" where
  "unlock_disks E password [] out d = (Ret 0, out, d)"
| "unlock_disks E password (n # ns) out d =
     (let devref = take 22 (lit ''/dev/'' @ n) in
      case new_device E Generic devref d of
        (Ret _, t) \<Rightarrow>
          if \<not> isPresent t then (Ret 0, out, disk t)
          else if \<not> isOpal1 t \<and> \<not> isOpal2 t
          then unlock_disks E password ns (out @ [TextReport (unlock_line devref t NotOpal)]) (disk t)
          else (case new_device E (if isOpal2 t then Opal2 else Opal1) devref (disk t) of
            (Ret _, w) \<Rightarrow>
              (case unlock_drive E password (w\<lparr>no_hash_passwords := False\<rparr>) of
                (Ret r, w') \<Rightarrow> unlock_disks E password ns
                  (out @ console w' @ [TextReport (unlock_line devref w' r)]) (disk w')
              | (r, w') \<Rightarrow> (no_value r, out @ console w', disk w'))
          | (r, w) \<Rightarrow> (no_value r, out @ console w, disk w))
      | (r, t) \<Rightarrow> (no_value r, out, disk t))"

definition UnlockSEDs :: "'d env \<Rightarrow> cstr list \<Rightarrow> cstr \<Rightarrow> 'd \<Rightarrow> 'd run" where
  "UnlockSEDs E entries password d =
     unlock_disks E password (sort (filter is_disk_name entries)) [TextReport (endl @ ''Scanning....'' @ endl)] d"

section \<open>main\<close>

text \<open>The pass-phrase ends at its first zero byte. With any other than \<^verbatim>\<open>debug\<close> the machine restarts: \<open>restarts\<close>.\<close>

record 'd pba_run =
  restarts :: bool
  pba_result :: "'d run"

definition pba_main :: "'d env \<Rightarrow> cstr list \<Rightarrow> bytes \<Rightarrow> 'd \<Rightarrow> 'd pba_run" where
  "pba_main E entries keys d =
     (case GetPassPhrase ''Please enter pass-phrase to unlock OPAL drives: '' True keys of
        Ret (p, printed) \<Rightarrow>
          (let before = TextReport (''DTA LINUX Pre Boot Authorization '' @ endl @ printed) in
           case UnlockSEDs E entries (c_str p) d of
             (Ret _, out, d') \<Rightarrow>
               if c_str p \<noteq> lit ''debug''
               then \<lparr>restarts = True, pba_result = (Ret 0, before # out @ [TextReport (''Starting OS '' @ endl)], d')\<rparr>
               else \<lparr>restarts = False, pba_result = (Ret 0, before # out, d')\<rparr>
           | (r, out, d') \<Rightarrow> \<lparr>restarts = False, pba_result = (r, before # out, d')\<rparr>)
      | r \<Rightarrow> \<lparr>restarts = False, pba_result = (no_value r, [], d)\<rparr>)"

end
