(* ===== verification/Exchange.thy ===== *)
theory Exchange
  imports Wire
begin

text \<open>
  What reaches the drive, byte for byte: the packets of calls on a table row, the exchange a
  successful command leaves in the record of requests, and the numbers of a session.
\<close>

section \<open>The packet of a call on an object\<close>

text \<open>Behind the header: the call token, the object, the method, the arguments, the status list.\<close>

definition object_body :: "bytes \<Rightarrow> opal_method \<Rightarrow> bytes \<Rightarrow> bytes" where
  "object_body obj m tok = call_head obj (0xa8 # OPALMETHOD m) @ tok @ eod_bytes True"

text \<open>The packet with the session's numbers, filled up to whole sectors.\<close>

definition wire :: "u16 \<Rightarrow> u32 \<Rightarrow> u32 \<Rightarrow> bytes \<Rightarrow> bytes" where
  "wire cid tsn hsn body = packet (comid_field cid) (le32 tsn) (le32 hsn) body @
     replicate ((wire_size body + 511) div 512 * 512 - wire_size body) 0"

abbreviation zero4 :: bytes where "zero4 \<equiv> replicate 4 0"

text \<open>A command as it leaves \<^verbatim>\<open>sendCommand\<close>.\<close>

definition stamped :: "u16 \<Rightarrow> dta_session \<Rightarrow> dta_command \<Rightarrow> dta_command" where
  "stamped cid s c = setcomID cid (setTSN (TSN s) (setHSN (HSN s) c))"

lemma sent_wire:
  assumes "is_packet c zero4 zero4 zero4 body"
  shows "sent_bytes (stamped cid s c) = wire cid (TSN s) (HSN s) body"
proof -
  have p: "is_packet (stamped cid s c) (comid_field cid) (le32 (TSN s)) (le32 (HSN s)) body"
    unfolding stamped_def by (rule setcomID_packet [OF setTSN_packet [OF setHSN_packet [OF assms]]])
  then have "bufferpos (stamped cid s c) = wire_size body"
    by (simp add: is_packet_def wire_size_def)
  with sent_bytes_packet [OF p] show ?thesis by (simp add: wire_def)
qed

lemma length_call_head [simp]: "length (call_head u m) = 1 + length u + length m"
  by (simp add: call_head_def)

lemma pokes_invoker:
  "length v = length u \<Longrightarrow> length xs = 56 \<Longrightarrow> pokes 57 v (xs @ call_head u m) = xs @ call_head v m"
  using pokes_middle [where i = 57 and xs = "xs @ [0xf8]" and bs = v and ys = u and zs = m]
  by (simp add: call_head_def)

lemma change_invoker:
  assumes "length v = length u" "56 + length (call_head u m) \<le> cmdcap c"
  shows "changeInvokingUid v (append_cmd (call_head u m) (reset c)) = Ret (append_cmd (call_head v m) (reset c))"
  using assms by (auto simp: changeInvokingUid_def append_cmd_def reset_def pokes_invoker Let_def)

lemma cmd_seq_2: "cmd_seq (f # g # fs) c = cmd_seq ((\<lambda>c. obind (f c) g) # fs) c"
  by (simp add: obind_assoc cmd_seq_fun)

lemma object_start:
  assumes "length obj = 9" "80 \<le> cmdcap c"
  shows "obind (reset_uid_method u m c) (changeInvokingUid obj)
    = Ret (append_cmd (call_head obj (0xa8 # OPALMETHOD m)) (reset c))"
  using assms by (simp add: reset_uid_method_run change_invoker)

lemma object_packet:
  assumes obj: "length obj = 9" and tok: "enc_all ts = Some tok"
    and fits: "wire_size (object_body obj m tok) \<le> MAX_BUFFER_LENGTH" and mem: "unat a + 1024 < 2 ^ 64"
  shows "\<exists>c. cmd_seq [reset_uid_method u m, changeInvokingUid obj, addTokens ts, complete True]
      (DtaCommand a) = Ret c \<and> is_packet c zero4 zero4 zero4 (object_body obj m tok)"
proof -
  note cap = cmdcap_DtaCommand(1) [OF mem]
  have "obind (reset_uid_method u m (DtaCommand a)) (changeInvokingUid obj)
      = Ret (append_cmd (call_head obj (0xa8 # OPALMETHOD m)) (reset (DtaCommand a)))"
    by (rule object_start [OF obj]) (use cap in simp)
  from build_packet [where start = "\<lambda>c. obind (reset_uid_method u m c) (changeInvokingUid obj)",
      OF this tok _ cap, where EOD = True] fits
  show ?thesis unfolding cmd_seq_2 object_body_def by blast
qed

lemma object_packet_special:
  assumes obj: "length obj = 9" and tok: "enc_all ts = Some tok"
    and fits: "wire_size (object_body obj m tok @ special_trailer) \<le> MAX_BUFFER_LENGTH"
    and mem: "unat a + 1024 < 2 ^ 64"
  shows "\<exists>c. cmd_seq [reset_uid_method u m, changeInvokingUid obj, addTokens ts, completeSpecial True]
      (DtaCommand a) = Ret c \<and>
    is_packet c zero4 zero4 zero4 (object_body obj m tok @ special_trailer)"
proof -
  let ?c = "DtaCommand a" and ?head = "call_head obj (0xa8 # OPALMETHOD m)"
  let ?full = "(?head @ tok) @ eod_bytes True @ special_trailer"
  let ?c1 = "append_cmd ?head (reset ?c)"
  let ?c2 = "append_cmd tok ?c1"
  note cap = cmdcap_DtaCommand(1) [OF mem]
  have full: "?full = object_body obj m tok @ special_trailer" by (simp add: object_body_def)
  have s: "obind (reset_uid_method u m ?c) (changeInvokingUid obj) = Ret ?c1"
    by (rule object_start [OF obj]) (use cap in simp)
  have c: "cmdcap (reset ?c) = cmdcap ?c" by (simp add: reset_def)
  have h1: "holds ?c1 zero4 zero4 zero4 ?head"
    using holds_append [OF holds_reset] by fastforce
  then have h2: "holds ?c2 zero4 zero4 zero4 (?head @ tok)" by (rule holds_append)
  have "addTokens ts ?c1 = Ret ?c2"
    by (rule holds_appends [OF h1 appends_tokens [OF tok]])
      (use fits cap in \<open>simp add: object_body_def wire_size_def c\<close>)
  moreover have "completeSpecial True ?c2 = Ret (?c2\<lparr>cmdmem := packet zero4 zero4 zero4 ?full,
      bufferpos := wire_size ?full\<rparr>)"
    using completeSpecial_packet [OF h2, of True] fits [folded full] cap by (simp add: c)
  ultimately show ?thesis
    using fits unfolding cmd_seq_2
    by (simp add: s object_body_def is_packet_def wire_size_def add.assoc)
qed

section \<open>The exchange a command leaves behind\<close>

text \<open>
  \<open>answered cid buf tr r\<close>: the requests \<open>tr\<close> are one accepted send of \<open>buf\<close> and then receives, the last
  of which was accepted and brought the response \<open>r\<close>.
\<close>

definition is_recv :: "u16 \<Rightarrow> request \<Rightarrow> bool" where
  "is_recv cid q \<longleftrightarrow> (\<exists>p rc b. q = Request IF_RECV p cid (replicate MIN_BUFFER_LENGTH 0) rc b)"

definition answered :: "u16 \<Rightarrow> bytes \<Rightarrow> request list \<Rightarrow> dta_response \<Rightarrow> bool" where
  "answered cid buf tr r \<longleftrightarrow> (\<exists>p b rs rb.
     tr = Request IF_SEND p cid buf 0 b # rs @
       [Request IF_RECV p cid (replicate MIN_BUFFER_LENGTH 0) 0 rb] \<and>
     list_all (is_recv cid) rs \<and>
     init MIN_BUFFER_LENGTH (read_block rb 0 MIN_BUFFER_LENGTH) = Ret r)"

lemma requests_disk [simp]: "requests (w\<lparr>disk := (d, tr)\<rparr>) = tr"
  by (simp add: requests_def)

lemma traced_run:
  assumes "isOpen w" "drive w = Some k"
  obtains rc b d where
    "sendCmd (traced E) c p cid buf w =
      ((rc, read_block b 0 (length buf)), w\<lparr>disk := (d, requests w @ [Request c p cid buf rc b])\<rparr>)"
proof (cases "disk w")
  case (Pair d0 tr)
  obtain rc b d where "drive_sendCmd E k c p cid buf d0 = (rc, b, d)" by (metis prod.collapse)
  then have "sendCmd (traced E) c p cid buf w =
      ((rc, read_block b 0 (length buf)), w\<lparr>disk := (d, requests w @ [Request c p cid buf rc b])\<rparr>)"
    using assms Pair by (simp add: sendCmd_def traced_def requests_def)
  then show ?thesis by (rule that)
qed

text \<open>The receive loop only receives, and ends with the reply it returns.\<close>

lemma poll_trace:
  assumes "poll (traced E) p w = Some ((rc, buf), w')" "isOpen w" "drive w = Some k"
  shows "\<exists>rs b d. w' = w\<lparr>disk := (d, requests w @ rs @
      [Request IF_RECV p (comID w) (replicate MIN_BUFFER_LENGTH 0) rc b])\<rparr> \<and>
    list_all (is_recv (comID w)) rs \<and> buf = read_block b 0 MIN_BUFFER_LENGTH"
proof -
  let ?z = "replicate MIN_BUFFER_LENGTH (0 :: u8)"
  let ?P = "\<lambda>E' p w r. \<forall>E :: 'a env. E' = traced E \<longrightarrow> isOpen w \<longrightarrow> drive w = Some k \<longrightarrow>
    (\<exists>rs b d. snd r = w\<lparr>disk := (d, requests w @ rs @ [Request IF_RECV p (comID w) ?z (fst (fst r)) b])\<rparr> \<and>
      list_all (is_recv (comID w)) rs \<and> snd (fst r) = read_block b 0 MIN_BUFFER_LENGTH)"
  have "?P (traced E) p w ((rc, buf), w')"
  proof (rule poll.raw_induct [where P = ?P, OF _ assms(1)])
    fix rec E' and p :: u8 and w r
    assume IH: "\<And>E' p w r. rec E' p w = Some r \<Longrightarrow> ?P E' p w r"
      and body: "(let r = sendCmd E' IF_RECV p (comID w) ?z w; hdr = snd (fst r)
      in if load32 hdr off_outstandingData \<noteq> 0 \<and> load32 hdr off_minTransfer = 0
         then rec E' p (snd r) else Some r) = Some r"
    show "?P E' p w r"
    proof (intro allI impI)
      fix E :: "'a env"
      assume E': "E' = traced E" and op: "isOpen w" "drive w = Some k"
      obtain rc b d where run: "sendCmd (traced E) IF_RECV p (comID w) ?z w =
          ((rc, read_block b 0 (length ?z)), w\<lparr>disk := (d, requests w @ [Request IF_RECV p (comID w) ?z rc b])\<rparr>)"
        by (rule traced_run [OF op, where E = E and c = IF_RECV and p = p and cid = "comID w" and buf = ?z])
      let ?w1 = "w\<lparr>disk := (d, requests w @ [Request IF_RECV p (comID w) ?z rc b])\<rparr>"
      let ?again = "load32 (read_block b 0 (length ?z)) off_outstandingData \<noteq> 0 \<and>
        load32 (read_block b 0 (length ?z)) off_minTransfer = 0"
      show "\<exists>rs b d. snd r = w\<lparr>disk := (d, requests w @ rs @ [Request IF_RECV p (comID w) ?z (fst (fst r)) b])\<rparr> \<and>
        list_all (is_recv (comID w)) rs \<and> snd (fst r) = read_block b 0 MIN_BUFFER_LENGTH"
      proof (cases ?again)
        case True
        with body have "rec (traced E) p ?w1 = Some r"
          by (simp only: E' run Let_def snd_conv fst_conv simp_thms if_True)
        from IH [OF this, rule_format, OF refl] op obtain rs b2 d2 where
          "snd r = w\<lparr>disk := (d2, (requests w @ [Request IF_RECV p (comID w) ?z rc b]) @ rs @
            [Request IF_RECV p (comID w) ?z (fst (fst r)) b2])\<rparr>"
          "list_all (is_recv (comID w)) rs" "snd (fst r) = read_block b2 0 MIN_BUFFER_LENGTH"
          by auto
        then show ?thesis
          by (intro exI [of _ "Request IF_RECV p (comID w) ?z rc b # rs"] exI [of _ b2] exI [of _ d2])
            (simp add: is_recv_def)
      next
        case False
        with body have "Some ((rc, read_block b 0 (length ?z)), ?w1) = Some r"
          by (simp only: E' run Let_def snd_conv fst_conv simp_thms if_False)
        then have "r = ((rc, read_block b 0 (length ?z)), ?w1)" by (rule option.inject [THEN iffD1, symmetric])
        then show ?thesis
          by (intro exI [of _ "[]"] exI [of _ b] exI [of _ d]) simp
      qed
    qed
  qed
  then show ?thesis using assms(2, 3) by auto
qed

lemma exec_trace:
  assumes "exec (traced E) cmd resp p w = (Ret (0, r), w')"
  shows "\<exists>d new. w' = w\<lparr>disk := (d, requests w @ new)\<rparr> \<and> answered (comID w) (sent_bytes cmd) new r"
proof -
  have io: "exec_io (traced E) cmd resp p w = (Ret (0, r), w')"
    using assms by (cases "dev_cls w") (simp_all add: exec_def)
  obtain k where op: "isOpen w" "drive w = Some k"
    using io by (fastforce simp: exec_io_def bind_op_def get_op_def sendCmd_op_def sendCmd_def ret_def
        split: if_splits option.splits)
  obtain rc b d where s: "sendCmd (traced E) IF_SEND p (comID w) (sent_bytes cmd) w =
      ((rc, read_block b 0 (length (sent_bytes cmd))),
        w\<lparr>disk := (d, requests w @ [Request IF_SEND p (comID w) (sent_bytes cmd) rc b])\<rparr>)"
    by (rule traced_run [OF op, where E = E and c = IF_SEND and p = p and cid = "comID w"
          and buf = "sent_bytes cmd"])
  let ?w1 = "w\<lparr>disk := (d, requests w @ [Request IF_SEND p (comID w) (sent_bytes cmd) rc b])\<rparr>"
  have rc: "rc = 0" using io s
    by (auto simp: exec_io_def bind_op_def get_op_def sendCmd_op_def ret_def split: if_splits)
  obtain buf where pl: "poll (traced E) p ?w1 = Some ((0, buf), w')" and r: "init MIN_BUFFER_LENGTH buf = Ret r"
    using io s rc
    by (auto simp: exec_io_def bind_op_def get_op_def sendCmd_op_def poll_op_def lift_op_def ret_def
        split: if_splits option.splits prod.splits outcome.splits)
  from poll_trace [OF pl] op obtain rs b2 d2 where
    "w' = w\<lparr>disk := (d2, requests w @ (Request IF_SEND p (comID w) (sent_bytes cmd) 0 b # rs @
        [Request IF_RECV p (comID w) (replicate MIN_BUFFER_LENGTH 0) 0 b2]))\<rparr>"
    "list_all (is_recv (comID w)) rs" "buf = read_block b2 0 MIN_BUFFER_LENGTH"
    by (auto simp: rc)
  with r show ?thesis unfolding answered_def by blast
qed

text \<open>A command that succeeded was sent with the session's numbers and accepted.\<close>

lemma sendCommand_trace:
  assumes "sendCommand (traced E) cmd resp w = (Ret (0, r), w')"
  shows "\<exists>s d new. session w = Some s \<and> w' = w\<lparr>disk := (d, requests w @ new)\<rparr> \<and>
    answered (comID w) (sent_bytes (stamped (comID w) s cmd)) new r \<and> reply_status r = Ret 0"
proof -
  obtain s where s: "session w = Some s"
    using assms by (cases "session w") (simp_all add: sendCommand_def this_session_def bind_op_def)
  have x: "exec (traced E) (stamped (comID w) s cmd) resp (SecurityProtocol s) w = (Ret (0, r), w')"
    and st: "reply_status r = Ret 0"
    using assms s
    by (auto simp: sendCommand_def this_session_def bind_op_def get_op_def lift_op_def ret_def stamped_def
        split: prod.splits outcome.splits if_splits)
  from exec_trace [OF x] s st show ?thesis by blast
qed

end
