(* ===== verification/Effects.thy ===== *)
theory Effects
  imports Exchange
begin

text \<open>
  What a success means: when an operation returns 0, the drive was sent the commands of the
  operation, in order and with these very bytes, and answered each with the status of success.
\<close>

section \<open>Confirmed exchanges\<close>

text \<open>\<open>confirmed cid xs tr\<close>: among the requests \<open>tr\<close> are, in this order, an exchange for every element
  of \<open>xs\<close>: a packet with the body, answered with the response, whose status is 0.\<close>

fun confirmed :: "u16 \<Rightarrow> (bytes \<times> dta_response) list \<Rightarrow> request list \<Rightarrow> bool" where
  "confirmed cid [] tr \<longleftrightarrow> True"
| "confirmed cid ((b, r) # xs) tr \<longleftrightarrow> (\<exists>pre new post tsn hsn. tr = pre @ new @ post \<and>
     answered cid (wire cid tsn hsn b) new r \<and> reply_status r = Ret 0 \<and> confirmed cid xs post)"

lemma confirmed_prefix: "confirmed cid xs tr \<Longrightarrow> confirmed cid xs (pre @ tr)"
  by (cases xs) (auto, metis append.assoc)

lemma confirmed_suffix: "confirmed cid xs tr \<Longrightarrow> confirmed cid xs (tr @ post)"
  by (induction cid xs tr rule: confirmed.induct) fastforce+

lemma confirmed_append: "confirmed cid xs tr \<Longrightarrow> confirmed cid ys tr' \<Longrightarrow> confirmed cid (xs @ ys) (tr @ tr')"
proof (induction cid xs tr rule: confirmed.induct)
  case (1 cid tr)
  then show ?case by (simp add: confirmed_prefix)
next
  case (2 cid b r xs tr)
  then show ?case by fastforce
qed

text \<open>The same between two device states, for the requests made on the way.\<close>

definition exchanged :: "(bytes \<times> dta_response) list \<Rightarrow> ('d \<times> request list) dta_dev \<Rightarrow>
    ('d \<times> request list) dta_dev \<Rightarrow> bool" where
  "exchanged xs w w' \<longleftrightarrow> (\<exists>new. requests w' = requests w @ new \<and> confirmed (comID w) xs new)"

definition achieves :: "bytes list \<Rightarrow> ('d \<times> request list) dta_dev \<Rightarrow> ('d \<times> request list) dta_dev \<Rightarrow> bool" where
  "achieves bs w w' \<longleftrightarrow> (\<exists>xs. map fst xs = bs \<and> exchanged xs w w')"

lemma exchanged_append:
  "exchanged xs w w1 \<Longrightarrow> exchanged ys w1 w2 \<Longrightarrow> comID w1 = comID w \<Longrightarrow> exchanged (xs @ ys) w w2"
  unfolding exchanged_def by (metis append.assoc confirmed_append)

lemma exchanged_before: "proper_trace w0 w \<Longrightarrow> exchanged xs w w' \<Longrightarrow> exchanged xs w0 w'"
  unfolding exchanged_def proper_trace_def by (metis append.assoc confirmed_prefix)

lemma exchanged_after: "exchanged xs w w' \<Longrightarrow> proper_trace w' w'' \<Longrightarrow> exchanged xs w w''"
  unfolding exchanged_def proper_trace_def by (metis append.assoc confirmed_suffix)

lemma exchanged_achieves: "exchanged xs w w' \<Longrightarrow> achieves (map fst xs) w w'"
  unfolding achieves_def by blast

lemma achieves_append:
  "achieves bs w w1 \<Longrightarrow> achieves bs' w1 w2 \<Longrightarrow> comID w1 = comID w \<Longrightarrow> achieves (bs @ bs') w w2"
  unfolding achieves_def by (metis map_append exchanged_append)

lemma achieves_before: "proper_trace w0 w \<Longrightarrow> achieves bs w w' \<Longrightarrow> achieves bs w0 w'"
  unfolding achieves_def by (metis exchanged_before)

lemma achieves_after: "achieves bs w w' \<Longrightarrow> proper_trace w' w'' \<Longrightarrow> achieves bs w w''"
  unfolding achieves_def by (metis exchanged_after)

text \<open>One command that succeeded.\<close>

lemma sendCommand_exchanged:
  assumes "sendCommand (traced E) c resp w = (Ret (0, r), w')" "is_packet c zero4 zero4 zero4 body"
  shows "exchanged [(body, r)] w w'"
proof -
  from sendCommand_trace [OF assms(1)] obtain s d new where
    w': "w' = w\<lparr>disk := (d, requests w @ new)\<rparr>"
    and new: "answered (comID w) (sent_bytes (stamped (comID w) s c)) new r" "reply_status r = Ret 0"
    by blast
  have "confirmed (comID w) [(body, r)] ([] @ new @ [])"
    using new unfolding sent_wire [OF assms(2)] confirmed.simps by blast
  then show ?thesis using w' by (simp add: exchanged_def del: confirmed.simps)
qed

lemma sendCommand_achieves:
  assumes "sendCommand (traced E) c resp w = (Ret (0, r), w')" "is_packet c zero4 zero4 zero4 body"
  shows "achieves [body] w w'"
  using exchanged_achieves [OF sendCommand_exchanged [OF assms]] by simp

lemma sendCommand_dev_success:
  "sendCommand_dev E c w = (Ret 0, w') \<longleftrightarrow>
    (\<exists>r w1. sendCommand E c (dev_response w) w = (Ret (0, r), w1) \<and> w' = w1\<lparr>dev_response := r\<rparr>)"
  by (auto simp: sendCommand_dev_def bind_op_Ret_iff get_op_def put_op_def ret_def split: prod.splits)

lemma sendCommand_dev_exchanged:
  assumes "sendCommand_dev (traced E) c w = (Ret 0, w')" "is_packet c zero4 zero4 zero4 body"
  shows "exchanged [(body, dev_response w')] w w'"
  using assms sendCommand_exchanged [OF _ assms(2)]
  by (auto simp: sendCommand_dev_success exchanged_def requests_def simp del: confirmed.simps)

lemma build_success: "bind_op (build E calls) f w = (Ret x, w') \<longleftrightarrow>
    (\<exists>c. cmd_seq calls (DtaCommand (cmd_addr E)) = Ret c \<and> f c w = (Ret x, w'))"
  by (cases "cmd_seq calls (DtaCommand (cmd_addr E))") (auto simp: build_def bind_op_def lift_op_def)

lemma call_dev_exchanged:
  assumes "call_dev (traced E) calls w = (Ret 0, w')"
    and "\<exists>c. cmd_seq calls (DtaCommand (cmd_addr E)) = Ret c \<and> is_packet c zero4 zero4 zero4 body"
  shows "exchanged [(body, dev_response w')] w w'"
  using assms sendCommand_dev_exchanged by (fastforce simp: call_dev_def build_success traced_def)

lemma call_dev_achieves:
  assumes "call_dev (traced E) calls w = (Ret 0, w')"
    and "\<exists>c. cmd_seq calls (DtaCommand (cmd_addr E)) = Ret c \<and> is_packet c zero4 zero4 zero4 body"
  shows "achieves [body] w w'"
  using exchanged_achieves [OF call_dev_exchanged [OF assms]] by simp

section \<open>Sessions\<close>

lemma in_session_success:
  "in_session E st k w = (Ret 0, w') \<longleftrightarrow>
    (\<exists>w1. st (w\<lparr>session := Some DtaSession\<rparr>) = (Ret 0, w1) \<and> k w1 = (Ret 0, w'))"
  by (simp add: in_session_def seq_op_def new_session_def bind_op_Ret_iff put_op_def check_cleanup_success)

lemma checked_success:
  "checked E m k w = (Ret 0, w') \<longleftrightarrow> (\<exists>w1. m w = (Ret 0, w1) \<and> k w1 = (Ret 0, w'))"
  by (simp add: checked_def check_cleanup_success)

lemma session_proper: "proper_trace w (w\<lparr>session := s\<rparr>)"
  by (rule wire.rel_local) simp

text \<open>The packet that opens a session on an Opal device: the password as its hash, the authority.\<close>

definition start_body :: "bytes \<Rightarrow> opal_uid \<Rightarrow> bytes \<Rightarrow> bytes" where
  "start_body pin sp auth = call_body OPAL_SMUID_UID STARTSESSION
     ([0xf0, 0x81, 105] @ (0xa8 # OPALUID sp) @ [0x01, 0xf2, 0x00] @ pin @ [0xf3, 0xf2, 0x03] @ auth @
      [0xf3, 0xf1])"

lemma length_DtaHashPwd: "length (DtaHashPwd E p w) \<le> 34"
  by (simp add: DtaHashPwd_def DtaHashPassword_def strnlen_def Let_def)

lemma length_wire: "wire_size body \<le> length body + 60"
  by (simp add: wire_size_def padding_def)

lemma this_session_bind: "session w = Some s \<Longrightarrow> bind_op this_session f w = f s w"
  by (simp add: bind_op_def this_session_def)

lemma get_bind: "bind_op (get_op g) f w = f (g w) w"
  by (simp add: bind_op_def get_op_def)

lemma send_checked_success:
  "bind_op (sendCommand E c resp) (\<lambda>(rc, r). if rc \<noteq> 0 then ret rc else k r) w = (Ret 0, w') \<longleftrightarrow>
   (\<exists>r w1. sendCommand E c resp w = (Ret (0, r), w1) \<and> k r w1 = (Ret 0, w'))"
  by (auto simp: bind_op_Ret_iff ret_def split: if_splits)

lemma start_success:
  assumes "session w = Some s"
  shows "start E sp chal auth w = (Ret 0, w') \<longleftrightarrow>
    (\<exists>c r w1 w2. cmd_seq [reset_uid_method OPAL_SMUID_UID STARTSESSION,
        addTokens (start_args E s w sp chal auth), complete True] (DtaCommand (cmd_addr E)) = Ret c \<and>
      sendCommand E c empty_response w = (Ret (0, r), w1) \<and> take_numbers r w1 = (Ret (), w2) \<and>
      (if chal \<noteq> None \<and> isEprise w then authenticate E auth chal else ret 0) w2 = (Ret 0, w'))"
  unfolding start_def this_session_bind [OF assms] get_bind build_success send_checked_success id_apply
  by (simp add: bind_op_Ret_iff)

lemma start_body_fits:
  "length pin \<le> 4096 \<Longrightarrow> length auth = 9 \<Longrightarrow> wire_size (start_body pin sp auth) \<le> MAX_BUFFER_LENGTH"
  using length_wire [of "start_body pin sp auth"] by (simp add: start_body_def call_body_def eod_bytes_def)

lemma start_achieves:
  assumes "start (traced E) sp (Some pw) auth w = (Ret 0, w')" "\<not> isEprise w"
    and s: "session w = Some s" and pin: "enc (challenge_token (traced E) s w pw) = Some pin" "length pin \<le> 4096"
    and auth: "length auth = 9" "auth \<noteq> 0xa8 # OPALUID OPAL_UID_HEXFF"
    and mem: "unat (cmd_addr E) + 1024 < 2 ^ 64"
  shows "achieves [start_body pin sp auth] w w'"
proof -
  have addr: "cmd_addr (traced E) = cmd_addr E" by (simp add: traced_def)
  have tok: "enc_all (start_args (traced E) s w sp (Some pw) auth) = Some ([0xf0, 0x81, 105] @
      (0xa8 # OPALUID sp) @ [0x01, 0xf2, 0x00] @ pin @ [0xf3, 0xf2, 0x03] @ auth @ [0xf3, 0xf1])"
    using assms(2) pin(1) auth(2) by (auto simp: start_args_def auth_args_def timeout_args_def enc_num_def)
  from call_packet [OF tok start_body_fits [OF pin(2) auth(1), unfolded start_body_def]
      cmdcap_DtaCommand(1) [OF mem]]
  obtain c r w1 w2 where c: "is_packet c zero4 zero4 zero4 (start_body pin sp auth)"
    and run: "sendCommand (traced E) c empty_response w = (Ret (0, r), w1)"
      "take_numbers r w1 = (Ret (), w2)" "w2 = w'"
    using assms(1, 2) unfolding start_success [OF s(1)] addr start_body_def by (auto simp: ret_def)
  have "proper_trace w1 w'"
    using steps_result [OF wire.cl_take_numbers run(2)] run(3) by simp
  then show ?thesis by (rule achieves_after [OF sendCommand_achieves [OF run(1) c]])
qed

lemma hash_session [simp]: "DtaHashPwd E pw (w\<lparr>session := s\<rparr>) = DtaHashPwd E pw w"
  by (simp add: DtaHashPwd_def getSerialNum_def)

lemma eprise_session [simp]: "isEprise (w\<lparr>session := s\<rparr>) = isEprise w"
  by (simp add: isEprise_def)

lemma uid_token_HEXFF: "uid_token u = 0xa8 # OPALUID OPAL_UID_HEXFF \<longleftrightarrow> u = OPAL_UID_HEXFF"
  using inj_OPALUID by (auto simp: uid_token_def dest: injD)

lemma length_uid_token [simp]: "length (uid_token u) = 9"
  by (simp add: uid_token_def)

text \<open>Every operation of the Opal class that signs in and then makes one call.\<close>

lemma opal_session_achieves:
  assumes run: "in_session (traced E) (start_uid (traced E) sp (Some pw) u) k w = (Ret 0, w')"
    and w: "\<not> isEprise w" "u \<noteq> OPAL_UID_HEXFF" "unat (cmd_addr E) + 1024 < 2 ^ 64"
    and k: "\<And>w1. k w1 = (Ret 0, w') \<Longrightarrow> achieves bs w1 w'"
  shows "achieves (start_body (DtaHashPwd (traced E) pw w) sp (uid_token u) # bs) w w'"
proof -
  let ?w0 = "w\<lparr>session := Some DtaSession\<rparr>"
  obtain w1 where st: "start (traced E) sp (Some pw) (uid_token u) ?w0 = (Ret 0, w1)" "k w1 = (Ret 0, w')"
    using run by (auto simp: in_session_success start_uid_def uid_token_def)
  have "achieves [start_body (DtaHashPwd (traced E) pw ?w0) sp (uid_token u)] ?w0 w1"
    by (rule start_achieves [OF st(1), where s = DtaSession])
      (use w uid_token_HEXFF [of u] length_DtaHashPwd [of "traced E" pw w] in
        \<open>simp_all add: DtaSession_def challenge_token_def\<close>)
  moreover have "comID w1 = comID ?w0"
    using steps_result [OF wire.cl_start st(1)] by (simp add: proper_trace_def)
  ultimately have "achieves ([start_body (DtaHashPwd (traced E) pw ?w0) sp (uid_token u)] @ bs) ?w0 w'"
    using achieves_append k [OF st(2)] by blast
  then show ?thesis using achieves_before [OF session_proper] by fastforce
qed

lemma checked_call_achieves:
  assumes "checked (traced E) (call_dev (traced E) calls) k w = (Ret 0, w')"
    and "\<exists>c. cmd_seq calls (DtaCommand (cmd_addr E)) = Ret c \<and> is_packet c zero4 zero4 zero4 body"
    and "steps proper_trace k"
  shows "achieves [body] w w'"
  using assms call_dev_achieves [OF _ assms(2)] steps_result [OF assms(3)]
  unfolding checked_success by (blast intro: achieves_after)

section \<open>Setting cells\<close>

text \<open>The body of a Set on a row: every cell is a column and its value, as a token.\<close>

fun cell_bytes :: "(u8 \<times> bytes) list \<Rightarrow> bytes" where
  "cell_bytes [] = []"
| "cell_bytes ((col, v) # cs) = [0xf2, col] @ v @ [0xf3] @ cell_bytes cs"

definition set_body :: "bytes \<Rightarrow> (u8 \<times> bytes) list \<Rightarrow> bytes" where
  "set_body obj cells =
     object_body obj SET ([0xf0, 0xf2, 0x01, 0xf0] @ cell_bytes cells @ [0xf1, 0xf3, 0xf1])"

lemma set_body_fits:
  assumes "length obj = 9" "length (cell_bytes cells) \<le> 2048"
  shows "wire_size (object_body obj SET ([0xf0, 0xf2, 0x01, 0xf0] @ cell_bytes cells @ [0xf1, 0xf3, 0xf1]))
      \<le> MAX_BUFFER_LENGTH"
    "wire_size (object_body obj SET ([0xf0, 0xf2, 0x01, 0xf0] @ cell_bytes cells @ [0xf1, 0xf3, 0xf1]) @
      special_trailer) \<le> MAX_BUFFER_LENGTH"
  using assms length_wire [of "set_body obj cells"] length_wire [of "set_body obj cells @ special_trailer"]
  by (simp_all add: set_body_def object_body_def eod_bytes_def special_trailer_def)

lemma LR_of_length [simp]: "length (LR_of n) = 9"
  by (simp add: LR_of_def range_object_def)

lemma setTable_packet:
  assumes "length obj = 9" "length value \<le> 1024" "unat (cmd_addr E) + 1024 < 2 ^ 64"
  shows "\<exists>c. cmd_seq [reset_uid_method OPAL_AUTHORITY_TABLE SET, changeInvokingUid obj,
      addTokens [Tok STARTLIST, Tok STARTNAME, Tok VALUES, Tok STARTLIST, Tok STARTNAME, Tok name, Vec value,
        Tok ENDNAME, Tok ENDLIST, Tok ENDNAME, Tok ENDLIST], complete True] (DtaCommand (cmd_addr E)) = Ret c \<and>
    is_packet c zero4 zero4 zero4 (set_body obj [(name, value)])"
  unfolding set_body_def
  by (rule object_packet [OF assms(1) _ set_body_fits(1) [OF assms(1)] assms(3)]) (use assms(2) in simp_all)

text \<open>A change of a single cell by Admin1 or SID.\<close>

lemma setTable_achieves:
  assumes "checked (traced E) (setTable (traced E) obj name value) (finish (traced E) 0) w = (Ret 0, w')"
    and "length obj = 9" "length value \<le> 1024" "unat (cmd_addr E) + 1024 < 2 ^ 64"
  shows "achieves [set_body obj [(name, value)]] w w'"
  by (rule checked_call_achieves [OF assms(1) [unfolded setTable_def] setTable_packet [OF assms(2-4)]])
    (rule wire.cl_finish)
end
