(* ===== verification/Codec.thy ===== *)
theory Codec
  imports Packet Response
begin

text \<open>
  The encoders of Command against the tokenizer and the accessors of Response: what a command
  writes is what a reader of the same bytes gets back. An encoder with its accessor is an instance
  of the locale \<open>token_codec\<close>.
\<close>

section \<open>Well-formed tokens\<close>

text \<open>A whole token: its first bytes announce its length.\<close>

definition wf_token :: "bytes \<Rightarrow> bool" where
  "wf_token t \<longleftrightarrow> t \<noteq> [] \<and> token_length (length t) t 0 = Ret (length t)"

definition at_pos :: "bytes \<Rightarrow> nat \<Rightarrow> bytes \<Rightarrow> bool" where
  "at_pos m p xs \<longleftrightarrow> (\<forall>k < length xs. peek m (p + k) = xs ! k)"

lemma at_posD: "at_pos m p xs \<Longrightarrow> k < length xs \<Longrightarrow> peek m (p + k) = xs ! k"
  by (simp add: at_pos_def)

lemma at_pos_append: "at_pos m p (xs @ ys) \<longleftrightarrow> at_pos m p xs \<and> at_pos m (p + length xs) ys"
proof
  assume a: "at_pos m p (xs @ ys)"
  have "peek m (p + k) = xs ! k" if "k < length xs" for k
    using at_posD [OF a, of k] that by (simp add: nth_append)
  moreover have "peek m (p + length xs + k) = ys ! k" if "k < length ys" for k
    using at_posD [OF a, of "length xs + k"] that by (simp add: add.assoc)
  ultimately show "at_pos m p xs \<and> at_pos m (p + length xs) ys" by (simp add: at_pos_def)
next
  assume a: "at_pos m p xs \<and> at_pos m (p + length xs) ys"
  then have x: "at_pos m p xs" and y: "at_pos m (p + length xs) ys" by blast+
  show "at_pos m p (xs @ ys)"
    unfolding at_pos_def
  proof (intro allI impI)
    fix k assume k: "k < length (xs @ ys)"
    show "peek m (p + k) = (xs @ ys) ! k"
    proof (cases "k < length xs")
      case True
      then show ?thesis using at_posD [OF x] by (simp add: nth_append)
    next
      case False
      then have "k - length xs < length ys" using k by simp
      from at_posD [OF y this] False show ?thesis by (simp add: nth_append)
    qed
  qed
qed

lemma at_pos_self: "at_pos (xs @ ys @ zs) (length xs) ys"
  by (simp add: at_pos_def peek_def nth_append)

lemma read_block_at_pos: "at_pos m p xs \<Longrightarrow> read_block m p (length xs) = xs"
  by (rule read_block_eqI) (simp_all add: at_posD)

text \<open>A read that succeeds on the token alone succeeds in a buffer that holds it.\<close>

definition refines :: "'a outcome \<Rightarrow> 'a outcome \<Rightarrow> bool" where
  "refines x y \<longleftrightarrow> (\<forall>v. x = Ret v \<longrightarrow> y = Ret v)"

lemma refines_refl: "refines x x"
  by (simp add: refines_def)

lemma refines_bind: "refines m m' \<Longrightarrow> (\<And>x. refines (f x) (f' x)) \<Longrightarrow> refines (obind m f) (obind m' f')"
  by (auto simp: refines_def obind_eq_Ret)

lemma refines_if: "refines a a' \<Longrightarrow> refines b b' \<Longrightarrow> refines (if c then a else b) (if c then a' else b')"
  by simp

lemma token_length_at_pos:
  assumes "at_pos m p t" "p + length t \<le> cap" "token_length (length t) t 0 = Ret n"
  shows "token_length cap m p = Ret n"
proof -
  have R: "refines (rd (length t) t k) (rd cap m (p + k))" for k
    using assms(1, 2) by (auto simp: refines_def rd_def peek_def at_pos_def split: if_splits)
  have "refines (token_length (length t) t 0) (token_length cap m p)"
    unfolding token_length_def add_0
    by (intro refines_bind refines_if refines_refl R R [of 0, simplified])
  then show ?thesis using assms(3) by (simp add: refines_def)
qed

lemma length_concat_wf: "list_all wf_token ts \<Longrightarrow> length ts \<le> length (concat ts)"
proof (induction ts)
  case (Cons t ts)
  then show ?case by (cases t) (auto simp: wf_token_def)
qed simp

text \<open>The tokenizer finds the tokens that were laid out, less the empty atoms.\<close>

lemma tokenize_concat:
  assumes "list_all wf_token ts" "at_pos m (sizeof_OPALHeader + cpos) (concat ts)"
    and "len = cpos + length (concat ts)" "sizeof_OPALHeader + len \<le> cap"
  shows "tokenize cap m len cpos = Ret (filter (\<lambda>t. t \<noteq> [EMPTYATOM]) ts)"
  using assms
proof (induction ts arbitrary: cpos)
  case Nil
  then show ?case by (simp add: tokenize.simps [of _ _ _ cpos])
next
  case (Cons t ts)
  have wf: "t \<noteq> []" "token_length (length t) t 0 = Ret (length t)"
    using Cons.prems(1) by (simp_all add: wf_token_def)
  have pos: "at_pos m (sizeof_OPALHeader + cpos) t"
      "at_pos m (sizeof_OPALHeader + cpos + length t) (concat ts)"
    using Cons.prems(2) by (simp_all add: at_pos_append)
  have fits: "sizeof_OPALHeader + cpos + length t \<le> cap" "cpos < len"
    using Cons.prems(3, 4) wf(1) by simp_all
  have "tokenize cap m len (cpos + length t) = Ret (filter (\<lambda>t. t \<noteq> [EMPTYATOM]) ts)"
    by (rule Cons.IH) (use Cons.prems pos in \<open>simp_all add: add.assoc\<close>)
  then show ?case
    using fits token_length_at_pos [OF pos(1) fits(1) wf(2)] read_block_at_pos [OF pos(1)]
    by (simp add: tokenize.simps [of _ _ _ cpos] Let_def)
qed


section \<open>Encoders give whole tokens\<close>

lemma short_prefix:
  assumes "n < 16"
  defines "b \<equiv> 0xa0 + of_nat n :: u8"
  shows "b AND 0x80 \<noteq> 0" "b AND 0x40 = 0" "b AND 0x20 \<noteq> 0" "unat (b AND 0x0f) = n"
proof -
  have "\<forall>n\<in>{..<16::nat}. let b = 0xa0 + of_nat n :: u8 in
      b AND 0x80 \<noteq> 0 \<and> b AND 0x40 = 0 \<and> b AND 0x20 \<noteq> 0 \<and> unat (b AND 0x0f) = n"
    by (simp add: lessThan_nat_numeral)
  with assms show "b AND 0x80 \<noteq> 0" "b AND 0x40 = 0" "b AND 0x20 \<noteq> 0" "unat (b AND 0x0f) = n"
    by (auto simp: Let_def)
qed

lemma medium_prefix:
  assumes "n < 8"
  defines "b \<equiv> 0xd0 + of_nat n :: u8"
  shows "b AND 0x80 \<noteq> 0" "b AND 0x40 \<noteq> 0" "b AND 0x20 = 0" "b AND 0x10 \<noteq> 0" "unat (b AND 0x07) = n"
proof -
  have "\<forall>n\<in>{..<8::nat}. let b = 0xd0 + of_nat n :: u8 in
      b AND 0x80 \<noteq> 0 \<and> b AND 0x40 \<noteq> 0 \<and> b AND 0x20 = 0 \<and> b AND 0x10 \<noteq> 0 \<and> unat (b AND 0x07) = n"
    by (simp add: lessThan_nat_numeral)
  with assms show "b AND 0x80 \<noteq> 0" "b AND 0x40 \<noteq> 0" "b AND 0x20 = 0" "b AND 0x10 \<noteq> 0"
      "unat (b AND 0x07) = n"
    by (auto simp: Let_def)
qed

lemma tiny_prefix:
  assumes "n < 64"
  defines "b \<equiv> of_nat n :: u8"
  shows "b AND 0x80 = 0" "b AND 0x40 = 0" "b AND 0x3f = of_nat n"
proof -
  have "\<forall>n\<in>{..<64::nat}. let b = of_nat n :: u8 in b AND 0x80 = 0 \<and> b AND 0x40 = 0 \<and> b AND 0x3f = b"
    by (simp add: lessThan_nat_numeral)
  with assms show "b AND 0x80 = 0" "b AND 0x40 = 0" "b AND 0x3f = of_nat n"
    by (auto simp: Let_def)
qed

lemma wf_tiny: "b AND 0x80 = 0 \<Longrightarrow> wf_token [b]"
  by (simp add: wf_token_def token_length_def rd_def peek_def)

lemma wf_control:
  "b AND 0x80 \<noteq> 0 \<Longrightarrow> b AND 0x40 \<noteq> 0 \<Longrightarrow> b AND 0x20 \<noteq> 0 \<Longrightarrow> b AND 0x10 \<noteq> 0 \<Longrightarrow> wf_token [b]"
  by (simp add: wf_token_def token_length_def rd_def peek_def)

lemma wf_short:
  "b AND 0x80 \<noteq> 0 \<Longrightarrow> b AND 0x40 = 0 \<Longrightarrow> unat (b AND 0x0f) = length xs \<Longrightarrow> wf_token (b # xs)"
  by (simp add: wf_token_def token_length_def rd_def peek_def)

lemma wf_medium:
  "b AND 0x80 \<noteq> 0 \<Longrightarrow> b AND 0x40 \<noteq> 0 \<Longrightarrow> b AND 0x20 = 0 \<Longrightarrow>
   unat (b AND 0x07) * 256 + unat b1 = length xs \<Longrightarrow> wf_token (b # b1 # xs)"
  by (simp add: wf_token_def token_length_def rd_def peek_def)

lemma wf_enc_num: "wf_token (enc_num n)"
  by (auto simp: enc_num_def intro!: wf_tiny wf_short tiny_prefix)

lemma wf_enc_bytes: "enc_bytes s = Some t \<Longrightarrow> wf_token t"
proof -
  assume e: "enc_bytes s = Some t"
  consider "length s = 0" | "0 < length s" "length s < 16" | "16 \<le> length s" "length s < 2048"
    using e by (fastforce simp: enc_bytes_def Let_def split: if_splits)
  then show "wf_token t"
  proof cases
    case 1
    with e have "t = [0xa1, 0]" by (simp add: enc_bytes_def)
    then show ?thesis by (simp add: wf_short)
  next
    case 2
    with e show ?thesis
      using short_prefix [OF 2(2)] by (auto simp: enc_bytes_def intro!: wf_short)
  next
    case 3
    then have d: "length s div 256 < 8" by simp
    from 3 e have t: "t = (0xd0 + of_nat (length s div 256)) # of_nat (length s) # s"
      by (auto simp: enc_bytes_def Let_def split: if_splits)
    show ?thesis unfolding t
      by (rule wf_medium) (use medium_prefix [OF d] in \<open>simp_all add: unat_of_nat take_bit_eq_mod\<close>)
  qed
qed

lemma wf_uid: "wf_token (0xa8 # OPALUID u)"
  by (rule wf_short) simp_all

lemma wf_method: "wf_token (0xa8 # OPALMETHOD m)"
  by (rule wf_short) simp_all

text \<open>An argument whose encoding is one token and not an empty atom. A vector has to be one, a
  control byte has to have its four high bits set.\<close>

definition is_control :: "u8 \<Rightarrow> bool" where
  "is_control b \<longleftrightarrow> (b AND 0xf0 = 0xf0 \<and> b \<noteq> EMPTYATOM) \<or> b AND 0x80 = 0"

fun one_token :: "token_arg \<Rightarrow> bool" where
  "one_token (Tok t) = is_control t"
| "one_token (ShortAtom t) = False"
| "one_token (TinyAtom t) = is_control t"
| "one_token (Vec v) = (wf_token v \<and> v \<noteq> [EMPTYATOM])"
| "one_token _ = True"


lemma wf_not_empty_atom: "b AND 0x80 = 0 \<Longrightarrow> b \<noteq> EMPTYATOM" "xs \<noteq> [] \<Longrightarrow> b # xs \<noteq> [EMPTYATOM]"
  by auto

lemma enc_num_not_empty: "enc_num n \<noteq> [EMPTYATOM]"
  using wf_not_empty_atom(1) [OF tiny_prefix(1)] by (auto simp: enc_num_def)

lemma enc_bytes_not_empty: "enc_bytes s = Some t \<Longrightarrow> t \<noteq> [EMPTYATOM]"
  by (auto simp: enc_bytes_def Let_def split: if_splits)

lemma one_token_enc:
  assumes "one_token t" "enc t = Some bs"
  shows "wf_token bs \<and> bs \<noteq> [EMPTYATOM]"
proof -
  have ctl: "wf_token [b] \<and> b \<noteq> EMPTYATOM" if "is_control b" for b
  proof (cases "b AND 0x80 = 0")
    case True
    then show ?thesis by (auto intro: wf_tiny)
  next
    case False
    then have f: "b AND 0xf0 = 0xf0" "b \<noteq> EMPTYATOM" using that by (auto simp: is_control_def)
    have sub: "b AND x = 0xf0 AND x" if "x AND 0xf0 = x" for x
    proof -
      have "b AND x = (b AND 0xf0) AND x" using that by (metis and.assoc and.commute)
      then show ?thesis by (simp add: f)
    qed
    show ?thesis using f by (auto intro!: wf_control simp: sub)
  qed
  show ?thesis
    using assms ctl
    by (cases t) (auto simp: wf_enc_num wf_uid enc_num_not_empty
        dest: wf_enc_bytes enc_bytes_not_empty)
qed

lemma wf_control_token: "b AND 0xf0 = 0xf0 \<Longrightarrow> b \<noteq> EMPTYATOM \<Longrightarrow> wf_token [b]"
  using one_token_enc [of "Tok b" "[b]"] by (simp add: is_control_def)

section \<open>Reading back\<close>

lemma be_bytes_snoc: "be_bytes (Suc k) n = be_bytes k (n div 256) @ [of_nat n]"
proof (induction k)
  case (Suc k)
  show ?case
    unfolding be_bytes.simps(2) [of "Suc k" n] Suc unfolding be_bytes.simps(2) [of k "n div 256"]
    by (simp add: div_mult2_eq)
qed simp

lemma or_bytes_be:
  "b + k \<le> 8 \<Longrightarrow> or_bytes b w (rev (be_bytes k n)) =
     Ret (w OR push_bit (8 * b) (of_nat (take_bit (8 * k) n)))"
proof (induction k arbitrary: b w n)
  case (Suc k)
  have "or_bytes (b + 1) (w OR push_bit (8 * b) (ucast (of_nat n :: u8))) (rev (be_bytes k (n div 256)))
     = Ret ((w OR push_bit (8 * b) (ucast (of_nat n :: u8)))
         OR push_bit (8 * (b + 1)) (of_nat (take_bit (8 * k) (n div 256))))"
    by (rule Suc.IH) (use Suc.prems in simp)
  moreover have "(w OR push_bit (8 * b) (ucast (of_nat n :: u8)))
         OR push_bit (8 * (b + 1)) (of_nat (take_bit (8 * k) (n div 256)))
      = w OR push_bit (8 * b) (of_nat (take_bit (8 * Suc k) n))" (is "?l = ?r")
  proof (rule bit_word_eqI)
    fix i
    have d: "n div 256 = drop_bit 8 n" by (simp add: drop_bit_eq_div)
    have r: "8 + (i - (8 + 8 * b)) = i - 8 * b" if "8 + 8 * b \<le> i" using that by simp
    have "i - 8 * b < 8 + 8 * k \<longleftrightarrow> i - (8 + 8 * b) < 8 * k" if "8 + 8 * b \<le> i" using that by arith
    with r show "bit ?l i = bit ?r i"
      unfolding d by (cases "i < 8 * b"; cases "i < 8 + 8 * b") (auto simp: bit_simps not_less)
  qed
  ultimately show ?case using Suc.prems by (simp add: be_bytes_snoc del: be_bytes.simps)
qed simp

lemma getUint64_enc_num: "getUint64_token (enc_num (unat x)) = Ret x"
proof -
  have atom: "getUint64_token (a # be_bytes k (unat x)) = Ret x"
    if "a AND 0x80 \<noteq> 0" "a AND 0x40 = 0" "a AND 0x10 = 0" "k \<le> 8" "unat x < 256 ^ k" for a k
  proof -
    have "256 ^ k = (2 :: nat) ^ (8 * k)" by (simp add: power_mult)
    then have "take_bit (8 * k) (unat x) = unat x"
      using that by (simp add: take_bit_nat_eq_self)
    then show ?thesis
      using that by (simp add: getUint64_token_def first_byte_def vec_at_def or_bytes_be)
  qed
  have tiny: "getUint64_token [of_nat (unat x)] = Ret x" if "unat x < 64"
  proof -
    have "(ucast (of_nat (unat x) :: u8) :: u64) = x"
      using that by (simp add: unsigned_of_nat take_bit_nat_eq_self del: of_nat_unat)
        (simp only: of_nat_unat ucast_id)
    then show ?thesis
      using tiny_prefix [OF that] by (simp add: getUint64_token_def first_byte_def vec_at_def)
  qed
  have "unat x < 256 ^ 8" using unsigned_less [of x] by simp
  then show ?thesis
    using atom [of "0x81" 1] atom [of "0x82" 2] atom [of "0x84" 4] atom [of "0x88" 8] tiny
    by (simp add: enc_num_def)
qed


lemma getBytes_enc_bytes:
  assumes "enc_bytes s = Some t" "s \<noteq> []"
  shows "getString_token t = Ret s" "getBytes_token t = Ret s"
    "tokenIs_token t = Ret DTA_TOKENID_BYTESTRING"
proof -
  consider "0 < length s" "length s < 16" | "16 \<le> length s" "length s < 2048"
    using assms by (fastforce simp: enc_bytes_def Let_def split: if_splits)
  then have "getString_token t = Ret s \<and> getBytes_token t = Ret s \<and>
      tokenIs_token t = Ret DTA_TOKENID_BYTESTRING"
  proof cases
    case 1
    then have t: "t = (0xa0 + of_nat (length s)) # s"
      using assms by (auto simp: enc_bytes_def Let_def split: if_splits)
    show ?thesis
      unfolding t getString_token_def getBytes_token_def tokenIs_token_def first_byte_def vec_at_def
      using short_prefix [OF 1(2)] by simp
  next
    case 2
    then have d: "length s div 256 < 8" by simp
    from 2 have t: "t = (0xd0 + of_nat (length s div 256)) # of_nat (length s) # s"
      using assms by (auto simp: enc_bytes_def Let_def split: if_splits)
    show ?thesis
      unfolding t getString_token_def getBytes_token_def tokenIs_token_def first_byte_def vec_at_def
      using medium_prefix [OF d] by simp
  qed
  then show "getString_token t = Ret s" "getBytes_token t = Ret s"
    "tokenIs_token t = Ret DTA_TOKENID_BYTESTRING" by blast+
qed

lemma getBytes_uid:
  "getString_token (0xa8 # OPALUID u) = Ret (OPALUID u)"
  "getBytes_token (0xa8 # OPALUID u) = Ret (OPALUID u)"
  by (simp_all add: getString_token_def getBytes_token_def first_byte_def vec_at_def)

lemma tokenIs_enc_num: "tokenIs_token (enc_num n) = Ret DTA_TOKENID_UINT"
proof -
  have "tokenIs_token [of_nat n] = Ret DTA_TOKENID_UINT" if "n < 64"
    unfolding tokenIs_token_def first_byte_def vec_at_def using tiny_prefix [OF that] by simp
  moreover have "tokenIs_token (a # xs) = Ret DTA_TOKENID_UINT" if "a \<in> {0x81, 0x82, 0x84, 0x88}"
    for a xs using that by (auto simp: tokenIs_token_def first_byte_def vec_at_def)
  ultimately show ?thesis
    by (simp add: enc_num_def)
qed

lemma tokenIs_control: "b AND 0xf0 = 0xf0 \<Longrightarrow> tokenIs_token [b] = Ret b"
proof -
  assume b: "b AND 0xf0 = 0xf0"
  have sub: "b AND x = 0xf0 AND x" if "x AND 0xf0 = x" for x
  proof -
    have "b AND x = (b AND 0xf0) AND x" using that by (metis and.assoc and.commute)
    then show ?thesis by (simp add: b)
  qed
  show ?thesis by (simp add: tokenIs_token_def first_byte_def vec_at_def sub)
qed

section \<open>Codecs\<close>

text \<open>An encoder whose results are whole tokens, with an accessor that inverts it.\<close>

locale token_codec =
  fixes encode :: "'a \<Rightarrow> bytes option"
    and decode :: "bytes \<Rightarrow> 'a outcome"
  assumes whole: "encode x = Some t \<Longrightarrow> wf_token t \<and> t \<noteq> [EMPTYATOM]"
    and inverse: "encode x = Some t \<Longrightarrow> decode t = Ret x"
begin

definition stream :: "'a list \<Rightarrow> bytes list" where
  "stream xs = map (\<lambda>x. the (encode x)) xs"

lemma encode_inj: "encode x = Some t \<Longrightarrow> encode y = Some t \<Longrightarrow> x = y"
  using inverse [of x t] inverse [of y t] by simp

lemma stream_wf:
  assumes "\<And>x. x \<in> set xs \<Longrightarrow> encode x \<noteq> None"
  shows "list_all wf_token (stream xs)" "\<And>t. t \<in> set (stream xs) \<Longrightarrow> t \<noteq> [EMPTYATOM]"
  using assms whole by (force simp: stream_def list_all_iff)+

text \<open>Values laid out one after the other are tokenized into their encodings, and reading the
  i-th token gives the i-th value.\<close>

lemma read_stream:
  assumes enc: "\<And>x. x \<in> set xs \<Longrightarrow> encode x \<noteq> None"
    and mem: "at_pos m sizeof_OPALHeader (concat (stream xs))"
    and fits: "sizeof_OPALHeader + length (concat (stream xs)) \<le> cap"
  shows "tokenize cap m (length (concat (stream xs))) 0 = Ret (stream xs)"
    and "i < length xs \<Longrightarrow> decode (stream xs ! i) = Ret (xs ! i)"
proof -
  have "filter (\<lambda>t. t \<noteq> [EMPTYATOM]) (stream xs) = stream xs"
    using stream_wf(2) [of xs] enc by (simp add: filter_id_conv)
  then show "tokenize cap m (length (concat (stream xs))) 0 = Ret (stream xs)"
    using tokenize_concat [of "stream xs" m 0] stream_wf(1) [of xs] enc mem fits by simp
  assume i: "i < length xs"
  then have "encode (xs ! i) \<noteq> None" by (intro enc) simp
  then show "decode (stream xs ! i) = Ret (xs ! i)"
    using i inverse by (auto simp: stream_def)
qed

end

definition enc_uint :: "u64 \<Rightarrow> bytes option" where
  "enc_uint x = enc (Num x)"

definition enc_string :: "cstr \<Rightarrow> bytes option" where
  "enc_string s = (if s = [] then None else enc_bytes s)"

definition enc_control :: "u8 \<Rightarrow> bytes option" where
  "enc_control b = (if b AND 0xf0 = 0xf0 \<and> b \<noteq> EMPTYATOM then enc (Tok b) else None)"

interpretation uint_atom: token_codec enc_uint getUint64_token
  by unfold_locales
    (auto simp: enc_uint_def wf_enc_num enc_num_not_empty getUint64_enc_num)

interpretation string_atom: token_codec enc_string getString_token
  by unfold_locales
    (auto simp: enc_string_def getBytes_enc_bytes wf_enc_bytes enc_bytes_not_empty
      split: if_splits)

interpretation control_token: token_codec enc_control tokenIs_token
  by unfold_locales
    (auto simp: enc_control_def tokenIs_control wf_control_token split: if_splits)


section \<open>Reading back a whole command\<close>

lemma enc_all_concat:
  "enc_all ts = Some tok \<Longrightarrow> tok = concat (map (\<lambda>t. the (enc t)) ts) \<and> (\<forall>t\<in>set ts. enc t \<noteq> None)"
  by (induction ts arbitrary: tok) (auto split: option.splits)

definition call_tokens :: "opal_uid \<Rightarrow> opal_method \<Rightarrow> token_arg list \<Rightarrow> bytes list" where
  "call_tokens u m ts = [[0xf8], 0xa8 # OPALUID u, 0xa8 # OPALMETHOD m] @ map (\<lambda>t. the (enc t)) ts @
     [[0xf9], [0xf0], [0], [0], [0], [0xf1]]"

lemma call_tokens_concat:
  "enc_all ts = Some tok \<Longrightarrow> concat (call_tokens u m ts) = call_body u m tok"
  by (drule enc_all_concat) (simp add: call_tokens_def call_body_def call_head_def eod_bytes_def)

lemma call_tokens_whole:
  assumes "enc_all ts = Some tok" "list_all one_token ts"
  shows "list_all wf_token (call_tokens u m ts)" "\<And>t. t \<in> set (call_tokens u m ts) \<Longrightarrow> t \<noteq> [EMPTYATOM]"
proof -
  have "wf_token (the (enc t)) \<and> the (enc t) \<noteq> [EMPTYATOM]" if "t \<in> set ts" for t
    using that assms enc_all_concat [OF assms(1)] one_token_enc [of t]
    by (auto simp: list_all_iff)
  moreover have "wf_token [b]" if "b \<in> {0xf8, 0xf9, 0xf0, 0, 0xf1}" for b
    using that by (auto intro: wf_tiny wf_control)
  ultimately have "list_all (\<lambda>t. wf_token t \<and> t \<noteq> [EMPTYATOM]) (call_tokens u m ts)"
    by (simp add: call_tokens_def wf_uid wf_method list_all_iff)
  then show "list_all wf_token (call_tokens u m ts)"
    "\<And>t. t \<in> set (call_tokens u m ts) \<Longrightarrow> t \<noteq> [EMPTYATOM]"
    by (simp_all add: list_all_iff)
qed

text \<open>What \<open>init\<close> makes of a buffer that starts with a packet.\<close>

lemma init_packet:
  assumes lens: "length cid = 4" "length tsn = 4" "length hsn = 4"
    and ts: "list_all wf_token ts" "\<And>t. t \<in> set ts \<Longrightarrow> t \<noteq> [EMPTYATOM]"
    and buf: "buf = packet cid tsn hsn (concat ts) @ rest" "length buf \<le> cap"
    and small: "length (concat ts) < 2 ^ 32"
  shows "\<exists>hd. init cap buf = Ret \<lparr>h = hd, response = ts\<rparr> \<and> length hd = sizeof_OPALHeader"
proof -
  define body where "body = concat ts"
  define hd where "hd = read_block buf 0 sizeof_OPALHeader"
  define n where "n = length (body @ padding (length body))"
  define hb where "hb = replicate 4 0 @ cid @ replicate 8 0 @ be32 (of_nat (n + 36)) @ tsn @ hsn @
    replicate 12 0 @ be32 (of_nat (n + 12)) @ replicate 8 (0 :: u8)"
  have hb: "buf = hb @ be32 (of_nat (length body)) @ body @ (padding (length body) @ rest)"
    "length hb = 52"
    unfolding buf packet_def header_def Let_def body_def [symmetric] hb_def n_def
    by (simp_all add: lens)
  have f: "at_pos buf 52 (be32 (of_nat (length body)))" "at_pos buf 56 body"
    using at_pos_self [of hb "be32 (of_nat (length body))"] at_pos_self [of "hb @ be32 (of_nat (length body))" body]
    by (simp_all add: hb)
  have "SWAP32 (load32 hd off_subpkt_length) = of_nat (length body)"
  proof (rule load32_be32)
    fix k :: nat assume k: "k < 4"
    have "peek hd (52 + k) = read_block buf 0 56 ! (52 + k)"
      using k by (simp add: hd_def peek_def)
    also have "\<dots> = peek buf (52 + k)" using k by (simp add: nth_read_block)
    also have "\<dots> = be32 (of_nat (length body)) ! k"
      using f(1) k by (simp add: at_posD)
    finally show "peek hd (52 + k) = be32 (of_nat (length body)) ! k" .
  qed
  then have len: "unat (SWAP32 (load32 hd off_subpkt_length)) = length body"
    using small by (simp add: body_def unat_of_nat take_bit_nat_eq_self)
  have "tokenize cap buf (length body) 0 = Ret (filter (\<lambda>t. t \<noteq> [EMPTYATOM]) ts)"
    by (rule tokenize_concat)
      (use ts(1) f(2) buf(2) hb in \<open>auto simp: body_def\<close>)
  moreover have "filter (\<lambda>t. t \<noteq> [EMPTYATOM]) ts = ts" using ts(2) by (simp add: filter_id_conv)
  ultimately show ?thesis
    unfolding init_def Let_def hd_def [symmetric] len by (simp add: hd_def)
qed


lemma reparse_call:
  assumes tok: "enc_all ts = Some tok" and ok: "list_all one_token ts"
    and pk: "is_packet c cid tsn hsn (call_body u m tok)"
  shows "\<exists>hd. init (length (sent_bytes c)) (sent_bytes c) = Ret \<lparr>h = hd, response = call_tokens u m ts\<rparr>"
proof -
  have small: "length (concat (call_tokens u m ts)) < 2 ^ 32"
    using pk by (simp add: is_packet_def call_tokens_concat [OF tok])
  have "length cid = 4" "length tsn = 4" "length hsn = 4" using pk by (simp_all add: is_packet_def)
  then have "\<exists>hd. init (length (sent_bytes c)) (sent_bytes c)
      = Ret \<lparr>h = hd, response = call_tokens u m ts\<rparr> \<and> length hd = sizeof_OPALHeader"
    by (rule init_packet [OF _ _ _ call_tokens_whole(1) [OF tok ok] _ _ _ small])
      (simp_all add: call_tokens_whole(2) [OF tok ok] call_tokens_concat [OF tok] sent_bytes_packet [OF pk])
  then show ?thesis by blast
qed

text \<open>What the i-th argument of a command is when its token is read back.\<close>

fun reads_back :: "dta_response \<Rightarrow> u32 \<Rightarrow> token_arg \<Rightarrow> bool" where
  "reads_back r i (Num x) \<longleftrightarrow> getUint64 r i = Ret x \<and> tokenIs r i = Ret DTA_TOKENID_UINT"
| "reads_back r i (Str s) \<longleftrightarrow>
     (0 < length s \<and> length s < 2048 \<longrightarrow>
        getString r i = Ret s \<and> tokenIs r i = Ret DTA_TOKENID_BYTESTRING)"
| "reads_back r i (Uid u) \<longleftrightarrow> getBytes r i 8 = Ret (OPALUID u)"
| "reads_back r i (Tok t) \<longleftrightarrow> (t AND 0xf0 = 0xf0 \<longrightarrow> tokenIs r i = Ret t)"
| "reads_back r i (Vec v) \<longleftrightarrow> getRawToken r i = Ret v"
| "reads_back r i _ \<longleftrightarrow> True"

lemma reads_back_token:
  assumes at: "token_at r i = Ret (the (enc t))" and e: "enc t \<noteq> None"
  shows "reads_back r i t"
proof (cases t)
  case (Num x)
  then show ?thesis
    using at by (simp add: getUint64_def tokenIs_def getUint64_enc_num tokenIs_enc_num)
next
  case (Str s)
  show ?thesis
  proof (cases "0 < length s \<and> length s < 2048")
    case True
    then have "take (length s mod 65536) s = s" by simp
    with Str e obtain bs where bs: "enc_bytes s = Some bs" "the (enc t) = bs" by auto
    have "s \<noteq> []" using True by auto
    from getBytes_enc_bytes [OF bs(1) this] bs at Str show ?thesis
      by (simp add: getString_def tokenIs_def)
  qed (use Str in auto)
next
  case (Uid u)
  then show ?thesis using at by (simp add: getBytes_def getBytes_uid)
next
  case (Tok b)
  then show ?thesis using at by (simp add: tokenIs_def tokenIs_control)
next
  case (Vec v)
  then show ?thesis using at by (simp add: getRawToken_def)
qed simp_all

section \<open>Properties\<close>




section \<open>What the tokenizer accepts\<close>

lemma token_length_self:
  assumes len: "token_length cap m p = Ret n"
  shows "token_length n (read_block m p n) 0 = Ret n"
proof -
  have R: "refines (rd cap m (p + k)) (rd n (read_block m p n) k)" if "k < n" for k
    using that by (simp add: refines_def rd_def peek_def nth_read_block split: if_splits)
  obtain b0 where b0: "rd cap m p = Ret b0"
    using len by (auto simp: token_length_def obind_eq_Ret)
  have c0: "rd n (read_block m p n) 0 = Ret b0"
    using R [of 0] token_length_pos [OF len] b0 by (simp add: refines_def)
  have R1: "rd cap m (p + k) = Ret b \<Longrightarrow> k < n \<Longrightarrow> rd n (read_block m p n) k = Ret b" for k b
    using R by (simp add: refines_def)
  consider (one) "b0 AND 0x80 = 0 \<or> b0 AND 0x40 = 0 \<or> b0 AND 0x20 \<noteq> 0 \<and> b0 AND 0x10 \<noteq> 0"
    | (medium) "b0 AND 0x80 \<noteq> 0" "b0 AND 0x40 \<noteq> 0" "b0 AND 0x20 = 0"
    | (long) "b0 AND 0x80 \<noteq> 0" "b0 AND 0x40 \<noteq> 0" "b0 AND 0x20 \<noteq> 0" "b0 AND 0x10 = 0"
    by blast
  then show ?thesis
  proof cases
    case one
    then show ?thesis using len by (auto simp: token_length_def b0 c0 split: if_splits)
  next
    case medium
    then obtain b1 where r: "rd cap m (p + 1) = Ret b1"
      and n: "unat (b0 AND 0x07) * 256 + unat b1 + 2 = n"
      using len by (auto simp: token_length_def b0 obind_eq_Ret)
    have "rd n (read_block m p n) 1 = Ret b1" by (rule R1 [OF r]) (use n in simp)
    then show ?thesis unfolding token_length_def c0 obind.simps add_0 using medium n by simp
  next
    case long
    then obtain b1 b2 b3 where r: "rd cap m (p + 1) = Ret b1" "rd cap m (p + 2) = Ret b2"
        "rd cap m (p + 3) = Ret b3" and n: "unat b1 * 65536 + unat b2 * 256 + unat b3 + 4 = n"
      using len by (auto simp: token_length_def b0 obind_eq_Ret)
    have "rd n (read_block m p n) 1 = Ret b1" "rd n (read_block m p n) 2 = Ret b2"
        "rd n (read_block m p n) 3 = Ret b3"
      by (rule R1 [OF r(1)] R1 [OF r(2)] R1 [OF r(3)], use n in simp)+
    then show ?thesis unfolding token_length_def c0 obind.simps add_0 using long n by simp
  qed
qed

text \<open>Every list of tokens the tokenizer returns is a segmentation of the bytes it read.\<close>

lemma tokenize_segments:
  "tokenize cap m len cpos = Ret ts \<Longrightarrow> cpos \<le> len \<Longrightarrow>
    \<exists>us. ts = filter (\<lambda>t. t \<noteq> [EMPTYATOM]) us \<and> list_all wf_token us \<and>
      at_pos m (sizeof_OPALHeader + cpos) (concat us) \<and> len \<le> cpos + length (concat us) \<and>
      (us \<noteq> [] \<longrightarrow> cpos + length (concat (butlast us)) < len \<and>
         sizeof_OPALHeader + cpos + length (concat us) \<le> cap)"
proof (induction cap m len cpos arbitrary: ts rule: tokenize.induct)
  case (1 cap m len cpos)
  show ?case
  proof (cases "cpos < len")
    case False
    then have "ts = []" using "1.prems"(1) by (subst (asm) tokenize.simps) simp
    then show ?thesis
      using False "1.prems"(2) by (intro exI [of _ "[]"]) (simp add: at_pos_def)
  next
    case True
    define p where "p = sizeof_OPALHeader + cpos"
    obtain n rest where n: "token_length cap m p = Ret n" "p + n \<le> cap"
      and rest: "tokenize cap m len (cpos + n) = Ret rest"
      and ts: "ts = (if read_block m p n \<noteq> [EMPTYATOM] then read_block m p n # rest else rest)"
      using "1.prems"(1) True
      by (auto simp: tokenize.simps [of _ _ _ cpos] p_def obind_eq_Ret Let_def
          split: outcome.splits if_splits)
    define t where "t = read_block m p n"
    have lt: "length t = n" by (simp add: t_def)
    note ts = ts [folded t_def]
    have wf: "wf_token t"
      using token_length_self [OF n(1)] token_length_pos [OF n(1)]
      by (simp add: wf_token_def lt flip: t_def length_0_conv)
    have at: "at_pos m p t" by (simp add: at_pos_def nth_read_block t_def)
    show ?thesis
    proof (cases "cpos + n \<le> len")
      case le: True
      from "1.IH" [OF True n(1) [unfolded p_def] n(2) [unfolded p_def] refl rest le]
      obtain us where us: "rest = filter (\<lambda>t. t \<noteq> [EMPTYATOM]) us" "list_all wf_token us"
          "at_pos m (p + n) (concat us)" "len \<le> cpos + n + length (concat us)"
          "us \<noteq> [] \<longrightarrow> cpos + n + length (concat (butlast us)) < len \<and> p + n + length (concat us) \<le> cap"
        by (auto simp: p_def add.assoc)
      show ?thesis
        using us ts wf at True n(2) lt
        by (intro exI [of _ "t # us"]) (auto simp: at_pos_append p_def [symmetric] add.assoc)
    next
      case False
      then have "rest = []" using rest by (simp add: tokenize.simps [of _ _ _ "cpos + n"])
      then show ?thesis
        using False ts wf at True n(2) lt
        by (intro exI [of _ "[t]"]) (auto simp: p_def [symmetric])
    qed
  qed
qed


lemma init_tokens:
  assumes "init cap buf = Ret r" "t \<in> set (response r)"
  shows "wf_token t"
proof -
  obtain len where "tokenize cap buf len 0 = Ret (response r)"
    using assms(1) by (auto simp: init_def Let_def obind_eq_Ret)
  from tokenize_segments [OF this] assms(2) show ?thesis by (auto simp: list_all_iff)
qed

text \<open>A response with the tokens \<open>[ 5 "ab" ]\<close> and an empty atom.\<close>

definition sample_buffer :: bytes where
  "sample_buffer = replicate 52 0 @ [0, 0, 0, 7, 0xf0, 0x05, 0xff, 0xa2, 0x61, 0x62, 0xf1]"

definition sample_response :: dta_response where
  "sample_response = \<lparr>h = replicate 52 0 @ [0, 0, 0, 7],
     response = [[0xf0], [0x05], [0xa2, 0x61, 0x62], [0xf1]]\<rparr>"

lemma sample_init: "init MIN_BUFFER_LENGTH sample_buffer = Ret sample_response"
  by code_simp

text \<open>C3. The tokenizer only segments: every list of tokens it returns is, empty atoms aside, a
  cut of the bytes behind the header into whole tokens (each as long as its own prefix says), these
  cover the length the device claimed, the last one started inside it, and no byte behind the end
  of the buffer was read.\<close>

theorem tokenize_sound:
  assumes "init cap buf = Ret r"
  defines "len \<equiv> unat (SWAP32 (h_subpkt_length r))"
  shows "\<exists>us. response r = filter (\<lambda>t. t \<noteq> [EMPTYATOM]) us \<and> list_all wf_token us \<and>
    at_pos buf sizeof_OPALHeader (concat us) \<and> len \<le> length (concat us) \<and>
    (us \<noteq> [] \<longrightarrow> length (concat (butlast us)) < len \<and> sizeof_OPALHeader + length (concat us) \<le> cap)"
proof -
  have "tokenize cap buf len 0 = Ret (response r)"
    using assms(1) by (auto simp: len_def init_def Let_def obind_eq_Ret)
  from tokenize_segments [OF this] show ?thesis by simp
qed

theorem tokenize_sound_witness:
  "\<exists>us. response sample_response = filter (\<lambda>t. t \<noteq> [EMPTYATOM]) us \<and> list_all wf_token us \<and>
    at_pos sample_buffer sizeof_OPALHeader (concat us) \<and>
    unat (SWAP32 (h_subpkt_length sample_response)) \<le> length (concat us) \<and>
    (us \<noteq> [] \<longrightarrow> length (concat (butlast us)) < unat (SWAP32 (h_subpkt_length sample_response)) \<and>
      sizeof_OPALHeader + length (concat us) \<le> MIN_BUFFER_LENGTH)"
  by (rule tokenize_sound [OF sample_init])

lemma or_bytes_defined: "b + length xs \<le> 8 \<Longrightarrow> \<exists>v. or_bytes b w xs = Ret v"
  by (induction xs arbitrary: b w) auto

lemma token_accessors_defined:
  assumes "wf_token t"
  shows "\<exists>b. tokenIs_token t = Ret b" "getString_token t \<noteq> Undef"
    "length t \<le> 9 \<Longrightarrow> getUint64_token t \<noteq> Undef"
proof -
  obtain b xs where t: "t = b # xs" using assms by (cases t) (auto simp: wf_token_def)
  show "\<exists>b. tokenIs_token t = Ret b" "getString_token t \<noteq> Undef"
    by (simp_all add: t tokenIs_token_def getString_token_def first_byte_def vec_at_def)
  assume "length t \<le> 9"
  then have "\<exists>v. or_bytes 0 0 (rev xs) = Ret v" by (intro or_bytes_defined) (simp add: t)
  then show "getUint64_token t \<noteq> Undef"
    by (auto simp: t getUint64_token_def first_byte_def vec_at_def)
qed

text \<open>C4. On any response that was parsed, an accessor applied to an index below the token count
  reads inside the token: the only undefined case is an integer atom of more than eight bytes, and
  whatever else is wrong with the token ends the program in a defined way.\<close>

theorem accessors_in_bounds:
  assumes "init cap buf = Ret r" and "i < getTokenCount r"
  shows "(\<exists>b. tokenIs r i = Ret b) \<and> getString r i \<noteq> Undef \<and>
    (\<exists>t. getRawToken r i = Ret t \<and> getLength r i = Ret (of_nat (length t)) \<and>
      (length t \<le> 9 \<longrightarrow> getUint64 r i \<noteq> Undef))"
proof -
  have "unat i < length (response r)"
    using assms(2) unat_of_nat [of "length (response r)", where 'a = 32]
    by (simp add: getTokenCount_def word_less_nat_alt take_bit_eq_mod)
  then obtain t where t: "token_at r i = Ret t" "t \<in> set (response r)"
    by (simp add: token_at_def vec_at_def)
  from init_tokens [OF assms(1) t(2)] token_accessors_defined [of t] show ?thesis
    by (simp add: tokenIs_def getString_def getRawToken_def getLength_def getUint64_def t(1))
qed


theorem accessors_in_bounds_witness:
  "(\<exists>b. tokenIs sample_response 2 = Ret b) \<and> getString sample_response 2 \<noteq> Undef \<and>
    (\<exists>t. getRawToken sample_response 2 = Ret t \<and> getLength sample_response 2 = Ret (of_nat (length t)) \<and>
      (length t \<le> 9 \<longrightarrow> getUint64 sample_response 2 \<noteq> Undef))"
  by (rule accessors_in_bounds [OF sample_init]) (simp add: getTokenCount_def sample_response_def)

end
