(* ===== verification/OpalEffects.thy ===== *)
theory OpalEffects
  imports Effects Codec
begin

text \<open>What the operations of the Opal class achieve when they return 0.\<close>

section \<open>Frames\<close>

text \<open>The hash of a password and the kind of device do not change on the way.\<close>

lemma config_fields:
  assumes "same_config w w'"
  shows "isEprise w' = isEprise w" "DtaHashPwd E pw w' = DtaHashPwd E pw w" "comID w' = comID w"
proof -
  have d: "(disk_info w')\<lparr>Properties := False, Locking_lockingEnabled := False\<rparr>
      = (disk_info w)\<lparr>Properties := False, Locking_lockingEnabled := False\<rparr>"
    and h: "no_hash_passwords w' = no_hash_passwords w" and c: "dev_cls w' = dev_cls w"
    using assms by (simp_all add: same_config_def config_def)
  show "isEprise w' = isEprise w"
    using arg_cong [OF d, of Enterprise] by (simp add: isEprise_def)
  show "DtaHashPwd E pw w' = DtaHashPwd E pw w"
    using arg_cong [OF d, of serialNum] h by (simp add: DtaHashPwd_def getSerialNum_def)
  show "comID w' = comID w"
    using c arg_cong [OF d, of OPAL10_basecomID] arg_cong [OF d, of OPAL20_basecomID]
      arg_cong [OF d, of Enterprise_basecomID] by (simp add: comID_def split: dev_class.split)
qed

text \<open>\<open>delivers f m\<close>: on a device that is not of the Enterprise kind, a success of \<open>m\<close> confirms the
  bodies \<open>f\<close>, which depend on the configuration only. One checked call after another composes.\<close>

definition delivers :: "(('d \<times> request list) dta_dev \<Rightarrow> bytes list) \<Rightarrow> ('d \<times> request list, u8) devop \<Rightarrow> bool" where
  "delivers f m \<longleftrightarrow> (\<forall>w w'. \<not> isEprise w \<longrightarrow> m w = (Ret 0, w') \<longrightarrow>
     achieves (f w) w w' \<and> same_config w w')"

definition stable :: "(('d \<times> request list) dta_dev \<Rightarrow> 'a) \<Rightarrow> bool" where
  "stable f \<longleftrightarrow> (\<forall>w w'. same_config w w' \<longrightarrow> f w' = f w)"

lemma deliversI:
  "(\<And>w w'. \<not> isEprise w \<Longrightarrow> m w = (Ret 0, w') \<Longrightarrow> achieves (f w) w w') \<Longrightarrow> steps same_config m \<Longrightarrow>
   delivers f m"
  by (auto simp: delivers_def dest: steps_result)

lemma deliversD: "delivers f m \<Longrightarrow> m w = (Ret 0, w') \<Longrightarrow> \<not> isEprise w \<Longrightarrow> achieves (f w) w w'"
  by (simp add: delivers_def)

lemma delivers_check:
  assumes "delivers f m" "delivers g k" "stable g"
  shows "delivers (\<lambda>w. f w @ g w) (check m k)"
  unfolding delivers_def
proof (intro allI impI)
  fix w w' assume e: "\<not> isEprise w" and "check m k w = (Ret 0, w')"
  then obtain w1 where 1: "m w = (Ret 0, w1)" "k w1 = (Ret 0, w')" by (auto simp: check_success)
  have m: "achieves (f w) w w1" "same_config w w1" using assms(1) e 1(1) by (auto simp: delivers_def)
  have e1: "\<not> isEprise w1" using e config_fields(1) [OF m(2)] by simp
  have k: "achieves (g w1) w1 w'" "same_config w1 w'" using assms(2) e1 1(2) by (auto simp: delivers_def)
  moreover have "g w1 = g w" using assms(3) m(2) by (auto simp: stable_def)
  ultimately show "achieves (f w @ g w) w w' \<and> same_config w w'"
    using achieves_append [OF m(1) _ config_fields(3) [OF m(2)]] m(2) by (simp add: same_config_def)
qed

lemma check_ret_0: "check m (ret 0) w = (Ret 0, w') \<longleftrightarrow> m w = (Ret 0, w')"
  by (simp add: check_success ret_def)

lemma delivers_last: "delivers f m \<Longrightarrow> delivers f (check m (ret 0))"
  by (simp add: delivers_def check_ret_0)

lemma stable_append: "stable f \<Longrightarrow> stable g \<Longrightarrow> stable (\<lambda>w. f w @ g w)"
  by (simp add: stable_def)

section \<open>Cells of a row\<close>

text \<open>The sign-in of an administrator or of the SID authority.\<close>

definition sign_in :: "'d env \<Rightarrow> opal_uid \<Rightarrow> opal_uid \<Rightarrow> cstr \<Rightarrow> ('d \<times> request list) dta_dev \<Rightarrow> bytes" where
  "sign_in E sp u pw w = start_body (DtaHashPwd (traced E) pw w) sp (uid_token u)"

lemma sign_in_config: "same_config w w1 \<Longrightarrow> sign_in E sp u pw w1 = sign_in E sp u pw w"
  by (simp add: sign_in_def config_fields(2))

lemma enc_all_append:
  "enc_all (ts @ us) = (case enc_all ts of None \<Rightarrow> None
     | Some xs \<Rightarrow> (case enc_all us of None \<Rightarrow> None | Some ys \<Rightarrow> Some (xs @ ys)))"
  by (induction ts) (auto split: option.split)

lemma set_call_packet:
  assumes "length obj = 9" "enc_all vs = Some (cell_bytes cells)" "length (cell_bytes cells) \<le> 2048"
    and "unat (cmd_addr E) + 1024 < 2 ^ 64"
  shows "\<exists>c. cmd_seq (set_call obj vs) (DtaCommand (cmd_addr E)) = Ret c \<and>
    is_packet c zero4 zero4 zero4 (set_body obj cells)"
  unfolding set_call_def set_body_def
  by (rule object_packet [OF assms(1) _ set_body_fits(1) [OF assms(1, 3)] assms(4)])
    (use assms(2) in \<open>simp add: set_values_def enc_all_append\<close>)


text \<open>Signing in, one call, signing out.\<close>

lemma set_row_achieves:
  assumes "in_session (traced E) (start_uid (traced E) sp (Some pw) u)
      (checked (traced E) (call_dev (traced E) calls) (finish (traced E) 0)) w = (Ret 0, w')"
    and "\<not> isEprise w" "u \<noteq> OPAL_UID_HEXFF" "unat (cmd_addr E) + 1024 < 2 ^ 64"
    and "\<exists>c. cmd_seq calls (DtaCommand (cmd_addr E)) = Ret c \<and> is_packet c zero4 zero4 zero4 body"
  shows "achieves [sign_in E sp u pw w, body] w w'"
  unfolding sign_in_def
  by (rule opal_session_achieves [OF assms(1-4)])
    (erule checked_call_achieves [OF _ assms(5) wire.cl_finish])

lemma set_cell_achieves:
  assumes "in_session (traced E) (start_uid (traced E) sp (Some pw) u)
      (checked (traced E) (setTable (traced E) obj name value) (finish (traced E) 0)) w = (Ret 0, w')"
    and "\<not> isEprise w" "u \<noteq> OPAL_UID_HEXFF" "unat (cmd_addr E) + 1024 < 2 ^ 64"
    and "length obj = 9" "length value \<le> 1024"
  shows "achieves [sign_in E sp u pw w, set_body obj [(name, value)]] w w'"
  using assms(1) unfolding setTable_def
  by (rule set_row_achieves [OF _ assms(2-4) setTable_packet [OF assms(5, 6, 4)]])

section \<open>Locking ranges\<close>

definition archive_cells :: "u8 \<Rightarrow> u8 \<Rightarrow> bool \<Rightarrow> (u8 \<times> bytes) list" where
  "archive_cells readlocked writelocked archive =
     (READLOCKED, [readlocked]) # (if archive then [] else [(WRITELOCKED, [writelocked])])"

lemma setLockingRange_achieves:
  assumes run: "setLockingRange (traced E) n st pw w = (Ret 0, w')"
    and w: "\<not> isEprise w" "unat (cmd_addr E) + 1024 < 2 ^ 64"
  shows "\<exists>rl wl archive. locking_state st = Some (rl, wl, archive) \<and>
    achieves [sign_in E OPAL_LOCKINGSP_UID OPAL_ADMIN1_UID pw w,
      set_body (LR_of n) (archive_cells rl wl archive) @ special_trailer] w w'"
proof -
  obtain rl wl ar where st: "locking_state st = Some (rl, wl, ar)"
    using run by (cases "locking_state st") (auto simp: setLockingRange_def ret_def)
  let ?vs = "named READLOCKED (Tok rl) @ (if \<not> ar then named WRITELOCKED (Tok wl) else [])"
  have "\<exists>c. cmd_seq [reset_uid_method OPAL_AUTHORITY_TABLE SET, changeInvokingUid (LR_of n),
      addTokens (set_values ?vs), completeSpecial True] (DtaCommand (cmd_addr E)) = Ret c \<and>
    is_packet c zero4 zero4 zero4 (set_body (LR_of n) (archive_cells rl wl ar) @ special_trailer)"
    unfolding set_body_def
    by (rule object_packet_special [OF LR_of_length _ set_body_fits(2) [OF LR_of_length] w(2)])
      (simp_all add: set_values_def named_def archive_cells_def)
  from set_row_achieves [OF run [unfolded setLockingRange_def st option.case prod.case] w(1) _ w(2) this]
  show ?thesis using st by simp
qed


definition enable_cells :: "u8 \<Rightarrow> (u8 \<times> bytes) list" where
  "enable_cells enabled =
     [(READLOCKENABLED, [if enabled AND DTA_READLOCKINGENABLED \<noteq> 0 then OPAL_TRUE else OPAL_FALSE]),
      (WRITELOCKENABLED, [if enabled AND DTA_WRITELOCKINGENABLED \<noteq> 0 then OPAL_TRUE else OPAL_FALSE])]"

lemma configureLockingRange_achieves:
  assumes run: "configureLockingRange (traced E) n e pw w = (Ret 0, w')"
    and w: "\<not> isEprise w" "unat (cmd_addr E) + 1024 < 2 ^ 64"
  shows "achieves [sign_in E OPAL_LOCKINGSP_UID OPAL_ADMIN1_UID pw w,
      set_body (LR_of n) (enable_cells e)] w w'"
  by (rule set_row_achieves [OF run [unfolded configureLockingRange_def] w(1) _ w(2)], simp,
      rule set_call_packet [OF LR_of_length _ _ w(2)])
    (simp_all add: named_def enable_cells_def)

section \<open>The shadow MBR\<close>

definition flag_byte :: "u8 \<Rightarrow> u8" where
  "flag_byte s = (if s \<noteq> 0 then OPAL_TRUE else OPAL_FALSE)"

lemma setMBRDone_achieves:
  assumes run: "setMBRDone (traced E) s pw w = (Ret 0, w')"
    and w: "\<not> isEprise w" "unat (cmd_addr E) + 1024 < 2 ^ 64"
  shows "achieves [sign_in E OPAL_LOCKINGSP_UID OPAL_ADMIN1_UID pw w,
      set_body (uid_token OPAL_MBRCONTROL) [(MBRDONE, [flag_byte s])]] w w'"
proof -
  have "setLockingSPvalue (traced E) OPAL_MBRCONTROL MBRDONE (flag_byte s) pw w = (Ret 0, w')"
    using run by (simp add: setMBRDone_def check_ret_0 flag_byte_def split: if_splits)
  from set_cell_achieves [OF this [unfolded setLockingSPvalue_def setTable_token_def] w(1) _ w(2)]
  show ?thesis by simp
qed

text \<open>The bodies of the two, and of the other steps of a set-up, by the state they start in.\<close>

definition admin_sets :: "'d env \<Rightarrow> cstr \<Rightarrow> bytes \<Rightarrow> ('d \<times> request list) dta_dev \<Rightarrow> bytes list" where
  "admin_sets E pw body w = [sign_in E OPAL_LOCKINGSP_UID OPAL_ADMIN1_UID pw w, body]"

lemma stable_admin [intro]: "stable (admin_sets E pw body)"
  by (simp add: stable_def admin_sets_def sign_in_config)

lemma setMBRDone_delivers:
  "unat (cmd_addr E) + 1024 < 2 ^ 64 \<Longrightarrow> delivers
     (admin_sets E pw (set_body (uid_token OPAL_MBRCONTROL) [(MBRDONE, [flag_byte s])])) (setMBRDone (traced E) s pw)"
  by (rule deliversI [OF _ kept.cl_setMBRDone], unfold admin_sets_def)
    (erule setMBRDone_achieves, assumption+)

lemma setMBREnable_delivers:
  assumes "unat (cmd_addr E) + 1024 < 2 ^ 64"
  shows "delivers
    (\<lambda>w. admin_sets E pw (set_body (uid_token OPAL_MBRCONTROL) [(MBRDONE, [OPAL_TRUE])]) w @
         admin_sets E pw (set_body (uid_token OPAL_MBRCONTROL) [(MBRENABLE, [flag_byte s])]) w)
    (setMBREnable (traced E) s pw)"
proof -
  have eq: "setMBREnable (traced E) s pw = check (setMBRDone (traced E) 1 pw)
      (check (setLockingSPvalue (traced E) OPAL_MBRCONTROL MBRENABLE (flag_byte s) pw) (ret 0))"
    by (simp add: setMBREnable_def flag_byte_def)
  have "delivers (admin_sets E pw (set_body (uid_token OPAL_MBRCONTROL) [(MBRENABLE, [flag_byte s])]))
      (setLockingSPvalue (traced E) OPAL_MBRCONTROL MBRENABLE (flag_byte s) pw)"
    by (rule deliversI [OF _ kept.cl_setLockingSPvalue], unfold setLockingSPvalue_def setTable_token_def admin_sets_def)
      (erule set_cell_achieves, use assms in simp_all)
  from delivers_check [OF setMBRDone_delivers [OF assms, of pw 1] delivers_last [OF this] stable_admin]
  show ?thesis unfolding eq by (simp add: flag_byte_def)
qed

section \<open>The MSID and the SID password\<close>

text \<open>The packets without a sign-in, and of a Get on a range of columns.\<close>

definition anon_body :: "opal_uid \<Rightarrow> bytes" where
  "anon_body sp = call_body OPAL_SMUID_UID STARTSESSION
     ([0xf0, 0x81, 105] @ (0xa8 # OPALUID sp) @ [0x01, 0xf1])"

definition get_body :: "bytes \<Rightarrow> u8 \<Rightarrow> u8 \<Rightarrow> bytes" where
  "get_body obj lo hi =
     object_body obj GET [0xf0, 0xf0, 0xf2, 0x03, lo, 0xf3, 0xf2, 0x04, hi, 0xf3, 0xf1, 0xf1]"

text \<open>The token of a PIN given as a string.\<close>

definition pin_token :: "cstr \<Rightarrow> bytes" where
  "pin_token p = the (enc (Str p))"

lemma pin_token: "length p \<le> 2000 \<Longrightarrow> enc (Str p) = Some (pin_token p) \<and> length (pin_token p) \<le> 2002"
  by (auto simp: pin_token_def enc_bytes_def Let_def)

lemma start_anon_exchanged:
  assumes "start_anon (traced E) sp w = (Ret 0, w')" "\<not> isEprise w" "session w = Some s"
    and mem: "unat (cmd_addr E) + 1024 < 2 ^ 64"
  shows "\<exists>r. exchanged [(anon_body sp, r)] w w'"
proof -
  let ?auth = "BYTESTRING8 # OPALUID OPAL_UID_HEXFF"
  have addr: "cmd_addr (traced E) = cmd_addr E" by (simp add: traced_def)
  have tok: "enc_all (start_args (traced E) s w sp None ?auth) = Some ([0xf0, 0x81, 105] @ (0xa8 # OPALUID sp) @ [0x01, 0xf1])"
    using assms(2) by (auto simp: start_args_def auth_args_def timeout_args_def enc_num_def)
  have "wire_size (anon_body sp) \<le> MAX_BUFFER_LENGTH"
    using length_wire [of "anon_body sp"] by (simp add: anon_body_def call_body_def eod_bytes_def)
  from call_packet [OF tok this [unfolded anon_body_def] cmdcap_DtaCommand(1) [OF mem]]
  obtain c r w1 w2 where c: "is_packet c zero4 zero4 zero4 (anon_body sp)"
    and run: "sendCommand (traced E) c empty_response w = (Ret (0, r), w1)"
      "take_numbers r w1 = (Ret (), w2)" "w2 = w'"
    using assms(1) unfolding start_anon_def start_uid_def start_success [OF assms(3)] addr anon_body_def
    by (auto simp: ret_def)
  have "proper_trace w1 w'"
    using steps_result [OF wire.cl_take_numbers run(2)] run(3) by simp
  then show ?thesis using exchanged_after [OF sendCommand_exchanged [OF run(1) c]] by blast
qed

lemma getTable_exchanged:
  assumes "getTable (traced E) obj (ucast (a :: u8)) (ucast (b :: u8)) w = (Ret 0, w')"
    and "length obj = 9" "a < 64" "b < 64" "unat (cmd_addr E) + 1024 < 2 ^ 64"
  shows "exchanged [(get_body obj a b, dev_response w')] w w'"
proof (rule call_dev_exchanged [OF assms(1) [unfolded getTable_def]])
  have u: "enc_num (unat (ucast (ucast (x :: u8) :: u16) :: u64)) = [x]" if "x < 64" for x
  proof -
    have x: "unat x < 64" using that by (simp add: word_less_nat_alt)
    have y: "unat (ucast y :: u64) = unat y" if "unat y < 64" for y :: u16
      using that by (simp add: unsigned_ucast_eq take_bit_nat_eq_self)
    have "unat (ucast x :: u16) = unat x"
      using x by (simp add: unsigned_ucast_eq take_bit_nat_eq_self)
    with x y [of "ucast x"] have "unat (ucast (ucast x :: u16) :: u64) = unat x" by simp
    with x show ?thesis by (simp add: enc_num_def)
  qed
  show "\<exists>c. cmd_seq [reset_uid_method OPAL_AUTHORITY_TABLE GET, changeInvokingUid obj,
      addTokens [Tok STARTLIST, Tok STARTLIST, Tok STARTNAME, Tok STARTCOLUMN, Num (ucast (ucast a :: u16)),
                 Tok ENDNAME, Tok STARTNAME, Tok ENDCOLUMN, Num (ucast (ucast b :: u16)), Tok ENDNAME,
                 Tok ENDLIST, Tok ENDLIST], complete True] (DtaCommand (cmd_addr E)) = Ret c \<and>
    is_packet c zero4 zero4 zero4 (get_body obj a b)"
    unfolding get_body_def
    by (rule object_packet [OF assms(2) _ _ assms(5)])
      (use assms(2, 3, 4) length_wire [of "get_body obj a b"] in
        \<open>simp_all add: u get_body_def object_body_def eod_bytes_def\<close>)
qed

text \<open>Ending a session leaves the response object of the device alone.\<close>

lemma build_Ret: "build E calls w = (Ret c, w') \<longleftrightarrow>
    w' = w \<and> cmd_seq calls (DtaCommand (cmd_addr E)) = Ret c"
  by (auto simp: build_def lift_op_def)

lemma delete_session_response:
  assumes "delete_session E w = (Ret x, w')"
  shows "dev_response w' = dev_response w"
proof -
  have s: "dev_response w2 = dev_response w1"
    if "sendCommand E c empty_response w1 = (y, w2)" "framed c" for c y w1 w2
    using steps_result [OF plain.sendCommand_rel [OF that(2)] that(1)]
    by (metis only_disk_def dta_dev.select_convs(6) dta_dev.surjective dta_dev.update_convs(13))
  have f: "cmd_seq [Ret \<circ> reset, addToken (Tok ENDOFSESSION), complete False] c0 = Ret c \<Longrightarrow> framed c" for c0 c
    by (erule framed3) (intro command_shape wire.grows_addToken)+
  show ?thesis
    using assms unfolding delete_session_def bind_op_Ret_iff
    by (auto simp: this_session_def put_op_def ret_def build_Ret bind_op_Ret_iff
        split: option.splits if_splits simp del: cmd_seq.simps dest!: f intro: s)
qed


lemma finish_success: "finish E rc w = (Ret x, w') \<longleftrightarrow> x = rc \<and> delete_session E w = (Ret (), w')"
  by (auto simp: finish_def seq_op_def bind_op_Ret_iff ret_def)

lemma getDefaultPassword_exchanged:
  assumes run: "getDefaultPassword (traced E) w = (Ret 0, w')"
    and w: "\<not> isEprise w" "unat (cmd_addr E) + 1024 < 2 ^ 64"
  shows "\<exists>r. exchanged [(anon_body OPAL_ADMINSP_UID, r),
    (get_body (uid_token OPAL_C_PIN_MSID) PIN PIN, dev_response w')] w w'"
proof -
  let ?w0 = "w\<lparr>session := Some DtaSession\<rparr>"
  obtain w1 w2 where st: "start_anon (traced E) OPAL_ADMINSP_UID ?w0 = (Ret 0, w1)"
    and gt: "getTable (traced E) (uid_token OPAL_C_PIN_MSID) (ucast PIN) (ucast PIN) w1 = (Ret 0, w2)"
    and dl: "delete_session (traced E) w2 = (Ret (), w')"
    using run unfolding getDefaultPassword_def in_session_success checked_success finish_success by blast
  obtain r where 1: "exchanged [(anon_body OPAL_ADMINSP_UID, r)] ?w0 w1"
    using start_anon_exchanged [OF st _ _ w(2)] w(1) by auto
  have 2: "exchanged [(get_body (uid_token OPAL_C_PIN_MSID) PIN PIN, dev_response w2)] w1 w2"
    by (rule getTable_exchanged [OF gt _ _ _ w(2)]) simp_all
  have "comID w1 = comID ?w0"
    using steps_result [OF wire.cl_start_anon st] by (simp add: proper_trace_def)
  from exchanged_append [OF 1 2 this] steps_result [OF wire.cl_delete_session dl]
  have "exchanged [(anon_body OPAL_ADMINSP_UID, r),
      (get_body (uid_token OPAL_C_PIN_MSID) PIN PIN, dev_response w2)] ?w0 w'"
    using exchanged_after by fastforce
  from exchanged_before [OF session_proper this] show ?thesis
    using delete_session_response [OF dl] by auto
qed

text \<open>The MSID is shorter than the reply buffer.\<close>

lemma init_token_length:
  assumes "init cap buf = Ret r" "t \<in> set (response r)"
  shows "sizeof_OPALHeader + length t \<le> cap"
proof -
  obtain len where "tokenize cap buf len 0 = Ret (response r)"
    using assms(1) by (auto simp: init_def Let_def obind_eq_Ret)
  from tokenize_segments [OF this] obtain us where us: "t \<in> set us"
      "us \<noteq> [] \<longrightarrow> sizeof_OPALHeader + length (concat us) \<le> cap"
    using assms(2) by auto
  then have "length t \<le> length (concat us)"
    by (auto simp: length_concat intro: member_le_sum_list)
  with us show ?thesis by (auto dest: split_list)
qed

lemma getString_length:
  assumes "init MIN_BUFFER_LENGTH buf = Ret r" "getString r i = Ret s"
  shows "length (c_str s) \<le> 2000"
proof -
  obtain t where "t \<in> set (response r)" "getString_token t = Ret s"
    using assms(2) nth_mem
    by (fastforce simp: getString_def token_at_def vec_at_def obind_eq_Ret split: if_splits)
  then have "length s \<le> length t" "length t \<le> 1992"
    using init_token_length [OF assms(1)]
    by (auto simp: getString_token_def obind_eq_Ret split: if_splits)
  then show ?thesis using length_takeWhile_le [of "\<lambda>b. b \<noteq> 0" s] by (simp add: c_str_def)
qed

lemma exchanged_init:
  "exchanged (xs @ [(b, r)]) w w' \<Longrightarrow> \<exists>buf. init MIN_BUFFER_LENGTH buf = Ret r"
proof -
  have "confirmed cid (xs @ [(b, r)]) tr \<Longrightarrow> \<exists>buf. init MIN_BUFFER_LENGTH buf = Ret r" for cid tr
  proof (induction xs arbitrary: tr)
    case (Cons x xs)
    then show ?case by (cases x) auto
  qed (auto simp: answered_def)
  then show "exchanged (xs @ [(b, r)]) w w' \<Longrightarrow> ?thesis" by (auto simp: exchanged_def)
qed

lemma setSIDPassword_achieves:
  assumes run: "setSIDPassword (traced E) old new h1 h2 w = (Ret 0, w')"
    and w: "\<not> isEprise w" "unat (cmd_addr E) + 1024 < 2 ^ 64"
    and old: "h1 = 0 \<Longrightarrow> length old \<le> 2000"
  shows "achieves [start_body (if h1 = 0 then pin_token old else DtaHashPwd (traced E) old w)
        OPAL_ADMINSP_UID (uid_token OPAL_SID_UID),
      set_body (uid_token OPAL_C_PIN_SID)
        [(PIN, if h2 \<noteq> 0 then DtaHashPwd (traced E) new w else plain_pin new)]] w w'"
proof -
  let ?s = "if h1 = 0 then DtaSession\<lparr>hashPwd := False\<rparr> else DtaSession"
  let ?w0 = "w\<lparr>session := Some ?s\<rparr>"
  let ?new = "\<lambda>w. if h2 \<noteq> 0 then DtaHashPwd (traced E) new w else plain_pin new"
  let ?pin = "if h1 = 0 then pin_token old else DtaHashPwd (traced E) old w"
  obtain w1 where st: "start (traced E) OPAL_ADMINSP_UID (Some old) (uid_token OPAL_SID_UID) ?w0 = (Ret 0, w1)"
    and set: "checked (traced E) (setTable (traced E) (uid_token OPAL_C_PIN_SID) PIN (?new w1))
        (finish (traced E) 0) w1 = (Ret 0, w')"
    using run
    by (auto simp: setSIDPassword_def seq_op_def new_session_def bind_op_Ret_iff put_op_def dontHashPwd_def
        update_session_def this_session_def ret_def get_op_def checked_success start_uid_def uid_token_def
        split: if_splits)
  have "achieves [start_body ?pin OPAL_ADMINSP_UID (uid_token OPAL_SID_UID)] ?w0 w1"
  proof (rule start_achieves [OF st, where s = ?s])
    show "enc (challenge_token (traced E) ?s ?w0 old) = Some ?pin" "length ?pin \<le> 4096"
      using pin_token [of old] old length_DtaHashPwd [of "traced E" old w]
      by (auto simp: challenge_token_def DtaSession_def simp del: enc.simps(5))
  qed (use w uid_token_HEXFF [of OPAL_SID_UID] in simp_all)
  moreover have c: "same_config ?w0 w1" by (rule steps_result [OF kept.cl_start st])
  have v: "?new w1 = ?new w" using config_fields(2) [OF c, of "traced E" new] by simp
  have "achieves [set_body (uid_token OPAL_C_PIN_SID) [(PIN, ?new w)]] w1 w'"
  proof -
    have "length (?new w) \<le> 1024"
      using length_DtaHashPwd [of "traced E" new w] by (auto simp: plain_pin_def strnlen_def min_def)
    then show ?thesis
      using setTable_achieves [OF set length_uid_token _ w(2)] unfolding v by blast
  qed
  ultimately show ?thesis
    using achieves_append config_fields(3) [OF c] achieves_before [OF session_proper] by fastforce
qed


section \<open>Taking ownership and setting up\<close>

text \<open>Changing the SID password: success means that the drive opened a session on the Admin SP for
  the hash of the old password as SID, and then accepted the hash of the new one for the PIN column
  of the SID row. Neither password itself is sent.\<close>

lemma setSIDPassword_success:
  assumes "setSIDPassword (traced E) old new 1 1 w = (Ret 0, w')"
    and "\<not> isEprise w" "unat (cmd_addr E) + 1024 < 2 ^ 64"
  shows "achieves [sign_in E OPAL_ADMINSP_UID OPAL_SID_UID old w,
      set_body (uid_token OPAL_C_PIN_SID) [(PIN, DtaHashPwd (traced E) new w)]] w w'"
  using setSIDPassword_achieves [OF assms] by (simp add: sign_in_def)

text \<open>The four commands of taking ownership, for the answer to the second.\<close>

definition ownership_bodies :: "'d env \<Rightarrow> cstr \<Rightarrow> ('d \<times> request list) dta_dev \<Rightarrow> cstr \<Rightarrow> bytes list" where
  "ownership_bodies E new w pin = [anon_body OPAL_ADMINSP_UID,
     get_body (uid_token OPAL_C_PIN_MSID) PIN PIN,
     start_body (pin_token pin) OPAL_ADMINSP_UID (uid_token OPAL_SID_UID),
     set_body (uid_token OPAL_C_PIN_SID) [(PIN, DtaHashPwd (traced E) new w)]]"

lemma takeOwnership_exchanged:
  assumes run: "takeOwnership (traced E) new w = (Ret 0, w')"
    and w: "\<not> isEprise w" "unat (cmd_addr E) + 1024 < 2 ^ 64"
  shows "\<exists>r1 r2 r3 r4 s. getString r2 4 = Ret s \<and>
    exchanged (zip (ownership_bodies E new w (c_str s)) [r1, r2, r3, r4]) w w'"
proof -
  obtain w1 s where 1: "getDefaultPassword (traced E) w = (Ret 0, w1)" "getString (dev_response w1) 4 = Ret s"
      "setSIDPassword (traced E) (c_str s) new 0 1 w1 = (Ret 0, w')"
    using run by (auto simp: takeOwnership_def check_success check_ret_0 bind_op_Ret_iff from_response_def
        get_op_def lift_op_def ret_def)
  have c: "same_config w w1" by (rule steps_result [OF kept.cl_getDefaultPassword 1(1)])
  obtain r1 where x: "exchanged [(anon_body OPAL_ADMINSP_UID, r1),
      (get_body (uid_token OPAL_C_PIN_MSID) PIN PIN, dev_response w1)] w w1"
    using getDefaultPassword_exchanged [OF 1(1) w] by blast
  then have "exchanged ([(anon_body OPAL_ADMINSP_UID, r1)] @
      [(get_body (uid_token OPAL_C_PIN_MSID) PIN PIN, dev_response w1)]) w w1" by simp
  then obtain buf where "init MIN_BUFFER_LENGTH buf = Ret (dev_response w1)"
    using exchanged_init by blast
  then have len: "length (c_str s) \<le> 2000" by (rule getString_length [OF _ 1(2)])
  have "\<not> isEprise w1" using w(1) config_fields(1) [OF c] by simp
  from setSIDPassword_achieves [OF 1(3) this w(2)] len
  obtain xs where xs: "exchanged xs w1 w'" "map fst xs =
      [start_body (pin_token (c_str s)) OPAL_ADMINSP_UID (uid_token OPAL_SID_UID),
       set_body (uid_token OPAL_C_PIN_SID) [(PIN, DtaHashPwd (traced E) new w)]]"
    by (auto simp: achieves_def config_fields(2) [OF c])
  then obtain r3 r4 where "xs = zip (map fst xs) [r3, r4]"
    by (auto simp: map_eq_Cons_conv)
  then have "exchanged (zip (ownership_bodies E new w (c_str s)) [r1, dev_response w1, r3, r4]) w w'"
    using exchanged_append [OF x xs(1) config_fields(3) [OF c]] xs(2) by (simp add: ownership_bodies_def)
  then show ?thesis using 1(2) by blast
qed

lemma achieves_single: "achieves [b] w w' \<longleftrightarrow> (\<exists>r. exchanged [(b, r)] w w')"
  by (auto simp: achieves_def map_eq_Cons_conv simp del: confirmed.simps)

text \<open>The first exchange of an operation that signs in.\<close>

lemma sign_in_exchanged:
  assumes run: "in_session (traced E) (start_uid (traced E) sp (Some pw) u) k w = (Ret 0, w')"
    and w: "\<not> isEprise w" "u \<noteq> OPAL_UID_HEXFF" "unat (cmd_addr E) + 1024 < 2 ^ 64"
  obtains w1 r where "exchanged [(sign_in E sp u pw w, r)] w w1" "k w1 = (Ret 0, w')" "same_config w w1"
proof -
  let ?w0 = "w\<lparr>session := Some DtaSession\<rparr>"
  obtain w1 where st: "start (traced E) sp (Some pw) (uid_token u) ?w0 = (Ret 0, w1)" "k w1 = (Ret 0, w')"
    using run by (auto simp: in_session_success start_uid_def uid_token_def)
  have "achieves [sign_in E sp u pw w] ?w0 w1"
    unfolding sign_in_def
    by (rule start_achieves [OF st(1), where s = DtaSession])
      (use w uid_token_HEXFF [of u] length_DtaHashPwd [of "traced E" pw w] in
        \<open>simp_all add: DtaSession_def challenge_token_def\<close>)
  then obtain r where "exchanged [(sign_in E sp u pw w, r)] ?w0 w1" unfolding achieves_single ..
  then have "exchanged [(sign_in E sp u pw w, r)] w w1" by (rule exchanged_before [OF session_proper])
  moreover have "same_config w w1"
    using steps_result [OF kept.cl_start st(1)] by (simp add: same_config_def config_def)
  ultimately show ?thesis using that st(2) by blast
qed

definition activate_body :: bytes where
  "activate_body = call_body OPAL_LOCKINGSP_UID ACTIVATE [0xf0, 0xf1]"

lemma plain_call_packet:
  assumes "unat (cmd_addr E) + 1024 < 2 ^ 64"
  shows "\<exists>c. cmd_seq [reset_uid_method u m, addTokens [Tok STARTLIST, Tok ENDLIST], complete True]
      (DtaCommand (cmd_addr E)) = Ret c \<and> is_packet c zero4 zero4 zero4 (call_body u m [0xf0, 0xf1])"
  using call_packet [of "[Tok STARTLIST, Tok ENDLIST]" "[0xf0, 0xf1]" u m, OF _ _ cmdcap_DtaCommand(1) [OF assms]]
    length_wire [of "call_body u m [0xf0, 0xf1]"]
  by (fastforce simp: call_body_def eod_bytes_def)

lemma activateLockingSP_exchanged:
  assumes run: "activateLockingSP (traced E) pw w = (Ret 0, w')"
    and w: "\<not> isEprise w" "unat (cmd_addr E) + 1024 < 2 ^ 64"
  shows "\<exists>r1 r2 r3. getUint8 r2 3 = Ret 0x06 \<and> getUint8 r2 4 = Ret 0x08 \<and>
    exchanged [(sign_in E OPAL_ADMINSP_UID OPAL_SID_UID pw w, r1),
      (get_body (uid_token OPAL_LOCKINGSP_UID) 0x06 0x06, r2), (activate_body, r3)] w w'"
proof -
  let ?call = "call_dev (traced E) [reset_uid_method OPAL_LOCKINGSP_UID ACTIVATE,
      addTokens [Tok STARTLIST, Tok ENDLIST], complete True]"
  obtain w1 r1 where 1: "exchanged [(sign_in E OPAL_ADMINSP_UID OPAL_SID_UID pw w, r1)] w w1"
    and k: "if_inactive (traced E) (checked (traced E) ?call (finish (traced E) 0)) w1 = (Ret 0, w')"
    and c1: "same_config w w1"
    using sign_in_exchanged [OF run [unfolded activateLockingSP_def] w(1) _ w(2)] by blast
  obtain w2 where gt: "getTable (traced E) (uid_token OPAL_LOCKINGSP_UID) (ucast (0x06 :: u8)) (ucast (0x06 :: u8)) w1
      = (Ret 0, w2)"
    and r2: "getUint8 (dev_response w2) 3 = Ret 0x06" "getUint8 (dev_response w2) 4 = Ret 0x08"
    and act: "checked (traced E) ?call (finish (traced E) 0) w2 = (Ret 0, w')"
    using k
    by (auto simp: if_inactive_def checked_success bind_op_Ret_iff from_response_def get_op_def
        lift_op_def obind_eq_Ret finish_success split: if_splits)
  have c2: "same_config w1 w2" by (rule steps_result [OF kept.cl_getTable gt])
  have 2: "exchanged [(get_body (uid_token OPAL_LOCKINGSP_UID) 0x06 0x06, dev_response w2)] w1 w2"
    by (rule getTable_exchanged [OF gt _ _ _ w(2)]) simp_all
  obtain r3 where 3: "exchanged [(activate_body, r3)] w2 w'"
    using checked_call_achieves [OF act plain_call_packet [OF w(2)] wire.cl_finish]
    unfolding achieves_single activate_body_def by blast
  have "comID w2 = comID w" using config_fields(3) [OF c1] config_fields(3) [OF c2] by simp
  from exchanged_append [OF exchanged_append [OF 1 2 config_fields(3) [OF c1]] 3 this] r2
  show ?thesis by (auto simp del: confirmed.simps)
qed

text \<open>C16. Activating the Locking SP: success means that the SID authority signed in to the Admin SP with
  the hash of the password, that the drive then reported the life cycle state of the Locking SP as
  Manufactured-Inactive, and only then accepted the Activate. In any other state nothing is activated.\<close>

theorem activateLockingSP_success:
  assumes "activateLockingSP (traced E) pw w = (Ret 0, w')"
    and "\<not> isEprise w" "unat (cmd_addr E) + 1024 < 2 ^ 64"
  shows "\<exists>r1 r2 r3. getUint8 r2 3 = Ret 0x06 \<and> getUint8 r2 4 = Ret 0x08 \<and>
    exchanged [(sign_in E OPAL_ADMINSP_UID OPAL_SID_UID pw w, r1),
      (get_body (uid_token OPAL_LOCKINGSP_UID) 0x06 0x06, r2), (activate_body, r3)] w w'"
  by (rule activateLockingSP_exchanged [OF assms])

text \<open>The commands of \<^verbatim>\<open>initialSetup\<close> behind the activation: locking off and unlocked on the global
  range, MBRDone, and, with MBRDone set again, MBREnable.\<close>

definition setup_bodies :: "'d env \<Rightarrow> cstr \<Rightarrow> ('d \<times> request list) dta_dev \<Rightarrow> bytes list" where
  "setup_bodies E pw w = concat (map (\<lambda>body. admin_sets E pw body w)
     [set_body (LR_of 0) (enable_cells DTA_DISABLELOCKING),
      set_body (LR_of 0) (archive_cells OPAL_FALSE OPAL_FALSE False) @ special_trailer,
      set_body (uid_token OPAL_MBRCONTROL) [(MBRDONE, [OPAL_TRUE])],
      set_body (uid_token OPAL_MBRCONTROL) [(MBRDONE, [OPAL_TRUE])],
      set_body (uid_token OPAL_MBRCONTROL) [(MBRENABLE, [OPAL_TRUE])]])"

lemma initialSetup_rest:
  assumes mem: "unat (cmd_addr E) + 1024 < 2 ^ 64"
  shows "delivers (setup_bodies E pw)
    (check (configureLockingRange (traced E) 0 DTA_DISABLELOCKING pw)
     (check (setLockingRange (traced E) 0 READWRITE pw)
     (check (setMBRDone (traced E) 1 pw)
     (check (setMBREnable (traced E) 1 pw) (ret 0)))))"
proof -
  have conf: "delivers (admin_sets E pw (set_body (LR_of 0) (enable_cells DTA_DISABLELOCKING)))
      (configureLockingRange (traced E) 0 DTA_DISABLELOCKING pw)"
    by (rule deliversI [OF _ kept.cl_configureLockingRange], unfold admin_sets_def)
      (erule configureLockingRange_achieves, assumption, rule mem)
  have lock: "delivers (admin_sets E pw (set_body (LR_of 0) (archive_cells OPAL_FALSE OPAL_FALSE False) @ special_trailer))
      (setLockingRange (traced E) 0 READWRITE pw)"
    by (rule deliversI [OF _ kept.cl_setLockingRange], drule setLockingRange_achieves)
      (use mem in \<open>auto simp: admin_sets_def locking_state_def\<close>)
  from delivers_check [OF conf delivers_check [OF lock delivers_check [OF setMBRDone_delivers [OF mem, of pw 1]
        delivers_last [OF setMBREnable_delivers [OF mem, of pw 1]]]]]
  show ?thesis
    unfolding setup_bodies_def by (simp add: flag_byte_def stable_append stable_admin)
qed

end
