(* ===== verification/OpalFlows.thy ===== *)
theory OpalFlows
  imports OpalEffects
begin

text \<open>
  The flows that chain other operations, and the two operations that end in a destructive or a long
  write: initial set-up, reverting the drive, and loading the pre-boot image.
\<close>

section \<open>Initial set-up\<close>

text \<open>The commands of the whole set-up, for the default password the drive reports.\<close>

definition setup_sequence :: "'d env \<Rightarrow> cstr \<Rightarrow> ('d \<times> request list) dta_dev \<Rightarrow> cstr \<Rightarrow> bytes list" where
  "setup_sequence E pw w msid_pin = ownership_bodies E pw w msid_pin @
     [sign_in E OPAL_ADMINSP_UID OPAL_SID_UID pw w,
      get_body (uid_token OPAL_LOCKINGSP_UID) 0x06 0x06, activate_body] @
     setup_bodies E pw w"

lemma stable_setup: "stable (setup_bodies E pw)"
  unfolding setup_bodies_def by (simp add: stable_append stable_admin)

lemma length_ownership [simp]: "length (ownership_bodies E pw w s) = 4"
  by (simp add: ownership_bodies_def)

lemma achieves_zip: "achieves bs w w' \<Longrightarrow> \<exists>rs. length rs = length bs \<and> exchanged (zip bs rs) w w'"
  unfolding achieves_def by (metis length_map zip_map_fst_snd)

lemma initialSetup_exchanged:
  assumes run: "initialSetup (traced E) pw w = (Ret 0, w')"
    and w: "\<not> isEprise w" "unat (cmd_addr E) + 1024 < 2 ^ 64"
  shows "\<exists>rs s. length rs = length (setup_sequence E pw w (c_str s)) \<and>
    getString (rs ! 1) 4 = Ret s \<and> getUint8 (rs ! 5) 3 = Ret 0x06 \<and> getUint8 (rs ! 5) 4 = Ret 0x08 \<and>
    exchanged (zip (setup_sequence E pw w (c_str s)) rs) w w'"
proof -
  obtain w1 w2 where 1: "takeOwnership (traced E) pw w = (Ret 0, w1)"
    and 2: "activateLockingSP (traced E) pw w1 = (Ret 0, w2)"
    and 3: "check (configureLockingRange (traced E) 0 DTA_DISABLELOCKING pw)
     (check (setLockingRange (traced E) 0 READWRITE pw)
     (check (setMBRDone (traced E) 1 pw)
     (check (setMBREnable (traced E) 1 pw) (ret 0)))) w2 = (Ret 0, w')"
    using run unfolding initialSetup_def check_success by blast
  have c1: "same_config w w1" by (rule steps_result [OF kept.cl_takeOwnership 1])
  have c2: "same_config w1 w2" by (rule steps_result [OF kept.cl_activateLockingSP 2])
  have e1: "\<not> isEprise w1" and e2: "\<not> isEprise w2"
    using w(1) config_fields(1) [OF c1] config_fields(1) [OF c2] by simp_all
  obtain q1 q2 q3 q4 s where x1: "getString q2 4 = Ret s"
    "exchanged (zip (ownership_bodies E pw w (c_str s)) [q1, q2, q3, q4]) w w1"
    using takeOwnership_exchanged [OF 1 w] by blast
  obtain p1 p2 p3 where x2: "getUint8 p2 3 = Ret 0x06" "getUint8 p2 4 = Ret 0x08"
    "exchanged [(sign_in E OPAL_ADMINSP_UID OPAL_SID_UID pw w1, p1),
      (get_body (uid_token OPAL_LOCKINGSP_UID) 0x06 0x06, p2), (activate_body, p3)] w1 w2"
    using activateLockingSP_exchanged [OF 2 e1 w(2)] by blast
  have "stable (setup_bodies E pw)" by (rule stable_setup)
  then have sb: "setup_bodies E pw w2 = setup_bodies E pw w"
    using c1 c2 by (metis stable_def)
  obtain rs where x3: "length rs = length (setup_bodies E pw w)" "exchanged (zip (setup_bodies E pw w) rs) w2 w'"
    using achieves_zip [OF deliversD [OF initialSetup_rest [OF w(2)] 3 e2]] unfolding sb by blast
  note x2' = x2(3) [unfolded sign_in_config [OF c1]]
  have x12: "exchanged (zip (ownership_bodies E pw w (c_str s)) [q1, q2, q3, q4] @
     [(sign_in E OPAL_ADMINSP_UID OPAL_SID_UID pw w, p1),
      (get_body (uid_token OPAL_LOCKINGSP_UID) 0x06 0x06, p2), (activate_body, p3)]) w w2"
    by (rule exchanged_append [OF x1(2) x2' config_fields(3) [OF c1]])
  have cid: "comID w2 = comID w" using config_fields(3) [OF c1] config_fields(3) [OF c2] by simp
  have "exchanged (zip (setup_sequence E pw w (c_str s)) ([q1, q2, q3, q4] @ [p1, p2, p3] @ rs)) w w'"
    using exchanged_append [OF x12 x3(2) cid] by (simp add: setup_sequence_def ownership_bodies_def)
  then show ?thesis
    using x1(1) x2(1, 2) x3(1)
    by (intro exI [of _ "[q1, q2, q3, q4] @ [p1, p2, p3] @ rs"] exI [of _ s]) (simp add: setup_sequence_def)
qed

text \<open>C8. Initial set-up: success means that the drive gave its default password, accepted it for the SID
  authority and took the new SID password instead, that it reported an inactive Locking SP and
  activated it, and that it then, as Admin1 under the new password, accepted every setting of the
  set-up, all in this order and with the status of success for each.\<close>

theorem initialSetup_success:
  assumes "initialSetup (traced E) pw w = (Ret 0, w')"
    and "\<not> isEprise w" "unat (cmd_addr E) + 1024 < 2 ^ 64"
  shows "\<exists>rs s. length rs = length (setup_sequence E pw w (c_str s)) \<and>
    getString (rs ! 1) 4 = Ret s \<and> getUint8 (rs ! 5) 3 = Ret 0x06 \<and> getUint8 (rs ! 5) 4 = Ret 0x08 \<and>
    exchanged (zip (setup_sequence E pw w (c_str s)) rs) w w'"
  by (rule initialSetup_exchanged [OF assms])

section \<open>Reverting\<close>

definition revert_body :: bytes where
  "revert_body = call_body OPAL_ADMINSP_UID REVERT [0xf0, 0xf1]"

lemma revertTPer_achieves:
  assumes run: "revertTPer (traced E) pw psid asp w = (Ret 0, w')"
    and w: "\<not> isEprise w" "unat (cmd_addr E) + 1024 < 2 ^ 64"
    and pw: "psid \<noteq> 0 \<Longrightarrow> length pw \<le> 2000"
  shows "achieves [start_body (if psid \<noteq> 0 then pin_token pw else DtaHashPwd (traced E) pw w)
      OPAL_ADMINSP_UID (uid_token (if psid \<noteq> 0 then OPAL_PSID_UID else OPAL_SID_UID)), revert_body] w w'"
proof -
  let ?s = "if psid \<noteq> 0 then DtaSession\<lparr>hashPwd := False\<rparr> else DtaSession"
  let ?u = "if psid \<noteq> 0 then OPAL_PSID_UID else OPAL_SID_UID"
  let ?w0 = "w\<lparr>session := Some ?s\<rparr>"
  let ?pin = "if psid \<noteq> 0 then pin_token pw else DtaHashPwd (traced E) pw w"
  obtain w1 w2 c where st: "start (traced E) OPAL_ADMINSP_UID (Some pw) (uid_token ?u) ?w0 = (Ret 0, w1)"
    and c: "cmd_seq [reset_uid_method OPAL_ADMINSP_UID REVERT, addTokens [Tok STARTLIST, Tok ENDLIST],
        complete True] (DtaCommand (cmd_addr E)) = Ret c"
    and ab: "expectAbort w1 = (Ret (), w2)"
    and k: "checked (traced E) (sendCommand_dev (traced E) c) (finish (traced E) 0) w2 = (Ret 0, w')"
    using run
    by (auto simp: revertTPer_def seq_op_def new_session_def bind_op_Ret_iff put_op_def dontHashPwd_def
        update_session_def this_session_def ret_def checked_success start_uid_def uid_token_def build_Ret
        traced_def split: if_splits)
  have p: "is_packet c zero4 zero4 zero4 revert_body"
    using plain_call_packet [OF w(2), of OPAL_ADMINSP_UID REVERT] c unfolding revert_body_def by auto
  have st1: "achieves [start_body ?pin OPAL_ADMINSP_UID (uid_token ?u)] ?w0 w1"
  proof (rule start_achieves [OF st, where s = ?s])
    show "enc (challenge_token (traced E) ?s ?w0 pw) = Some ?pin" "length ?pin \<le> 4096"
      using pin_token [of pw] pw length_DtaHashPwd [of "traced E" pw w]
      by (auto simp: challenge_token_def DtaSession_def simp del: enc.simps(5))
  qed (use w uid_token_HEXFF [of ?u] in simp_all)
  have c1: "comID w1 = comID ?w0" by (rule config_fields(3) [OF steps_result [OF kept.cl_start st]])
  have "proper_trace w1 w2" using ab by (auto simp: expectAbort_def update_session_def bind_op_Ret_iff
        this_session_def put_op_def split: option.splits intro: session_proper)
  moreover obtain w3 where 3: "sendCommand_dev (traced E) c w2 = (Ret 0, w3)" "finish (traced E) (0 :: u8) w3 = (Ret 0, w')"
    using k unfolding checked_success by blast
  ultimately have "achieves [revert_body] w1 w'"
    using achieves_before exchanged_achieves [OF sendCommand_dev_exchanged [OF 3(1) p]]
      achieves_after steps_result [OF wire.cl_finish 3(2)] by fastforce
  with st1 c1 show ?thesis
    using achieves_append achieves_before [OF session_proper] by fastforce
qed

text \<open>C17. Reverting the drive: success means that the drive opened a session on the Admin SP as PSID for
  the label's PSID in plain text, or as SID for the hash of the password, and accepted the Revert of
  the Admin SP in it.\<close>

theorem revertTPer_success:
  assumes "revertTPer (traced E) pw psid asp w = (Ret 0, w')"
    and "\<not> isEprise w" "unat (cmd_addr E) + 1024 < 2 ^ 64"
    and "psid \<noteq> 0 \<Longrightarrow> length pw \<le> 2000"
  shows "achieves [start_body (if psid \<noteq> 0 then pin_token pw else DtaHashPwd (traced E) pw w)
      OPAL_ADMINSP_UID (uid_token (if psid \<noteq> 0 then OPAL_PSID_UID else OPAL_SID_UID)), revert_body] w w'"
  by (rule revertTPer_achieves [OF assms])

end
