(* ===== verification/PbaImage.thy ===== *)
theory PbaImage
  imports OpalFlows
begin

text \<open>
  Loading the pre-boot image: the loop ends, and a success means that the drive accepted the whole
  file, in consecutive blocks.
\<close>

section \<open>The blocks of an image\<close>

text \<open>The specification: the file cut into blocks of \<open>n\<close> bytes, each with its offset.\<close>

function image_blocks :: "nat \<Rightarrow> nat \<Rightarrow> bytes \<Rightarrow> (nat \<times> bytes) list" where
  "image_blocks off n data =
     (if n = 0 \<or> data = [] then [] else (off, take n data) # image_blocks (off + n) n (drop n data))"
  by pat_completeness auto
termination by (relation "measure (\<lambda>(_, n, data). length data)") auto

declare image_blocks.simps [simp del]

lemma image_blocks_data: "0 < n \<Longrightarrow> concat (map snd (image_blocks off n data)) = data"
  by (induction off n data rule: image_blocks.induct) (subst image_blocks.simps, simp)

text \<open>The command that writes one block to the shadow MBR.\<close>

definition mbr_args :: "nat \<Rightarrow> bytes \<Rightarrow> bytes" where
  "mbr_args off data = [0xf0, 0xf2, WHERE] @ enc_num off @ [0xf3, 0xf2, VALUES, 0xe2,
     of_nat (length data div 65536), of_nat (length data div 256), of_nat (length data)] @ data @ [0xf3, 0xf1]"

definition mbr_body :: "nat \<Rightarrow> bytes \<Rightarrow> bytes" where
  "mbr_body off data = call_body OPAL_MBR SET (mbr_args off data)"

lemma enc_num_length: "length (enc_num n) \<le> 9"
  by (simp add: enc_num_def Let_def)

lemma mbr_body_fits: "length data + 106 \<le> MAX_BUFFER_LENGTH \<Longrightarrow> off < 2 ^ 32 \<Longrightarrow>
    wire_size (mbr_body off data) \<le> MAX_BUFFER_LENGTH"
  using length_wire [of "mbr_body off data"]
  by (simp add: mbr_body_def mbr_args_def call_body_def eod_bytes_def enc_num_def Let_def split: if_splits)

text \<open>The long-atom prefix of a block: three length bytes.\<close>

lemma low_byte: "(ucast (x AND 0xff :: u32) :: u8) = of_nat (unat x)"
proof -
  have "(ucast (x AND 0xff) :: u8) = ucast x"
    unfolding byte_masks by (rule bit_word_eqI) (auto simp: bit_simps)
  then show ?thesis by (simp add: unsigned_def)
qed

lemma length_bytes:
  assumes "n < 2 ^ 32"
  shows "(ucast (drop_bit 16 (of_nat n :: u32) AND 0xff) :: u8) = of_nat (n div 65536)"
    "(ucast (drop_bit 8 (of_nat n :: u32) AND 0xff) :: u8) = of_nat (n div 256)"
    "(ucast ((of_nat n :: u32) AND 0xff) :: u8) = of_nat n"
proof -
  have n: "unat (of_nat n :: u32) = n" using assms by (simp add: unat_of_nat take_bit_nat_eq_self)
  have "unat (of_nat n div of_nat k :: u32) = n div k" if "k < 2 ^ 32" for k
    using n that by (simp add: unat_div_distrib unat_of_nat take_bit_nat_eq_self)
  from this [of 65536] this [of 256] n
  show "(ucast (drop_bit 16 (of_nat n :: u32) AND 0xff) :: u8) = of_nat (n div 65536)"
    "(ucast (drop_bit 8 (of_nat n :: u32) AND 0xff) :: u8) = of_nat (n div 256)"
    "(ucast ((of_nat n :: u32) AND 0xff) :: u8) = of_nat n"
    unfolding low_byte by (simp_all add: drop_bit_eq_div)
qed

lemma pba_block_achieves:
  assumes run: "pba_block (traced E) pos buf w = (Ret 0, w')"
    and fits: "length buf + 106 \<le> MAX_BUFFER_LENGTH" and mem: "unat (cmd_addr E) + 1024 < 2 ^ 64"
  shows "achieves [mbr_body (unat pos) buf] w w'"
proof -
  have pos: "unat pos < 2 ^ 32" using unsigned_less [of pos, where 'a = nat] by simp
  have pos': "unat (ucast pos :: u64) = unat pos"
    using pos by (simp add: unsigned_ucast_eq take_bit_nat_eq_self)
  have n: "length buf < 2 ^ 32" using fits by simp
  have "enc_all [Tok STARTLIST, Tok STARTNAME, Tok WHERE, Num (ucast pos), Tok ENDNAME,
      Tok STARTNAME, Tok VALUES, Vec [0xe2, of_nat (length buf div 65536), of_nat (length buf div 256),
        of_nat (length buf)], Vec buf, Tok ENDNAME, Tok ENDLIST] = Some (mbr_args (unat pos) buf)"
    by (simp add: mbr_args_def pos')
  from call_packet [OF this mbr_body_fits [OF fits pos, unfolded mbr_body_def] cmdcap_DtaCommand(1) [OF mem]]
  show ?thesis
    using call_dev_achieves [OF run [unfolded pba_block_def Let_def length_bytes [OF n]], of "mbr_body (unat pos) buf"]
    unfolding mbr_body_def by blast
qed

section \<open>The loop over the file\<close>

lemma advance:
  fixes f e b :: u32
  assumes "f \<le> e" "b \<noteq> 0" "b \<le> e - f"
  shows "unat (f + b) = unat f + unat b" "f + b \<le> e" "unat (e - (f + b)) < unat (e - f)"
proof -
  have d: "unat (e - f) = unat e - unat f" using assms(1) by (simp add: unat_sub_if' word_le_nat_alt)
  have b: "0 < unat b" "unat b \<le> unat e - unat f"
    using assms(2, 3) d by (simp_all add: word_le_nat_alt unat_gt_0)
  have le: "unat f \<le> unat e" using assms(1) by (simp add: word_le_nat_alt)
  have "unat e < 2 ^ 32" using unsigned_less [of e, where 'a = nat] by simp
  with b le show s: "unat (f + b) = unat f + unat b" by (simp add: unat_word_ariths)
  with b le show l: "f + b \<le> e" by (simp add: word_le_nat_alt)
  have "unat (e - (f + b)) = unat e - unat (f + b)" using l by (simp add: unat_sub_if' word_le_nat_alt)
  with s b le d show "unat (e - (f + b)) < unat (e - f)" by simp
qed

text \<open>The loop ends after finitely many blocks when the block size is not zero: only a block that is
  itself never answered can keep the program from returning.\<close>

lemma pba_loop_ends:
  assumes "filepos \<le> eofpos" "blockSize \<noteq> 0"
  shows "\<exists>r. pba_loop E img eofpos filepos blockSize w = Some r"
  using assms
proof (induction "unat (eofpos - filepos)" arbitrary: filepos blockSize w rule: less_induct)
  case less
  let ?bs = "if eofpos - filepos < blockSize then eofpos - filepos else blockSize"
  show ?case
  proof (cases "eofpos = filepos")
    case True
    then show ?thesis by (subst pba_loop.simps) simp
  next
    case False
    have bs: "?bs \<noteq> 0" "?bs \<le> eofpos - filepos" using False less.prems(2) by auto
    note adv = advance [OF less.prems(1) bs]
    show ?thesis
      using less.hyps [OF adv(3, 2) bs(1)] False
      by (subst pba_loop.simps) (auto simp: Let_def split: prod.split outcome.split)
  qed
qed

text \<open>Every block is accepted, and together they are the rest of the file.\<close>

lemma pba_loop_achieves:
  assumes "pba_loop (traced E) img (of_nat (length img)) filepos blockSize w = Some (Ret 0, w')"
    and "length img < 2 ^ 32" "unat filepos \<le> length img"
    and "blockSize \<noteq> 0" "unat blockSize + 106 \<le> MAX_BUFFER_LENGTH" "unat (cmd_addr E) + 1024 < 2 ^ 64"
  shows "achieves (map (\<lambda>(off, data). mbr_body off data)
      (image_blocks (unat filepos) (unat blockSize) (drop (unat filepos) img))) w w'"
  using assms(1, 3-5)
proof (induction "length img - unat filepos" arbitrary: filepos blockSize w rule: less_induct)
  case less
  let ?e = "of_nat (length img) :: u32"
  have e: "unat ?e = length img" using assms(2) by (simp add: unat_of_nat take_bit_nat_eq_self)
  define bs where "bs = (if ?e - filepos < blockSize then ?e - filepos else blockSize)"
  have le: "filepos \<le> ?e" using less.prems(2) by (simp add: word_le_nat_alt e)
  have rest: "unat (?e - filepos) = length img - unat filepos"
    using le by (simp add: unat_sub_if' word_le_nat_alt e)
  show ?case
  proof (cases "?e = filepos")
    case True
    then have "w' = w" "unat filepos = length img"
      using less.prems(1) e by (auto simp: pba_loop.simps [of _ _ ?e])
    then show ?thesis by (simp add: image_blocks.simps achieves_def exchanged_def)
  next
    case False
    have bs: "bs \<noteq> 0" "bs \<le> ?e - filepos" "bs \<le> blockSize"
      using False less.prems(3) by (auto simp: bs_def)
    note adv = advance [OF le bs(1, 2)]
    let ?data = "drop (unat filepos) img"
    have nz: "unat filepos < length img" using False less.prems(2) e by (metis le_neq_implies_less unsigned_word_eqI)
    obtain w1 where step: "pba_block (traced E) filepos (take (unat bs) ?data) w = (Ret 0, w1)"
      and loop: "pba_loop (traced E) img ?e (filepos + bs) bs
          (w1\<lparr>console := console w1 @ [ProgressReport (filepos + bs) ?e bs]\<rparr>) = Some (Ret 0, w')"
      using less.prems(1) False
      by (subst (asm) pba_loop.simps)
        (auto simp: bs_def [symmetric] Let_def split: prod.splits outcome.splits if_splits)
    have small: "unat bs \<le> unat blockSize" "unat (filepos + bs) \<le> length img"
      using bs(3) adv(2) by (simp_all add: word_le_nat_alt e)
    have data: "length (take (unat bs) ?data) + 106 \<le> MAX_BUFFER_LENGTH" using small less.prems(4) by simp
    have 1: "achieves [mbr_body (unat filepos) (take (unat bs) ?data)] w w1"
      by (rule pba_block_achieves [OF step data assms(6)])
    have dec: "length img - unat (filepos + bs) < length img - unat filepos"
      using adv(1) unat_gt_0 [of bs] bs(1) nz by linarith
    have bs106: "unat bs + 106 \<le> MAX_BUFFER_LENGTH" using small(1) less.prems(4) by simp
    let ?w2 = "w1\<lparr>console := console w1 @ [ProgressReport (filepos + bs) ?e bs]\<rparr>"
    have "achieves (map (\<lambda>(off, data). mbr_body off data)
      (image_blocks (unat (filepos + bs)) (unat bs) (drop (unat (filepos + bs)) img))) ?w2 w'"
      by (rule less.hyps [OF dec loop small(2) bs(1) bs106])
    then have 2: "achieves (map (\<lambda>(off, data). mbr_body off data)
      (image_blocks (unat (filepos + bs)) (unat bs) (drop (unat (filepos + bs)) img))) w1 w'"
      by (rule achieves_before [rotated]) (rule wire.rel_local, rule local_updates)
    have cid: "comID w1 = comID w"
      by (rule config_fields(3) [OF steps_result [OF kept.cl_pba_block step]])
    have blocks: "image_blocks (unat filepos) (unat blockSize) ?data =
        (unat filepos, take (unat bs) ?data) #
          image_blocks (unat (filepos + bs)) (unat bs) (drop (unat (filepos + bs)) img)"
    proof (cases "bs = blockSize")
      case True
      then show ?thesis using nz bs(1) adv(1)
        by (subst image_blocks.simps) (simp add: unat_eq_0 add.commute)
    next
      case short: False
      then have sz: "unat bs = length img - unat filepos" "length img - unat filepos < unat blockSize"
        using rest by (auto simp: bs_def word_less_nat_alt split: if_splits)
      then have "drop (unat blockSize) ?data = []" "drop (unat (filepos + bs)) img = []"
        "take (unat blockSize) ?data = ?data" "take (unat bs) ?data = ?data"
        using adv(1) by simp_all
      then show ?thesis using nz sz
        by (subst image_blocks.simps) (simp add: image_blocks.simps)
    qed
    show ?thesis
      using achieves_append [OF 1 2 cid] unfolding blocks by simp
  qed
qed

section \<open>The operation\<close>

text \<open>With limits above the overhead, the block size is positive and every block fits the command
  buffer. The limits come from the drive's answer to Properties.\<close>

definition sane_limits :: "'d dta_dev \<Rightarrow> bool" where
  "sane_limits w \<longleftrightarrow> 106 < tperMaxPacket w \<and> 110 < tperMaxToken w"

lemma sane_blockSize:
  assumes "sane_limits w"
  shows "pba_blockSize w \<noteq> 0" "unat (pba_blockSize w) + 106 \<le> MAX_BUFFER_LENGTH"
proof -
  define b0 :: u32 where "b0 = (if 61440 > tperMaxPacket w then tperMaxPacket w else 61440)"
  define b1 where "b1 = (if b0 > tperMaxToken w - 4 then tperMaxToken w - 4 else b0)"
  have p: "106 < unat (tperMaxPacket w)" "110 < unat (tperMaxToken w)"
    using assms by (simp_all add: sane_limits_def word_less_nat_alt)
  have m: "unat (tperMaxToken w - 4) = unat (tperMaxToken w) - 4"
    using p(2) by (simp add: unat_sub_if')
  have b0: "106 < unat b0" "unat b0 \<le> 61440"
    using p(1) by (auto simp: b0_def word_less_nat_alt)
  have b1: "106 < unat b1" "unat b1 \<le> 61440"
    using b0 p(2) by (auto simp: b1_def m word_less_nat_alt)
  have "pba_blockSize w = b1 - 106"
    by (simp add: pba_blockSize_def b0_def b1_def Let_def)
  moreover have "unat (b1 - 106) = unat b1 - 106" using b1 by (simp add: unat_sub_if')
  ultimately show "pba_blockSize w \<noteq> 0" "unat (pba_blockSize w) + 106 \<le> MAX_BUFFER_LENGTH"
    using b1 by (auto simp flip: unat_eq_0)
qed


text \<open>Loading the image always comes to an end, whatever the drive answers, unless one of its requests
  is never answered: the loop over the file itself ends for every file, when the limits are above the
  overhead of a block.\<close>

lemma loadPBA_loop_ends:
  "sane_limits w \<Longrightarrow> \<exists>r. pba_loop E img (of_nat (length img)) 0 (pba_blockSize w) w1 = Some r"
  by (rule pba_loop_ends [OF _ sane_blockSize(1)]) simp_all

end
