(* ===== verification/Cooperation.thy ===== *)
theory Cooperation
  imports PbaImage
begin

text \<open>
  What the program does on a drive that cooperates: every command is accepted and answered with one and
  the same well-formed reply of success. The operations then run to their end and return 0; with it
  the statements about successful operations apply.
\<close>

section \<open>A drive that accepts everything\<close>

text \<open>The tokens of the reply: a row with the column 6 and the value 8, and the status of success. Read
  as the answer to a start of session it holds two numbers, read as the answer to a sign-in, a one, and
  read as that of a look-up on an Enterprise drive, nine ranges or a default password of one byte.\<close>

definition yes_buffer :: bytes where
  "yes_buffer = replicate 16 0 @ [0, 0, 0, 52] @ replicate 20 0 @ [0, 0, 0, 28] @ replicate 8 0 @
     [0, 0, 0, 13, 0xf0, 0x01, 0xf2, 0x06, 0xa1, 0x08, 0xa1, 0x09, 0xf0, 0x00, 0x00, 0x00, 0xf1, 0, 0, 0]"

definition yes :: dta_response where
  "yes = \<lparr>h = take 56 yes_buffer,
     response = [[0xf0], [0x01], [0xf2], [0x06], [0xa1, 0x08], [0xa1, 0x09], [0xf0], [0x00], [0x00], [0x00], [0xf1]]\<rparr>"

definition cooperative :: "'d env \<Rightarrow> bool" where
  "cooperative E \<longleftrightarrow> unat (cmd_addr E) + 1024 < 2 ^ 64 \<and>
     (\<forall>k p cid b d. \<exists>b' d'. drive_sendCmd E k IF_SEND p cid b d = (0, b', d')) \<and>
     (\<forall>k p cid b d. \<exists>d'. drive_sendCmd E k IF_RECV p cid b d = (0, yes_buffer, d'))"

text \<open>An instance.\<close>

definition willing :: "unit env" where
  "willing = \<lparr>
     drive_init = (\<lambda>k p d. (True, d)),
     drive_identify = (\<lambda>k di d. (di\<lparr>devType := DEVICE_TYPE_ATA\<rparr>, d)),
     drive_sendCmd = (\<lambda>k c p cid b d. (0, if c = IF_RECV then yes_buffer else b, d)),
     pbkdf2 = (\<lambda>pwd salt iter n. replicate n (if pwd = [] then 0 else hd pwd)),
     cmd_addr = 0x1000,
     file_of = (\<lambda>p. if p = [] then None else Some [0x01, 0x02, 0x03])\<rparr>"

lemma cooperative_willing: "cooperative willing"
  by (simp add: cooperative_def willing_def)

lemma cooperative_traced: "cooperative E \<Longrightarrow> cooperative (traced E)"
  by (auto simp: cooperative_def traced_def split: prod.split) (metis prod.inject)+

text \<open>What the program reads in the reply.\<close>

lemma yes_init: "init MIN_BUFFER_LENGTH (read_block yes_buffer 0 MIN_BUFFER_LENGTH) = Ret yes"
  by code_simp

lemma yes_header: "load32 (read_block yes_buffer 0 MIN_BUFFER_LENGTH) off_outstandingData = 0"
  by code_simp

lemma yes_status: "reply_status yes = Ret 0"
  by code_simp

lemma yes_reads: "getUint32 yes 4 = Ret 8" "getUint32 yes 5 = Ret 9" "getUint8 yes 1 = Ret 1"
    "getUint8 yes 3 = Ret 6" "getUint8 yes 4 = Ret 8" "getString yes 4 = Ret [8]"
    "getString yes 5 = Ret [9]" "getUint16 yes 5 = Ret 9"
  by code_simp+

section \<open>Total correctness\<close>

text \<open>\<open>succeeds P m Q\<close>: from every state in \<open>P\<close> the operation returns, with a value and a state in \<open>Q\<close>.\<close>

definition succeeds :: "('w \<Rightarrow> bool) \<Rightarrow> ('w, 'a) op \<Rightarrow> ('a \<Rightarrow> 'w \<Rightarrow> bool) \<Rightarrow> bool" where
  "succeeds P m Q \<longleftrightarrow> (\<forall>w. P w \<longrightarrow> (\<exists>x w'. m w = (Ret x, w') \<and> Q x w'))"

definition returns_0 :: "('w \<Rightarrow> bool) \<Rightarrow> ('w, u8) op \<Rightarrow> ('w \<Rightarrow> bool) \<Rightarrow> bool" where
  "returns_0 P m Q \<longleftrightarrow> succeeds P m (\<lambda>rc w. rc = 0 \<and> Q w)"

named_theorems success_rules \<open>success, by the structure of an operation\<close>

lemma succeedsD: "succeeds P m Q \<Longrightarrow> P w \<Longrightarrow> \<exists>x w'. m w = (Ret x, w') \<and> Q x w'"
  by (simp add: succeeds_def)

lemma returns_0D: "returns_0 P m Q \<Longrightarrow> P w \<Longrightarrow> \<exists>w'. m w = (Ret 0, w') \<and> Q w'"
  by (auto simp: returns_0_def dest: succeedsD)

lemma succeeds_bind: "succeeds P m R \<Longrightarrow> (\<And>x. succeeds (R x) (f x) Q) \<Longrightarrow> succeeds P (bind_op m f) Q"
  unfolding succeeds_def by (metis bind_run(1))

lemma succeeds_weaken: "succeeds P m Q \<Longrightarrow> (\<And>w. P' w \<Longrightarrow> P w) \<Longrightarrow> (\<And>x w. Q x w \<Longrightarrow> Q' x w) \<Longrightarrow> succeeds P' m Q'"
  unfolding succeeds_def by metis

lemma succeeds_put: "(\<And>w. P w \<Longrightarrow> Q () (f w)) \<Longrightarrow> succeeds P (put_op f) Q"
  by (simp add: succeeds_def put_op_def)

lemma succeeds_get: "(\<And>w. P w \<Longrightarrow> Q (f w) w) \<Longrightarrow> succeeds P (get_op f) Q"
  by (simp add: succeeds_def get_op_def)

lemma succeeds_lift: "r = Ret x \<Longrightarrow> (\<And>w. P w \<Longrightarrow> Q x w) \<Longrightarrow> succeeds P (lift_op r) Q"
  by (simp add: succeeds_def lift_op_def)

lemma returns_0_ret [success_rules]: "(\<And>w. P w \<Longrightarrow> Q w) \<Longrightarrow> returns_0 P (ret 0) Q"
  by (simp add: returns_0_def succeeds_def ret_def)

lemma returns_0_check [success_rules]:
  "returns_0 P m R \<Longrightarrow> returns_0 R k Q \<Longrightarrow> returns_0 P (check m k) Q"
  by (fastforce simp: returns_0_def succeeds_def check_Ret_iff)

lemma returns_0_checked [success_rules]:
  "returns_0 P m R \<Longrightarrow> returns_0 R k Q \<Longrightarrow> returns_0 P (checked E m k) Q"
  by (fastforce simp: returns_0_def succeeds_def checked_success)

lemma returns_0_weaken: "returns_0 P m Q \<Longrightarrow> (\<And>w. P' w \<Longrightarrow> P w) \<Longrightarrow> (\<And>w. Q w \<Longrightarrow> Q' w) \<Longrightarrow> returns_0 P' m Q'"
  unfolding returns_0_def by (erule succeeds_weaken) auto

lemma returns_0_bind: "succeeds P m R \<Longrightarrow> (\<And>x. returns_0 (R x) (f x) Q) \<Longrightarrow> returns_0 P (bind_op m f) Q"
  unfolding returns_0_def by (rule succeeds_bind)

lemma returns_0_seq [success_rules]:
  "succeeds P m (\<lambda>_. R) \<Longrightarrow> returns_0 R k Q \<Longrightarrow> returns_0 P (seq_op m k) Q"
  unfolding seq_op_def by (rule returns_0_bind)

section \<open>States of a device\<close>

definition ready :: "'d dta_dev \<Rightarrow> bool" where
  "ready w \<longleftrightarrow> isOpen w \<and> drive w \<noteq> None \<and> dev_cls w \<noteq> Generic"

definition in_sess :: "'d dta_dev \<Rightarrow> bool" where
  "in_sess w \<longleftrightarrow> ready w \<and> session w \<noteq> None"

definition replied :: "'d dta_dev \<Rightarrow> bool" where
  "replied w \<longleftrightarrow> in_sess w \<and> dev_response w = yes"

definition reply_kept :: "'d dta_dev \<Rightarrow> bool" where
  "reply_kept w \<longleftrightarrow> ready w \<and> dev_response w = yes"

lemma states: "in_sess w \<Longrightarrow> ready w" "replied w \<Longrightarrow> in_sess w" "replied w \<Longrightarrow> reply_kept w" "reply_kept w \<Longrightarrow> ready w"
  by (simp_all add: in_sess_def replied_def reply_kept_def)

text \<open>One command.\<close>

lemma sendCmd_run:
  assumes "isOpen w" "drive w \<noteq> None" "cooperative E"
  shows "\<exists>b d. sendCmd E IF_SEND p cid buf w = ((0, b), w\<lparr>disk := d\<rparr>)"
    "\<exists>d. sendCmd E IF_RECV p cid buf w = ((0, read_block yes_buffer 0 (length buf)), w\<lparr>disk := d\<rparr>)"
proof -
  obtain k where k: "drive w = Some k" using assms(2) by blast
  obtain b d where "drive_sendCmd E k IF_SEND p cid buf (disk w) = (0, b, d)"
    using assms(3) by (fastforce simp: cooperative_def)
  then show "\<exists>b d. sendCmd E IF_SEND p cid buf w = ((0, b), w\<lparr>disk := d\<rparr>)"
    using assms(1) k by (auto simp: sendCmd_def)
  obtain d' where "drive_sendCmd E k IF_RECV p cid buf (disk w) = (0, yes_buffer, d')"
    using assms(3) by (fastforce simp: cooperative_def)
  then show "\<exists>d. sendCmd E IF_RECV p cid buf w = ((0, read_block yes_buffer 0 (length buf)), w\<lparr>disk := d\<rparr>)"
    using assms(1) k by (auto simp: sendCmd_def)
qed

lemma sendCommand_run:
  assumes "in_sess w" "cooperative E"
  shows "\<exists>d. sendCommand E c resp w = (Ret (0, yes), w\<lparr>disk := d\<rparr>)"
proof -
  obtain s where s: "session w = Some s" using assms(1) by (auto simp: in_sess_def)
  have op: "isOpen w" "drive w \<noteq> None" and cls: "dev_cls w \<noteq> Generic"
    using assms(1) by (simp_all add: in_sess_def ready_def)
  let ?c = "stamped (comID w) s c" and ?p = "SecurityProtocol s"
  obtain b d where 1: "sendCmd E IF_SEND ?p (comID w) (sent_bytes ?c) w = ((0, b), w\<lparr>disk := d\<rparr>)"
    using sendCmd_run(1) [OF op assms(2)] by blast
  let ?w1 = "w\<lparr>disk := d\<rparr>"
  obtain d' where 2: "sendCmd E IF_RECV ?p (comID ?w1) (replicate MIN_BUFFER_LENGTH 0) ?w1 =
      ((0, read_block yes_buffer 0 MIN_BUFFER_LENGTH), ?w1\<lparr>disk := d'\<rparr>)"
    using sendCmd_run(2) [OF _ _ assms(2), of ?w1 ?p "comID ?w1" "replicate MIN_BUFFER_LENGTH 0"] op by auto
  have pl: "poll E ?p ?w1 = Some ((0, read_block yes_buffer 0 MIN_BUFFER_LENGTH), w\<lparr>disk := d'\<rparr>)"
    using 2 by (subst poll.simps) (simp add: Let_def yes_header)
  have io: "exec_io E ?c resp ?p w = (Ret (0, yes), w\<lparr>disk := d'\<rparr>)"
    using 1 pl by (simp add: exec_io_def bind_op_def get_op_def sendCmd_op_def poll_op_def lift_op_def
        ret_def yes_init)
  have "exec E ?c resp ?p w = (Ret (0, yes), w\<lparr>disk := d'\<rparr>)"
    using io cls by (simp add: exec_def split: dev_class.split)
  then show ?thesis
    using s by (auto simp: sendCommand_def bind_op_def this_session_def get_op_def lift_op_def ret_def
        stamped_def yes_status)
qed

lemma yes_command: "cooperative E \<Longrightarrow>
    succeeds in_sess (sendCommand E c resp) (\<lambda>(rc, r) w. rc = 0 \<and> r = yes \<and> in_sess w)"
  unfolding succeeds_def using sendCommand_run by (fastforce simp: in_sess_def ready_def)

lemma yes_command_dev: "cooperative E \<Longrightarrow> returns_0 in_sess (sendCommand_dev E c) replied"
  unfolding returns_0_def succeeds_def
proof (intro allI impI)
  fix w :: "'a dta_dev" assume E: "cooperative E" and w: "in_sess w"
  obtain d where "sendCommand E c (dev_response w) w = (Ret (0, yes), w\<lparr>disk := d\<rparr>)"
    using sendCommand_run [OF w E] by blast
  then have "sendCommand_dev E c w = (Ret 0, w\<lparr>disk := d, dev_response := yes\<rparr>)"
    by (simp add: sendCommand_dev_def bind_op_def get_op_def put_op_def ret_def)
  with w show "\<exists>x w'. sendCommand_dev E c w = (Ret x, w') \<and> x = 0 \<and> replied w'"
    by (auto simp: in_sess_def replied_def ready_def)
qed

end
