(* ===== verification/Discipline.thy ===== *)
theory Discipline
  imports Interface
begin

text \<open>
  The session discipline: an operation that returns has deleted the session object it made, whatever
  branch it took. \<open>ends m\<close>: a return of \<open>m\<close> leaves no session; \<open>balanced m\<close>: from a device without a
  session, a return of \<open>m\<close> leaves none.
\<close>

section \<open>Rules\<close>

definition ends :: "('d, 'a) devop \<Rightarrow> bool" where
  "ends m \<longleftrightarrow> (\<forall>w x w'. m w = (Ret x, w') \<longrightarrow> session w' = None)"

definition balanced :: "('d, 'a) devop \<Rightarrow> bool" where
  "balanced m \<longleftrightarrow> (\<forall>w x w'. m w = (Ret x, w') \<longrightarrow> session w = None \<longrightarrow> session w' = None)"

named_theorems session_rules \<open>the session discipline, by the structure of an operation\<close>

lemma ends_balanced: "ends m \<Longrightarrow> balanced m"
  by (simp add: ends_def balanced_def)

lemma ends_bind [session_rules]: "(\<And>x. ends (f x)) \<Longrightarrow> ends (bind_op m f)"
  unfolding ends_def bind_op_Ret_iff by blast

lemma ends_if [session_rules]: "(b \<Longrightarrow> ends m) \<Longrightarrow> (\<not> b \<Longrightarrow> ends n) \<Longrightarrow> ends (if b then m else n)"
  by simp

lemma ends_case_prod [session_rules]: "(\<And>x y. ends (f x y)) \<Longrightarrow> ends (case p of (x, y) \<Rightarrow> f x y)"
  by (simp add: split_beta)

lemma ends_case_option [session_rules]:
  "ends m \<Longrightarrow> (\<And>x. ends (f x)) \<Longrightarrow> ends (case p of None \<Rightarrow> m | Some x \<Rightarrow> f x)"
  by (simp split: option.split)

lemma ends_case_sum [session_rules]:
  "(\<And>x. ends (f x)) \<Longrightarrow> (\<And>y. ends (g y)) \<Longrightarrow> ends (case p of Inl x \<Rightarrow> f x | Inr y \<Rightarrow> g y)"
  by (simp split: sum.split)

lemma ends_delete [session_rules]: "ends (delete_session E)"
  unfolding delete_session_def
  by (rule ends_bind, rule ends_bind) (simp add: ends_def put_op_def)

lemma ends_delete_then [session_rules]: "balanced k \<Longrightarrow> ends (seq_op (delete_session E) k)"
  using ends_delete unfolding seq_op_def ends_def balanced_def bind_op_Ret_iff by blast

lemma balanced_ret [session_rules]:
  "balanced (ret x)" "balanced (lift_op r)" "balanced (get_op f)"
  by (simp_all add: balanced_def ret_def lift_op_def get_op_def)

lemma balanced_bind [session_rules]:
  "balanced m \<Longrightarrow> (\<And>x. balanced (f x)) \<Longrightarrow> balanced (bind_op m f)"
  unfolding balanced_def bind_op_Ret_iff by blast

lemma balanced_if [session_rules]:
  "(b \<Longrightarrow> balanced m) \<Longrightarrow> (\<not> b \<Longrightarrow> balanced n) \<Longrightarrow> balanced (if b then m else n)"
  by simp

lemma balanced_case_prod [session_rules]:
  "(\<And>x y. balanced (f x y)) \<Longrightarrow> balanced (case p of (x, y) \<Rightarrow> f x y)"
  by (simp add: split_beta)

lemma balanced_case_option [session_rules]:
  "balanced m \<Longrightarrow> (\<And>x. balanced (f x)) \<Longrightarrow> balanced (case p of None \<Rightarrow> m | Some x \<Rightarrow> f x)"
  by (simp split: option.split)

lemma balanced_case_sum [session_rules]:
  "(\<And>x. balanced (f x)) \<Longrightarrow> (\<And>y. balanced (g y)) \<Longrightarrow>
   balanced (case p of Inl x \<Rightarrow> f x | Inr y \<Rightarrow> g y)"
  by (simp split: sum.split)

lemma balanced_check [session_rules]: "balanced m \<Longrightarrow> balanced k \<Longrightarrow> balanced (check m k)"
  unfolding check_def by (intro balanced_bind balanced_if balanced_ret)

lemma balanced_seq: "balanced m \<Longrightarrow> balanced k \<Longrightarrow> balanced (seq_op m k)"
  unfolding seq_op_def by (rule balanced_bind)

lemma balanced_report [session_rules]:
  "balanced k \<Longrightarrow> balanced (seq_op (report r) k)"
  by (rule balanced_seq) (simp add: balanced_def report_def put_op_def)

lemma balanced_build [session_rules]: "balanced (build E calls)"
  unfolding build_def by (rule balanced_ret)

lemma balanced_from_response [session_rules]: "balanced (from_response f)"
  unfolding from_response_def by (intro balanced_bind balanced_ret)

text \<open>Behind \<^verbatim>\<open>new DtaSession\<close> the rest has to end the session, whatever comes first.\<close>

lemma ends_finish [session_rules]: "ends (finish E rc)"
  unfolding finish_def by (intro session_rules)

lemma ends_checked [session_rules]: "ends k \<Longrightarrow> ends (checked E m k)"
  unfolding checked_def check_cleanup_def
  by (intro ends_bind ends_if ends_delete_then [unfolded seq_op_def] balanced_ret)

lemma ends_seq: "ends k \<Longrightarrow> ends (seq_op m k)"
  unfolding seq_op_def by (rule ends_bind)

lemma ends_prepared [session_rules]:
  "ends k \<Longrightarrow> ends (seq_op dontHashPwd k)"
  "ends k \<Longrightarrow> ends (seq_op expectAbort k)"
  "ends k \<Longrightarrow> ends (seq_op (if b then dontHashPwd else ret ()) k)"
  "ends k \<Longrightarrow> ends (seq_op (put_op f) k)"
  by (rule ends_seq, assumption)+

lemma balanced_new_session [session_rules]: "ends k \<Longrightarrow> balanced (seq_op new_session k)"
  by (rule ends_balanced [OF ends_seq])

lemma balanced_in_session [session_rules]: "ends k \<Longrightarrow> balanced (in_session E st k)"
  unfolding in_session_def
  by (intro balanced_new_session ends_checked [unfolded checked_def])

section \<open>The operations of the Opal class\<close>

lemma balanced_opal_tables [session_rules]:
  "balanced (getDefaultPassword E)" "balanced (printDefaultPassword E)"
  "balanced (setSIDPassword E a b c d)" "balanced (takeOwnership E p)"
  "balanced (setPassword E p u n)" "balanced (setNewPassword_SUM E p u n)"
  "balanced (enableUser E p u s)" "balanced (objDump E sp au p i)" "balanced (rawCmd E sp au p i m x)"
proof -
  show g: "balanced (getDefaultPassword E)"
    unfolding getDefaultPassword_def by (intro session_rules)
  show "balanced (printDefaultPassword E)"
    unfolding printDefaultPassword_def by (intro session_rules g)
  show s: "balanced (setSIDPassword E a b c d)" for a b c d
    unfolding setSIDPassword_def by (intro session_rules)
  show "balanced (takeOwnership E p)"
    unfolding takeOwnership_def by (intro session_rules g s)
  have u: "ends (set_user_pin E u n)"
    unfolding set_user_pin_def by (intro session_rules)
  show "balanced (setPassword E p u n)"
    unfolding setPassword_def by (intro session_rules u)
  show "balanced (setNewPassword_SUM E p u n)"
    unfolding setNewPassword_SUM_def Let_def by (intro session_rules u)
  show "balanced (enableUser E p u s)"
    unfolding enableUser_def by (intro session_rules)
  show "balanced (objDump E sp au p i)" "balanced (rawCmd E sp au p i m x)"
    unfolding objDump_def rawCmd_def Let_def by (intro session_rules)+
qed

lemma ends_list_loop [session_rules]: "ends (list_loop E n i LR)"
  by (induction n arbitrary: i LR)
    (simp add: ends_finish, simp only: list_loop.simps Let_def, intro session_rules ends_seq)

lemma balanced_opal_ranges [session_rules]:
  "balanced (getLockingRange_status E n p)" "balanced (printLockingRangeStatus E n p)"
  "balanced (listLockingRanges E p i)" "balanced (rekeyLockingRange E n p)"
  "balanced (rekeyLockingRange_SUM E LR u p)" "balanced (setupLockingRange E n a b p)"
  "balanced (setupLockingRange_SUM E n a b p)" "balanced (configureLockingRange E n e p)"
  "balanced (setLockingRange E n s p)" "balanced (setLockingRange_SUM E n s p)"
  "balanced (eraseLockingRange_SUM E n p)" "balanced (setBandsEnabled i p)"
  "balanced (eraseLockingRange n p)"
proof -
  show g: "balanced (getLockingRange_status E n p)" for n p
    unfolding getLockingRange_status_def by (intro session_rules)
  show "balanced (printLockingRangeStatus E n p)"
    unfolding printLockingRangeStatus_def by (intro session_rules g)
  show "balanced (listLockingRanges E p i)"
    unfolding listLockingRanges_def by (intro session_rules)
  have r: "ends (rekey_range E LR)" for LR
    unfolding rekey_range_def by (intro session_rules)
  show k: "balanced (rekeyLockingRange E n p)" "balanced (rekeyLockingRange_SUM E LR u p)" for LR u
    unfolding rekeyLockingRange_def rekeyLockingRange_SUM_def by (intro session_rules r)+
  show "balanced (setupLockingRange E n a b p)" "balanced (setupLockingRange_SUM E n a b p)"
    unfolding setupLockingRange_def setupLockingRange_SUM_def Let_def by (intro session_rules k)+
  show "balanced (configureLockingRange E n e p)" "balanced (setLockingRange E n s p)"
    "balanced (setLockingRange_SUM E n s p)" "balanced (eraseLockingRange_SUM E n p)"
    "balanced (setBandsEnabled i p)" "balanced (eraseLockingRange n p)"
    unfolding configureLockingRange_def setLockingRange_def setLockingRange_SUM_def
      eraseLockingRange_SUM_def setBandsEnabled_def eraseLockingRange_def
    by (intro session_rules)+
qed

lemma balanced_opal_admin [session_rules]:
  "balanced (setMBRDone E s p)" "balanced (setMBREnable E s p)" "balanced (loadPBA E p f)"
  "balanced (activateLockingSP E p)" "balanced (activateLockingSP_SUM E n p)"
  "balanced (revertLockingSP E p k)" "balanced (revertTPer E p ps ad)"
  "balanced (initialSetup E p)" "balanced (setup_SUM E n a b p q)"
proof -
  have v: "balanced (setLockingSPvalue E u n x p)" for u n x p
    unfolding setLockingSPvalue_def by (intro session_rules)
  show d: "balanced (setMBRDone E s p)" for s
    unfolding setMBRDone_def by (intro session_rules v)
  show e: "balanced (setMBREnable E s p)" for s
    unfolding setMBREnable_def by (intro session_rules v d)
  show "balanced (loadPBA E p f)"
    unfolding loadPBA_def by (intro session_rules)
  have i: "ends k \<Longrightarrow> ends (if_inactive E k)" for k
    unfolding if_inactive_def by (intro session_rules)
  show a: "balanced (activateLockingSP E p)" "balanced (activateLockingSP_SUM E n p)" for p
    unfolding activateLockingSP_def activateLockingSP_SUM_def by (intro session_rules i)+
  show "balanced (revertLockingSP E p k)" "balanced (revertTPer E p ps ad)"
    unfolding revertLockingSP_def revertTPer_def by (intro session_rules)+
  show "balanced (initialSetup E p)"
    unfolding initialSetup_def by (intro session_rules a d e)
  show "balanced (setup_SUM E n a b p q)"
    unfolding setup_SUM_def Let_def by (intro session_rules a)
qed

section \<open>The operations of the Enterprise class\<close>

lemma balanced_lookups [session_rules]:
  "balanced (ent_getDefaultPassword E)" "balanced (ent_printDefaultPassword E)" "balanced msid"
  "(\<And>n. balanced (f n)) \<Longrightarrow> balanced (with_max_ranges E f)"
proof -
  show g: "balanced (ent_getDefaultPassword E)"
    unfolding ent_getDefaultPassword_def by (intro session_rules)
  show m: "balanced msid" unfolding msid_def by (intro session_rules)
  show "balanced (ent_printDefaultPassword E)"
    unfolding ent_printDefaultPassword_def by (intro session_rules g m)
  have o: "balanced (getMaxRangesOpal E)"
    unfolding getMaxRangesOpal_def by (intro session_rules)
  have "balanced (getMaxRanges E)"
    unfolding getMaxRanges_def by (intro session_rules o)
  then show "(\<And>n. balanced (f n)) \<Longrightarrow> balanced (with_max_ranges E f)"
    unfolding with_max_ranges_def by (intro session_rules)
qed

lemma balanced_init_bandmasters [session_rules]: "balanced (init_bandmasters E d p n i u)"
  by (induction n arbitrary: i u)
    (simp add: balanced_ret, simp only: init_bandmasters.simps Let_def, intro session_rules)

lemma balanced_ent_list_loop [session_rules]: "balanced (ent_list_loop E d p n i u t f s)"
  by (induction n arbitrary: i u t f s)
    (simp add: balanced_ret, simp only: ent_list_loop.simps Let_def, intro session_rules)

lemma balanced_enable_bands [session_rules]: "balanced (enable_bands E m p n i obj)"
  by (induction n arbitrary: i obj)
    (simp add: balanced_ret, simp only: enable_bands.simps Let_def, intro session_rules)

lemma balanced_ent_passwords [session_rules]:
  "balanced (ent_setSIDPassword E a b c d)" "balanced (ent_setPassword E p u n)"
  "balanced (ent_takeOwnership E p)"
proof -
  show s: "balanced (ent_setSIDPassword E a b c d)" for a b c d
    unfolding ent_setSIDPassword_def Let_def by (intro session_rules)
  show "balanced (ent_setPassword E p u n)"
    unfolding ent_setPassword_def Let_def by (intro session_rules)
  have "balanced (initLSPUsers E d p)" for d
    unfolding initLSPUsers_def by (intro session_rules)
  then show "balanced (ent_takeOwnership E p)"
    unfolding ent_takeOwnership_def by (intro session_rules s)
qed

lemma balanced_bands [session_rules]:
  "balanced (ent_configureLockingRange E n e p)" "balanced (ent_rekeyLockingRange E n p)"
  "balanced (ent_setupLockingRange E n a b p)" "balanced (ent_setLockingRange E n s p)"
  "balanced (ent_eraseLockingRange E n p)" "balanced (ent_listLockingRanges E p i)"
  "balanced (ent_setBandsEnabled E i p)" "balanced (ent_revertLockingSP E p k)"
  "balanced (ent_revertTPer E p ps ad)" "balanced (ent_objDump E sp au p obj)"
  "balanced (ent_rawCmd E sp au p obj m x)"
  unfolding ent_configureLockingRange_def ent_rekeyLockingRange_def ent_setupLockingRange_def
    ent_setLockingRange_def ent_eraseLockingRange_def ent_listLockingRanges_def
    ent_setBandsEnabled_def ent_revertLockingSP_def ent_revertTPer_def ent_objDump_def
    ent_rawCmd_def Let_def
  by (intro session_rules)+

lemma balanced_ent_initialSetup [session_rules]: "balanced (ent_initialSetup E p)"
  unfolding ent_initialSetup_def by (intro session_rules)

lemma balanced_invoke: "balanced (invoke E c)"
proof -
  have o: "balanced (opal_call E c)" by (cases c) (simp_all add: session_rules)
  have e: "balanced (enterprise_call E c)"
    by (cases c)
      (simp_all add: session_rules ent_setup_SUM_def ent_setNewPassword_SUM_def ent_setMBREnable_def
        ent_setMBRDone_def ent_setupLockingRange_SUM_def ent_printLockingRangeStatus_def
        ent_setLockingRange_SUM_def ent_enableUser_def ent_loadPBA_def ent_activateLockingSP_def
        ent_activateLockingSP_SUM_def ent_eraseLockingRange_SUM_def)
  show ?thesis
    using o e by (fastforce simp: balanced_def invoke_def generic_call_def ret_def split: dev_class.splits)
qed


end
