(* ===== verification/OpalRuns.thy ===== *)
theory OpalRuns
  imports Cooperation Discipline
begin

text \<open>
  The operations of the Opal class on a cooperative drive: they run to their end and return 0. At the
  end, the runs that instantiate the statements about successful operations.
\<close>

section \<open>Commands that can be built\<close>

definition builds :: "'d env \<Rightarrow> (dta_command \<Rightarrow> dta_command outcome) list \<Rightarrow> bool" where
  "builds E calls \<longleftrightarrow> (\<exists>c. cmd_seq calls (DtaCommand (cmd_addr E)) = Ret c)"

definition encodes :: "token_arg list \<Rightarrow> bool" where
  "encodes ts \<longleftrightarrow> (\<exists>tok. enc_all ts = Some tok \<and> length tok \<le> 8192)"

lemma cooperative_mem: "cooperative E \<Longrightarrow> unat (cmd_addr E) + 1024 < 2 ^ 64"
  by (simp add: cooperative_def)

lemma builds_call [success_rules]:
  assumes "cooperative E" "encodes ts"
  shows "builds E [reset_uid_method u m, addTokens ts, complete True]"
proof -
  obtain tok where tok: "enc_all ts = Some tok" "length tok \<le> 8192" using assms(2) by (auto simp: encodes_def)
  have "wire_size (call_body u m tok) \<le> MAX_BUFFER_LENGTH"
    using tok(2) length_wire [of "call_body u m tok"] by (simp add: call_body_def eod_bytes_def)
  from call_packet [OF tok(1) this cmdcap_DtaCommand(1) [OF cooperative_mem [OF assms(1)]]]
  show ?thesis unfolding builds_def by blast
qed

lemma builds_object [success_rules]:
  assumes "cooperative E" "length obj = 9" "encodes ts"
  shows "builds E [reset_uid_method u m, changeInvokingUid obj, addTokens ts, complete True]"
    "builds E [reset_uid_method u m, changeInvokingUid obj, addTokens ts, completeSpecial True]"
proof -
  obtain tok where tok: "enc_all ts = Some tok" "length tok \<le> 8192" using assms(3) by (auto simp: encodes_def)
  have f: "wire_size (object_body obj m tok) \<le> MAX_BUFFER_LENGTH"
    "wire_size (object_body obj m tok @ special_trailer) \<le> MAX_BUFFER_LENGTH"
    using tok(2) assms(2) length_wire [of "object_body obj m tok"]
      length_wire [of "object_body obj m tok @ special_trailer"]
    by (simp_all add: object_body_def eod_bytes_def special_trailer_def)
  from object_packet [OF assms(2) tok(1) f(1) cooperative_mem [OF assms(1)]]
    object_packet_special [OF assms(2) tok(1) f(2) cooperative_mem [OF assms(1)]]
  show "builds E [reset_uid_method u m, changeInvokingUid obj, addTokens ts, complete True]"
    "builds E [reset_uid_method u m, changeInvokingUid obj, addTokens ts, completeSpecial True]"
    unfolding builds_def by blast+
qed

lemma builds_end:
  assumes "cooperative E"
  shows "builds E [Ret \<circ> reset, addToken (Tok ENDOFSESSION), complete False]"
proof -
  let ?c = "DtaCommand (cmd_addr E)"
  let ?c1 = "append_cmd [ENDOFSESSION] (reset ?c)"
  note cap = cmdcap_DtaCommand(1) [OF cooperative_mem [OF assms]]
  have cap': "cmdcap (reset ?c) = cmdcap ?c" by (simp add: reset_def)
  have "addToken (Tok ENDOFSESSION) (reset ?c) = Ret ?c1"
    by (rule holds_appends [OF holds_reset appends_token]) (use cap in \<open>simp_all add: cap'\<close>)
  moreover have h: "holds ?c1 zero4 zero4 zero4 [ENDOFSESSION]"
    using holds_append [OF holds_reset] by fastforce
  have "\<exists>c. complete False ?c1 = Ret c"
    using complete_packet [OF h, of False] cap
    by (simp add: cap' wire_size_def padding_def eod_bytes_def)
  ultimately show ?thesis by (auto simp: builds_def)
qed

lemma length_be_bytes': "length (be_bytes k n) = k"
  by (induction k n rule: be_bytes.induct) simp_all

lemma enc_num_small: "length (enc_num n) \<le> 9"
  by (simp add: enc_num_def length_be_bytes')

section \<open>Calls, sessions\<close>

lemma returns_0_if [success_rules]: "returns_0 P a Q \<Longrightarrow> returns_0 P b Q \<Longrightarrow> returns_0 P (if c then a else b) Q"
  by simp

lemma yes_call [success_rules]:
  "cooperative E \<Longrightarrow> builds E calls \<Longrightarrow> returns_0 in_sess (call_dev E calls) replied"
  unfolding call_dev_def builds_def
  by (rule returns_0_bind [OF _ yes_command_dev]) (auto simp: succeeds_def build_def lift_op_def)

lemma delete_run:
  assumes "in_sess w" "cooperative E"
  shows "\<exists>d. delete_session E w = (Ret (), w\<lparr>disk := d, session := None\<rparr>)"
proof -
  obtain s where s: "session w = Some s" using assms(1) by (auto simp: in_sess_def)
  obtain c where c: "cmd_seq [Ret \<circ> reset, addToken (Tok ENDOFSESSION), complete False]
      (DtaCommand (cmd_addr E)) = Ret c"
    using builds_end [OF assms(2)] by (auto simp: builds_def)
  obtain d where "sendCommand E c empty_response w = (Ret (0, yes), w\<lparr>disk := d\<rparr>)"
    using sendCommand_run [OF assms] by blast
  then have "delete_session E w = (Ret (), w\<lparr>disk := if willAbort s then disk w else d, session := None\<rparr>)"
    using s c unfolding delete_session_def build_def
    by (simp add: bind_op_def this_session_def ret_def lift_op_def put_op_def del: cmd_seq.simps)
  then show ?thesis by blast
qed

lemma yes_finish [success_rules]: "cooperative E \<Longrightarrow> returns_0 in_sess (finish E 0) ready"
  "cooperative E \<Longrightarrow> returns_0 replied (finish E 0) reply_kept"
  "cooperative E \<Longrightarrow> returns_0 replied (finish E 0) ready"
  unfolding returns_0_def succeeds_def
  using delete_run by (fastforce simp: finish_success replied_def in_sess_def ready_def reply_kept_def)+

text \<open>The password is hashed, or short enough to be sent as a string.\<close>

definition sendable :: "dta_session \<Rightarrow> cstr option \<Rightarrow> bool" where
  "sendable s ch \<longleftrightarrow> (\<forall>pw. ch = Some pw \<longrightarrow> hashPwd s \<or> length pw \<le> 2000)"

lemma challenge_encodes:
  assumes "hashPwd s \<or> length pw \<le> 2000"
  shows "\<exists>x. enc (challenge_token E s w pw) = Some x \<and> length x \<le> 2002"
  using assms length_DtaHashPwd [of E pw w]
  by (auto simp: challenge_token_def enc_bytes_def Let_def)

lemma timeout_encodes: "\<exists>x. enc_all (timeout_args w) = Some x \<and> length x \<le> 40"
proof -
  have t: "enc (Str (lit ''SessionTimeout'')) = Some (0xae # lit ''SessionTimeout'')"
    "length (lit ''SessionTimeout'') = 14"
    by (simp_all add: lit_def enc_bytes_def)
  show ?thesis using t enc_num_small [of 60000] by (simp add: timeout_args_def del: enc.simps(5))
qed

lemma auth_encodes:
  assumes "sendable s ch" "length auth \<le> 9"
  shows "\<exists>x. enc_all (auth_args E s w ch auth) = Some x \<and> length x \<le> 2040"
proof (cases ch)
  case (Some pw)
  then obtain x where "enc (challenge_token E s w pw) = Some x" "length x \<le> 2002"
    using challenge_encodes [of s pw E w] assms(1) by (auto simp: sendable_def)
  then show ?thesis using assms(2) Some by (simp add: auth_args_def del: enc.simps(5))
qed (simp add: auth_args_def)

lemma start_encodes:
  assumes "sendable s ch" "length auth \<le> 9"
  shows "encodes (start_args E s w sp ch auth)"
proof -
  obtain x y where "enc_all (auth_args E s w ch auth) = Some x" "length x \<le> 2040"
    "enc_all (timeout_args w) = Some y" "length y \<le> 40"
    using auth_encodes [OF assms] timeout_encodes by blast
  then show ?thesis using enc_num_small [of 105]
    by (simp add: encodes_def start_args_def enc_all_append)
qed

lemma authenticate_encodes:
  assumes "sendable s ch" "length auth \<le> 9"
  shows "encodes (authenticate_args E s w auth ch)"
proof (cases ch)
  case (Some pw)
  have t: "enc (Str (lit ''Challenge'')) = Some (0xa9 # lit ''Challenge'')" "length (lit ''Challenge'') = 9"
    by (simp_all add: lit_def enc_bytes_def)
  obtain x where "enc (challenge_token E s w pw) = Some x" "length x \<le> 2002"
    using Some challenge_encodes [of s pw E w] assms(1) by (auto simp: sendable_def)
  then show ?thesis using assms(2) Some t
    by (simp add: encodes_def authenticate_args_def enc_all_append del: enc.simps(5))
qed (use assms(2) in \<open>simp add: encodes_def authenticate_args_def enc_all_append\<close>)

text \<open>A session starts, and keeps how it treats passwords.\<close>

lemma take_numbers_run:
  "session w = Some s \<Longrightarrow> take_numbers yes w =
    (Ret (), w\<lparr>session := Some (s\<lparr>HSN := SWAP32 8, TSN := SWAP32 9\<rparr>)\<rparr>)"
  by (simp add: take_numbers_def update_session_def this_session_def bind_op_def lift_op_def put_op_def yes_reads)

lemma authenticate_run:
  assumes "in_sess w" "cooperative E" "session w = Some s" "sendable s ch" "length auth \<le> 9"
  shows "\<exists>d. authenticate E auth ch w = (Ret 0, w\<lparr>disk := d\<rparr>)"
proof -
  obtain c where c: "cmd_seq [reset_uid_method OPAL_THISSP_UID (if isEprise w then EAUTHENTICATE else AUTHENTICATE),
        addTokens (authenticate_args E s w auth ch), complete True] (DtaCommand (cmd_addr E)) = Ret c"
    using builds_call [OF assms(2) authenticate_encodes [OF assms(4, 5)]] unfolding builds_def by blast
  obtain d where "sendCommand E c empty_response w = (Ret (0, yes), w\<lparr>disk := d\<rparr>)"
    using sendCommand_run [OF assms(1, 2)] by blast
  then show ?thesis using c assms(3) unfolding authenticate_def build_def
    by (auto simp: bind_op_def this_session_def get_op_def lift_op_def ret_def yes_reads simp del: cmd_seq.simps)
qed

lemma start_run:
  assumes "in_sess w" "cooperative E" "session w = Some s" "sendable s ch" "length auth \<le> 9"
  shows "\<exists>d. start E sp ch auth w = (Ret 0, w\<lparr>session := Some (s\<lparr>HSN := SWAP32 8, TSN := SWAP32 9\<rparr>), disk := d\<rparr>)"
proof -
  obtain c where c: "cmd_seq [reset_uid_method OPAL_SMUID_UID STARTSESSION,
        addTokens (start_args E s w sp ch auth), complete True] (DtaCommand (cmd_addr E)) = Ret c"
    using builds_call [OF assms(2) start_encodes [OF assms(4, 5)]] unfolding builds_def by blast
  obtain d where 1: "sendCommand E c empty_response w = (Ret (0, yes), w\<lparr>disk := d\<rparr>)"
    using sendCommand_run [OF assms(1, 2)] by blast
  let ?s = "s\<lparr>HSN := SWAP32 8, TSN := SWAP32 9\<rparr>"
  let ?w2 = "w\<lparr>disk := d, session := Some ?s\<rparr>"
  have 2: "take_numbers yes (w\<lparr>disk := d\<rparr>) = (Ret (), ?w2)"
    by (subst take_numbers_run [of _ s]) (simp_all add: assms(3))
  have "in_sess ?w2" "sendable ?s ch"
    using assms(1, 4) by (simp_all add: in_sess_def ready_def sendable_def)
  then obtain d2 where 3: "authenticate E auth ch ?w2 = (Ret 0, ?w2\<lparr>disk := d2\<rparr>)"
    using authenticate_run [OF _ assms(2) _ _ assms(5), of ?w2 ?s ch] by auto
  let ?d3 = "if ch \<noteq> None \<and> isEprise w then d2 else d"
  have "(if ch \<noteq> None \<and> isEprise w then authenticate E auth ch else ret 0) ?w2 = (Ret 0, ?w2\<lparr>disk := ?d3\<rparr>)"
    using 3 by (auto simp: ret_def)
  then have "start E sp ch auth w = (Ret 0, ?w2\<lparr>disk := ?d3\<rparr>)"
    using c 1 2 by (subst start_success [OF assms(3)]) (simp add: if_distrib [of "\<lambda>m. m _"] del: cmd_seq.simps)
  then show ?thesis unfolding dta_dev.fold_congs by auto
qed

lemma yes_start:
  assumes "cooperative E" "length auth \<le> 9"
    and "\<And>w. P w \<Longrightarrow> in_sess w \<and> (\<exists>s. session w = Some s \<and> sendable s ch)"
  shows "returns_0 P (start E sp ch auth) in_sess"
  unfolding returns_0_def succeeds_def
proof (intro allI impI)
  fix w assume "P w"
  then obtain s where w: "in_sess w" "session w = Some s" "sendable s ch" using assms(3) by blast
  from start_run [OF w(1) assms(1) w(2, 3) assms(2), of sp] w(1)
  show "\<exists>x w'. start E sp ch auth w = (Ret x, w') \<and> x = 0 \<and> in_sess w'"
    by (auto simp: in_sess_def ready_def)
qed

lemma yes_session [success_rules]:
  assumes "cooperative E" "length auth \<le> 9" "returns_0 in_sess k Q"
  shows "returns_0 ready (in_session E (start E sp ch auth) k) Q"
proof -
  let ?P = "\<lambda>w. ready w \<and> session w = Some DtaSession"
  have "succeeds ready new_session (\<lambda>_. ?P)"
    by (auto simp: succeeds_def new_session_def put_op_def ready_def)
  moreover have "returns_0 ?P (start E sp ch auth) in_sess"
    by (rule yes_start [OF assms(1, 2)]) (auto simp: in_sess_def sendable_def DtaSession_def)
  ultimately show ?thesis
    using assms(3) unfolding in_session_def checked_def [symmetric]
    by (intro returns_0_seq returns_0_checked)
qed

lemma yes_session_uid [success_rules]:
  "cooperative E \<Longrightarrow> returns_0 in_sess k Q \<Longrightarrow> returns_0 ready (in_session E (start_uid E sp ch u) k) Q"
  unfolding start_uid_def by (rule yes_session) simp_all

lemma yes_session_anon [success_rules]:
  "cooperative E \<Longrightarrow> returns_0 in_sess k Q \<Longrightarrow> returns_0 ready (in_session E (start_anon E sp) k) Q"
  unfolding start_anon_def by (rule yes_session_uid)

section \<open>The operations of the Opal class\<close>

lemma encodes_getTable: "encodes [Tok STARTLIST, Tok STARTLIST, Tok STARTNAME, Tok STARTCOLUMN, Num a,
    Tok ENDNAME, Tok STARTNAME, Tok ENDCOLUMN, Num b, Tok ENDNAME, Tok ENDLIST, Tok ENDLIST]"
  using enc_num_small [of "unat a"] enc_num_small [of "unat b"] by (simp add: encodes_def)

lemma yes_getTable [success_rules]:
  "cooperative E \<Longrightarrow> length obj = 9 \<Longrightarrow> returns_0 in_sess (getTable E obj a b) replied"
  unfolding getTable_def by (intro success_rules encodes_getTable)

lemma yes_setTable [success_rules]:
  "cooperative E \<Longrightarrow> length obj = 9 \<Longrightarrow> length value \<le> 1024 \<Longrightarrow> returns_0 in_sess (setTable E obj name value) replied"
  unfolding setTable_def by (intro success_rules) (simp_all add: encodes_def)

lemma yes_getDefaultPassword [success_rules]: "cooperative E \<Longrightarrow> returns_0 ready (getDefaultPassword E) reply_kept"
  unfolding getDefaultPassword_def by (rule success_rules | simp)+

lemma yes_setSIDPassword:
  assumes "cooperative E" "hasholdpwd = 0 \<Longrightarrow> length old \<le> 2000"
  shows "returns_0 ready (setSIDPassword E old new hasholdpwd hashnewpwd) ready"
proof -
  let ?s = "if hasholdpwd = 0 then DtaSession\<lparr>hashPwd := False\<rparr> else DtaSession"
  let ?P = "\<lambda>w. ready w \<and> session w = Some ?s"
  have 1: "succeeds ready new_session (\<lambda>_ w. ready w \<and> session w = Some DtaSession)"
    by (auto simp: succeeds_def new_session_def put_op_def ready_def)
  have 2: "succeeds (\<lambda>w. ready w \<and> session w = Some DtaSession) (if hasholdpwd = 0 then dontHashPwd else ret ()) (\<lambda>_. ?P)"
    by (auto simp: succeeds_def dontHashPwd_def update_session_def bind_op_def this_session_def put_op_def ret_def
        ready_def)
  have 3: "returns_0 ?P (start_uid E OPAL_ADMINSP_UID (Some old) OPAL_SID_UID) in_sess"
    unfolding start_uid_def
    by (rule yes_start [OF assms(1)]) (use assms(2) in \<open>auto simp: in_sess_def sendable_def DtaSession_def\<close>)
  have 4: "returns_0 in_sess (bind_op (get_op (\<lambda>d. if hashnewpwd \<noteq> 0 then DtaHashPwd E new d else plain_pin new))
      (\<lambda>hash. checked E (setTable E (uid_token OPAL_C_PIN_SID) PIN hash) (finish E 0))) ready"
  proof (rule returns_0_bind)
    show "succeeds in_sess (get_op (\<lambda>d. if hashnewpwd \<noteq> 0 then DtaHashPwd E new d else plain_pin new))
        (\<lambda>x w. in_sess w \<and> length x \<le> 1024)"
      by (auto simp: plain_pin_def strnlen_def min_def intro!: succeeds_get order_trans [OF length_DtaHashPwd])
    show "returns_0 (\<lambda>w. in_sess w \<and> length x \<le> 1024)
        (checked E (setTable E (uid_token OPAL_C_PIN_SID) PIN x) (finish E 0)) ready" for x
      by (cases "length x \<le> 1024")
        (auto intro!: success_rules assms(1), simp add: returns_0_def succeeds_def)
  qed
  show ?thesis
    unfolding setSIDPassword_def
    by (rule returns_0_seq [OF 1 returns_0_seq [OF 2 returns_0_checked [OF 3 4]]])
qed

lemma yes_takeOwnership [success_rules]:
  assumes "cooperative E"
  shows "returns_0 ready (takeOwnership E new) ready"
  unfolding takeOwnership_def
proof (rule returns_0_check [OF yes_getDefaultPassword [OF assms] returns_0_bind])
  show "succeeds reply_kept (from_response (\<lambda>r. getString r 4)) (\<lambda>x w. x = [8] \<and> ready w)"
    by (auto simp: succeeds_def from_response_def bind_op_def get_op_def lift_op_def reply_kept_def yes_reads)
  show "returns_0 (\<lambda>w. x = [8] \<and> ready w) (check (setSIDPassword E (c_str x) new 0 1) (ret 0)) ready" for x
    by (cases "x = [8]")
      (auto intro!: returns_0_check [OF yes_setSIDPassword [OF assms] returns_0_ret] simp: c_str_def,
       simp add: returns_0_def succeeds_def)
qed

lemma yes_activateLockingSP [success_rules]:
  assumes "cooperative E"
  shows "returns_0 ready (activateLockingSP E pw) ready"
  unfolding activateLockingSP_def if_inactive_def
proof (rule yes_session_uid [OF assms returns_0_checked [OF yes_getTable [OF assms length_uid_token] returns_0_bind]])
  let ?f = "from_response (\<lambda>r. obind (getUint8 r 3) (\<lambda>name.
      if name \<noteq> 0x06 then Ret False else obind (getUint8 r 4) (\<lambda>value. Ret (value = 0x08))))"
  show "succeeds replied ?f (\<lambda>x w. x \<and> in_sess w)"
    by (auto simp: succeeds_def from_response_def bind_op_def get_op_def lift_op_def replied_def yes_reads)
  show "returns_0 (\<lambda>w. x \<and> in_sess w) (if \<not> x then finish E DTAERROR_INVALID_LIFECYCLE
      else checked E (call_dev E [reset_uid_method OPAL_LOCKINGSP_UID ACTIVATE,
         addTokens [Tok STARTLIST, Tok ENDLIST], complete True]) (finish E 0)) ready" for x
  proof (cases x)
    case True
    have "returns_0 in_sess (checked E (call_dev E [reset_uid_method OPAL_LOCKINGSP_UID ACTIVATE,
         addTokens [Tok STARTLIST, Tok ENDLIST], complete True]) (finish E 0)) ready"
      by (rule success_rules | simp add: assms encodes_def)+
    with True show ?thesis by simp
  qed (simp add: returns_0_def succeeds_def)
qed

lemma encodes_set_values:
  "enc_all vs = Some tok \<Longrightarrow> length tok \<le> 8000 \<Longrightarrow> encodes (set_values vs)"
  by (simp add: encodes_def set_values_def enc_all_append)

lemma encodes_archive:
  "encodes (set_values (named u (Tok a) @ (if \<not> c then named v (Tok b) else [])))"
  by (simp add: encodes_def set_values_def named_def)

lemma yes_configureLockingRange [success_rules]:
  "cooperative E \<Longrightarrow> returns_0 ready (configureLockingRange E n e pw) ready"
  unfolding configureLockingRange_def set_call_def
  by (rule success_rules encodes_set_values | simp add: named_def split del: if_split)+

lemma yes_setLockingRange [success_rules]:
  assumes "cooperative E" "locking_state st \<noteq> None"
  shows "returns_0 ready (setLockingRange E n st pw) ready"
proof -
  obtain a b c where st: "locking_state st = Some (a, b, c)" using assms(2) by (cases "locking_state st") auto
  show ?thesis
    unfolding setLockingRange_def st option.case prod.case
    by (rule success_rules encodes_archive | simp add: assms(1) split del: if_split)+
qed

lemma yes_setMBRDone [success_rules]: "cooperative E \<Longrightarrow> returns_0 ready (setMBRDone E s pw) ready"
  unfolding setMBRDone_def setLockingSPvalue_def setTable_token_def
  by (rule success_rules | simp split del: if_split)+

lemma yes_setMBREnable [success_rules]: "cooperative E \<Longrightarrow> returns_0 ready (setMBREnable E s pw) ready"
  unfolding setMBREnable_def setLockingSPvalue_def setTable_token_def
  by (rule success_rules | simp split del: if_split)+

lemma yes_initialSetup [success_rules]:
  "cooperative E \<Longrightarrow> returns_0 ready (initialSetup E pw) ready"
  unfolding initialSetup_def by (rule success_rules | simp add: locking_state_def)+

lemma yes_revertTPer [success_rules]:
  assumes "cooperative E" "psid \<noteq> 0 \<Longrightarrow> length pw \<le> 2000"
  shows "returns_0 ready (revertTPer E pw psid asp) ready"
proof -
  let ?s = "if psid \<noteq> 0 then DtaSession\<lparr>hashPwd := False\<rparr> else DtaSession"
  let ?P = "\<lambda>w. ready w \<and> session w = Some ?s"
  have 1: "succeeds ready new_session (\<lambda>_ w. ready w \<and> session w = Some DtaSession)"
    by (auto simp: succeeds_def new_session_def put_op_def ready_def)
  have 2: "succeeds (\<lambda>w. ready w \<and> session w = Some DtaSession) (if psid \<noteq> 0 then dontHashPwd else ret ()) (\<lambda>_. ?P)"
    by (auto simp: succeeds_def dontHashPwd_def update_session_def bind_op_def this_session_def put_op_def ret_def
        ready_def)
  have 3: "returns_0 ?P (start_uid E OPAL_ADMINSP_UID (Some pw) (if psid \<noteq> 0 then OPAL_PSID_UID else OPAL_SID_UID)) in_sess"
    unfolding start_uid_def
    by (rule yes_start [OF assms(1)]) (use assms(2) in \<open>auto simp: in_sess_def sendable_def DtaSession_def\<close>)
  obtain c where c: "cmd_seq [reset_uid_method OPAL_ADMINSP_UID REVERT, addTokens [Tok STARTLIST, Tok ENDLIST],
      complete True] (DtaCommand (cmd_addr E)) = Ret c"
    using builds_call [OF assms(1), of "[Tok STARTLIST, Tok ENDLIST]"] by (auto simp: builds_def encodes_def)
  have 4: "succeeds in_sess expectAbort (\<lambda>_. in_sess)"
    by (auto simp: succeeds_def expectAbort_def update_session_def bind_op_def this_session_def put_op_def
        in_sess_def ready_def)
  have 5: "returns_0 in_sess (checked E (sendCommand_dev E c) (finish E 0)) ready"
    by (rule returns_0_checked [OF yes_command_dev [OF assms(1)] yes_finish(3) [OF assms(1)]])
  have b: "build E [reset_uid_method OPAL_ADMINSP_UID REVERT, addTokens [Tok STARTLIST, Tok ENDLIST],
      complete True] = ret c"
    using c by (auto simp: build_def lift_op_def ret_def)
  have r: "bind_op (ret c) f = f c" for f :: "dta_command \<Rightarrow> ('a, u8) devop"
    by (auto simp: bind_op_def ret_def)
  show ?thesis
    unfolding revertTPer_def b r
    by (rule returns_0_seq [OF 1 returns_0_seq [OF 2 returns_0_checked [OF 3 returns_0_seq [OF 4 5]]]])
qed

lemma yes_pba_block:
  assumes "cooperative E" "length buf + 106 \<le> MAX_BUFFER_LENGTH"
  shows "returns_0 in_sess (pba_block E pos buf) replied"
proof -
  have pos: "unat pos < 2 ^ 32" using unsigned_less [of pos, where 'a = nat] by simp
  then have pos': "unat (ucast pos :: u64) = unat pos"
    by (simp add: unsigned_ucast_eq take_bit_nat_eq_self)
  have n: "length buf < 2 ^ 32" using assms(2) by simp
  have "enc_all [Tok STARTLIST, Tok STARTNAME, Tok WHERE, Num (ucast pos), Tok ENDNAME,
      Tok STARTNAME, Tok VALUES, Vec [0xe2, of_nat (length buf div 65536), of_nat (length buf div 256),
        of_nat (length buf)], Vec buf, Tok ENDNAME, Tok ENDLIST] = Some (mbr_args (unat pos) buf)"
    by (simp add: mbr_args_def pos')
  from call_packet [OF this mbr_body_fits [OF assms(2) pos, unfolded mbr_body_def]
      cmdcap_DtaCommand(1) [OF cooperative_mem [OF assms(1)]]]
  show ?thesis
    unfolding pba_block_def Let_def length_bytes [OF n]
    by (intro yes_call [OF assms(1)]) (auto simp: builds_def simp del: cmd_seq.simps)
qed

lemma yes_pba_loop:
  assumes "cooperative E" "filepos \<le> eofpos" "blockSize \<noteq> 0" "unat blockSize + 106 \<le> MAX_BUFFER_LENGTH" "in_sess w"
  shows "\<exists>w'. pba_loop E img eofpos filepos blockSize w = Some (Ret 0, w') \<and> in_sess w'"
  using assms(2-5)
proof (induction "unat (eofpos - filepos)" arbitrary: filepos blockSize w rule: less_induct)
  case less
  let ?bs = "if eofpos - filepos < blockSize then eofpos - filepos else blockSize"
  show ?case
  proof (cases "eofpos = filepos")
    case True
    then show ?thesis using less.prems(4) by (subst pba_loop.simps) simp
  next
    case False
    have bs: "?bs \<noteq> 0" "?bs \<le> eofpos - filepos" "?bs \<le> blockSize" using False less.prems(2) by auto
    note adv = advance [OF less.prems(1) bs(1, 2)]
    have fits: "unat ?bs + 106 \<le> MAX_BUFFER_LENGTH"
      using bs(3) less.prems(3) unfolding word_le_nat_alt by linarith
    let ?buf = "take (unat ?bs) (drop (unat filepos) img)"
    have "length ?buf + 106 \<le> MAX_BUFFER_LENGTH" using fits by simp
    from returns_0D [OF yes_pba_block [OF assms(1) this] less.prems(4)]
    obtain w1 where 1: "pba_block E filepos ?buf w = (Ret 0, w1)" "replied w1" by blast
    let ?w2 = "w1\<lparr>console := console w1 @ [ProgressReport (filepos + ?bs) eofpos ?bs]\<rparr>"
    have "in_sess ?w2" using 1(2) by (simp add: replied_def in_sess_def ready_def)
    from less.hyps [OF adv(3, 2) bs(1) fits this]
    obtain w' where "pba_loop E img eofpos (filepos + ?bs) ?bs ?w2 = Some (Ret 0, w')" "in_sess w'" by blast
    then show ?thesis using False 1(1) by (subst pba_loop.simps) (simp add: Let_def split del: if_split)
  qed
qed

lemma yes_loadPBA:
  assumes "cooperative E" "file_of E f = Some img"
  shows "returns_0 (\<lambda>w. ready w \<and> sane_limits w) (loadPBA E pw f) ready"
  unfolding loadPBA_def
proof (rule returns_0_bind)
  let ?P = "\<lambda>b w. ready w \<and> b \<noteq> 0 \<and> unat b + 106 \<le> MAX_BUFFER_LENGTH"
  show "succeeds (\<lambda>w. ready w \<and> sane_limits w) (get_op pba_blockSize) ?P"
    by (intro succeeds_get) (use sane_blockSize in blast)
  fix b :: u32
  let ?op = "in_session E (start_uid E OPAL_LOCKINGSP_UID (Some pw) OPAL_ADMIN1_UID)
      (checked E (pba_loop_op E img (of_nat (length img)) 0 b) (finish E 0))"
  have "returns_0 in_sess (pba_loop_op E img (of_nat (length img)) 0 b) in_sess"
    if b: "b \<noteq> 0" "unat b + 106 \<le> MAX_BUFFER_LENGTH"
    unfolding returns_0_def succeeds_def
  proof (intro allI impI)
    fix w :: "'a dta_dev" assume "in_sess w"
    from yes_pba_loop [OF assms(1) _ b this, of 0 "of_nat (length img)" img]
    show "\<exists>x w'. pba_loop_op E img (of_nat (length img)) 0 b w = (Ret x, w') \<and> x = 0 \<and> in_sess w'"
      by (auto simp: pba_loop_op_def)
  qed
  then have "returns_0 ready ?op ready" if "b \<noteq> 0" "unat b + 106 \<le> MAX_BUFFER_LENGTH"
    using that by (intro yes_session_uid [OF assms(1)] returns_0_checked [OF _ yes_finish(1) [OF assms(1)]])
  then show "returns_0 (?P b) (case file_of E f of None \<Rightarrow> ret DTAERROR_OPEN_ERR | Some file \<Rightarrow>
      in_session E (start_uid E OPAL_LOCKINGSP_UID (Some pw) OPAL_ADMIN1_UID)
      (checked E (pba_loop_op E file (of_nat (length file)) 0 b) (finish E 0))) ready"
    by (cases "b \<noteq> 0 \<and> unat b + 106 \<le> MAX_BUFFER_LENGTH")
      (auto simp: assms(2) elim: returns_0_weaken, simp_all add: returns_0_def succeeds_def)
qed

section \<open>Runs\<close>

text \<open>A device of each class, opened on a willing drive.\<close>

definition fresh :: "dev_class \<Rightarrow> (unit \<times> request list) dta_dev" where
  "fresh c = (new_dev c ((), []))\<lparr>isOpen := True, drive := Some LinuxSata,
     disk_info := zero_disk_info\<lparr>OPAL10_basecomID := 0x07fe, OPAL20_basecomID := 0x07fe,
       Enterprise_basecomID := 0x07fe\<rparr>\<rparr>"

lemma fresh: "ready (fresh Opal2)" "\<not> isEprise (fresh c)" "sane_limits (fresh c)"
  by (simp_all add: fresh_def ready_def new_dev_def isEprise_def zero_disk_info_def sane_limits_def)

lemma willing: "cooperative (traced willing)" "unat (cmd_addr willing) + 1024 < 2 ^ 64"
  using cooperative_traced [OF cooperative_willing] cooperative_mem [OF cooperative_willing] by auto


theorem activateLockingSP_success_witness:
  "\<exists>w' r1 r2 r3. getUint8 r2 3 = Ret 0x06 \<and> getUint8 r2 4 = Ret 0x08 \<and>
    exchanged [(sign_in willing OPAL_ADMINSP_UID OPAL_SID_UID [0x70] (fresh Opal2), r1),
      (get_body (uid_token OPAL_LOCKINGSP_UID) 0x06 0x06, r2), (activate_body, r3)] (fresh Opal2) w'"
proof -
  obtain w' where run: "activateLockingSP (traced willing) [0x70] (fresh Opal2) = (Ret 0, w')"
    using returns_0D [OF yes_activateLockingSP [OF willing(1)] fresh(1)] by blast
  from activateLockingSP_success [OF run fresh(2) willing(2)] show ?thesis by blast
qed

theorem initialSetup_success_witness:
  "\<exists>w' rs s. length rs = length (setup_sequence willing [0x70] (fresh Opal2) (c_str s)) \<and>
    getString (rs ! 1) 4 = Ret s \<and> getUint8 (rs ! 5) 3 = Ret 0x06 \<and> getUint8 (rs ! 5) 4 = Ret 0x08 \<and>
    exchanged (zip (setup_sequence willing [0x70] (fresh Opal2) (c_str s)) rs) (fresh Opal2) w'"
proof -
  obtain w' where run: "initialSetup (traced willing) [0x70] (fresh Opal2) = (Ret 0, w')"
    using returns_0D [OF yes_initialSetup [OF willing(1)] fresh(1)] by blast
  from initialSetup_success [OF run fresh(2) willing(2)] show ?thesis by blast
qed

theorem revertTPer_success_witness:
  "\<exists>w'. achieves [start_body (pin_token [0x70]) OPAL_ADMINSP_UID (uid_token OPAL_PSID_UID), revert_body]
    (fresh Opal2) w'"
proof -
  obtain w' where run: "revertTPer (traced willing) [0x70] 1 0 (fresh Opal2) = (Ret 0, w')"
    using returns_0D [OF yes_revertTPer [OF willing(1)] fresh(1), of 1 "[0x70]"] by auto
  from revertTPer_success [OF run fresh(2) willing(2)] show ?thesis by auto
qed



end
