(* ===== verification/Cifra.thy ===== *)
theory Cifra
  imports Prelude
begin

text \<open>
  Common/pbkdf2: the key derivation of the cifra library, as far as the program uses it. The blockwise
  buffering (blockwise.c), SHA-1 (sha1.c), the abstract hash (chash.c), HMAC (hmac.c) and PBKDF2
  (pbkdf2.c), with the bit operations of bitops.h. A failed \<^verbatim>\<open>assert\<close> is \<open>ExitFail\<close>; a loop that would not
  advance is \<open>Diverge\<close>.
\<close>

section \<open>bitops.h\<close>

definition rotl32 :: "u32 \<Rightarrow> nat \<Rightarrow> u32" where
  "rotl32 x n = push_bit n x OR drop_bit (32 - n) x"

definition read32_be :: "bytes \<Rightarrow> u32" where
  "read32_be buf = push_bit 24 (ucast (buf ! 0)) OR push_bit 16 (ucast (buf ! 1)) OR
     push_bit 8 (ucast (buf ! 2)) OR ucast (buf ! 3)"

definition write32_be :: "u32 \<Rightarrow> bytes" where
  "write32_be v = [ucast (drop_bit 24 v AND 0xff), ucast (drop_bit 16 v AND 0xff),
     ucast (drop_bit 8 v AND 0xff), ucast (v AND 0xff)]"

definition write64_be :: "u64 \<Rightarrow> bytes" where
  "write64_be v = [ucast (drop_bit 56 v AND 0xff), ucast (drop_bit 48 v AND 0xff),
     ucast (drop_bit 40 v AND 0xff), ucast (drop_bit 32 v AND 0xff),
     ucast (drop_bit 24 v AND 0xff), ucast (drop_bit 16 v AND 0xff),
     ucast (drop_bit 8 v AND 0xff), ucast (v AND 0xff)]"

definition xor_b8 :: "bytes \<Rightarrow> u8 \<Rightarrow> bytes" where
  "xor_b8 b x = map (\<lambda>y. y XOR x) b"

definition xor_bb :: "bytes \<Rightarrow> bytes \<Rightarrow> bytes" where
  "xor_bb x y = map2 (XOR) x y"

section \<open>blockwise.c\<close>

text \<open>
  The partial block, the number of its bytes that are used, and the context that takes whole blocks.
  \<open>fill_block\<close> is \<^verbatim>\<open>memcpy\<close> or \<^verbatim>\<open>memset\<close> into the partial block.
\<close>

type_synonym 'c partial_state = "bytes \<times> nat \<times> 'c"

definition fill_block :: "bytes \<Rightarrow> nat \<Rightarrow> bytes \<Rightarrow> bytes" where
  "fill_block p start b = take start p @ b @ drop (start + length b) p"

text \<open>The second loop: whole blocks go to the context directly. The guard \<open>0 < nblock\<close> is the assertion on
  entry.\<close>

function full_blocks :: "nat \<Rightarrow> ('c \<Rightarrow> bytes \<Rightarrow> 'c) \<Rightarrow> ('c \<Rightarrow> bytes \<Rightarrow> 'c) \<Rightarrow> bytes \<Rightarrow> 'c \<Rightarrow> bytes \<times> 'c" where
  "full_blocks nblock process process_final inp ctx =
     (if nblock \<le> length inp \<and> 0 < nblock
      then full_blocks nblock process process_final (drop nblock inp)
             (if length inp = nblock then process_final ctx (take nblock inp) else process ctx (take nblock inp))
      else (inp, ctx))"
  by pat_completeness auto
termination by (relation "measure (\<lambda>(n, p, q, inp, c). length inp)") auto

declare full_blocks.simps [simp del]

text \<open>The third loop: the rest is kept.\<close>

function buffer_rest :: "nat \<Rightarrow> bytes \<Rightarrow> nat \<Rightarrow> bytes \<Rightarrow> (bytes \<times> nat) outcome" where
  "buffer_rest nblock p np inp =
     (if inp = [] then Ret (p, np)
      else let taken = min (nblock - np) (length inp); np' = np + taken
        in if \<not> np' < nblock then ExitFail
           else buffer_rest nblock (fill_block p np (take taken inp)) np' (drop taken inp))"
  by pat_completeness auto
termination by (relation "measure (\<lambda>(n, p, np, inp). length inp)") auto

declare buffer_rest.simps [simp del]

definition cf_blockwise_accumulate_final :: "nat \<Rightarrow> ('c \<Rightarrow> bytes \<Rightarrow> 'c) \<Rightarrow> ('c \<Rightarrow> bytes \<Rightarrow> 'c) \<Rightarrow> bytes \<Rightarrow>
    'c partial_state \<Rightarrow> 'c partial_state outcome" where
  "cf_blockwise_accumulate_final nblock process process_final inp = (\<lambda>(p, np, ctx).
     if \<not> np < nblock then ExitFail
     else let taken = (if np \<noteq> 0 \<and> inp \<noteq> [] then min (nblock - np) (length inp) else 0);
              p1 = fill_block p np (take taken inp);
              inp1 = drop taken inp;
              np1 = np + taken;
              full = (taken \<noteq> 0 \<and> np1 = nblock);
              ctx1 = (if full then (if inp1 = [] then process_final ctx p1 else process ctx p1) else ctx);
              np2 = (if full then 0 else np1);
              (inp2, ctx2) = full_blocks nblock process process_final inp1 ctx1
       in if nblock \<le> length inp1 \<and> np2 \<noteq> 0 then ExitFail
          else obind (buffer_rest nblock p1 np2 inp2) (\<lambda>(p2, np3). Ret (p2, np3, ctx2)))"

definition cf_blockwise_accumulate :: "nat \<Rightarrow> ('c \<Rightarrow> bytes \<Rightarrow> 'c) \<Rightarrow> bytes \<Rightarrow>
    'c partial_state \<Rightarrow> 'c partial_state outcome" where
  "cf_blockwise_accumulate nblock process inp = cf_blockwise_accumulate_final nblock process process inp"

text \<open>A run of one byte: once a whole block was filled with it, it is not filled again.\<close>

function acc_byte_loop :: "nat \<Rightarrow> ('c \<Rightarrow> bytes \<Rightarrow> 'c) \<Rightarrow> u8 \<Rightarrow> nat \<Rightarrow> bool \<Rightarrow> 'c partial_state \<Rightarrow>
    'c partial_state outcome" where
  "acc_byte_loop nblock process byte nbytes filled (p, np, ctx) =
     (if nbytes = 0 then Ret (p, np, ctx)
      else let count = min nbytes (nblock - np);
               p' = (if filled then p else fill_block p np (replicate count byte));
               filled' = (filled \<or> (np = 0 \<and> count = nblock))
        in if count = 0 then Diverge
           else if np + count = nblock
           then acc_byte_loop nblock process byte (nbytes - count) filled' (p', 0, process ctx p')
           else acc_byte_loop nblock process byte (nbytes - count) filled' (p', np + count, ctx))"
  by pat_completeness auto
termination by (relation "measure (\<lambda>(n, pr, b, k, f, s). k)") auto

declare acc_byte_loop.simps [simp del]

definition cf_blockwise_acc_byte :: "nat \<Rightarrow> ('c \<Rightarrow> bytes \<Rightarrow> 'c) \<Rightarrow> u8 \<Rightarrow> nat \<Rightarrow> 'c partial_state \<Rightarrow>
    'c partial_state outcome" where
  "cf_blockwise_acc_byte nblock process byte nbytes = acc_byte_loop nblock process byte nbytes False"

definition cf_blockwise_acc_pad :: "nat \<Rightarrow> ('c \<Rightarrow> bytes \<Rightarrow> 'c) \<Rightarrow> u8 \<Rightarrow> u8 \<Rightarrow> u8 \<Rightarrow> nat \<Rightarrow> 'c partial_state \<Rightarrow>
    'c partial_state outcome" where
  "cf_blockwise_acc_pad nblock process fbyte mbyte lbyte nbytes s =
     (let acc = cf_blockwise_accumulate nblock process in
      if nbytes = 0 then Ret s
      else if nbytes = 1 then acc [fbyte XOR lbyte] s
      else if nbytes = 2 then obind (acc [fbyte] s) (acc [lbyte])
      else obind (acc [fbyte] s) (\<lambda>s1.
        if lbyte \<noteq> mbyte
        then obind (cf_blockwise_acc_byte nblock process mbyte (nbytes - 2) s1) (acc [lbyte])
        else cf_blockwise_acc_byte nblock process mbyte (nbytes - 1) s1))"

section \<open>sha1.c\<close>

type_synonym sha1_state = "u32 \<times> u32 \<times> u32 \<times> u32 \<times> u32"

text \<open>What \<^verbatim>\<open>sha1_update_block\<close> changes: the state and the number of blocks. The partial block stands beside
  it.\<close>

type_synonym sha1_ctx = "sha1_state \<times> u32"
type_synonym cf_sha1_context = "sha1_ctx partial_state"

definition cf_sha1_init :: cf_sha1_context where
  "cf_sha1_init = (replicate 64 0, 0, ((0x67452301, 0xefcdab89, 0x98badcfe, 0x10325476, 0xc3d2e1f0), 0))"

text \<open>The function and the constant of round \<open>t\<close>.\<close>

definition sha1_f :: "nat \<Rightarrow> u32 \<Rightarrow> u32 \<Rightarrow> u32 \<Rightarrow> u32" where
  "sha1_f t b c d = (if t \<le> 19 then (b AND c) OR (NOT b AND d)
     else if t \<le> 39 then b XOR c XOR d
     else if t \<le> 59 then (b AND c) OR (b AND d) OR (c AND d)
     else b XOR c XOR d)"

definition sha1_k :: "nat \<Rightarrow> u32" where
  "sha1_k t = (if t \<le> 19 then 0x5a827999 else if t \<le> 39 then 0x6ed9eba1
     else if t \<le> 59 then 0x8f1bbcdc else 0xca62c1d6)"

definition sha1_mix :: "nat \<Rightarrow> u32 \<Rightarrow> sha1_state \<Rightarrow> sha1_state" where
  "sha1_mix t Wt = (\<lambda>(a, b, c, d, e).
     (rotl32 a 5 + sha1_f t b c d + e + sha1_k t + Wt, a, rotl32 b 30, c, d))"

text \<open>A pass of the loop: the window holds the last sixteen words of the schedule, by their index modulo 16.\<close>

definition sha1_round :: "bytes \<Rightarrow> nat \<Rightarrow> u32 list \<times> sha1_state \<Rightarrow> u32 list \<times> sha1_state" where
  "sha1_round inp t = (\<lambda>(W, s).
     let Wt = (if t < 16 then read32_be (drop (4 * t) inp)
               else rotl32 (W ! ((t - 3) mod 16) XOR W ! ((t - 8) mod 16) XOR
                            W ! ((t - 14) mod 16) XOR W ! ((t - 16) mod 16)) 1)
     in (W[t mod 16 := Wt], sha1_mix t Wt s))"

definition add_states :: "sha1_state \<Rightarrow> sha1_state \<Rightarrow> sha1_state" where
  "add_states = (\<lambda>(a, b, c, d, e) (a', b', c', d', e'). (a + a', b + b', c + c', d + d', e + e'))"

text \<open>The window is written before it is read; it starts with any sixteen words.\<close>

definition sha1_update_block :: "sha1_ctx \<Rightarrow> bytes \<Rightarrow> sha1_ctx" where
  "sha1_update_block = (\<lambda>(H, blocks) inp.
     (add_states H (snd (fold (sha1_round inp) [0..<80] (replicate 16 0, H))), blocks + 1))"

definition cf_sha1_update :: "cf_sha1_context \<Rightarrow> bytes \<Rightarrow> cf_sha1_context outcome" where
  "cf_sha1_update ctx data = cf_blockwise_accumulate 64 sha1_update_block data ctx"

definition sha1_output :: "sha1_state \<Rightarrow> bytes" where
  "sha1_output = (\<lambda>(a, b, c, d, e). write32_be a @ write32_be b @ write32_be c @ write32_be d @ write32_be e)"

definition cf_sha1_digest :: "cf_sha1_context \<Rightarrow> bytes outcome" where
  "cf_sha1_digest = (\<lambda>(p, np, (H, blocks)).
     let digested_bytes = ucast blocks * 64 + of_nat np :: u64;
         digested_bits = digested_bytes * 8;
         padbytes = 64 - ((digested_bytes + 8) mod 64)
     in obind (cf_blockwise_acc_pad 64 sha1_update_block 0x80 0x00 0x00 (unat padbytes) (p, np, (H, blocks))) (\<lambda>s1.
        obind (cf_sha1_update s1 (write64_be digested_bits)) (\<lambda>(p2, np2, (H2, blocks2)).
          if np2 \<noteq> 0 then ExitFail else Ret (sha1_output H2))))"

section \<open>chash.h, chash.c\<close>

record 'c cf_chash =
  hashsz :: nat
  blocksz :: nat
  ch_init :: 'c
  ch_update :: "'c \<Rightarrow> bytes \<Rightarrow> 'c outcome"
  ch_digest :: "'c \<Rightarrow> bytes outcome"

definition cf_sha1 :: "cf_sha1_context cf_chash" where
  "cf_sha1 = \<lparr>hashsz = 20, blocksz = 64, ch_init = cf_sha1_init, ch_update = cf_sha1_update,
     ch_digest = cf_sha1_digest\<rparr>"

definition cf_hash :: "'c cf_chash \<Rightarrow> bytes \<Rightarrow> bytes outcome" where
  "cf_hash h m = obind (ch_update h (ch_init h) m) (ch_digest h)"

section \<open>hmac.c\<close>

record 'c cf_hmac_ctx =
  hm_hash :: "'c cf_chash"
  inner :: 'c
  outer :: 'c

definition cf_hmac_init :: "'c cf_chash \<Rightarrow> bytes \<Rightarrow> 'c cf_hmac_ctx outcome" where
  "cf_hmac_init h key =
     obind (if blocksz h < length key
            then (if \<not> hashsz h \<le> blocksz h then ExitFail else cf_hash h key)
            else Ret key) (\<lambda>key'.
     let k = key' @ replicate (blocksz h - length key') 0
     in obind (ch_update h (ch_init h) (xor_b8 k 0x36)) (\<lambda>inn.
        obind (ch_update h (ch_init h) (xor_b8 k 0x5c)) (\<lambda>out.
          Ret \<lparr>hm_hash = h, inner = inn, outer = out\<rparr>)))"

definition cf_hmac_update :: "'c cf_hmac_ctx \<Rightarrow> bytes \<Rightarrow> 'c cf_hmac_ctx outcome" where
  "cf_hmac_update ctx data =
     obind (ch_update (hm_hash ctx) (inner ctx) data) (\<lambda>i. Ret (ctx\<lparr>inner := i\<rparr>))"

definition cf_hmac_finish :: "'c cf_hmac_ctx \<Rightarrow> bytes outcome" where
  "cf_hmac_finish ctx =
     obind (ch_digest (hm_hash ctx) (inner ctx)) (\<lambda>innerh.
     obind (ch_update (hm_hash ctx) (outer ctx) innerh) (ch_digest (hm_hash ctx)))"

definition cf_hmac :: "bytes \<Rightarrow> bytes \<Rightarrow> 'c cf_chash \<Rightarrow> bytes outcome" where
  "cf_hmac key msg h =
     obind (cf_hmac_init h key) (\<lambda>ctx. obind (cf_hmac_update ctx msg) cf_hmac_finish)"

section \<open>pbkdf2.c\<close>

text \<open>The passes of the loop of \<open>F\<close>, \<open>n\<close> of them: the last \<open>U\<close>, and the sum so far.\<close>

fun F_loop :: "'c cf_hmac_ctx \<Rightarrow> nat \<Rightarrow> bytes \<Rightarrow> bytes \<Rightarrow> bytes outcome" where
  "F_loop startctx 0 U out = Ret out"
| "F_loop startctx (Suc n) U out =
     obind (cf_hmac_update startctx U) (\<lambda>ctx.
     obind (cf_hmac_finish ctx) (\<lambda>U'. F_loop startctx n U' (xor_bb out U')))"

definition F_block :: "'c cf_hmac_ctx \<Rightarrow> u32 \<Rightarrow> bytes \<Rightarrow> u32 \<Rightarrow> bytes outcome" where
  "F_block startctx counter salt iterations =
     obind (cf_hmac_update startctx salt) (\<lambda>ctx.
     obind (cf_hmac_update ctx (write32_be counter)) (\<lambda>ctx.
     obind (cf_hmac_finish ctx) (\<lambda>U. F_loop startctx (unat iterations - 1) U U)))"

text \<open>The loop over the output; a hash of no bytes would never fill it.\<close>

function pbkdf2_loop :: "'c cf_hmac_ctx \<Rightarrow> u32 \<Rightarrow> bytes \<Rightarrow> u32 \<Rightarrow> nat \<Rightarrow> bytes outcome" where
  "pbkdf2_loop ctx counter salt iterations nout =
     (if nout = 0 then Ret []
      else obind (F_block ctx counter salt iterations) (\<lambda>block.
        let taken = min nout (hashsz (hm_hash ctx))
        in if taken = 0 then Diverge
           else obind (pbkdf2_loop ctx (counter + 1) salt iterations (nout - taken)) (\<lambda>rest.
             Ret (take taken block @ rest))))"
  by pat_completeness auto
termination by (relation "measure (\<lambda>(c, k, s, i, n). n)") auto

declare pbkdf2_loop.simps [simp del]

definition cf_pbkdf2_hmac :: "bytes \<Rightarrow> bytes \<Rightarrow> u32 \<Rightarrow> nat \<Rightarrow> 'c cf_chash \<Rightarrow> bytes outcome" where
  "cf_pbkdf2_hmac pw salt iterations nout h =
     (if iterations = 0 \<or> nout = 0 then ExitFail
      else obind (cf_hmac_init h pw) (\<lambda>ctx. pbkdf2_loop ctx 1 salt iterations nout))"

end
