(* ===== verification/LinuxDrives.thy ===== *)
theory LinuxDrives
  imports Device Cifra
begin

text \<open>
  linux/DtaDevLinuxSata.cpp and linux/DtaDevLinuxNvme.cpp: the drive classes over the system calls
  \<^verbatim>\<open>open\<close> and \<^verbatim>\<open>ioctl\<close>, with the command blocks they hand to the kernel. The kernel is a parameter.
\<close>

section \<open>What is handed to the kernel\<close>

text \<open>\<^verbatim>\<open>sg_io_hdr_t\<close>; the three pointers are given as what they point to. Fields that stay zero after
  \<^verbatim>\<open>memset\<close> are left out.\<close>

abbreviation (input) SG_DXFER_TO_DEV :: int where "SG_DXFER_TO_DEV \<equiv> - 2"
abbreviation (input) SG_DXFER_FROM_DEV :: int where "SG_DXFER_FROM_DEV \<equiv> - 3"

record sg_io_hdr =
  interface_id :: u8
  dxfer_direction :: int
  cmd_len :: u8
  mx_sb_len :: u8
  dxfer_len :: u32
  dxferp :: bytes
  cmdp :: bytes
  sbp :: bytes
  sg_timeout :: u32
  masked_status :: u8
  resid :: int

record nvme_admin_cmd =
  nv_opcode :: u8
  nsid :: u32
  nv_addr :: bytes
  data_len :: u32
  cdw10 :: u32
  cdw11 :: u32

text \<open>\<^verbatim>\<open>open\<close>, the two requests of \<^verbatim>\<open>ioctl\<close>, \<^verbatim>\<open>errno\<close>, and what a fresh allocation holds. A call may change the
  host \<open>'k\<close>, and the blocks it was given.\<close>

record 'k kernel =
  k_open :: "cstr \<Rightarrow> 'k \<Rightarrow> int \<times> 'k"
  k_sg_io :: "int \<Rightarrow> sg_io_hdr \<Rightarrow> 'k \<Rightarrow> int \<times> sg_io_hdr \<times> 'k"
  k_nvme_admin :: "int \<Rightarrow> nvme_admin_cmd \<Rightarrow> 'k \<Rightarrow> int \<times> nvme_admin_cmd \<times> 'k"
  k_errno :: "'k \<Rightarrow> int"
  k_fresh :: "'k \<Rightarrow> bytes"

text \<open>The drive object: \<open>isSAS\<close> belongs to the SATA class only.\<close>

record 'k linux_drive =
  fd :: int
  isSAS :: bool
  host :: 'k

type_synonym 'k drive_call = "'k linux_drive \<Rightarrow> u8 \<times> bytes \<times> 'k linux_drive"

definition sg_request :: "int \<Rightarrow> u8 \<Rightarrow> bytes \<Rightarrow> bytes \<Rightarrow> u32 \<Rightarrow> sg_io_hdr" where
  "sg_request direction sense_len cdb buffer len = \<lparr>interface_id = 0x53, dxfer_direction = direction,
     cmd_len = of_nat (length cdb), mx_sb_len = sense_len, dxfer_len = len, dxferp = buffer, cmdp = cdb,
     sbp = replicate (unat sense_len) 0, sg_timeout = 60000, masked_status = 0, resid = 0\<rparr>"

definition sg_ioctl :: "'k kernel \<Rightarrow> sg_io_hdr \<Rightarrow> 'k linux_drive \<Rightarrow> int \<times> sg_io_hdr \<times> 'k linux_drive" where
  "sg_ioctl K sg s = (case k_sg_io K (fd s) sg (host s) of (err, sg', k) \<Rightarrow> (err, sg', s\<lparr>host := k\<rparr>))"

text \<open>A buffer behind its pointer, whatever length the kernel gives.\<close>

definition block_of :: "bytes \<Rightarrow> bytes \<Rightarrow> bytes" where
  "block_of buffer b = read_block b 0 (length buffer)"

section \<open>DtaDevLinuxSata\<close>

text \<open>The code of the command, as the enumeration gives it.\<close>

fun ata_code :: "atacommand \<Rightarrow> u8" where
  "ata_code IF_RECV = 0x5c"
| "ata_code IF_SEND = 0x5e"
| "ata_code IDENTIFY = 0xec"

definition DtaDevLinuxSata_init :: "'k kernel \<Rightarrow> cstr \<Rightarrow> 'k linux_drive \<Rightarrow> bool \<times> 'k linux_drive" where
  "DtaDevLinuxSata_init K devref s =
     (case k_open K devref (host s) of (n, k) \<Rightarrow> (\<not> n < 0, \<lparr>fd = n, isSAS = False, host = k\<rparr>))"

text \<open>The SCSI commands SECURITY PROTOCOL IN and OUT, in units of 512 bytes; the multi-byte fields are in
  network order.\<close>

definition sas_cdb :: "atacommand \<Rightarrow> u8 \<Rightarrow> u16 \<Rightarrow> u32 \<Rightarrow> bytes" where
  "sas_cdb cmd protocol comID len =
     [if cmd = IF_RECV then 0xa2 else 0xb5, protocol, ucast (drop_bit 8 comID), ucast comID, 0x80, 0x00] @
     be32 (len div 512) @ [0x00, 0x00]"

definition sendCmd_SAS :: "'k kernel \<Rightarrow> atacommand \<Rightarrow> u8 \<Rightarrow> u16 \<Rightarrow> bytes \<Rightarrow> 'k drive_call" where
  "sendCmd_SAS K cmd protocol comID buffer s =
     (if cmd \<noteq> IF_RECV \<and> cmd \<noteq> IF_SEND then (0xff, buffer, s)
      else let len = of_nat (length buffer) :: u32;
               sg = sg_request (if cmd = IF_RECV then SG_DXFER_FROM_DEV else SG_DXFER_TO_DEV) 32
                      (sas_cdb cmd protocol comID len) buffer len
        in case sg_ioctl K sg s of (err, sg', s') \<Rightarrow>
             (if err < 0 then 0xff else if masked_status sg' \<noteq> 0 then 0xff else 0x00,
              block_of buffer (dxferp sg'), s'))"

text \<open>ATA PASS THROUGH (12): direction, number of sectors, the security protocol as feature, the ComID as the
  middle of the LBA.\<close>

definition sat_cdb :: "atacommand \<Rightarrow> u8 \<Rightarrow> u16 \<Rightarrow> u32 \<Rightarrow> bytes" where
  "sat_cdb cmd protocol comID len =
     [0xa1,
      if cmd = IF_RECV then push_bit 1 4 else push_bit 1 5,
      if cmd = IF_RECV then 0x0e else 0x06,
      protocol,
      ucast (len div 512),
      0x00,
      ucast (comID AND 0x00ff),
      ucast (drop_bit 8 (comID AND 0xff00)),
      0x00,
      ata_code cmd,
      0x00, 0x00]"

text \<open>The status in the sense data: no sense at all, or descriptor format with an aborted command.\<close>

definition sense_status :: "bytes \<Rightarrow> u8" where
  "sense_status sense =
     (if \<not> (peek sense 0 = 0x00 \<and> peek sense 1 = 0x00) \<and>
         \<not> (peek sense 0 = 0x72 \<and> peek sense 1 = 0x0b)
      then 0xff else peek sense 11)"

definition sendCmd_SATA :: "'k kernel \<Rightarrow> atacommand \<Rightarrow> u8 \<Rightarrow> u16 \<Rightarrow> bytes \<Rightarrow> 'k drive_call" where
  "sendCmd_SATA K cmd protocol comID buffer s =
     (if isSAS s then sendCmd_SAS K cmd protocol comID buffer s
      else let len = of_nat (length buffer) :: u32;
               sg = sg_request (if cmd = IF_RECV then SG_DXFER_FROM_DEV else SG_DXFER_TO_DEV) 32
                      (sat_cdb cmd protocol comID len) buffer len
        in case sg_ioctl K sg s of (err, sg', s') \<Rightarrow>
             (if err < 0 then 0xff else sense_status (read_block (sbp sg') 0 32),
              block_of buffer (dxferp sg'), s'))"

section \<open>Identification of a SATA or SAS disk\<close>

definition safecopy :: "nat \<Rightarrow> bytes \<Rightarrow> bytes" where
  "safecopy dstsize src = take dstsize src @ replicate (dstsize - length src) 0"

text \<open>INQUIRY with an allocation length of 36.\<close>

definition inquiry_cdb :: bytes where
  "inquiry_cdb = [0x12, 0x00, 0x00, 0x00, 0x24, 0x00]"

text \<open>The standard data: device type, then vendor, product and revision.\<close>

definition identify_SAS :: "'k kernel \<Rightarrow> opal_disk_info \<Rightarrow> 'k linux_drive \<Rightarrow>
    opal_disk_info \<times> 'k linux_drive" where
  "identify_SAS K di s =
     (let buffer = read_block (k_fresh K (host s)) 0 MIN_BUFFER_LENGTH;
          other = di\<lparr>devType := DEVICE_TYPE_OTHER\<rparr>
      in case sg_ioctl K (sg_request SG_DXFER_FROM_DEV 18 inquiry_cdb buffer (of_nat MIN_BUFFER_LENGTH)) s of
        (err, sg, s') \<Rightarrow>
          if err < 0 then (other, s')
          else if masked_status sg \<noteq> 0 then (other, s')
          else if dxfer_len sg - of_int (resid sg) \<noteq> 36 \<or> peek (dxferp sg) 0 AND 0x1f \<noteq> 0 then (other, s')
          else (di\<lparr>serialNum := safecopy 20 (read_block (dxferp sg) 8 8),
                   firmwareRev := safecopy 8 (read_block (dxferp sg) 32 4),
                   modelNum := safecopy 40 (read_block (dxferp sg) 16 16),
                   devType := DEVICE_TYPE_SAS\<rparr>, s'\<lparr>isSAS := True\<rparr>))"

text \<open>The loops that swap the bytes of the words of the IDENTIFY strings.\<close>

fun swap_bytes :: "bytes \<Rightarrow> bytes" where
  "swap_bytes (a # b # bs) = b # a # swap_bytes bs"
| "swap_bytes bs = bs"

definition identify_cdb :: bytes where
  "identify_cdb = [0xa1, push_bit 1 4, 0x0e, 0x00, 0x01, 0x00, 0x00, 0x00, 0x00, 0xec, 0x00, 0x00]"

definition ata_info :: "bytes \<Rightarrow> opal_disk_info \<Rightarrow> opal_disk_info" where
  "ata_info b di = di\<lparr>devType := DEVICE_TYPE_ATA,
     serialNum := swap_bytes (read_block b 20 20),
     firmwareRev := swap_bytes (read_block b 46 8),
     modelNum := swap_bytes (read_block b 54 40)\<rparr>"

definition identify_SATA :: "'k kernel \<Rightarrow> opal_disk_info \<Rightarrow> 'k linux_drive \<Rightarrow>
    opal_disk_info \<times> 'k linux_drive" where
  "identify_SATA K di s =
     (case sg_ioctl K (sg_request SG_DXFER_FROM_DEV 32 identify_cdb (replicate MIN_BUFFER_LENGTH 0) 512) s of
        (err, sg, s') \<Rightarrow>
          if err < 0 \<or> read_block (dxferp sg) 0 512 = replicate 512 0
          then identify_SAS K (di\<lparr>devType := DEVICE_TYPE_OTHER\<rparr>) s'
          else (ata_info (dxferp sg) di, s'))"

section \<open>DtaDevLinuxNvme\<close>

definition DtaDevLinuxNvme_init :: "'k kernel \<Rightarrow> cstr \<Rightarrow> 'k linux_drive \<Rightarrow> bool \<times> 'k linux_drive" where
  "DtaDevLinuxNvme_init K devref s =
     (case k_open K devref (host s) of (n, k) \<Rightarrow> (\<not> n < 0, s\<lparr>fd := n, host := k\<rparr>))"

definition nvme_ioctl :: "'k kernel \<Rightarrow> nvme_admin_cmd \<Rightarrow> 'k linux_drive \<Rightarrow> int \<times> nvme_admin_cmd \<times> 'k linux_drive" where
  "nvme_ioctl K c s = (case k_nvme_admin K (fd s) c (host s) of (err, c', k) \<Rightarrow> (err, c', s\<lparr>host := k\<rparr>))"

definition nvme_cmd :: "atacommand \<Rightarrow> u8 \<Rightarrow> u16 \<Rightarrow> bytes \<Rightarrow> nvme_admin_cmd" where
  "nvme_cmd cmd protocol comID buffer = (let len = of_nat (length buffer) in \<lparr>
     nv_opcode = (if cmd = IF_RECV then 0x82 else 0x81), nsid = 0, nv_addr = buffer, data_len = len,
     cdw10 = push_bit 24 (ucast protocol) OR push_bit 8 (ucast comID), cdw11 = len\<rparr>)"

text \<open>The error number, or the status of the command, as far as it fits a byte.\<close>

definition sendCmd_NVMe :: "'k kernel \<Rightarrow> atacommand \<Rightarrow> u8 \<Rightarrow> u16 \<Rightarrow> bytes \<Rightarrow> 'k drive_call" where
  "sendCmd_NVMe K cmd protocol comID buffer s =
     (case nvme_ioctl K (nvme_cmd cmd protocol comID buffer) s of (err, c, s') \<Rightarrow>
        (if err < 0 then of_int (k_errno K (host s')) else of_int err, block_of buffer (nv_addr c), s'))"

definition identify_NVMe :: "'k kernel \<Rightarrow> opal_disk_info \<Rightarrow> 'k linux_drive \<Rightarrow>
    opal_disk_info \<times> 'k linux_drive" where
  "identify_NVMe K di s =
     (case nvme_ioctl K \<lparr>nv_opcode = 0x06, nsid = 0, nv_addr = read_block (k_fresh K (host s)) 0 4096,
          data_len = 4096, cdw10 = 1, cdw11 = 0\<rparr> s of (err, c, s') \<Rightarrow>
        if err \<noteq> 0 then (di\<lparr>devType := DEVICE_TYPE_OTHER\<rparr>, s')
        else (di\<lparr>devType := DEVICE_TYPE_NVME, serialNum := read_block (nv_addr c) 4 20,
                 firmwareRev := read_block (nv_addr c) 64 8, modelNum := read_block (nv_addr c) 24 40\<rparr>, s'))"

section \<open>The drive classes behind DtaDevOS\<close>

text \<open>
  The key derivation of the linked library. Its assertions hold for the iterations and sizes the program
  asks for, so the second branch is not taken there (theory KeyDerivation); it leaves the spaces the
  buffer was filled with.
\<close>

definition derived_key :: "bytes \<Rightarrow> bytes \<Rightarrow> nat \<Rightarrow> nat \<Rightarrow> bytes" where
  "derived_key pw salt iter n =
     (case cf_pbkdf2_hmac pw salt (of_nat iter) n cf_sha1 of Ret key \<Rightarrow> key | _ \<Rightarrow> replicate n 0x20)"

text \<open>The virtual methods, by the class of the drive object; the rest of the environment is given.\<close>

definition linux_env :: "'k kernel \<Rightarrow> u64 \<Rightarrow> (cstr \<Rightarrow> bytes option) \<Rightarrow> 'k linux_drive env" where
  "linux_env K addr files = \<lparr>
     drive_init = (\<lambda>k. case k of LinuxNvme \<Rightarrow> DtaDevLinuxNvme_init K | LinuxSata \<Rightarrow> DtaDevLinuxSata_init K),
     drive_identify = (\<lambda>k. case k of LinuxNvme \<Rightarrow> identify_NVMe K | LinuxSata \<Rightarrow> identify_SATA K),
     drive_sendCmd = (\<lambda>k. case k of LinuxNvme \<Rightarrow> sendCmd_NVMe K | LinuxSata \<Rightarrow> sendCmd_SATA K),
     pbkdf2 = derived_key, cmd_addr = addr, file_of = files\<rparr>"

end
