(* ===== verification/Simulation.thy ===== *)
theory Simulation
  imports Program Exchange
begin

text \<open>
  Two environments over different disks, the one an abstraction of the other: the locale \<open>simulation\<close>
  takes the laws of the three calls of a drive object and gives that every operation, and the whole
  program, behaves the same over both. It is interpreted on the recording of requests here, and on the
  Linux drive classes over a kernel that serves a drive in LinuxTarget.
\<close>

section \<open>Devices over an abstracted disk\<close>

definition on_disk :: "('b \<Rightarrow> 'a) \<Rightarrow> 'b dta_dev \<Rightarrow> 'a dta_dev" where
  "on_disk f w = \<lparr>dev_cls = dev_cls w, no_hash_passwords = no_hash_passwords w,
     output_format = output_format w, isOpen = isOpen w, disk_info = disk_info w,
     dev_response = dev_response w, propertiesResponse = propertiesResponse w, session = session w,
     tperMaxPacket = tperMaxPacket w, tperMaxToken = tperMaxToken w, drive = drive w,
     console = console w, disk = f (disk w)\<rparr>"

lemma on_disk_select [simp]:
  "dev_cls (on_disk f w) = dev_cls w" "no_hash_passwords (on_disk f w) = no_hash_passwords w"
  "output_format (on_disk f w) = output_format w" "isOpen (on_disk f w) = isOpen w"
  "disk_info (on_disk f w) = disk_info w" "dev_response (on_disk f w) = dev_response w"
  "propertiesResponse (on_disk f w) = propertiesResponse w" "session (on_disk f w) = session w"
  "tperMaxPacket (on_disk f w) = tperMaxPacket w" "tperMaxToken (on_disk f w) = tperMaxToken w"
  "drive (on_disk f w) = drive w" "console (on_disk f w) = console w" "disk (on_disk f w) = f (disk w)"
  by (simp_all add: on_disk_def)

lemma on_disk_update:
  "on_disk f (w\<lparr>session := s\<rparr>) = (on_disk f w)\<lparr>session := s\<rparr>"
  "on_disk f (w\<lparr>dev_response := r\<rparr>) = (on_disk f w)\<lparr>dev_response := r\<rparr>"
  "on_disk f (w\<lparr>propertiesResponse := r\<rparr>) = (on_disk f w)\<lparr>propertiesResponse := r\<rparr>"
  "on_disk f (w\<lparr>tperMaxPacket := p, tperMaxToken := t\<rparr>) = (on_disk f w)\<lparr>tperMaxPacket := p, tperMaxToken := t\<rparr>"
  "on_disk f (w\<lparr>console := c\<rparr>) = (on_disk f w)\<lparr>console := c\<rparr>"
  "on_disk f (w\<lparr>disk_info := i\<rparr>) = (on_disk f w)\<lparr>disk_info := i\<rparr>"
  "on_disk f (w\<lparr>isOpen := b\<rparr>) = (on_disk f w)\<lparr>isOpen := b\<rparr>"
  "on_disk f (w\<lparr>drive := k\<rparr>) = (on_disk f w)\<lparr>drive := k\<rparr>"
  "on_disk f (w\<lparr>no_hash_passwords := n, output_format := o1\<rparr>) =
     (on_disk f w)\<lparr>no_hash_passwords := n, output_format := o1\<rparr>"
  "on_disk f (w\<lparr>disk := d\<rparr>) = (on_disk f w)\<lparr>disk := f d\<rparr>"
  by (simp_all add: on_disk_def)

lemma on_disk_reads [simp]:
  "comID (on_disk f w) = comID w" "isOpal1 (on_disk f w) = isOpal1 w" "isOpal2 (on_disk f w) = isOpal2 w"
  "isEprise (on_disk f w) = isEprise w" "isAnySSC (on_disk f w) = isAnySSC w" "isPresent (on_disk f w) = isPresent w"
  "getModelNum (on_disk f w) = getModelNum w" "getFirmwareRev (on_disk f w) = getFirmwareRev w"
  "getSerialNum (on_disk f w) = getSerialNum w" "pba_blockSize (on_disk f w) = pba_blockSize w"
  by (simp_all add: comID_def isOpal1_def isOpal2_def isEprise_def isAnySSC_def isPresent_def
      getModelNum_def getFirmwareRev_def getSerialNum_def pba_blockSize_def Let_def split: dev_class.split)

lemma new_dev_on_disk: "on_disk f (new_dev c d) = new_dev c (f d)"
  by (simp add: on_disk_def new_dev_def)

section \<open>Operations that correspond\<close>

text \<open>\<open>simulates f I m m'\<close>: from the states over disks with \<open>I\<close>, \<open>m\<close> on the abstract device ends as \<open>m'\<close> does,
  in the abstraction of its state, and \<open>I\<close> holds again.\<close>

definition simulates :: "('b \<Rightarrow> 'a) \<Rightarrow> ('b \<Rightarrow> bool) \<Rightarrow> ('a, 'x) devop \<Rightarrow> ('b, 'x) devop \<Rightarrow> bool" where
  "simulates f I m m' \<longleftrightarrow> (\<forall>w. I (disk w) \<longrightarrow>
     m (on_disk f w) = apsnd (on_disk f) (m' w) \<and> I (disk (snd (m' w))))"

named_theorems sim_rules \<open>corresponding operations, by their structure\<close>

lemma simulatesD:
  "simulates f I m m' \<Longrightarrow> I (disk w) \<Longrightarrow> m (on_disk f w) = apsnd (on_disk f) (m' w)"
  "simulates f I m m' \<Longrightarrow> I (disk w) \<Longrightarrow> I (disk (snd (m' w)))"
  by (simp_all add: simulates_def)

lemma sim_pure [sim_rules]: "simulates f I (ret x) (ret x)" "simulates f I (lift_op r) (lift_op r)"
  by (simp_all add: simulates_def ret_def lift_op_def)

lemma sim_get: "(\<And>w. g (on_disk f w) = g' w) \<Longrightarrow> simulates f I (get_op g) (get_op g')"
  by (simp add: simulates_def get_op_def)

lemma sim_put: "(\<And>w. g (on_disk f w) = on_disk f (g' w)) \<Longrightarrow> (\<And>w. disk (g' w) = disk w) \<Longrightarrow>
    simulates f I (put_op g) (put_op g')"
  by (simp add: simulates_def put_op_def)

lemma sim_bind [sim_rules]:
  assumes m: "simulates f I m m'" and k: "\<And>x. simulates f I (k x) (k' x)"
  shows "simulates f I (bind_op m k) (bind_op m' k')"
  unfolding simulates_def
proof (intro allI impI)
  fix w :: "'a dta_dev" assume I: "I (disk w)"
  obtain r w1 where eq: "m' w = (r, w1)" by (cases "m' w")
  have 1: "m (on_disk f w) = (r, on_disk f w1)" "I (disk w1)"
    using simulatesD [OF m I] by (simp_all add: eq)
  show "bind_op m k (on_disk f w) = apsnd (on_disk f) (bind_op m' k' w) \<and> I (disk (snd (bind_op m' k' w)))"
    using 1 eq simulatesD [OF k 1(2)] by (cases r) (simp_all add: bind_op_def)
qed

text \<open>A continuation that sees the whole device.\<close>

lemma sim_bind_all [sim_rules]:
  "(\<And>w. I (disk w) \<Longrightarrow> simulates f I (k (on_disk f w)) (k' w)) \<Longrightarrow>
   simulates f I (bind_op (get_op id) k) (bind_op (get_op id) k')"
  by (simp add: simulates_def bind_op_def get_op_def)

lemma sim_if [sim_rules]:
  "(b \<Longrightarrow> simulates f I m m') \<Longrightarrow> (\<not> b \<Longrightarrow> simulates f I n n') \<Longrightarrow>
   simulates f I (if b then m else n) (if b then m' else n')"
  by simp

lemma sim_case_prod [sim_rules]:
  "(\<And>x y. simulates f I (g x y) (g' x y)) \<Longrightarrow>
   simulates f I (case p of (x, y) \<Rightarrow> g x y) (case p of (x, y) \<Rightarrow> g' x y)"
  by (simp add: split_beta)

lemma sim_case_option [sim_rules]:
  "simulates f I m m' \<Longrightarrow> (\<And>x. simulates f I (g x) (g' x)) \<Longrightarrow>
   simulates f I (case p of None \<Rightarrow> m | Some x \<Rightarrow> g x) (case p of None \<Rightarrow> m' | Some x \<Rightarrow> g' x)"
  by (simp split: option.split)

lemma sim_case_sum [sim_rules]:
  "(\<And>x. simulates f I (g x) (g' x)) \<Longrightarrow> (\<And>y. simulates f I (k y) (k' y)) \<Longrightarrow>
   simulates f I (case p of Inl x \<Rightarrow> g x | Inr y \<Rightarrow> k y) (case p of Inl x \<Rightarrow> g' x | Inr y \<Rightarrow> k' y)"
  by (simp split: sum.split)

lemma sim_check [sim_rules]:
  "simulates f I m m' \<Longrightarrow> simulates f I k k' \<Longrightarrow> simulates f I (check m k) (check m' k')"
  unfolding check_def by (intro sim_rules)

lemma sim_check_cleanup [sim_rules]:
  "simulates f I c c' \<Longrightarrow> simulates f I m m' \<Longrightarrow> simulates f I k k' \<Longrightarrow>
   simulates f I (check_cleanup c m k) (check_cleanup c' m' k')"
  unfolding check_cleanup_def by (intro sim_rules)

lemma sim_seq [sim_rules]:
  "simulates f I m m' \<Longrightarrow> simulates f I k k' \<Longrightarrow> simulates f I (seq_op m k) (seq_op m' k')"
  unfolding seq_op_def by (intro sim_rules)

lemma sim_report [sim_rules]: "simulates f I (report r) (report r)"
  unfolding report_def by (rule sim_put) (simp_all add: on_disk_update)

lemma sim_session [sim_rules]:
  "simulates f I new_session new_session" "simulates f I this_session this_session"
  "simulates f I (update_session g) (update_session g)" "simulates f I dontHashPwd dontHashPwd"
  "simulates f I expectAbort expectAbort"
proof -
  show t: "simulates f I this_session this_session"
    by (simp add: simulates_def this_session_def split: option.split)
  have p: "simulates f I (put_op (\<lambda>w. w\<lparr>session := s\<rparr>)) (put_op (\<lambda>w. w\<lparr>session := s\<rparr>))" for s :: "dta_session option"
    by (rule sim_put) (simp_all add: on_disk_update)
  show "simulates f I new_session new_session" unfolding new_session_def by (rule p)
  show u: "simulates f I (update_session g) (update_session g)" for g
    unfolding update_session_def by (intro sim_bind t p)
  show "simulates f I dontHashPwd dontHashPwd" "simulates f I expectAbort expectAbort"
    unfolding dontHashPwd_def expectAbort_def by (rule u)+
qed

lemma sim_from_response [sim_rules]: "simulates f I (from_response g) (from_response g)"
  unfolding from_response_def by (intro sim_rules sim_get) simp

section \<open>The interface below the device\<close>

locale simulation =
  fixes E :: "'a env" and E' :: "'b env" and f :: "'b \<Rightarrow> 'a" and I :: "'b \<Rightarrow> bool"
  assumes same: "pbkdf2 E' = pbkdf2 E" "cmd_addr E' = cmd_addr E" "file_of E' = file_of E"
    and init_law: "I d \<Longrightarrow> drive_init E k path (f d) = apsnd f (drive_init E' k path d) \<and>
      I (snd (drive_init E' k path d))"
    and identify_law: "I d \<Longrightarrow> drive_identify E k di (f d) = apsnd f (drive_identify E' k di d) \<and>
      I (snd (drive_identify E' k di d))"
    and send_law: "I d \<Longrightarrow> proper_send cid b \<Longrightarrow>
      drive_sendCmd E k IF_SEND p cid b (f d) = apsnd (apsnd f) (drive_sendCmd E' k IF_SEND p cid b d) \<and>
      I (snd (snd (drive_sendCmd E' k IF_SEND p cid b d)))"
    and recv_law: "I d \<Longrightarrow> b = replicate MIN_BUFFER_LENGTH 0 \<Longrightarrow>
      drive_sendCmd E k IF_RECV p cid b (f d) = apsnd (apsnd f) (drive_sendCmd E' k IF_RECV p cid b d) \<and>
      I (snd (snd (drive_sendCmd E' k IF_RECV p cid b d)))"
begin

abbreviation sim :: "('a, 'x) devop \<Rightarrow> ('b, 'x) devop \<Rightarrow> bool" where
  "sim \<equiv> simulates f I"

lemma sendCmd_law:
  assumes "I (disk w)" "c = IF_SEND \<and> proper_send cid b \<or> c = IF_RECV \<and> b = replicate MIN_BUFFER_LENGTH 0"
  shows "sendCmd E c p cid b (on_disk f w) = apsnd (on_disk f) (sendCmd E' c p cid b w)"
    "I (disk (snd (sendCmd E' c p cid b w)))"
proof -
  have "drive_sendCmd E k c p cid b (f (disk w)) = apsnd (apsnd f) (drive_sendCmd E' k c p cid b (disk w)) \<and>
      I (snd (snd (drive_sendCmd E' k c p cid b (disk w))))" for k
    using assms send_law [of "disk w" cid b k p] recv_law [of "disk w" b k p cid] by blast
  then show "sendCmd E c p cid b (on_disk f w) = apsnd (on_disk f) (sendCmd E' c p cid b w)"
    "I (disk (snd (sendCmd E' c p cid b w)))"
    using assms(1)
    by (simp_all add: sendCmd_def on_disk_update split_beta apsnd_def map_prod_def split: option.split)
qed

lemma sim_sendCmd:
  assumes "c = IF_SEND \<and> proper_send cid b \<or> c = IF_RECV \<and> b = replicate MIN_BUFFER_LENGTH 0"
  shows "sim (sendCmd_op E c p cid b) (sendCmd_op E' c p cid b)"
  using sendCmd_law [OF _ assms, of _ p]
  by (simp add: simulates_def sendCmd_op_def apfst_def apsnd_def map_prod_def split_beta)


text \<open>The receive loop, in both directions.\<close>

abbreviation zeros :: bytes where "zeros \<equiv> replicate MIN_BUFFER_LENGTH 0"

lemma recv_sim:
  assumes "I (disk w)"
  shows "sendCmd E IF_RECV p (comID w) zeros (on_disk f w) =
      apsnd (on_disk f) (sendCmd E' IF_RECV p (comID w) zeros w)"
    "I (disk (snd (sendCmd E' IF_RECV p (comID w) zeros w)))"
  using sendCmd_law [OF assms, of IF_RECV "comID w" zeros p] by auto

lemma poll_up:
  assumes "poll E' p w = Some r" "I (disk w)"
  shows "poll E p (on_disk f w) = Some (apsnd (on_disk f) r) \<and> I (disk (snd r))"
proof -
  have "E' = E' \<and> I (disk w) \<longrightarrow> poll E p (on_disk f w) = Some (apsnd (on_disk f) r) \<and> I (disk (snd r))"
  proof (rule poll.raw_induct [where P = "\<lambda>E1 p w r. E1 = E' \<and> I (disk w) \<longrightarrow>
      poll E p (on_disk f w) = Some (apsnd (on_disk f) r) \<and> I (disk (snd r))", OF _ assms(1)])
    fix rec E1 p w r
    assume IH: "\<And>E1 p w r. rec E1 p w = Some r \<Longrightarrow> E1 = E' \<and> I (disk w) \<longrightarrow>
        poll E p (on_disk f w) = Some (apsnd (on_disk f) r) \<and> I (disk (snd r))"
      and body: "(let r = sendCmd E1 IF_RECV p (comID w) zeros w; hdr = snd (fst r)
        in if load32 hdr off_outstandingData \<noteq> 0 \<and> load32 hdr off_minTransfer = 0
           then rec E1 p (snd r) else Some r) = Some r"
    show "E1 = E' \<and> I (disk w) \<longrightarrow> poll E p (on_disk f w) = Some (apsnd (on_disk f) r) \<and> I (disk (snd r))"
    proof
      assume *: "E1 = E' \<and> I (disk w)"
      let ?r = "sendCmd E' IF_RECV p (comID w) zeros w"
      define more where "more \<longleftrightarrow> load32 (snd (fst ?r)) off_outstandingData \<noteq> 0 \<and>
        load32 (snd (fst ?r)) off_minTransfer = 0"
      have s: "sendCmd E IF_RECV p (comID w) zeros (on_disk f w) = apsnd (on_disk f) ?r" "I (disk (snd ?r))"
        using recv_sim [of w p] * by auto
      have b: "(if more then rec E' p (snd ?r) else Some ?r) = Some r"
        using body * by (simp only: Let_def more_def)
      have u: "poll E p (on_disk f w) =
          (if more then poll E p (on_disk f (snd ?r)) else Some (apsnd (on_disk f) ?r))"
        by (subst poll.simps) (simp only: on_disk_reads s Let_def fst_apsnd snd_apsnd more_def)
      show "poll E p (on_disk f w) = Some (apsnd (on_disk f) r) \<and> I (disk (snd r))"
      proof (cases more)
        case True
        then have "rec E' p (snd ?r) = Some r" using b by (simp only: if_True)
        from IH [OF this] s(2) show ?thesis using u True by (simp only: if_True simp_thms)
      next
        case False
        then have "?r = r" using b by (simp only: if_False option.inject)
        then show ?thesis using u False s(2) by (simp only: if_False simp_thms)
      qed
    qed
  qed
  then show ?thesis using assms(2) by simp
qed

lemma poll_down:
  assumes "poll E p v = Some r" "v = on_disk f w" "I (disk w)"
  shows "poll E' p w \<noteq> None"
proof -
  have "\<forall>w. E = E \<and> v = on_disk f w \<and> I (disk w) \<longrightarrow> poll E' p w \<noteq> None"
  proof (rule poll.raw_induct [where P = "\<lambda>E1 p v r. \<forall>w. E1 = E \<and> v = on_disk f w \<and> I (disk w) \<longrightarrow>
      poll E' p w \<noteq> None", OF _ assms(1)])
    fix rec E1 p v r
    assume IH: "\<And>E1 p v r. rec E1 p v = Some r \<Longrightarrow> \<forall>w. E1 = E \<and> v = on_disk f w \<and> I (disk w) \<longrightarrow>
        poll E' p w \<noteq> None"
      and body: "(let r = sendCmd E1 IF_RECV p (comID v) zeros v; hdr = snd (fst r)
        in if load32 hdr off_outstandingData \<noteq> 0 \<and> load32 hdr off_minTransfer = 0
           then rec E1 p (snd r) else Some r) = Some r"
    show "\<forall>w. E1 = E \<and> v = on_disk f w \<and> I (disk w) \<longrightarrow> poll E' p w \<noteq> None"
    proof (intro allI impI)
      fix w assume *: "E1 = E \<and> v = on_disk f w \<and> I (disk w)"
      let ?r = "sendCmd E' IF_RECV p (comID w) zeros w"
      define more where "more \<longleftrightarrow> load32 (snd (fst ?r)) off_outstandingData \<noteq> 0 \<and>
        load32 (snd (fst ?r)) off_minTransfer = 0"
      have s: "sendCmd E IF_RECV p (comID w) zeros (on_disk f w) = apsnd (on_disk f) ?r" "I (disk (snd ?r))"
        using recv_sim [of w p] * by auto
      have E1: "E1 = E" and v: "v = on_disk f w" using * by simp_all
      have b: "(if more then rec E p (on_disk f (snd ?r)) else Some (apsnd (on_disk f) ?r)) = Some r"
        using body unfolding E1 v by (simp only: on_disk_reads s Let_def fst_apsnd snd_apsnd more_def)
      have u: "poll E' p w = (if more then poll E' p (snd ?r) else Some ?r)"
        by (subst poll.simps) (simp only: Let_def more_def)
      show "poll E' p w \<noteq> None"
      proof (cases more)
        case True
        then have "rec E p (on_disk f (snd ?r)) = Some r" using b by (simp only: if_True)
        from IH [OF this] s(2) show ?thesis using u True by (simp only: if_True) blast
      next
        case False
        then show ?thesis using u by (simp only: if_False) simp
      qed
    qed
  qed
  then show ?thesis using assms by blast
qed

lemma sim_poll [sim_rules]: "sim (poll_op E p) (poll_op E' p)"
  unfolding simulates_def
proof (intro allI impI)
  fix w :: "'b dta_dev" assume I: "I (disk w)"
  show "poll_op E p (on_disk f w) = apsnd (on_disk f) (poll_op E' p w) \<and> I (disk (snd (poll_op E' p w)))"
  proof (cases "poll E' p w")
    case None
    then have "poll E p (on_disk f w) = None"
      using poll_down [OF _ refl I] by (cases "poll E p (on_disk f w)") auto
    with None I show ?thesis by (simp add: poll_op_def)
  next
    case (Some r)
    with poll_up [OF Some I] show ?thesis by (cases r) (simp add: poll_op_def)
  qed
qed

end

end
