(* ===== verification/Correspondence.thy ===== *)
theory Correspondence
  imports Simulation
begin

text \<open>Every operation, and the whole program, in the locale \<open>simulation\<close>.\<close>

context simulation
begin

section \<open>Passwords and commands\<close>

lemma DtaHashPassword_sim: "DtaHashPassword E = DtaHashPassword E'"
  by (intro ext) (simp add: DtaHashPassword_def same)

lemma DtaHashPwd_sim [simp]: "DtaHashPwd E p (on_disk f w) = DtaHashPwd E' p w"
  by (simp add: DtaHashPwd_def DtaHashPassword_sim Let_def)

lemma args_sim [simp]:
  "auth_args E s (on_disk f w) c a = auth_args E' s w c a"
  "timeout_args (on_disk f w) = timeout_args w"
  "authenticate_args E s (on_disk f w) a c = authenticate_args E' s w a c"
  "start_args E s (on_disk f w) sp c a = start_args E' s w sp c a"
  by (simp_all add: auth_args_def timeout_args_def authenticate_args_def start_args_def challenge_token_def
      split: option.split)

lemma sim_build [sim_rules]: "sim (build E calls) (build E' calls)"
  by (simp add: build_def same sim_pure)

lemma sim_bind_build:
  "(\<And>c. cmd_seq calls (DtaCommand (cmd_addr E)) = Ret c \<Longrightarrow> sim (k c) (k' c)) \<Longrightarrow>
   sim (bind_op (build E calls) k) (bind_op (build E' calls) k')"
  by (cases "cmd_seq calls (DtaCommand (cmd_addr E))")
    (simp_all add: simulates_def build_def same bind_op_def lift_op_def)

lemma sim_build3 [sim_rules]:
  "opens g \<Longrightarrow> grows g1 \<Longrightarrow> closes k \<Longrightarrow> (\<And>c. framed c \<Longrightarrow> sim (m c) (m' c)) \<Longrightarrow>
   sim (bind_op (build E [g, g1, k]) m) (bind_op (build E' [g, g1, k]) m')"
  by (rule sim_bind_build) (blast dest: framed3)

lemma sim_build4 [sim_rules]:
  "opens g \<Longrightarrow> grows g1 \<Longrightarrow> grows g2 \<Longrightarrow> closes k \<Longrightarrow> (\<And>c. framed c \<Longrightarrow> sim (m c) (m' c)) \<Longrightarrow>
   sim (bind_op (build E [g, g1, g2, k]) m) (bind_op (build E' [g, g1, g2, k]) m')"
  by (rule sim_bind_build) (blast dest: framed4)

lemma sim_exec_io:
  assumes "\<And>cid. proper_send cid (sent_bytes (cmd cid))"
  shows "sim (\<lambda>w. exec_io E (cmd (comID w)) resp p w) (\<lambda>w. exec_io E' (cmd (comID w)) resp p w)"
  unfolding simulates_def
proof (intro allI impI)
  fix w :: "'b dta_dev" assume I: "I (disk w)"
  let ?c = "cmd (comID w)"
  have g: "bind_op (get_op comID) k v = k (comID v) v" for k and v :: "'c dta_dev"
    by (simp add: bind_op_def get_op_def)
  have s: "sim (bind_op (sendCmd_op E IF_SEND p (comID w) (sent_bytes ?c)) (\<lambda>(rc, _).
       if rc \<noteq> 0 then ret (rc, resp)
       else bind_op (poll_op E p) (\<lambda>(rc, buf).
         if rc \<noteq> 0 then ret (rc, resp)
         else bind_op (lift_op (init MIN_BUFFER_LENGTH buf)) (\<lambda>r. ret (0, r)))))
    (bind_op (sendCmd_op E' IF_SEND p (comID w) (sent_bytes ?c)) (\<lambda>(rc, _).
       if rc \<noteq> 0 then ret (rc, resp)
       else bind_op (poll_op E' p) (\<lambda>(rc, buf).
         if rc \<noteq> 0 then ret (rc, resp)
         else bind_op (lift_op (init MIN_BUFFER_LENGTH buf)) (\<lambda>r. ret (0, r)))))"
    by (intro sim_rules sim_sendCmd) (use assms in simp)
  show "exec_io E (cmd (comID (on_disk f w))) resp p (on_disk f w) =
      apsnd (on_disk f) (exec_io E' ?c resp p w) \<and> I (disk (snd (exec_io E' ?c resp p w)))"
    using simulatesD [OF s I] by (simp add: exec_io_def g)
qed

lemma sim_sendCommand:
  assumes "framed cmd"
  shows "sim (sendCommand E cmd resp) (sendCommand E' cmd resp)"
proof -
  have x: "sim (\<lambda>w. exec E (stamped (comID w) s cmd) resp p w) (\<lambda>w. exec E' (stamped (comID w) s cmd) resp p w)" for s p
  proof -
    have "sim (\<lambda>w. exec_io E (stamped (comID w) s cmd) resp p w) (\<lambda>w. exec_io E' (stamped (comID w) s cmd) resp p w)"
      by (rule sim_exec_io [where cmd = "\<lambda>cid. stamped cid s cmd"])
        (simp add: stamped_def proper_send_framed framed_setters assms)
    then show ?thesis unfolding simulates_def exec_def by (simp split: dev_class.split)
  qed
  have g: "bind_op (get_op comID) (\<lambda>cid. bind_op (exec F (stamped cid s cmd) resp p) k) =
      bind_op (\<lambda>w. exec F (stamped (comID w) s cmd) resp p w) k" for F :: "'c env" and s p k
    by (rule ext) (simp add: bind_op_def get_op_def)
  show ?thesis
    unfolding sendCommand_def stamped_def [symmetric] g by (intro sim_rules x)
qed

lemma sim_sendCommand_dev: "framed cmd \<Longrightarrow> sim (sendCommand_dev E cmd) (sendCommand_dev E' cmd)"
  unfolding sendCommand_dev_def
  by (intro sim_rules sim_sendCommand sim_get sim_put) (simp_all add: on_disk_update)

lemma sim_call3 [sim_rules]:
  "opens g \<Longrightarrow> grows g1 \<Longrightarrow> closes k \<Longrightarrow> sim (call_dev E [g, g1, k]) (call_dev E' [g, g1, k])"
  unfolding call_dev_def by (intro sim_build3 sim_sendCommand_dev)

lemma sim_call4 [sim_rules]:
  "opens g \<Longrightarrow> grows g1 \<Longrightarrow> grows g2 \<Longrightarrow> closes k \<Longrightarrow>
   sim (call_dev E [g, g1, g2, k]) (call_dev E' [g, g1, g2, k])"
  unfolding call_dev_def by (intro sim_build4 sim_sendCommand_dev)

lemmas dev_reads = on_disk_select on_disk_reads on_disk_update args_sim DtaHashPwd_sim same

section \<open>Sessions\<close>

lemma sim_authenticate [sim_rules]: "sim (authenticate E a c) (authenticate E' a c)"
  unfolding authenticate_def
  by (simp only: dev_reads | rule sim_rules command_shape sim_sendCommand sim_sendCommand_dev sim_get sim_put | assumption | simp)+

lemma sim_take_numbers [sim_rules]: "sim (take_numbers r) (take_numbers r)"
  unfolding take_numbers_def by (simp only: dev_reads | rule sim_rules command_shape sim_sendCommand sim_sendCommand_dev sim_get sim_put | assumption | simp)+

lemma sim_start [sim_rules]: "sim (start E sp c a) (start E' sp c a)"
  unfolding start_def by (simp only: dev_reads | rule sim_rules command_shape sim_sendCommand sim_sendCommand_dev sim_get sim_put | assumption | simp)+

lemma sim_start_uid [sim_rules]: "sim (start_uid E sp c a) (start_uid E' sp c a)"
  unfolding start_uid_def by (rule sim_start)

lemma sim_start_anon [sim_rules]: "sim (start_anon E sp) (start_anon E' sp)"
  unfolding start_anon_def by (rule sim_start_uid)

lemma sim_delete_session [sim_rules]: "sim (delete_session E) (delete_session E')"
  unfolding delete_session_def
  by (simp only: dev_reads | rule sim_rules command_shape sim_sendCommand sim_sendCommand_dev sim_get sim_put | assumption | simp)+

lemma sim_finish [sim_rules]: "sim (finish E rc) (finish E' rc)"
  unfolding finish_def by (simp only: dev_reads | rule sim_rules command_shape sim_sendCommand sim_sendCommand_dev sim_get sim_put | assumption | simp)+

lemma sim_in_session [sim_rules]: "sim st st' \<Longrightarrow> sim k k' \<Longrightarrow> sim (in_session E st k) (in_session E' st' k')"
  unfolding in_session_def by (simp only: dev_reads | rule sim_rules command_shape sim_sendCommand sim_sendCommand_dev sim_get sim_put | assumption | simp)+

lemma sim_checked [sim_rules]: "sim m m' \<Longrightarrow> sim k k' \<Longrightarrow> sim (checked E m k) (checked E' m' k')"
  unfolding checked_def by (simp only: dev_reads | rule sim_rules command_shape sim_sendCommand sim_sendCommand_dev sim_get sim_put | assumption | simp)+

lemma sim_setTable [sim_rules]: "sim (setTable E t n v) (setTable E' t n v)"
  unfolding setTable_def by (simp only: dev_reads | rule sim_rules command_shape sim_sendCommand sim_sendCommand_dev sim_get sim_put | assumption | simp)+

lemma sim_setTable_token [sim_rules]: "sim (setTable_token E t n v) (setTable_token E' t n v)"
  unfolding setTable_token_def by (rule sim_setTable)

lemma sim_getTable [sim_rules]: "sim (getTable E t a b) (getTable E' t a b)"
  unfolding getTable_def by (simp only: dev_reads | rule sim_rules command_shape sim_sendCommand sim_sendCommand_dev sim_get sim_put | assumption | simp)+

lemma sim_properties [sim_rules]: "sim (properties E) (properties E')"
  unfolding properties_def
  by (simp only: dev_reads | rule sim_rules command_shape sim_sendCommand sim_sendCommand_dev sim_get sim_put | assumption | simp)+

lemma sim_getDefaultPassword [sim_rules]: "sim (getDefaultPassword E) (getDefaultPassword E')"
  unfolding getDefaultPassword_def by (simp only: dev_reads | rule sim_rules command_shape sim_sendCommand sim_sendCommand_dev sim_get sim_put | assumption | simp)+

lemma sim_printDefaultPassword [sim_rules]: "sim (printDefaultPassword E) (printDefaultPassword E')"
  unfolding printDefaultPassword_def by (simp only: dev_reads | rule sim_rules command_shape sim_sendCommand sim_sendCommand_dev sim_get sim_put | assumption | simp)+

lemma sim_setSIDPassword [sim_rules]: "sim (setSIDPassword E a b c d) (setSIDPassword E' a b c d)"
  unfolding setSIDPassword_def by (simp only: dev_reads | rule sim_rules command_shape sim_sendCommand sim_sendCommand_dev sim_get sim_put | assumption | simp)+

lemma sim_takeOwnership [sim_rules]: "sim (takeOwnership E p) (takeOwnership E' p)"
  unfolding takeOwnership_def by (simp only: dev_reads | rule sim_rules command_shape sim_sendCommand sim_sendCommand_dev sim_get sim_put | assumption | simp)+

lemma sim_set_user_pin [sim_rules]: "sim (set_user_pin E u p) (set_user_pin E' u p)"
  unfolding set_user_pin_def by (simp only: dev_reads | rule sim_rules command_shape sim_sendCommand sim_sendCommand_dev sim_get sim_put | assumption | simp)+

lemma sim_setPassword [sim_rules]: "sim (setPassword E p u n) (setPassword E' p u n)"
  unfolding setPassword_def by (simp only: dev_reads | rule sim_rules command_shape sim_sendCommand sim_sendCommand_dev sim_get sim_put | assumption | simp)+

lemma sim_setNewPassword_SUM [sim_rules]: "sim (setNewPassword_SUM E p u n) (setNewPassword_SUM E' p u n)"
  unfolding setNewPassword_SUM_def Let_def by (simp only: dev_reads | rule sim_rules command_shape sim_sendCommand sim_sendCommand_dev sim_get sim_put | assumption | simp)+

lemma sim_enableUser [sim_rules]: "sim (enableUser E p u s) (enableUser E' p u s)"
  unfolding enableUser_def by (simp only: dev_reads | rule sim_rules command_shape sim_sendCommand sim_sendCommand_dev sim_get sim_put | assumption | simp)+

lemma sim_objDump [sim_rules]: "sim (objDump E sp a p i) (objDump E' sp a p i)"
  unfolding objDump_def Let_def by (simp only: dev_reads | rule sim_rules command_shape sim_sendCommand sim_sendCommand_dev sim_get sim_put | assumption | simp)+

lemma sim_rawCmd [sim_rules]: "sim (rawCmd E sp a p i m x) (rawCmd E' sp a p i m x)"
  unfolding rawCmd_def Let_def by (simp only: dev_reads | rule sim_rules command_shape sim_sendCommand sim_sendCommand_dev sim_get sim_put | assumption | simp)+

lemma sim_getLockingRange_status [sim_rules]: "sim (getLockingRange_status E n p) (getLockingRange_status E' n p)"
  unfolding getLockingRange_status_def by (simp only: dev_reads | rule sim_rules command_shape sim_sendCommand sim_sendCommand_dev sim_get sim_put | assumption | simp)+

lemma sim_printLockingRangeStatus [sim_rules]: "sim (printLockingRangeStatus E n p) (printLockingRangeStatus E' n p)"
  unfolding printLockingRangeStatus_def by (simp only: dev_reads | rule sim_rules command_shape sim_sendCommand sim_sendCommand_dev sim_get sim_put | assumption | simp)+

lemma sim_list_loop [sim_rules]: "sim (list_loop E n i LR) (list_loop E' n i LR)"
  by (induction n arbitrary: i LR)
    (simp add: sim_finish, simp only: list_loop.simps Let_def,
      (simp only: dev_reads | rule sim_rules command_shape sim_sendCommand sim_sendCommand_dev sim_get sim_put | assumption | simp)+)

lemma sim_listLockingRanges [sim_rules]: "sim (listLockingRanges E p i) (listLockingRanges E' p i)"
  unfolding listLockingRanges_def by (simp only: dev_reads | rule sim_rules command_shape sim_sendCommand sim_sendCommand_dev sim_get sim_put | assumption | simp)+

lemma sim_rekey_range [sim_rules]: "sim (rekey_range E LR) (rekey_range E' LR)"
  unfolding rekey_range_def by (simp only: dev_reads | rule sim_rules command_shape sim_sendCommand sim_sendCommand_dev sim_get sim_put | assumption | simp)+

lemma sim_rekeyLockingRange [sim_rules]: "sim (rekeyLockingRange E n p) (rekeyLockingRange E' n p)"
  unfolding rekeyLockingRange_def by (simp only: dev_reads | rule sim_rules command_shape sim_sendCommand sim_sendCommand_dev sim_get sim_put | assumption | simp)+

lemma sim_rekeyLockingRange_SUM [sim_rules]: "sim (rekeyLockingRange_SUM E LR u p) (rekeyLockingRange_SUM E' LR u p)"
  unfolding rekeyLockingRange_SUM_def by (simp only: dev_reads | rule sim_rules command_shape sim_sendCommand sim_sendCommand_dev sim_get sim_put | assumption | simp)+

lemma sim_set_call [sim_rules]: "sim (call_dev E (set_call LR vs)) (call_dev E' (set_call LR vs))"
  unfolding set_call_def by (simp only: dev_reads | rule sim_rules command_shape sim_sendCommand sim_sendCommand_dev sim_get sim_put | assumption | simp)+

lemma sim_setupLockingRange [sim_rules]: "sim (setupLockingRange E n a b p) (setupLockingRange E' n a b p)"
  unfolding setupLockingRange_def by (simp only: dev_reads | rule sim_rules command_shape sim_sendCommand sim_sendCommand_dev sim_get sim_put | assumption | simp)+

lemma sim_setupLockingRange_SUM [sim_rules]: "sim (setupLockingRange_SUM E n a b p) (setupLockingRange_SUM E' n a b p)"
  unfolding setupLockingRange_SUM_def Let_def by (simp only: dev_reads | rule sim_rules command_shape sim_sendCommand sim_sendCommand_dev sim_get sim_put | assumption | simp)+

lemma sim_configureLockingRange [sim_rules]: "sim (configureLockingRange E n e p) (configureLockingRange E' n e p)"
  unfolding configureLockingRange_def by (simp only: dev_reads | rule sim_rules command_shape sim_sendCommand sim_sendCommand_dev sim_get sim_put | assumption | simp)+

lemma sim_setLockingRange [sim_rules]: "sim (setLockingRange E n s p) (setLockingRange E' n s p)"
  unfolding setLockingRange_def by (simp only: dev_reads | rule sim_rules command_shape sim_sendCommand sim_sendCommand_dev sim_get sim_put | assumption | simp)+

lemma sim_setLockingRange_SUM [sim_rules]: "sim (setLockingRange_SUM E n s p) (setLockingRange_SUM E' n s p)"
  unfolding setLockingRange_SUM_def by (simp only: dev_reads | rule sim_rules command_shape sim_sendCommand sim_sendCommand_dev sim_get sim_put | assumption | simp)+

lemma sim_eraseLockingRange_SUM [sim_rules]: "sim (eraseLockingRange_SUM E n p) (eraseLockingRange_SUM E' n p)"
  unfolding eraseLockingRange_SUM_def by (simp only: dev_reads | rule sim_rules command_shape sim_sendCommand sim_sendCommand_dev sim_get sim_put | assumption | simp)+

lemma sim_setLockingSPvalue [sim_rules]: "sim (setLockingSPvalue E u n v p) (setLockingSPvalue E' u n v p)"
  unfolding setLockingSPvalue_def by (simp only: dev_reads | rule sim_rules command_shape sim_sendCommand sim_sendCommand_dev sim_get sim_put | assumption | simp)+

lemma sim_setMBRDone [sim_rules]: "sim (setMBRDone E s p) (setMBRDone E' s p)"
  unfolding setMBRDone_def by (simp only: dev_reads | rule sim_rules command_shape sim_sendCommand sim_sendCommand_dev sim_get sim_put | assumption | simp)+

lemma sim_setMBREnable [sim_rules]: "sim (setMBREnable E s p) (setMBREnable E' s p)"
  unfolding setMBREnable_def by (simp only: dev_reads | rule sim_rules command_shape sim_sendCommand sim_sendCommand_dev sim_get sim_put | assumption | simp)+

lemma sim_pba_block [sim_rules]: "sim (pba_block E pos buf) (pba_block E' pos buf)"
  unfolding pba_block_def Let_def by (simp only: dev_reads | rule sim_rules command_shape sim_sendCommand sim_sendCommand_dev sim_get sim_put | assumption | simp)+

text \<open>The loop over the image, in both directions. One pass of it:\<close>

lemma pba_pass:
  assumes "I (disk w)"
  shows "pba_block E pos buf (on_disk f w) = apsnd (on_disk f) (pba_block E' pos buf w)"
    "I (disk (snd (pba_block E' pos buf w)))"
  using simulatesD [OF sim_pba_block assms] by auto

lemma pba_unfold:
  assumes "I (disk w)" and "pba_block E' pos (take (unat b) (drop (unat pos) img)) w = (out, w1)"
    and "b = (if eofpos - pos < bs then eofpos - pos else bs)"
  shows "pba_loop E img eofpos pos bs (on_disk f w) =
      (if eofpos = pos then Some (Ret 0, on_disk f w)
       else if out = Ret 0
       then pba_loop E img eofpos (pos + b) b
         (on_disk f (w1\<lparr>console := console w1 @ [ProgressReport (pos + b) eofpos b]\<rparr>))
       else Some (out, on_disk f w1))"
    "pba_loop E' img eofpos pos bs w =
      (if eofpos = pos then Some (Ret 0, w)
       else if out = Ret 0
       then pba_loop E' img eofpos (pos + b) b
         (w1\<lparr>console := console w1 @ [ProgressReport (pos + b) eofpos b]\<rparr>)
       else Some (out, w1))"
    "I (disk w1)"
proof -
  have a: "pba_block E pos (take (unat b) (drop (unat pos) img)) (on_disk f w) = (out, on_disk f w1)" "I (disk w1)"
    using pba_pass [OF assms(1), of pos "take (unat b) (drop (unat pos) img)"] assms(2) by simp_all
  show "I (disk w1)" by (rule a(2))
  show "pba_loop E img eofpos pos bs (on_disk f w) =
      (if eofpos = pos then Some (Ret 0, on_disk f w)
       else if out = Ret 0
       then pba_loop E img eofpos (pos + b) b
         (on_disk f (w1\<lparr>console := console w1 @ [ProgressReport (pos + b) eofpos b]\<rparr>))
       else Some (out, on_disk f w1))"
    by (subst pba_loop.simps)
      (simp only: assms(3) [symmetric] Let_def a(1) on_disk_update on_disk_select prod.case,
        cases out, simp_all)
  show "pba_loop E' img eofpos pos bs w =
      (if eofpos = pos then Some (Ret 0, w)
       else if out = Ret 0
       then pba_loop E' img eofpos (pos + b) b
         (w1\<lparr>console := console w1 @ [ProgressReport (pos + b) eofpos b]\<rparr>)
       else Some (out, w1))"
    by (subst pba_loop.simps)
      (simp only: assms(3) [symmetric] Let_def assms(2) prod.case, cases out, simp_all)
qed

lemma pba_up:
  assumes "pba_loop E' img eofpos pos bs w = Some r" "I (disk w)"
  shows "pba_loop E img eofpos pos bs (on_disk f w) = Some (apsnd (on_disk f) r) \<and> I (disk (snd r))"
proof -
  let ?P = "\<lambda>E1 img eofpos pos bs w r. E1 = E' \<and> I (disk w) \<longrightarrow>
    pba_loop E img eofpos pos bs (on_disk f w) = Some (apsnd (on_disk f) r) \<and> I (disk (snd r))"
  have "?P E' img eofpos pos bs w r"
  proof (rule pba_loop.raw_induct [where P = ?P, OF _ assms(1)])
    fix rec E1 img eofpos pos bs w r
    assume IH: "\<And>E1 img eofpos pos bs w r. rec E1 img eofpos pos bs w = Some r \<Longrightarrow> ?P E1 img eofpos pos bs w r"
      and body: "(if eofpos = pos then Some (Ret 0, w)
      else let bs = (if eofpos - pos < bs then eofpos - pos else bs)
        in case pba_block E1 pos (take (unat bs) (drop (unat pos) img)) w of
             (Ret rc, w1) \<Rightarrow>
               if rc \<noteq> 0 then Some (Ret rc, w1)
               else rec E1 img eofpos (pos + bs) bs
                      (w1\<lparr>console := console w1 @ [ProgressReport (pos + bs) eofpos bs]\<rparr>)
           | (ExitFail, w1) \<Rightarrow> Some (ExitFail, w1)
           | (Undef, w1) \<Rightarrow> Some (Undef, w1)
           | (Diverge, w1) \<Rightarrow> Some (Diverge, w1)) = Some r"
    show "?P E1 img eofpos pos bs w r"
    proof
      assume *: "E1 = E' \<and> I (disk w)"
      define b where "b = (if eofpos - pos < bs then eofpos - pos else bs)"
      obtain out w1 where p: "pba_block E' pos (take (unat b) (drop (unat pos) img)) w = (out, w1)"
        by (cases "pba_block E' pos (take (unat b) (drop (unat pos) img)) w")
      note u = pba_unfold [OF _ p b_def]
      have I: "I (disk w)" "I (disk w1)" using * u(3) by simp_all
      let ?w2 = "w1\<lparr>console := console w1 @ [ProgressReport (pos + b) eofpos b]\<rparr>"
      consider "eofpos = pos" | "eofpos \<noteq> pos" "out = Ret 0" | "eofpos \<noteq> pos" "out \<noteq> Ret 0" by blast
      then show "pba_loop E img eofpos pos bs (on_disk f w) = Some (apsnd (on_disk f) r) \<and> I (disk (snd r))"
      proof cases
        case 1
        then have "r = (Ret 0, w)" using body by simp
        with 1 I(1) show ?thesis unfolding u(1) [OF I(1)] by simp
      next
        case 2
        then have "rec E' img eofpos (pos + b) b ?w2 = Some r"
          using body * p by (simp add: b_def [symmetric] Let_def)
        from IH [OF this] I(2) 2 show ?thesis by (simp add: u(1) [OF I(1)])
      next
        case 3
        then have "r = (out, w1)"
          using body * p by (cases out) (auto simp: b_def [symmetric] Let_def split: if_splits)
        then show ?thesis using 3 I(2) by (simp add: u(1) [OF I(1)])
      qed
    qed
  qed
  then show ?thesis using assms(2) by simp
qed

lemma pba_down:
  assumes "pba_loop E img eofpos pos bs v = Some r" "v = on_disk f w" "I (disk w)"
  shows "pba_loop E' img eofpos pos bs w \<noteq> None"
proof -
  let ?P = "\<lambda>E1 img eofpos pos bs v r. \<forall>w. E1 = E \<and> v = on_disk f w \<and> I (disk w) \<longrightarrow>
    pba_loop E' img eofpos pos bs w \<noteq> None"
  have "?P E img eofpos pos bs v r"
  proof (rule pba_loop.raw_induct [where P = ?P, OF _ assms(1)])
    fix rec E1 img eofpos pos bs v r
    assume IH: "\<And>E1 img eofpos pos bs v r. rec E1 img eofpos pos bs v = Some r \<Longrightarrow> ?P E1 img eofpos pos bs v r"
      and body: "(if eofpos = pos then Some (Ret 0, v)
      else let bs = (if eofpos - pos < bs then eofpos - pos else bs)
        in case pba_block E1 pos (take (unat bs) (drop (unat pos) img)) v of
             (Ret rc, w1) \<Rightarrow>
               if rc \<noteq> 0 then Some (Ret rc, w1)
               else rec E1 img eofpos (pos + bs) bs
                      (w1\<lparr>console := console w1 @ [ProgressReport (pos + bs) eofpos bs]\<rparr>)
           | (ExitFail, w1) \<Rightarrow> Some (ExitFail, w1)
           | (Undef, w1) \<Rightarrow> Some (Undef, w1)
           | (Diverge, w1) \<Rightarrow> Some (Diverge, w1)) = Some r"
    show "?P E1 img eofpos pos bs v r"
    proof (intro allI impI)
      fix w assume *: "E1 = E \<and> v = on_disk f w \<and> I (disk w)"
      define b where "b = (if eofpos - pos < bs then eofpos - pos else bs)"
      obtain out w1 where p: "pba_block E' pos (take (unat b) (drop (unat pos) img)) w = (out, w1)"
        by (cases "pba_block E' pos (take (unat b) (drop (unat pos) img)) w")
      note u = pba_unfold [OF _ p b_def]
      have I: "I (disk w)" "I (disk w1)" using * u(3) by simp_all
      let ?w2 = "w1\<lparr>console := console w1 @ [ProgressReport (pos + b) eofpos b]\<rparr>"
      have q: "pba_block E pos (take (unat b) (drop (unat pos) img)) (on_disk f w) = (out, on_disk f w1)"
        using pba_pass(1) [OF I(1), of pos "take (unat b) (drop (unat pos) img)"] p by simp
      show "pba_loop E' img eofpos pos bs w \<noteq> None"
      proof (cases "eofpos \<noteq> pos \<and> out = Ret 0")
        case True
        then have "rec E img eofpos (pos + b) b (on_disk f ?w2) = Some r"
          using body * q by (simp add: b_def [symmetric] Let_def on_disk_update)
        from IH [OF this] I(2) True show ?thesis by (simp add: u(2) [OF I(1)])
      qed (auto simp: u(2) [OF I(1)])
    qed
  qed
  then show ?thesis using assms by blast
qed

lemma sim_pba_loop [sim_rules]:
  "sim (pba_loop_op E img eofpos pos bs) (pba_loop_op E' img eofpos pos bs)"
  unfolding simulates_def
proof (intro allI impI)
  fix w :: "'b dta_dev" assume I: "I (disk w)"
  show "pba_loop_op E img eofpos pos bs (on_disk f w) = apsnd (on_disk f) (pba_loop_op E' img eofpos pos bs w) \<and>
      I (disk (snd (pba_loop_op E' img eofpos pos bs w)))"
  proof (cases "pba_loop E' img eofpos pos bs w")
    case None
    then have "pba_loop E img eofpos pos bs (on_disk f w) = None"
      using pba_down [OF _ refl I] by (cases "pba_loop E img eofpos pos bs (on_disk f w)") auto
    with None I show ?thesis by (simp add: pba_loop_op_def)
  next
    case (Some r)
    with pba_up [OF Some I] show ?thesis by (simp add: pba_loop_op_def)
  qed
qed

lemma sim_loadPBA [sim_rules]: "sim (loadPBA E p file) (loadPBA E' p file)"
  unfolding loadPBA_def by (simp only: dev_reads | rule sim_rules command_shape sim_sendCommand sim_sendCommand_dev sim_get sim_put | assumption | simp)+

lemma sim_if_inactive [sim_rules]: "sim k k' \<Longrightarrow> sim (if_inactive E k) (if_inactive E' k')"
  unfolding if_inactive_def by (simp only: dev_reads | rule sim_rules command_shape sim_sendCommand sim_sendCommand_dev sim_get sim_put | assumption | simp)+

lemma sim_activateLockingSP [sim_rules]: "sim (activateLockingSP E p) (activateLockingSP E' p)"
  unfolding activateLockingSP_def by (simp only: dev_reads | rule sim_rules command_shape sim_sendCommand sim_sendCommand_dev sim_get sim_put | assumption | simp)+

lemma sim_activateLockingSP_SUM [sim_rules]: "sim (activateLockingSP_SUM E n p) (activateLockingSP_SUM E' n p)"
  unfolding activateLockingSP_SUM_def
  by (simp only: dev_reads | rule sim_rules command_shape sim_sendCommand sim_sendCommand_dev sim_get sim_put | assumption | simp)+

lemma sim_revertLockingSP [sim_rules]: "sim (revertLockingSP E p k) (revertLockingSP E' p k)"
  unfolding revertLockingSP_def by (simp only: dev_reads | rule sim_rules command_shape sim_sendCommand sim_sendCommand_dev sim_get sim_put | assumption | simp)+

lemma sim_revertTPer [sim_rules]: "sim (revertTPer E p ps a) (revertTPer E' p ps a)"
  unfolding revertTPer_def by (simp only: dev_reads | rule sim_rules command_shape sim_sendCommand sim_sendCommand_dev sim_get sim_put | assumption | simp)+

lemma sim_initialSetup [sim_rules]: "sim (initialSetup E p) (initialSetup E' p)"
  unfolding initialSetup_def by (simp only: dev_reads | rule sim_rules command_shape sim_sendCommand sim_sendCommand_dev sim_get sim_put | assumption | simp)+

lemma sim_setup_SUM [sim_rules]: "sim (setup_SUM E n a b p q) (setup_SUM E' n a b p q)"
  unfolding setup_SUM_def Let_def by (simp only: dev_reads | rule sim_rules command_shape sim_sendCommand sim_sendCommand_dev sim_get sim_put | assumption | simp)+

section \<open>Tables and look-ups\<close>

lemma sim_ent_setTable [sim_rules]: "sim (ent_setTable E t n v) (ent_setTable E' t n v)"
  unfolding ent_setTable_def by (simp only: dev_reads | rule sim_rules command_shape sim_sendCommand sim_sendCommand_dev sim_get sim_put | assumption | simp)+

lemma sim_ent_setTable_token [sim_rules]: "sim (ent_setTable_token E t n v) (ent_setTable_token E' t n v)"
  unfolding ent_setTable_token_def by (rule sim_ent_setTable)

lemma sim_ent_getTable [sim_rules]: "sim (ent_getTable E t a b) (ent_getTable E' t a b)"
  unfolding ent_getTable_def by (simp only: dev_reads | rule sim_rules command_shape sim_sendCommand sim_sendCommand_dev sim_get sim_put | assumption | simp)+

lemma sim_ent_properties [sim_rules]: "sim (ent_properties E) (ent_properties E')"
  unfolding ent_properties_def
  by (simp only: dev_reads | rule sim_rules command_shape sim_sendCommand sim_sendCommand_dev sim_get sim_put | assumption | simp)+

lemma sim_msid [sim_rules]: "sim msid msid"
  unfolding msid_def by (rule sim_from_response)

lemma sim_ent_getDefaultPassword [sim_rules]: "sim (ent_getDefaultPassword E) (ent_getDefaultPassword E')"
  unfolding ent_getDefaultPassword_def by (simp only: dev_reads | rule sim_rules command_shape sim_sendCommand sim_sendCommand_dev sim_get sim_put | assumption | simp)+

lemma sim_ent_printDefaultPassword [sim_rules]: "sim (ent_printDefaultPassword E) (ent_printDefaultPassword E')"
  unfolding ent_printDefaultPassword_def by (simp only: dev_reads | rule sim_rules command_shape sim_sendCommand sim_sendCommand_dev sim_get sim_put | assumption | simp)+

lemma sim_getMaxRangesOpal [sim_rules]: "sim (getMaxRangesOpal E) (getMaxRangesOpal E')"
  unfolding getMaxRangesOpal_def by (simp only: dev_reads | rule sim_rules command_shape sim_sendCommand sim_sendCommand_dev sim_get sim_put | assumption | simp)+

lemma sim_getMaxRanges [sim_rules]: "sim (getMaxRanges E) (getMaxRanges E')"
  unfolding getMaxRanges_def by (simp only: dev_reads | rule sim_rules command_shape sim_sendCommand sim_sendCommand_dev sim_get sim_put | assumption | simp)+

lemma sim_with_max_ranges [sim_rules]: "(\<And>n. sim (k n) (k' n)) \<Longrightarrow> sim (with_max_ranges E k) (with_max_ranges E' k')"
  unfolding with_max_ranges_def by (simp only: dev_reads | rule sim_rules command_shape sim_sendCommand sim_sendCommand_dev sim_get sim_put | assumption | simp)+

section \<open>Passwords\<close>

lemma sim_ent_setSIDPassword [sim_rules]: "sim (ent_setSIDPassword E a b c d) (ent_setSIDPassword E' a b c d)"
  unfolding ent_setSIDPassword_def Let_def by (simp only: dev_reads | rule sim_rules command_shape sim_sendCommand sim_sendCommand_dev sim_get sim_put | assumption | simp)+

lemma sim_ent_setPassword [sim_rules]: "sim (ent_setPassword E p u n) (ent_setPassword E' p u n)"
  unfolding ent_setPassword_def Let_def by (simp only: dev_reads | rule sim_rules command_shape sim_sendCommand sim_sendCommand_dev sim_get sim_put | assumption | simp)+

lemma sim_init_bandmasters [sim_rules]: "sim (init_bandmasters E d p n i u) (init_bandmasters E' d p n i u)"
  by (induction n arbitrary: i u)
    (simp add: sim_pure, simp only: init_bandmasters.simps Let_def,
      (simp only: dev_reads | rule sim_rules command_shape sim_sendCommand sim_sendCommand_dev sim_get sim_put | assumption | simp)+)

lemma sim_initLSPUsers [sim_rules]: "sim (initLSPUsers E d p) (initLSPUsers E' d p)"
  unfolding initLSPUsers_def by (simp only: dev_reads | rule sim_rules command_shape sim_sendCommand sim_sendCommand_dev sim_get sim_put | assumption | simp)+

lemma sim_ent_takeOwnership [sim_rules]: "sim (ent_takeOwnership E p) (ent_takeOwnership E' p)"
  unfolding ent_takeOwnership_def by (simp only: dev_reads | rule sim_rules command_shape sim_sendCommand sim_sendCommand_dev sim_get sim_put | assumption | simp)+

section \<open>Bands\<close>

lemma sim_ent_set_row [sim_rules]: "sim (call_dev E (ent_set_row b vs)) (call_dev E' (ent_set_row b vs))"
  unfolding ent_set_row_def by (simp only: dev_reads | rule sim_rules command_shape sim_sendCommand sim_sendCommand_dev sim_get sim_put | assumption | simp)+

lemma sim_build_row [sim_rules]:
  "(\<And>c. framed c \<Longrightarrow> sim (m c) (m' c)) \<Longrightarrow> sim (bind_op (build E (ent_set_row b vs)) m) (bind_op (build E' (ent_set_row b vs)) m')"
  unfolding ent_set_row_def by (simp only: dev_reads | rule sim_rules command_shape sim_sendCommand sim_sendCommand_dev sim_get sim_put | assumption | simp)+

lemma sim_ent_configureLockingRange [sim_rules]: "sim (ent_configureLockingRange E n e p) (ent_configureLockingRange E' n e p)"
  unfolding ent_configureLockingRange_def by (simp only: dev_reads | rule sim_rules command_shape sim_sendCommand sim_sendCommand_dev sim_get sim_put | assumption | simp)+

lemma sim_ent_rekeyLockingRange [sim_rules]: "sim (ent_rekeyLockingRange E n p) (ent_rekeyLockingRange E' n p)"
  unfolding ent_rekeyLockingRange_def by (simp only: dev_reads | rule sim_rules command_shape sim_sendCommand sim_sendCommand_dev sim_get sim_put | assumption | simp)+

lemma sim_ent_setupLockingRange [sim_rules]: "sim (ent_setupLockingRange E n a b p) (ent_setupLockingRange E' n a b p)"
  unfolding ent_setupLockingRange_def by (simp only: dev_reads | rule sim_rules command_shape sim_sendCommand sim_sendCommand_dev sim_get sim_put | assumption | simp)+

lemma sim_ent_setLockingRange [sim_rules]: "sim (ent_setLockingRange E n s p) (ent_setLockingRange E' n s p)"
  unfolding ent_setLockingRange_def by (simp only: dev_reads | rule sim_rules command_shape sim_sendCommand sim_sendCommand_dev sim_get sim_put | assumption | simp)+

lemma sim_ent_eraseLockingRange [sim_rules]: "sim (ent_eraseLockingRange E n p) (ent_eraseLockingRange E' n p)"
  unfolding ent_eraseLockingRange_def Let_def
  by (simp only: dev_reads | rule sim_rules command_shape sim_sendCommand sim_sendCommand_dev sim_get sim_put | assumption | simp)+

lemma sim_ent_list_loop [sim_rules]: "sim (ent_list_loop E d p n i u t f1 s) (ent_list_loop E' d p n i u t f1 s)"
  by (induction n arbitrary: i u t f1 s)
    (simp add: sim_pure, simp only: ent_list_loop.simps Let_def,
      (simp only: dev_reads | rule sim_rules command_shape sim_sendCommand sim_sendCommand_dev sim_get sim_put | assumption | simp)+)

lemma sim_ent_listLockingRanges [sim_rules]: "sim (ent_listLockingRanges E p i) (ent_listLockingRanges E' p i)"
  unfolding ent_listLockingRanges_def Let_def by (simp only: dev_reads | rule sim_rules command_shape sim_sendCommand sim_sendCommand_dev sim_get sim_put | assumption | simp)+

lemma sim_enable_bands [sim_rules]: "sim (enable_bands E m p n i obj) (enable_bands E' m p n i obj)"
  by (induction n arbitrary: i obj)
    (simp add: sim_pure, simp only: enable_bands.simps Let_def,
      (simp only: dev_reads | rule sim_rules command_shape sim_sendCommand sim_sendCommand_dev sim_get sim_put | assumption | simp)+)

lemma sim_ent_setBandsEnabled [sim_rules]: "sim (ent_setBandsEnabled E n p) (ent_setBandsEnabled E' n p)"
  unfolding ent_setBandsEnabled_def Let_def by (simp only: dev_reads | rule sim_rules command_shape sim_sendCommand sim_sendCommand_dev sim_get sim_put | assumption | simp)+

section \<open>Reverting, set-up and raw commands\<close>

lemma sim_ent_revertLockingSP [sim_rules]: "sim (ent_revertLockingSP E p k) (ent_revertLockingSP E' p k)"
  unfolding ent_revertLockingSP_def by (simp only: dev_reads | rule sim_rules command_shape sim_sendCommand sim_sendCommand_dev sim_get sim_put | assumption | simp)+

lemma sim_ent_revertTPer [sim_rules]: "sim (ent_revertTPer E p ps a) (ent_revertTPer E' p ps a)"
  unfolding ent_revertTPer_def by (simp only: dev_reads | rule sim_rules command_shape sim_sendCommand sim_sendCommand_dev sim_get sim_put | assumption | simp)+

lemma sim_ent_initialSetup [sim_rules]: "sim (ent_initialSetup E p) (ent_initialSetup E' p)"
  unfolding ent_initialSetup_def by (simp only: dev_reads | rule sim_rules command_shape sim_sendCommand sim_sendCommand_dev sim_get sim_put | assumption | simp)+

lemma sim_ent_objDump [sim_rules]: "sim (ent_objDump E sp a p i) (ent_objDump E' sp a p i)"
  unfolding ent_objDump_def Let_def by (simp only: dev_reads | rule sim_rules command_shape sim_sendCommand sim_sendCommand_dev sim_get sim_put | assumption | simp)+

lemma sim_ent_rawCmd [sim_rules]: "sim (ent_rawCmd E sp a p i m x) (ent_rawCmd E' sp a p i m x)"
  unfolding ent_rawCmd_def by (rule sim_rawCmd)

lemma sim_ent_absent [sim_rules]:
  "sim (ent_setup_SUM n a b p q) (ent_setup_SUM n a b p q)"
  "sim (ent_setNewPassword_SUM p u q) (ent_setNewPassword_SUM p u q)"
  "sim (ent_setMBREnable s p) (ent_setMBREnable s p)" "sim (ent_setMBRDone s p) (ent_setMBRDone s p)"
  "sim (ent_setupLockingRange_SUM n a b p) (ent_setupLockingRange_SUM n a b p)"
  "sim (ent_printLockingRangeStatus n p) (ent_printLockingRangeStatus n p)"
  "sim (ent_setLockingRange_SUM n s p) (ent_setLockingRange_SUM n s p)"
  "sim (ent_enableUser p u t) (ent_enableUser p u t)" "sim (ent_loadPBA p v) (ent_loadPBA p v)"
  "sim (ent_activateLockingSP p) (ent_activateLockingSP p)"
  "sim (ent_activateLockingSP_SUM n p) (ent_activateLockingSP_SUM n p)"
  "sim (ent_eraseLockingRange_SUM n p) (ent_eraseLockingRange_SUM n p)"
  by (simp_all add: ent_setup_SUM_def ent_setNewPassword_SUM_def ent_setMBREnable_def
      ent_setMBRDone_def ent_setupLockingRange_SUM_def ent_printLockingRangeStatus_def
      ent_setLockingRange_SUM_def ent_enableUser_def ent_loadPBA_def ent_activateLockingSP_def
      ent_activateLockingSP_SUM_def ent_eraseLockingRange_SUM_def sim_pure)

section \<open>Every call, and the program\<close>

lemma sim_invoke: "sim (invoke E c) (invoke E' c)"
proof -
  have o: "sim (opal_call E c) (opal_call E' c)"
    by (cases c) (simp_all add: sim_rules setBandsEnabled_def eraseLockingRange_def)
  have e: "sim (enterprise_call E c) (enterprise_call E' c)"
    by (cases c) (simp_all add: sim_rules)
  show ?thesis
    using o e sim_pure(1) [of f I "0xff :: u8"]
    unfolding simulates_def invoke_def generic_call_def by (simp split: dev_class.split)
qed

lemma sim_discovery_request:
  "sim m m' \<Longrightarrow> sim (discovery_request E cid step m) (discovery_request E' cid step m')"
  unfolding discovery_request_def
  by (simp only: dev_reads | rule sim_rules sim_sendCmd sim_get sim_put | assumption | simp)+

lemma sim_discovery0: "sim (discovery0 E) (discovery0 E')"
  unfolding discovery0_def discovery0_NS_def by (intro sim_discovery_request sim_pure)

lemma sim_DtaDevOS_init [sim_rules]: "sim (DtaDevOS_init E path) (DtaDevOS_init E' path)"
proof -
  have 1: "sim (\<lambda>w. case drive_init E k path (disk w) of (ok, d) \<Rightarrow> (Ret ok, w\<lparr>disk := d\<rparr>))
      (\<lambda>w. case drive_init E' k path (disk w) of (ok, d) \<Rightarrow> (Ret ok, w\<lparr>disk := d\<rparr>))" for k
    using init_law by (simp add: simulates_def split_beta on_disk_update)
  have 2: "sim (\<lambda>w. case drive_identify E k (disk_info w) (disk w) of (di, d) \<Rightarrow> (Ret (), w\<lparr>disk_info := di, disk := d\<rparr>))
      (\<lambda>w. case drive_identify E' k (disk_info w) (disk w) of (di, d) \<Rightarrow> (Ret (), w\<lparr>disk_info := di, disk := d\<rparr>))" for k
    using identify_law by (simp add: simulates_def split_beta on_disk_def)
  show ?thesis
    unfolding DtaDevOS_init_def
    by (rule 1 2 sim_discovery0 sim_rules sim_get sim_put | simp add: on_disk_update)+
qed

lemma sim_assert [sim_rules]: "(\<And>w. P (on_disk f w) = P' w) \<Longrightarrow> sim (assert_op P) (assert_op P')"
  unfolding assert_op_def by (intro sim_rules sim_get)

lemma sim_classes:
  "sim (DtaDevGeneric E path) (DtaDevGeneric E' path)" "sim (DtaDevOpal1 E path) (DtaDevOpal1 E' path)"
  "sim (DtaDevOpal2 E path) (DtaDevOpal2 E' path)" "sim (DtaDevEnterprise E path) (DtaDevEnterprise E' path)"
  unfolding DtaDevGeneric_def DtaDevOpal1_def DtaDevOpal2_def DtaDevEnterprise_def DtaDevOpal_init_def
  by (rule sim_rules | simp)+

lemma new_device_sim:
  assumes "I d"
  shows "new_device E c path (f d) = apsnd (on_disk f) (new_device E' c path d)"
    "I (disk (snd (new_device E' c path d)))"
proof -
  have d: "I (disk (new_dev c d))" using assms by (simp add: new_dev_def)
  show "new_device E c path (f d) = apsnd (on_disk f) (new_device E' c path d)"
    "I (disk (snd (new_device E' c path d)))"
    unfolding new_device_def new_dev_on_disk [symmetric]
    using simulatesD [OF sim_classes(1) d] simulatesD [OF sim_classes(2) d]
      simulatesD [OF sim_classes(3) d] simulatesD [OF sim_classes(4) d]
    by (cases c; simp)+
qed

lemma sim_puke: "sim (puke path) (puke path)"
proof -
  have "sim (bind_op (get_op disk_info) (\<lambda>d. report (TextReport (puke_text path d))))
      (bind_op (get_op disk_info) (\<lambda>d. report (TextReport (puke_text path d))))"
    "sim (ent_puke path) (ent_puke path)" "sim (opal_puke path) (opal_puke path)"
    unfolding ent_puke_def opal_puke_def by (rule sim_rules sim_get | simp)+
  then show ?thesis
    unfolding simulates_def puke_def by (simp split: dev_class.split)
qed

lemma sim_device_action: "sim (device_action E argv path s) (device_action E' argv path s)"
proof -
  have "sim (case c of None \<Rightarrow> ret DTAERROR_INVALID_COMMAND | Some c \<Rightarrow> invoke E c)
      (case c of None \<Rightarrow> ret DTAERROR_INVALID_COMMAND | Some c \<Rightarrow> invoke E' c)" for c
    by (cases c) (simp_all add: sim_pure sim_invoke)
  then show ?thesis
    unfolding device_action_def by (intro sim_if sim_seq sim_bind sim_puke sim_pure)
qed

text \<open>A run over the abstract disks, from a run over the concrete ones.\<close>

abbreviation abs_run :: "'b run \<Rightarrow> 'a run" where
  "abs_run r \<equiv> apsnd (apsnd f) r"

lemma scan_disks_sim: "I d \<Longrightarrow> scan_disks E ns out (f d) = abs_run (scan_disks E' ns out d)"
proof (induction ns arbitrary: out d)
  case (Cons n ns)
  let ?path = "take 22 (lit ''/dev/'' @ n)"
  obtain r w where r: "new_device E' Generic ?path d = (r, w)"
    by (cases "new_device E' Generic ?path d")
  have "new_device E Generic ?path (f d) = (r, on_disk f w)" "I (disk w)"
    using new_device_sim [OF Cons.prems, of Generic ?path] r by simp_all
  then show ?case using r Cons.IH [of "disk w"]
    by (cases r) (simp_all add: Let_def scan_line_def ssc_letters_def del: take_append)
qed simp

lemma isValidSEDDisk_sim: "I d \<Longrightarrow> isValidSEDDisk E path (f d) = abs_run (isValidSEDDisk E' path d)"
  using new_device_sim(1) [of d Generic path]
  by (cases "new_device E' Generic path d")
    (simp add: isValidSEDDisk_def valid_line_def ssc_letters_def split: outcome.split)

lemma on_device_sim:
  assumes "I d"
  shows "on_device E argv s path (f d) = abs_run (on_device E' argv s path d)"
proof -
  obtain r t where r: "new_device E' Generic path d = (r, t)" by (cases "new_device E' Generic path d")
  have 1: "new_device E Generic path (f d) = (r, on_disk f t)" "I (disk t)"
    using new_device_sim [OF assms, of Generic path] r by simp_all
  have c: "class_of (on_disk f t) = class_of t" by (simp add: class_of_def)
  show ?thesis
  proof (cases "r = Ret () \<and> isPresent t \<and> isAnySSC t \<and> class_of t \<noteq> None")
    case True
    then obtain k where k: "class_of t = Some k" by blast
    obtain r2 w where r2: "new_device E' k path (disk t) = (r2, w)" by (cases "new_device E' k path (disk t)")
    have 2: "new_device E k path (f (disk t)) = (r2, on_disk f w)" "I (disk w)"
      using new_device_sim [OF 1(2), of k path] r2 by simp_all
    let ?w = "w\<lparr>no_hash_passwords := o_no_hash_passwords s, output_format := o_output_format s\<rparr>"
    have "I (disk ?w)" using 2(2) by simp
    from simulatesD(1) [OF sim_device_action this, of argv path s]
    have "run_op (device_action E argv path s) (on_disk f ?w) = abs_run (run_op (device_action E' argv path s) ?w)"
      by (simp add: run_op_def split_beta)
    then show ?thesis using True r 1 c k r2 2
      by (cases r2) (simp_all add: on_device_def on_disk_update)
  next
    case False
    then show ?thesis using r 1 c by (cases r) (auto simp: on_device_def)
  qed
qed

lemma sedutil_main_sim:
  assumes "I d"
  shows "sedutil_main E entries argv (f d) = abs_run (sedutil_main E' entries argv d)"
proof -
  have t: "TestPBKDF2 E = TestPBKDF2 E'"
    by (simp add: TestPBKDF2_def run_test_def test_lines_def DtaHashPassword_sim)
  show ?thesis
    unfolding sedutil_main_def diskScan_def
    by (simp add: t scan_disks_sim [OF assms] isValidSEDDisk_sim [OF assms] on_device_sim [OF assms] Let_def
        split: outcome.split sum.split)
qed

end

section \<open>Recording requests changes nothing\<close>

interpretation recording: simulation E "traced E" fst "\<lambda>_. True" for E :: "'d env"
  by unfold_locales (auto simp: traced_def apsnd_def map_prod_def split_beta)

text \<open>The environment that records every request behaves as the one it records: the exit code, what is
  printed and the disks are the same. What the other theorems say of recorded runs holds of all runs.\<close>

lemma recording_is_transparent:
  "sedutil_main E entries argv d = apsnd (apsnd fst) (sedutil_main (traced E) entries argv (d, tr))"
  using recording.sedutil_main_sim [where d = "(d, tr)" and E = E and entries = entries and argv = argv] by simp

end
