(* ===== verification/LinuxTarget.thy ===== *)
theory LinuxTarget
  imports LinuxDrives Correspondence
begin

text \<open>
  What the drive classes of Linux are for: a drive that takes trusted sends and receives is reached
  through the command blocks of SAT, SCSI and NVMe. \<open>target\<close> is such a drive, \<open>serve\<close> a kernel that decodes
  the blocks as those standards define them and hands them to it. The program over the drive classes
  behaves as the program over the drive itself.
\<close>

section \<open>The drive, and the environment it gives\<close>

text \<open>Opening it, its serial number, firmware revision and model, and its answer to a request.\<close>

record 't target =
  t_open :: "cstr \<Rightarrow> 't \<Rightarrow> bool \<times> 't"
  t_identity :: "'t \<Rightarrow> bytes \<times> bytes \<times> bytes"
  t_request :: "atacommand \<Rightarrow> u8 \<Rightarrow> u16 \<Rightarrow> bytes \<Rightarrow> 't \<Rightarrow> u8 \<times> bytes \<times> 't"

definition identified :: "dta_device_type \<Rightarrow> bytes \<times> bytes \<times> bytes \<Rightarrow> opal_disk_info \<Rightarrow> opal_disk_info" where
  "identified t = (\<lambda>(serial, firmware, model) di. di\<lparr>devType := t, serialNum := read_block serial 0 20,
     firmwareRev := read_block firmware 0 8, modelNum := read_block model 0 40\<rparr>)"

definition drive_type :: "drive_kind \<Rightarrow> dta_device_type" where
  "drive_type k = (case k of LinuxSata \<Rightarrow> DEVICE_TYPE_ATA | LinuxNvme \<Rightarrow> DEVICE_TYPE_NVME)"

definition request_target :: "'t target \<Rightarrow> atacommand \<Rightarrow> u8 \<Rightarrow> u16 \<Rightarrow> bytes \<Rightarrow> 't \<Rightarrow> u8 \<times> bytes \<times> 't" where
  "request_target T c p cid b d = (case t_request T c p cid b d of (rc, b', d') \<Rightarrow> (rc, block_of b b', d'))"

definition target_env :: "'t target \<Rightarrow> u64 \<Rightarrow> (cstr \<Rightarrow> bytes option) \<Rightarrow> 't env" where
  "target_env T addr files = \<lparr>
     drive_init = (\<lambda>k. t_open T),
     drive_identify = (\<lambda>k di d. (identified (drive_type k) (t_identity T d) di, d)),
     drive_sendCmd = (\<lambda>k. request_target T),
     pbkdf2 = derived_key, cmd_addr = addr, file_of = files\<rparr>"

section \<open>A kernel that serves it\<close>

text \<open>Identify data: the general configuration, and the strings with the bytes of their words swapped.\<close>

definition identify_data :: "bytes \<times> bytes \<times> bytes \<Rightarrow> bytes" where
  "identify_data = (\<lambda>(serial, firmware, model).
     [0x40, 0x00] @ replicate 18 0 @ swap_bytes (read_block serial 0 20) @ replicate 6 0 @
     swap_bytes (read_block firmware 0 8) @ swap_bytes (read_block model 0 40))"

definition identify_controller :: "bytes \<times> bytes \<times> bytes \<Rightarrow> bytes" where
  "identify_controller = (\<lambda>(serial, firmware, model).
     replicate 4 0 @ read_block serial 0 20 @ read_block model 0 40 @ read_block firmware 0 8)"

text \<open>Descriptor sense data for an aborted command carries the ATA error.\<close>

definition ata_sense :: "u8 \<Rightarrow> bytes" where
  "ata_sense rc = (if rc = 0 then [] else [0x72, 0x0b, 0, 0, 0, 0, 0, 14, 9, 12, 0, rc])"

text \<open>ATA PASS THROUGH (12): the command in byte 9, the protocol in 3, the ComID in 6 and 7, the sectors in 4.\<close>

definition decode_sat :: "bytes \<Rightarrow> atacommand \<times> u8 \<times> u16 \<times> nat" where
  "decode_sat cdb = (if peek cdb 9 = 0x5c then IF_RECV else IF_SEND, peek cdb 3, load16 cdb 6, 512 * unat (peek cdb 4))"

text \<open>SECURITY PROTOCOL IN and OUT with INC_512 set.\<close>

definition decode_sas :: "bytes \<Rightarrow> atacommand \<times> u8 \<times> u16 \<times> nat" where
  "decode_sas cdb = (if peek cdb 0 = 0xa2 then IF_RECV else IF_SEND, peek cdb 1, SWAP16 (load16 cdb 2),
     512 * unat (SWAP32 (load32 cdb 6)))"

definition decode_nvme :: "nvme_admin_cmd \<Rightarrow> atacommand \<times> u8 \<times> u16 \<times> nat" where
  "decode_nvme c = (if nv_opcode c = 0x82 then IF_RECV else IF_SEND, ucast (drop_bit 24 (cdw10 c)),
     ucast (drop_bit 8 (cdw10 c)), unat (cdw11 c))"

definition serve_sg :: "'t target \<Rightarrow> sg_io_hdr \<Rightarrow> 't \<Rightarrow> int \<times> sg_io_hdr \<times> 't" where
  "serve_sg T sg d =
     (if peek (cmdp sg) 0 = 0xa1 then
        if peek (cmdp sg) 9 = 0xec then (0, sg\<lparr>dxferp := identify_data (t_identity T d)\<rparr>, d)
        else (case decode_sat (cmdp sg) of (c, p, cid, n) \<Rightarrow>
          (case t_request T c p cid (read_block (dxferp sg) 0 n) d of (rc, b, d') \<Rightarrow>
             (0, sg\<lparr>dxferp := b, sbp := ata_sense rc\<rparr>, d')))
      else (case decode_sas (cmdp sg) of (c, p, cid, n) \<Rightarrow>
        (case t_request T c p cid (read_block (dxferp sg) 0 n) d of (rc, b, d') \<Rightarrow>
           (0, sg\<lparr>dxferp := b, masked_status := if rc = 0 then 0 else 1\<rparr>, d'))))"

definition serve_nvme :: "'t target \<Rightarrow> nvme_admin_cmd \<Rightarrow> 't \<Rightarrow> int \<times> nvme_admin_cmd \<times> 't" where
  "serve_nvme T c d =
     (if nv_opcode c = 0x06 then (0, c\<lparr>nv_addr := identify_controller (t_identity T d)\<rparr>, d)
      else (case decode_nvme c of (cm, p, cid, n) \<Rightarrow>
        (case t_request T cm p cid (read_block (nv_addr c) 0 n) d of (rc, b, d') \<Rightarrow>
           (uint rc, c\<lparr>nv_addr := b\<rparr>, d'))))"

definition serve :: "'t target \<Rightarrow> 't kernel" where
  "serve T = \<lparr>
     k_open = (\<lambda>p d. apfst (\<lambda>ok. if ok then 3 else - 1) (t_open T p d)),
     k_sg_io = (\<lambda>n sg d. serve_sg T sg d),
     k_nvme_admin = (\<lambda>n c d. serve_nvme T c d),
     k_errno = (\<lambda>d. 5), k_fresh = (\<lambda>d. [])\<rparr>"

section \<open>The command blocks carry the request\<close>

text \<open>What the drive classes support: whole sectors, as many as fit their fields.\<close>

definition sat_length :: "bytes \<Rightarrow> bool" where
  "sat_length b \<longleftrightarrow> length b mod 512 = 0 \<and> length b < 256 * 512"

lemma sectors:
  assumes "sat_length b"
  shows "(of_nat (length b) :: u32) div 512 = of_nat (length b div 512)"
    "512 * (length b div 512) = length b" "length b div 512 < 256" "unat (of_nat (length b) :: u32) = length b"
proof -
  have l: "length b mod 512 = 0" "length b < 256 * 512" using assms by (simp_all add: sat_length_def)
  show u: "unat (of_nat (length b) :: u32) = length b"
    using l(2) by (simp add: unat_of_nat take_bit_nat_eq_self)
  have "unat ((of_nat (length b) :: u32) div 512) = length b div 512" using u by (simp add: unat_div)
  then show "(of_nat (length b) :: u32) div 512 = of_nat (length b div 512)"
    by (metis of_nat_unat ucast_id)
  show "512 * (length b div 512) = length b" using l(1) by auto
  show "length b div 512 < 256" using l(2) by (simp add: less_mult_imp_div_less)
qed

lemma load16_bytes: "peek m i = ucast x \<Longrightarrow> peek m (i + 1) = ucast (drop_bit 8 x) \<Longrightarrow> load16 m i = x"
proof (rule bit_word_eqI)
  fix n assume p: "peek m i = ucast x" "peek m (i + 1) = ucast (drop_bit 8 x)" and "n < LENGTH(16)"
  then show "bit (load16 m i) n = bit x n"
    unfolding load16_def p by (cases n rule: byte_cases) (auto simp: bit_simps)
qed

lemma load16_swapped:
  "peek m i = ucast (drop_bit 8 x) \<Longrightarrow> peek m (i + 1) = ucast x \<Longrightarrow> SWAP16 (load16 m i) = x"
proof (rule bit_word_eqI)
  fix n assume p: "peek m i = ucast (drop_bit 8 x)" "peek m (i + 1) = ucast x" and "n < LENGTH(16)"
  then show "bit (SWAP16 (load16 m i)) n = bit x n"
    unfolding SWAP16_def byte_masks load16_def p by (cases n rule: byte_cases) (auto simp: bit_simps)
qed

lemma cid_bytes:
  "ucast (cid AND 0x00ff) = (ucast (cid :: u16) :: u8)"
  "ucast (drop_bit 8 (cid AND 0xff00)) = (ucast (drop_bit 8 cid) :: u8)"
  unfolding byte_masks by (rule bit_word_eqI; auto simp: bit_simps)+

lemma nvme_fields:
  "ucast (drop_bit 24 (push_bit 24 (ucast (p :: u8)) OR push_bit 8 (ucast (cid :: u16)) :: u32)) = p"
  "ucast (drop_bit 8 (push_bit 24 (ucast (p :: u8)) OR push_bit 8 (ucast (cid :: u16)) :: u32)) = cid"
  by (rule bit_word_eqI; auto simp: bit_simps dest: bit_imp_le_length)+

lemma command_blocks:
  assumes "cmd \<in> {IF_RECV, IF_SEND}" "sat_length b"
  shows "decode_sat (sat_cdb cmd protocol cid (of_nat (length b))) = (cmd, protocol, cid, length b) \<and>
    decode_sas (sas_cdb cmd protocol cid (of_nat (length b))) = (cmd, protocol, cid, length b) \<and>
    decode_nvme (nvme_cmd cmd protocol cid b) = (cmd, protocol, cid, length b)"
proof (intro conjI)
  note s = sectors [OF assms(2)]
  let ?n = "length b div 512"
  have u8: "unat (ucast (of_nat ?n :: u32) :: u8) = ?n"
    using s(3) by (simp add: unsigned_ucast_eq unat_of_nat take_bit_nat_eq_self)
  have u32: "unat (of_nat ?n :: u32) = ?n" using s(3) by (simp add: unat_of_nat take_bit_nat_eq_self)
  show "decode_sat (sat_cdb cmd protocol cid (of_nat (length b))) = (cmd, protocol, cid, length b)"
  proof -
    have "load16 (sat_cdb cmd protocol cid (of_nat (length b))) 6 = cid"
      by (rule load16_bytes) (simp_all add: sat_cdb_def peek_def cid_bytes)
    then show ?thesis using assms(1) s(2) u8
      by (auto simp: decode_sat_def sat_cdb_def peek_def s(1))
  qed
  show "decode_sas (sas_cdb cmd protocol cid (of_nat (length b))) = (cmd, protocol, cid, length b)"
  proof -
    have "SWAP16 (load16 (sas_cdb cmd protocol cid (of_nat (length b))) 2) = cid"
      by (rule load16_swapped) (simp_all add: sas_cdb_def peek_def)
    moreover have "SWAP32 (load32 (sas_cdb cmd protocol cid (of_nat (length b))) 6) = of_nat ?n"
      by (rule load32_be32) (simp add: sas_cdb_def peek_def s(1) nth_append)
    ultimately show ?thesis using assms(1) s(2) u32
      by (auto simp: decode_sas_def sas_cdb_def peek_def)
  qed
  show "decode_nvme (nvme_cmd cmd protocol cid b) = (cmd, protocol, cid, length b)"
    using assms(1) s(4) by (auto simp: decode_nvme_def nvme_cmd_def Let_def nvme_fields simp del: drop_bit_or)
qed



section \<open>One request\<close>

lemma read_block_all: "length b = n \<Longrightarrow> read_block b 0 n = b"
  by (simp add: read_block_def)

lemma sense_of_status: "sense_status (read_block (ata_sense rc) 0 32) = rc"
  by (simp add: sense_status_def ata_sense_def peek_read_block) (simp add: peek_def)

lemma sata_request:
  assumes "cmd \<in> {IF_RECV, IF_SEND}" "sat_length b" "\<not> isSAS s"
  shows "sendCmd_SATA (serve T) cmd protocol cid b s =
    apsnd (apsnd (\<lambda>d. s\<lparr>host := d\<rparr>)) (request_target T cmd protocol cid b (host s))"
proof -
  obtain rc b' d where r: "t_request T cmd protocol cid b (host s) = (rc, b', d)" by (metis prod.collapse)
  have c: "decode_sat (sat_cdb cmd protocol cid (of_nat (length b))) = (cmd, protocol, cid, length b)"
    using command_blocks [OF assms(1, 2)] by blast
  have p: "peek (sat_cdb cmd protocol cid n) 0 = 0xa1" "peek (sat_cdb cmd protocol cid n) 9 \<noteq> 0xec" for n
    using assms(1) by (auto simp: sat_cdb_def peek_def)
  show ?thesis
    using assms(3) r c p
    by (simp add: sendCmd_SATA_def sg_ioctl_def serve_def serve_sg_def sg_request_def request_target_def
        read_block_all sense_of_status Let_def)
qed

text \<open>The same for a SAS drive, whose status is only told from the success, and for NVMe, at every length of 32
  bits.\<close>

lemma sas_request_reaches_target:
  assumes "cmd \<in> {IF_RECV, IF_SEND}" "sat_length b" "isSAS s"
  shows "sendCmd_SATA (serve T) cmd protocol cid b s =
    map_prod (\<lambda>rc. if rc = 0 then 0 else 0xff) (apsnd (\<lambda>d. s\<lparr>host := d\<rparr>))
      (request_target T cmd protocol cid b (host s))"
proof -
  obtain rc b' d where r: "t_request T cmd protocol cid b (host s) = (rc, b', d)" by (metis prod.collapse)
  have c: "decode_sas (sas_cdb cmd protocol cid (of_nat (length b))) = (cmd, protocol, cid, length b)"
    using command_blocks [OF assms(1, 2)] by blast
  have p: "peek (sas_cdb cmd protocol cid n) 0 \<noteq> 0xa1" for n
    by (simp add: sas_cdb_def peek_def)
  show ?thesis
    using assms(1, 3) r c p
    by (auto simp: sendCmd_SATA_def sendCmd_SAS_def sg_ioctl_def serve_def serve_sg_def sg_request_def
        request_target_def read_block_all Let_def)
qed

lemma nvme_request_reaches_target:
  assumes "cmd \<in> {IF_RECV, IF_SEND}" "sat_length b"
  shows "sendCmd_NVMe (serve T) cmd protocol cid b s =
    apsnd (apsnd (\<lambda>d. s\<lparr>host := d\<rparr>)) (request_target T cmd protocol cid b (host s))"
proof -
  obtain rc b' d where r: "t_request T cmd protocol cid b (host s) = (rc, b', d)" by (metis prod.collapse)
  have c: "decode_nvme (nvme_cmd cmd protocol cid b) = (cmd, protocol, cid, length b)"
    using command_blocks [OF assms(1, 2)] by blast
  have p: "nv_opcode (nvme_cmd cmd protocol cid b) \<noteq> 0x06" "nv_addr (nvme_cmd cmd protocol cid b) = b"
    by (simp_all add: nvme_cmd_def Let_def)
  show ?thesis
    using r c p
    by (simp add: sendCmd_NVMe_def nvme_ioctl_def serve_def serve_nvme_def request_target_def read_block_all)
qed

section \<open>Identification\<close>

lemma length_swap_bytes [simp]: "length (swap_bytes b) = length b"
  by (induction b rule: swap_bytes.induct) simp_all

lemma swap_bytes_twice [simp]: "swap_bytes (swap_bytes b) = b"
  by (induction b rule: swap_bytes.induct) simp_all

lemma read_block_part: "i = length xs \<Longrightarrow> n = length ys \<Longrightarrow> read_block (xs @ ys @ zs) i n = ys"
  by (simp add: read_block_def)

lemma identify_data_parts:
  "ata_info (identify_data ident) di = identified DEVICE_TYPE_ATA ident di"
  "read_block (identify_data ident) 0 512 \<noteq> replicate 512 0"
proof -
  obtain a b c where ident: "ident = (a, b, c)" by (cases ident)
  let ?a = "swap_bytes (read_block a 0 20)" and ?b = "swap_bytes (read_block b 0 8)"
    and ?c = "swap_bytes (read_block c 0 40)"
  let ?d = "[0x40, 0x00] @ replicate 18 0 @ ?a @ replicate 6 0 @ ?b @ ?c"
  have d: "identify_data ident = ?d" by (simp add: identify_data_def ident)
  have 1: "read_block ?d 20 20 = ?a"
    using read_block_part [of 20 "[0x40, 0x00] @ replicate 18 0" 20 ?a "replicate 6 0 @ ?b @ ?c"] by simp
  have 2: "read_block ?d 46 8 = ?b"
    using read_block_part [of 46 "[0x40, 0x00] @ replicate 18 0 @ ?a @ replicate 6 0" 8 ?b ?c] by simp
  have 3: "read_block ?d 54 40 = ?c"
    using read_block_part [of 54 "[0x40, 0x00] @ replicate 18 0 @ ?a @ replicate 6 0 @ ?b" 40 ?c "[]"] by simp
  show "ata_info (identify_data ident) di = identified DEVICE_TYPE_ATA ident di"
    unfolding ata_info_def d 1 2 3 by (simp add: identified_def ident)
  have 0: "read_block (identify_data ident) 0 512 ! 0 = 0x40"
    by (simp add: nth_read_block d peek_def)
  show "read_block (identify_data ident) 0 512 \<noteq> replicate 512 0"
  proof
    assume "read_block (identify_data ident) 0 512 = replicate 512 0"
    with 0 have "(0x40 :: u8) = replicate 512 0 ! 0" by (simp only:)
    then show False by simp
  qed
qed

lemma identify_controller_parts:
  "di\<lparr>devType := DEVICE_TYPE_NVME, serialNum := read_block (identify_controller ident) 4 20,
     firmwareRev := read_block (identify_controller ident) 64 8,
     modelNum := read_block (identify_controller ident) 24 40\<rparr> = identified DEVICE_TYPE_NVME ident di"
proof -
  obtain a b c where ident: "ident = (a, b, c)" by (cases ident)
  let ?a = "read_block a 0 20" and ?b = "read_block b 0 8" and ?c = "read_block c 0 40"
  let ?d = "replicate 4 0 @ ?a @ ?c @ ?b"
  have d: "identify_controller ident = ?d" by (simp add: identify_controller_def ident)
  have "read_block ?d 4 20 = ?a" "read_block ?d 24 40 = ?c" "read_block ?d 64 8 = ?b"
    using read_block_part [of 4 "replicate 4 0" 20 ?a "?c @ ?b"]
      read_block_part [of 24 "replicate 4 0 @ ?a" 40 ?c ?b]
      read_block_part [of 64 "replicate 4 0 @ ?a @ ?c" 8 ?b "[]"] by simp_all
  then show ?thesis unfolding d by (simp add: identified_def ident)
qed

section \<open>The whole program\<close>

lemma proper_send_length: "proper_send cid b \<Longrightarrow> sat_length b"
  by (auto simp: proper_send_def sat_length_def Let_def)

interpretation linux: simulation "target_env T addr files" "linux_env (serve T) addr files" host "\<lambda>s. \<not> isSAS s"
  for T :: "'t target" and addr files
proof unfold_locales
  show "pbkdf2 (linux_env (serve T) addr files) = pbkdf2 (target_env T addr files)"
    "cmd_addr (linux_env (serve T) addr files) = cmd_addr (target_env T addr files)"
    "file_of (linux_env (serve T) addr files) = file_of (target_env T addr files)"
    by (simp_all add: linux_env_def target_env_def)
next
  fix d :: "'t linux_drive" and k path
  assume "\<not> isSAS d"
  then show "drive_init (target_env T addr files) k path (host d) =
      apsnd host (drive_init (linux_env (serve T) addr files) k path d) \<and>
    \<not> isSAS (snd (drive_init (linux_env (serve T) addr files) k path d))"
    by (cases k; cases "t_open T path (host d)")
      (auto simp: linux_env_def target_env_def serve_def DtaDevLinuxSata_init_def DtaDevLinuxNvme_init_def)
next
  fix d :: "'t linux_drive" and k di
  assume I: "\<not> isSAS d"
  show "drive_identify (target_env T addr files) k di (host d) =
      apsnd host (drive_identify (linux_env (serve T) addr files) k di d) \<and>
    \<not> isSAS (snd (drive_identify (linux_env (serve T) addr files) k di d))"
  proof (cases k)
    case LinuxSata
    have "peek identify_cdb 0 = 0xa1" "peek identify_cdb 9 = 0xec"
      by (simp_all add: identify_cdb_def peek_def)
    then show ?thesis using I LinuxSata
      by (simp add: linux_env_def target_env_def identify_SATA_def sg_ioctl_def serve_def serve_sg_def
          sg_request_def identify_data_parts drive_type_def)
  next
    case LinuxNvme
    then show ?thesis using I
      by (simp add: linux_env_def target_env_def identify_NVMe_def nvme_ioctl_def serve_def serve_nvme_def
          identify_controller_parts drive_type_def)
  qed
next
  fix d :: "'t linux_drive" and cid b k p
  assume "\<not> isSAS d" "proper_send cid b"
  then show "drive_sendCmd (target_env T addr files) k IF_SEND p cid b (host d) =
      apsnd (apsnd host) (drive_sendCmd (linux_env (serve T) addr files) k IF_SEND p cid b d) \<and>
    \<not> isSAS (snd (snd (drive_sendCmd (linux_env (serve T) addr files) k IF_SEND p cid b d)))"
    by (cases k) (simp_all add: linux_env_def target_env_def sata_request nvme_request_reaches_target
        proper_send_length apsnd_def map_prod_def split_beta)
next
  fix d :: "'t linux_drive" and cid k p and b :: bytes
  assume "\<not> isSAS d" "b = replicate MIN_BUFFER_LENGTH 0"
  moreover from this(2) have "sat_length b" by (simp add: sat_length_def)
  ultimately show "drive_sendCmd (target_env T addr files) k IF_RECV p cid b (host d) =
      apsnd (apsnd host) (drive_sendCmd (linux_env (serve T) addr files) k IF_RECV p cid b d) \<and>
    \<not> isSAS (snd (snd (drive_sendCmd (linux_env (serve T) addr files) k IF_RECV p cid b d)))"
    by (cases k) (simp_all add: linux_env_def target_env_def sata_request nvme_request_reaches_target
        apsnd_def map_prod_def split_beta)
qed


text \<open>A drive that keeps the last buffer it was sent and returns it.\<close>

definition echo :: "bytes target" where
  "echo = \<lparr>t_open = (\<lambda>p d. (p \<noteq> [], d)), t_identity = (\<lambda>d. (lit ''S1'', lit ''F1'', lit ''M1'')),
     t_request = (\<lambda>c p cid b d. if c = IF_SEND then (0, b, b) else (0, d, d))\<rparr>"


text \<open>C36. The status of an NVMe command is cut to a byte: a command the controller fails with a status whose low
  byte is zero, such as a command specific error 0x100, is reported as a success.\<close>

theorem nvme_status_is_truncated:
  assumes "k_nvme_admin K (fd s) (nvme_cmd cmd protocol cid b) (host s) = (status, c, h')"
    and "0 \<le> status" "status mod 256 = 0"
  shows "fst (sendCmd_NVMe K cmd protocol cid b s) = 0"
proof -
  have "(of_int status :: u8) = 0" using assms(3) by (simp add: word_of_int_eq_0_iff mod_0_imp_dvd)
  then show ?thesis using assms(1, 2) by (simp add: sendCmd_NVMe_def nvme_ioctl_def)
qed

theorem nvme_status_is_truncated_witness:
  "fst (sendCmd_NVMe \<lparr>k_open = (\<lambda>p d. (3, d)), k_sg_io = (\<lambda>n sg d. (- 1, sg, d)),
      k_nvme_admin = (\<lambda>n c d. (0x100, c, d)), k_errno = (\<lambda>d. 5), k_fresh = (\<lambda>d. [])\<rparr>
    IF_SEND 0x01 0x07fe (replicate 512 0) \<lparr>fd = 3, isSAS = False, host = ()\<rparr>) = 0"
  by (rule nvme_status_is_truncated [where status = "0x100" and h' = "()"
        and c = "nvme_cmd IF_SEND 0x01 0x07fe (replicate 512 0)"]) simp_all

end
