(* ===== verification/PreBootCorrect.thy ===== *)
theory PreBootCorrect
  imports PreBoot OpalRuns LinuxTarget
begin

text \<open>
  Properties of the pre-boot program: what a line that says a drive is unlocked means, what is sent to the
  drives, where the loop over them stops, and what the pass-phrase is.
\<close>

section \<open>One drive\<close>

text \<open>The commands that unlock a drive: MBRDone when the shadow MBR is enabled, then the global range.\<close>

definition unlock_bodies :: "'d env \<Rightarrow> cstr \<Rightarrow> ('d \<times> request list) dta_dev \<Rightarrow> bytes list" where
  "unlock_bodies E pw w =
     (if MBREnabled w then admin_sets E pw (set_body (uid_token OPAL_MBRCONTROL) [(MBRDONE, [OPAL_TRUE])]) w else []) @
     admin_sets E pw (set_body (LR_of 0) [(READLOCKED, [OPAL_FALSE]), (WRITELOCKED, [OPAL_FALSE])] @ special_trailer) w"

lemma setLockingRange_unlocks:
  assumes "unat (cmd_addr E) + 1024 < 2 ^ 64"
  shows "delivers (admin_sets E pw (set_body (LR_of 0) [(READLOCKED, [OPAL_FALSE]), (WRITELOCKED, [OPAL_FALSE])] @
    special_trailer)) (setLockingRange (traced E) 0 READWRITE pw)"
proof (rule deliversI [OF _ kept.cl_setLockingRange])
  fix w w' :: "('a \<times> request list) dta_dev"
  assume "\<not> isEprise w" "setLockingRange (traced E) 0 READWRITE pw w = (Ret 0, w')"
  from setLockingRange_achieves [OF this(2, 1) assms]
  show "achieves (admin_sets E pw (set_body (LR_of 0) [(READLOCKED, [OPAL_FALSE]), (WRITELOCKED, [OPAL_FALSE])] @
    special_trailer) w) w w'"
    by (auto simp: locking_state_def archive_cells_def admin_sets_def)
qed

lemma unlock_drive_Unlocked:
  "unlock_drive E pw w = (Ret Unlocked, w') \<longleftrightarrow> Locked w \<and>
     (if MBREnabled w then check (setMBRDone E 1 pw) (setLockingRange E 0 READWRITE pw)
      else setLockingRange E 0 READWRITE pw) w = (Ret 0, w')"
  by (cases "Locked w"; cases "MBREnabled w")
    (simp_all add: unlock_drive_def bind_op_Ret_iff get_op_def ret_def check_success, fastforce+)

text \<open>C22. A drive is reported as unlocked only when it was locked and it accepted, in this order and with these
  bytes: when its shadow MBR is enabled, a session of Admin1 opened with the hash of the pass-phrase and a Set
  of MBRDone; then such a session and a Set that clears ReadLocked and WriteLocked of the global range.\<close>

theorem unlocked_drive_accepted:
  assumes run: "unlock_drive (traced E) pw w = (Ret Unlocked, w')"
    and w: "\<not> isEprise w" "unat (cmd_addr E) + 1024 < 2 ^ 64"
  shows "Locked w \<and> achieves (unlock_bodies E pw w) w w'"
proof -
  let ?range = "admin_sets E pw (set_body (LR_of 0) [(READLOCKED, [OPAL_FALSE]), (WRITELOCKED, [OPAL_FALSE])] @ special_trailer)"
  let ?mbr = "admin_sets E pw (set_body (uid_token OPAL_MBRCONTROL) [(MBRDONE, [OPAL_TRUE])])"
  have 1: "delivers ?range (setLockingRange (traced E) 0 READWRITE pw)"
    by (rule setLockingRange_unlocks [OF w(2)])
  have "delivers ?mbr (setMBRDone (traced E) 1 pw)"
    using setMBRDone_delivers [OF w(2), of pw 1] by (simp add: flag_byte_def)
  from delivers_check [OF this 1 stable_admin]
  have 2: "delivers (\<lambda>w. ?mbr w @ ?range w) (check (setMBRDone (traced E) 1 pw) (setLockingRange (traced E) 0 READWRITE pw))" .
  show ?thesis
    using run deliversD [OF 1 _ w(1)] deliversD [OF 2 _ w(1)]
    by (auto simp: unlock_drive_Unlocked unlock_bodies_def split: if_splits)
qed

text \<open>A locked drive with its shadow MBR enabled, on a drive that accepts its commands.\<close>

definition locked_drive :: "(unit \<times> request list) dta_dev" where
  "locked_drive = (fresh Opal2)\<lparr>disk_info := (disk_info (fresh Opal2))
     \<lparr>Locking_locked := True, Locking_MBREnabled := True\<rparr>\<rparr>"

lemma locked_drive: "ready locked_drive" "\<not> isEprise locked_drive" "Locked locked_drive" "MBREnabled locked_drive"
  by (simp_all add: locked_drive_def fresh_def ready_def new_dev_def isEprise_def Locked_def MBREnabled_def zero_disk_info_def)

theorem unlocked_drive_accepted_witness:
  "\<exists>w'. unlock_drive (traced willing) [0x70] locked_drive = (Ret Unlocked, w') \<and>
     achieves (unlock_bodies willing [0x70] locked_drive) locked_drive w'"
proof -
  have "locking_state READWRITE \<noteq> None" by (simp add: locking_state_def)
  note r = yes_setLockingRange [OF willing(1) this]
  obtain w1 where 1: "setMBRDone (traced willing) 1 [0x70] locked_drive = (Ret 0, w1)" "ready w1"
    using returns_0D [OF yes_setMBRDone [OF willing(1)] locked_drive(1)] by blast
  obtain w2 where 2: "setLockingRange (traced willing) 0 READWRITE [0x70] w1 = (Ret 0, w2)"
    using returns_0D [OF r 1(2)] by blast
  have "unlock_drive (traced willing) [0x70] locked_drive = (Ret Unlocked, w2)"
    using 1(1) 2 locked_drive by (simp add: unlock_drive_Unlocked check_success)
  then show ?thesis using unlocked_drive_accepted [OF _ locked_drive(2) willing(2)] by blast
qed

section \<open>The loop over the drives\<close>

lemma logs_unlock: "steps (logs well_formed) (unlock_drive (traced E) pw)"
  unfolding unlock_drive_def
  by (intro logs_bind logs_pure logs_if logs_proper [OF wire.cl_setMBRDone] logs_proper [OF wire.cl_setLockingRange])

text \<open>The pass over one drive: either the loop goes on with more output and another disk, or the run ends.\<close>

lemma unlock_disks_logs:
  "\<exists>new. run_requests (unlock_disks (traced E) pw ns out (d, tr)) = tr @ new \<and> list_all well_formed new"
proof (induction ns arbitrary: out d tr)
  case Nil
  then show ?case by (simp add: run_requests_def)
next
  case (Cons n ns)
  let ?path = "take 22 (lit ''/dev/'' @ n)"
  obtain r t where nd: "new_device (traced E) Generic ?path (d, tr) = (r, t)"
    by (cases "new_device (traced E) Generic ?path (d, tr)")
  obtain d1 tr1 where t: "disk t = (d1, tr1)" by (cases "disk t")
  obtain n1 where n1: "tr1 = tr @ n1" "list_all well_formed n1"
    using new_device_logs [OF nd] t by (auto simp: requests_def)
  have IH: "\<exists>new. run_requests (unlock_disks (traced E) pw ns out' (d', tr')) = tr @ new \<and> list_all well_formed new"
    if "tr' = tr @ n'" "list_all well_formed n'" for out' d' tr' n'
    using Cons.IH [of out' d' tr'] that by fastforce
  consider "r \<noteq> Ret ()" | "r = Ret ()" "\<not> isPresent t" | "r = Ret ()" "isPresent t" "\<not> isOpal1 t \<and> \<not> isOpal2 t"
    | "r = Ret ()" "isPresent t" "isOpal1 t \<or> isOpal2 t" by blast
  then show ?case
  proof cases
    case 1
    then show ?thesis using nd t n1 by (cases r) (simp_all add: Let_def run_requests_def del: take_append)
  next
    case 2
    then show ?thesis using nd t n1 by (simp add: Let_def run_requests_def del: take_append)
  next
    case 3
    then show ?thesis using nd t IH [OF n1] by (simp add: Let_def del: take_append)
  next
    case 4
    let ?c = "if isOpal2 t then Opal2 else Opal1"
    obtain r2 w where nd2: "new_device (traced E) ?c ?path (d1, tr1) = (r2, w)"
      by (cases "new_device (traced E) ?c ?path (d1, tr1)")
    obtain n2 where n2: "requests w = tr @ n1 @ n2" "list_all well_formed (n1 @ n2)"
      using new_device_logs [OF nd2] n1 by auto
    let ?w = "w\<lparr>no_hash_passwords := False\<rparr>"
    obtain r3 w3 where u: "unlock_drive (traced E) pw ?w = (r3, w3)" by (cases "unlock_drive (traced E) pw ?w")
    obtain n3 where n3: "requests w3 = tr @ n1 @ n2 @ n3" "list_all well_formed n3"
      using stepsD [OF logs_unlock, of ?w E pw] n2(1) by (auto simp: u logs_def requests_def)
    obtain d3 tr3 where w3: "disk w3 = (d3, tr3)" by (cases "disk w3")
    have all: "list_all well_formed (n1 @ n2 @ n3)" using n2(2) n3(2) by simp
    have tr3: "tr3 = tr @ n1 @ n2 @ n3" using n3(1) w3 by (simp add: requests_def)
    show ?thesis
    proof (cases r2)
      case (Ret x)
      show ?thesis
        using nd t 4 nd2 u w3 Ret all IH [OF tr3 all] tr3
        by (cases r3; cases "isOpal2 t") (simp_all add: Let_def run_requests_def del: take_append)
    qed (use nd t 4 nd2 n2 in \<open>cases "isOpal2 t";
        simp add: Let_def run_requests_def requests_def del: take_append\<close>)+
  qed
qed

text \<open>Whatever keys are typed, whatever is in /dev and however the drives answer: every request the pre-boot
  program makes is a receive of 2048 bytes or a well-formed packet.\<close>

lemma pba_requests_well_formed:
  "list_all well_formed (run_requests (pba_result (pba_main (traced E) entries keys (d, []))))"
proof -
  have "list_all well_formed (run_requests (UnlockSEDs (traced E) entries p (d, [])))" for p
    unfolding UnlockSEDs_def using unlock_disks_logs [of E p _ _ d "[]"] by fastforce
  then have "list_all well_formed (snd (snd (snd (UnlockSEDs (traced E) entries p (d, [])))))" for p
    by (simp add: run_requests_def)
  note all = this
  show ?thesis
  proof (cases "GetPassPhrase ''Please enter pass-phrase to unlock OPAL drives: '' True keys")
    case (Ret p)
    obtain r out d' tr' where u: "UnlockSEDs (traced E) entries (c_str (fst p)) (d, []) = (r, out, d', tr')"
      by (metis surj_pair)
    then show ?thesis
      using Ret all [of "c_str (fst p)"] by (cases r; cases p) (simp_all add: pba_main_def run_requests_def Let_def)
  qed (simp_all add: pba_main_def run_requests_def)
qed

text \<open>C24. The loop ends at the first drive that cannot be opened: the drives behind it in the order of their
  names are not looked at, and the program still ends as if all was well.\<close>

theorem unopenable_drive_ends_unlocking:
  assumes "sort (filter is_disk_name entries) = ns1 @ n # ns2"
    and "sort (filter is_disk_name entries') = ns1 @ n # ns2'"
    and "\<And>d r t. new_device E Generic (take 22 (lit ''/dev/'' @ n)) d = (r, t) \<Longrightarrow> \<not> isPresent t"
  shows "UnlockSEDs E entries pw d = UnlockSEDs E entries' pw d"
proof -
  have "unlock_disks E pw (ns1 @ n # ns2) out d = unlock_disks E pw (ns1 @ n # ns2') out d" for out
  proof (induction ns1 arbitrary: out d)
    case Nil
    show ?case
      using assms(3) [of d] by (cases "new_device E Generic (take 22 (lit ''/dev/'' @ n)) d")
        (simp add: Let_def split: outcome.split del: take_append)
  qed (simp add: Let_def split: outcome.split prod.split del: take_append)
  then show ?thesis using assms(1, 2) by (simp add: UnlockSEDs_def)
qed

text \<open>A kernel on which nothing opens.\<close>

definition no_drives :: "unit kernel" where
  "no_drives = \<lparr>k_open = (\<lambda>p d. (- 1, d)), k_sg_io = (\<lambda>n sg d. (- 1, sg, d)),
     k_nvme_admin = (\<lambda>n c d. (- 1, c, d)), k_errno = (\<lambda>d. 2), k_fresh = (\<lambda>d. [])\<rparr>"

lemma nothing_opens: "new_device (linux_env no_drives addr files) Generic path d = (r, t) \<Longrightarrow> \<not> isPresent t"
  by (auto simp: new_device_def DtaDevGeneric_def DtaDevOS_init_def bind_op_def put_op_def linux_env_def no_drives_def
      DtaDevLinuxSata_init_def DtaDevLinuxNvme_init_def isPresent_def new_dev_def split: option.splits drive_kind.splits)

theorem unopenable_drive_ends_unlocking_witness:
  "UnlockSEDs (linux_env no_drives 0x1000 (\<lambda>p. None)) [lit ''sdb'', lit ''sda''] (lit ''pw'') \<lparr>fd = 0, isSAS = False, host = ()\<rparr> =
   UnlockSEDs (linux_env no_drives 0x1000 (\<lambda>p. None)) [lit ''null'', lit ''sda''] (lit ''pw'') \<lparr>fd = 0, isSAS = False, host = ()\<rparr>"
  by (rule unopenable_drive_ends_unlocking [where ?ns1.0 = "[]" and n = "lit ''sda''" and ?ns2.0 = "[lit ''sdb'']"
        and ns2' = "[]", OF _ _ nothing_opens])
    (simp_all add: lit_def is_disk_name_def in_class_def)

section \<open>On Linux drives\<close>

context simulation
begin

lemma unlock_disks_sim: "I d \<Longrightarrow> unlock_disks E pw ns out (f d) = abs_run (unlock_disks E' pw ns out d)"
proof (induction ns arbitrary: out d)
  case (Cons n ns)
  let ?path = "take 22 (lit ''/dev/'' @ n)"
  have u: "sim (unlock_drive E pw) (unlock_drive E' pw)"
    unfolding unlock_drive_def by (rule sim_rules sim_get | simp add: Locked_def MBREnabled_def)+
  have line: "unlock_line p (on_disk f v) x = unlock_line p v x" for p v x
    by (simp add: unlock_line_def)
  obtain r t where r: "new_device E' Generic ?path d = (r, t)" by (cases "new_device E' Generic ?path d")
  have 1: "new_device E Generic ?path (f d) = (r, on_disk f t)" "I (disk t)"
    using new_device_sim [OF Cons.prems, of Generic ?path] r by simp_all
  let ?c = "if isOpal2 t then Opal2 else Opal1"
  obtain r2 w where r2: "new_device E' ?c ?path (disk t) = (r2, w)" by (cases "new_device E' ?c ?path (disk t)")
  have 2: "new_device E ?c ?path (f (disk t)) = (r2, on_disk f w)" "I (disk w)"
    using new_device_sim [OF 1(2), of ?c ?path] r2 by simp_all
  let ?w = "w\<lparr>no_hash_passwords := False\<rparr>"
  obtain r3 w3 where r3: "unlock_drive E' pw ?w = (r3, w3)" by (cases "unlock_drive E' pw ?w")
  have "I (disk ?w)" using 2(2) by simp
  from simulatesD [OF u this] r3
  have 3: "unlock_drive E pw ((on_disk f w)\<lparr>no_hash_passwords := False\<rparr>) = (r3, on_disk f w3)" "I (disk w3)"
    by (simp_all add: on_disk_def)
  show ?case
    using r 1 r2 2 r3 3 Cons.IH [OF 1(2)] Cons.IH [OF 3(2)]
    by (cases r; cases r2; cases r3; cases "isOpal2 t") (simp_all add: Let_def line on_disk_update del: take_append)
qed simp

end

text \<open>The pre-boot program on Linux drives does what it does on the drives behind the kernel: unlocking over
  SATA and NVMe command blocks gives the same lines, the same results and the same drives.\<close>

lemma pba_refines_target:
  assumes "\<not> isSAS s"
  shows "UnlockSEDs (target_env T addr files) entries pw (host s) =
    apsnd (apsnd host) (UnlockSEDs (linux_env (serve T) addr files) entries pw s)"
  unfolding UnlockSEDs_def by (rule linux.unlock_disks_sim) (rule assms)

section \<open>The pass-phrase\<close>

lemma read_keys_return: "(\<exists>p. read_keys a keys pw out = Ret p) \<longleftrightarrow> RETURN \<in> set keys"
  by (induction a keys pw out rule: read_keys.induct) (auto simp: RETURN_def BACKSPACE_def)


text \<open>The key typed last, on the pass-phrase so far.\<close>

definition type_key :: "bytes \<Rightarrow> u8 \<Rightarrow> bytes" where
  "type_key p ch = (if ch = BACKSPACE then butlast p else if ch = 27 then p else p @ [ch])"

definition typed :: "bytes \<Rightarrow> bytes" where
  "typed keys = foldl type_key [] keys"

lemma read_keys_typed:
  "RETURN \<notin> set keys \<Longrightarrow>
   \<exists>printed. read_keys a (keys @ RETURN # rest) pw out = Ret (foldl type_key pw keys, printed)"
proof (induction keys arbitrary: pw out)
  case (Cons ch keys)
  then show ?case by (simp add: type_key_def butlast_conv_take BACKSPACE_def RETURN_def)
qed simp

lemma GetPassPhrase_typed:
  "RETURN \<notin> set keys \<Longrightarrow> \<exists>printed. GetPassPhrase prompt a (keys @ RETURN # rest) = Ret (typed keys, printed)"
  unfolding GetPassPhrase_def typed_def by (rule read_keys_typed)

lemma type_plain: "BACKSPACE \<notin> set keys \<Longrightarrow> 27 \<notin> set keys \<Longrightarrow> foldl type_key pw keys = pw @ keys"
  by (induction keys arbitrary: pw) (auto simp: type_key_def)

lemma type_back: "BACKSPACE \<notin> set keys \<Longrightarrow> 27 \<notin> set keys \<Longrightarrow>
    foldl type_key pw (keys @ replicate (length keys) BACKSPACE) = pw"
proof (induction keys rule: rev_induct)
  case (snoc c keys)
  have "foldl type_key pw (keys @ [c]) = (pw @ keys) @ [c]" using snoc.prems by (subst type_plain) auto
  moreover have "type_key ((pw @ keys) @ [c]) BACKSPACE = pw @ keys"
    by (simp add: type_key_def butlast_append)
  moreover have "foldl type_key pw keys = pw @ keys" using snoc.prems by (subst type_plain) auto
  ultimately show ?case using snoc by simp
qed simp

text \<open>The pass-phrase is the text that was typed: text without control keys is read as itself; text that is
  taken back with as many backspaces as it has keys leaves no trace, wherever it was typed and whatever follows;
  neither does an escape.\<close>

lemma passphrase_is_typed_text:
  assumes "RETURN \<notin> set before" "RETURN \<notin> set txt" "RETURN \<notin> set after"
    and plain: "BACKSPACE \<notin> set txt" "27 \<notin> set txt"
  shows "(\<exists>q. GetPassPhrase prompt a (txt @ RETURN # rest) = Ret (txt, q)) \<and>
    (\<exists>p q q' q''. GetPassPhrase prompt a ((before @ after) @ RETURN # rest) = Ret (p, q) \<and>
      GetPassPhrase prompt a ((before @ txt @ replicate (length txt) BACKSPACE @ after) @ RETURN # rest) = Ret (p, q') \<and>
      GetPassPhrase prompt a ((before @ 27 # after) @ RETURN # rest) = Ret (p, q''))"
proof
  have t: "typed txt = txt" using type_plain [OF plain, of "[]"] by (simp add: typed_def)
  show "\<exists>q. GetPassPhrase prompt a (txt @ RETURN # rest) = Ret (txt, q)"
    using GetPassPhrase_typed [OF assms(2), of prompt a rest] unfolding t .
  have undone: "typed (before @ txt @ replicate (length txt) BACKSPACE @ after) = typed (before @ after)"
    using type_back [OF plain, of "foldl type_key [] before"] by (simp add: typed_def)
  have esc: "typed (before @ 27 # after) = typed (before @ after)"
    by (simp add: typed_def type_key_def BACKSPACE_def)
  have no: "RETURN \<notin> set (before @ after)" "RETURN \<notin> set (before @ 27 # after)"
    "RETURN \<notin> set (before @ txt @ replicate (length txt) BACKSPACE @ after)"
    using assms by (auto simp: RETURN_def BACKSPACE_def)
  show "\<exists>p q q' q''. GetPassPhrase prompt a ((before @ after) @ RETURN # rest) = Ret (p, q) \<and>
      GetPassPhrase prompt a ((before @ txt @ replicate (length txt) BACKSPACE @ after) @ RETURN # rest) = Ret (p, q') \<and>
      GetPassPhrase prompt a ((before @ 27 # after) @ RETURN # rest) = Ret (p, q'')"
    using GetPassPhrase_typed [OF no(1), of prompt a rest] GetPassPhrase_typed [OF no(2), of prompt a rest]
      GetPassPhrase_typed [OF no(3), of prompt a rest] unfolding undone esc by blast
qed

end
