(* ===== verification/Dumps.thy ===== *)
theory Dumps
  imports Listing
begin

text \<open>
  The dumps of the debug output: Common/DtaHexDump.cpp, and Common/DtaAnnotatedDump.cpp, a second reader of
  the tokens beside DtaResponse. What is written to stderr is the result. A pointer into the buffer is a
  position in it; reading at or behind \<open>cap\<close> is undefined.
\<close>

section \<open>Formats\<close>

definition toupper :: "char \<Rightarrow> char" where
  "toupper c = (if 0x61 \<le> (of_char c :: nat) \<and> (of_char c :: nat) \<le> 0x7a then char_of (of_char c - 0x20 :: nat) else c)"

definition zeros_to :: "nat \<Rightarrow> string \<Rightarrow> string" where
  "zeros_to w s = replicate (w - length s) (CHR ''0'') @ s"

definition format_X :: "nat \<Rightarrow> nat \<Rightarrow> string" where
  "format_X w n = zeros_to w (map toupper (hexadecimal n))"

definition format_x :: "nat \<Rightarrow> nat \<Rightarrow> string" where
  "format_x w n = zeros_to w (hexadecimal n)"

text \<open>\<^verbatim>\<open>isprint\<close> in the C locale, and the character shown for a byte.\<close>

definition isprint :: "u8 \<Rightarrow> bool" where
  "isprint b \<longleftrightarrow> 0x20 \<le> b \<and> b \<le> 0x7e"

definition shown :: "u8 \<Rightarrow> char" where
  "shown b = char_of (unat (if isprint b then b else 0x2e))"

section \<open>DtaHexDump\<close>

text \<open>The number of bytes read, the characters of the row so far, the bytes left.\<close>

fun hex_rows :: "nat \<Rightarrow> string \<Rightarrow> bytes \<Rightarrow> string" where
  "hex_rows rpos display [] =
     (let dpos = length display in
      if dpos \<noteq> 0
      then (if dpos mod 4 \<noteq> 0 then '' '' else []) @ ''  '' @
        concat (map (\<lambda>i. (if i mod 4 = 0 then '' '' else []) @ ''  '') [dpos ..< 15]) @ '' '' @ display @ endl
      else [])"
| "hex_rows rpos display (b # bs) =
     (let rpos' = rpos + 1; display' = display @ [shown b] in
      format_x 2 (unat b) @ (if rpos' mod 4 = 0 then '' '' else []) @
      (if length display' = 16
       then '' '' @ display' @ '' '' @ endl @ (if bs \<noteq> [] then format_x 4 rpos' @ '' '' else []) @ hex_rows rpos' [] bs
       else hex_rows rpos' display' bs))"

definition DtaHexDump :: "bytes \<Rightarrow> string" where
  "DtaHexDump b = format_x 4 0 @ '' '' @ hex_rows 0 [] b"

section \<open>DtaToken\<close>

datatype token_type = TINY_ATOM | SHORT_ATOM | MEDIUM_ATOM | LONG_ATOM | TOKEN

record dta_token =
  m_TokenType :: token_type
  m_HeaderLength :: nat
  m_DataLength :: nat
  m_TokenLength :: nat
  m_token :: nat
  m_data :: "nat option"
  m_value :: u64
  m_sign :: bool

text \<open>Reading several bytes inside the memory of the buffer.\<close>

definition bytes_at :: "nat \<Rightarrow> bytes \<Rightarrow> nat \<Rightarrow> nat \<Rightarrow> bytes outcome" where
  "bytes_at cap m i n = (if n = 0 \<or> i + n \<le> cap then Ret (read_block m i n) else Undef)"

text \<open>The data pointer and the value: a byte string stays in the buffer, up to eight bytes are a number in
  network order, sign extended by two shifts.\<close>

definition str2int :: "nat \<Rightarrow> bytes \<Rightarrow> nat \<Rightarrow> bool \<Rightarrow> bool \<Rightarrow> nat \<Rightarrow> (nat option \<times> u64) outcome" where
  "str2int cap m buf is_byte sign len =
     (if is_byte \<or> len > 8 then Ret (Some buf, 0)
      else if len = 0 then Ret (None, 0)
      else obind (bytes_at cap m buf len) (\<lambda>n.
        let V = word_rcat (replicate (8 - len) 0 @ n) :: u64; shift = 8 * (8 - len)
        in Ret (None, if sign \<and> len < 8 then signed_drop_bit shift (push_bit shift V) else V)))"

definition atom_token :: "nat \<Rightarrow> bytes \<Rightarrow> nat \<Rightarrow> token_type \<Rightarrow> nat \<Rightarrow> nat \<Rightarrow> bool \<Rightarrow> bool \<Rightarrow> dta_token outcome" where
  "atom_token cap m buf t hsize len sign is_byte =
     obind (str2int cap m (buf + hsize) is_byte sign len) (\<lambda>(d, v).
       Ret \<lparr>m_TokenType = t, m_HeaderLength = hsize, m_DataLength = len, m_TokenLength = hsize + len,
         m_token = buf, m_data = d, m_value = v, m_sign = sign\<rparr>)"

text \<open>The indicator bits choose the kind of atom; the bit fields are taken from the low bit up.\<close>

definition parse :: "nat \<Rightarrow> bytes \<Rightarrow> nat \<Rightarrow> dta_token outcome" where
  "parse cap m buf = obind (rd cap m buf) (\<lambda>b0.
     if drop_bit 7 b0 = 0
     then Ret \<lparr>m_TokenType = TINY_ATOM, m_HeaderLength = 1, m_DataLength = 0, m_TokenLength = 1, m_token = buf,
        m_data = None, m_value = (if bit b0 6 then signed_take_bit 5 (ucast b0) else ucast (take_bit 6 b0)),
        m_sign = bit b0 6\<rparr>
     else if drop_bit 6 b0 = 2
     then atom_token cap m buf SHORT_ATOM 1 (unat (take_bit 4 b0)) (bit b0 4) (bit b0 5)
     else if drop_bit 5 b0 = 6
     then obind (rd cap m (buf + 1)) (\<lambda>b1.
       atom_token cap m buf MEDIUM_ATOM 2 (unat (take_bit 3 b0) * 256 + unat b1) (bit b0 3) (bit b0 4))
     else if drop_bit 4 b0 = 14
     then obind (rd cap m (buf + 1)) (\<lambda>b1. obind (rd cap m (buf + 2)) (\<lambda>b2.
       obind (rd cap m (buf + 3)) (\<lambda>b3.
         atom_token cap m buf LONG_ATOM 4 (unat b1 * 65536 + unat b2 * 256 + unat b3) (bit b0 0) (bit b0 1))))
     else Ret \<lparr>m_TokenType = TOKEN, m_HeaderLength = 1, m_DataLength = 0, m_TokenLength = 1, m_token = buf,
        m_data = None, m_value = ucast b0, m_sign = False\<rparr>)"

definition printTokenType :: "u8 \<Rightarrow> string" where
  "printTokenType token =
     (if token = STARTLIST then ''Start_List'' else if token = ENDLIST then ''End_List''
      else if token = STARTNAME then ''Start_Name'' else if token = ENDNAME then ''End_Name''
      else if token = CALL then ''Call'' else if token = ENDOFDATA then ''End_of_Data''
      else if token = ENDOFSESSION then ''End_of_Session'' else if token = STARTTRANSACTON then ''Start_Transaction''
      else if token = ENDTRANSACTON then ''End_Transaction'' else if token = EMPTYATOM then ''Empty_Atom''
      else ''unrecognized token'')"

definition uid_names :: "(bytes \<times> string) list" where
  "uid_names =
     [([0x00, 0x00, 0x00, 0x00, 0x00, 0x00, 0x00, 0x01], ''ThisSP''),
      ([0x00, 0x00, 0x00, 0x00, 0x00, 0x00, 0x00, 0xFF], ''Session Manager UID''),
      ([0x00, 0x00, 0x00, 0x00, 0x00, 0x00, 0xFF, 0x01], ''Session Properties Method UID''),
      ([0x00, 0x00, 0x00, 0x00, 0x00, 0x00, 0xFF, 0x02], ''StartSessionMethod''),
      ([0x00, 0x00, 0x00, 0x00, 0x00, 0x00, 0xFF, 0x03], ''SyncSession Method UID''),
      ([0x00, 0x00, 0x00, 0x06, 0x00, 0x00, 0x00, 0x06], ''Enterprise Get''),
      ([0x00, 0x00, 0x00, 0x06, 0x00, 0x00, 0x00, 0x07], ''Enterprise Set''),
      ([0x00, 0x00, 0x00, 0x06, 0x00, 0x00, 0x00, 0x0C], ''Enterprise Authenticate''),
      ([0x00, 0x00, 0x00, 0x06, 0x00, 0x00, 0x00, 0x10], ''GenKey''),
      ([0x00, 0x00, 0x00, 0x06, 0x00, 0x00, 0x00, 0x11], ''RevertSP''),
      ([0x00, 0x00, 0x00, 0x06, 0x00, 0x00, 0x02, 0x02], ''Revert''),
      ([0x00, 0x00, 0x00, 0x06, 0x00, 0x00, 0x08, 0x03], ''Erase''),
      ([0x00, 0x00, 0x00, 0x09, 0x00, 0x00, 0x00, 0x01], ''Anybody''),
      ([0x00, 0x00, 0x00, 0x09, 0x00, 0x00, 0x00, 0x06], ''SID''),
      ([0x00, 0x00, 0x00, 0x09, 0x00, 0x00, 0x84, 0x01], ''EraseMaster''),
      ([0x00, 0x00, 0x00, 0x0B, 0x00, 0x00, 0x00, 0x01], ''C_PIN''),
      ([0x00, 0x00, 0x02, 0x05, 0x00, 0x00, 0x00, 0x01], ''SP Admin''),
      ([0x00, 0x00, 0x02, 0x05, 0x00, 0x01, 0x00, 0x01], ''SP''),
      ([0x00, 0x00, 0x08, 0x01, 0x00, 0x00, 0x00, 0x00], ''Enterprise Locking Info'')]"

text \<open>The number of the band is the OR of two bytes, less one.\<close>

definition printUID :: "bytes \<Rightarrow> string" where
  "printUID buf =
     (case map_of uid_names buf of
        Some name \<Rightarrow> name
      | None \<Rightarrow>
          (let band = ucast ((peek buf 6 AND 0x7F) OR peek buf 7) - 1 :: u32;
               buf2 = buf[6 := peek buf 6 AND 0x80, 7 := 0x00]
           in if band = - 1 then []
              else if buf2 = [0x00, 0x00, 0x00, 0x09, 0x00, 0x00, 0x80, 0x00] then ''BandMaster'' @ decimal (unat band)
              else if buf2 = [0x00, 0x00, 0x08, 0x02, 0x00, 0x00, 0x00, 0x00]
              then ''Locking Range '' @ decimal (unat band)
              else if buf2 = [0x00, 0x00, 0x08, 0x06, 0x00, 0x00, 0x00, 0x00]
              then ''Band'' @ decimal (unat band) @ ''_AES_256''
              else []))"

definition printAscii :: "bytes \<Rightarrow> string" where
  "printAscii data =
     (let uid = (if length data = 8 then printUID data else [])
      in '' ('' @ [CHR 0x22] @ uid @ (if uid \<noteq> [] then [] else map shown data) @ [CHR 0x22] @ '')'')"

definition hex_bytes_text :: "bytes \<Rightarrow> string" where
  "hex_bytes_text b = concat (map (\<lambda>x. '' '' @ format_X 2 (unat x)) b)"

text \<open>A token with the number of bytes left in the packet from its start.\<close>

definition print :: "nat \<Rightarrow> bytes \<Rightarrow> dta_token \<Rightarrow> nat \<Rightarrow> string outcome" where
  "print cap m t buflen =
     (let len = min (m_HeaderLength t) buflen; dlen = min (m_DataLength t) (buflen - len) in
      obind (bytes_at cap m (m_token t) len) (\<lambda>hbytes.
        let start = decimal (m_TokenLength t) @ [CHR 0x09] @ ''('' @ hex_bytes_text hbytes @ '' )'' in
        if m_TokenType t = TOKEN
        then obind (rd cap m (m_token t)) (\<lambda>b. Ret (start @ '' '' @ printTokenType b @ endl))
        else case m_data t of
          Some p \<Rightarrow> obind (bytes_at cap m p dlen) (\<lambda>data. Ret (start @ hex_bytes_text data @ printAscii data @ endl))
        | None \<Rightarrow> Ret (start @ '' '' @ decimal (unat (m_value t)) @ '' ('' @ format_X 1 (unat (m_value t)) @ ''h)'' @ endl)))"

section \<open>DtaAnnotatedDump\<close>

lemma parse_length: "parse cap m p = Ret t \<Longrightarrow> 0 < m_TokenLength t"
  by (auto simp: parse_def atom_token_def obind_eq_Ret split: if_splits)

function dump_loop :: "nat \<Rightarrow> bytes \<Rightarrow> nat \<Rightarrow> nat \<Rightarrow> string outcome" where
  "dump_loop cap m p q =
     (if p < q
      then (case parse cap m p of
          Ret token \<Rightarrow>
            obind (print cap m token (q - p)) (\<lambda>line.
            obind (dump_loop cap m (p + m_TokenLength token) q) (\<lambda>rest.
              Ret (line @ (if p + m_TokenLength token > q then ''(token truncated)'' else []) @ rest)))
        | ExitFail \<Rightarrow> ExitFail | Undef \<Rightarrow> Undef | Diverge \<Rightarrow> Diverge)
      else Ret [])"
  by pat_completeness auto
termination by (relation "measure (\<lambda>(cap, m, p, q). q - p)") (auto dest: parse_length)

declare dump_loop.simps [simp del]

definition header_lines :: "bytes \<Rightarrow> string" where
  "header_lines hdr =
     (let field = (\<lambda>name n. name @ format_X 8 n @ endl) in
      ''ComPacket.extendedComID    '' @ concat (map (\<lambda>x. format_X 2 (unat x)) (take 4 (drop off_extendedComID hdr))) @ endl @
      field ''ComPacket.outstandingData  '' (unat (SWAP32 (load32 hdr off_outstandingData))) @
      field ''ComPacket.minTransfer      '' (unat (SWAP32 (load32 hdr off_minTransfer))) @
      field ''ComPacket.length           '' (unat (SWAP32 (load32 hdr off_cp_length))) @
      field ''Packet.TSN                 '' (unat (SWAP32 (load32 hdr off_TSN))) @
      field ''Packet.HSN                 '' (unat (SWAP32 (load32 hdr off_HSN))) @
      field ''Packet.seqNumber           '' (unat (SWAP32 (load32 hdr 28))) @
      field ''Packet.ackType             '' (unat (SWAP16 (load16 hdr 34))) @
      field ''Packet.acknowledgement     '' (unat (SWAP32 (load32 hdr 36))) @
      field ''Packet.length              '' (unat (SWAP32 (load32 hdr off_pkt_length))) @
      field ''DataSubPacket.kind         '' (unat (SWAP16 (load16 hdr 50))) @
      field ''DataSubPacket.length       '' (unat (SWAP32 (load32 hdr off_subpkt_length))))"

definition command_line :: "atacommand \<Rightarrow> string" where
  "command_line cmd = (case cmd of IF_RECV \<Rightarrow> ''<< IF_RECV >>'' @ endl | IF_SEND \<Rightarrow> ''<< IF_SEND >>'' @ endl
     | IDENTIFY \<Rightarrow> ''<< 0xEC'' @ endl @ '' >>'' @ endl)"

text \<open>The code returned and the text; \<open>level_D1\<close>: the log level is at least D1. Of the length of the data only
  the part that exceeds the whole buffer is refused, the header is not counted.\<close>

definition DtaAnnotatedDump :: "bool \<Rightarrow> atacommand \<Rightarrow> nat \<Rightarrow> bytes \<Rightarrow> u32 \<Rightarrow> (u8 \<times> string) outcome" where
  "DtaAnnotatedDump level_D1 cmd cap buffer bufferlen =
     obind (bytes_at cap buffer 0 sizeof_OPALHeader) (\<lambda>hdr.
     let start = command_line cmd @ (if level_D1 then header_lines hdr else []);
         buflen = SWAP32 (load32 hdr off_subpkt_length)
     in if buflen > bufferlen
        then Ret (0xff, start @ ''Overflow: h.subpkt.length = '' @ decimal (unat buflen) @ '', bufferlen = '' @
          decimal (unat bufferlen) @ endl)
        else obind (dump_loop cap buffer sizeof_OPALHeader (sizeof_OPALHeader + unat buflen)) (\<lambda>lines.
          Ret (0, start @ lines)))"

end
