(* ===== verification/DumpsCorrect.thy ===== *)
theory DumpsCorrect
  imports Dumps Codec
begin

text \<open>
  The annotated dump reads the same tokens as the response parser, and shows the numbers the encoder wrote.
\<close>

section \<open>The two readers cut the same tokens\<close>

lemma indicator_bits:
  fixes b :: u8
  shows "b AND 0x80 = 0 \<longleftrightarrow> drop_bit 7 b = 0"
    "b AND 0x80 \<noteq> 0 \<Longrightarrow> b AND 0x40 = 0 \<longleftrightarrow> drop_bit 6 b = 2"
    "b AND 0x80 \<noteq> 0 \<Longrightarrow> b AND 0x40 \<noteq> 0 \<Longrightarrow> b AND 0x20 = 0 \<longleftrightarrow> drop_bit 5 b = 6"
    "b AND 0x80 \<noteq> 0 \<Longrightarrow> b AND 0x40 \<noteq> 0 \<Longrightarrow> b AND 0x20 \<noteq> 0 \<Longrightarrow> b AND 0x10 = 0 \<longleftrightarrow> drop_bit 4 b = 14"
proof -
  define n where "n = unat b"
  have n: "n < 256" using unsigned_less [of b, where 'a = nat] by (simp add: n_def)
  have bit: "b AND 2 ^ k = 0 \<longleftrightarrow> even (n div 2 ^ k)" for k
  proof -
    have "bit b k \<longleftrightarrow> bit n k" by (simp add: n_def bit_unsigned_iff)
    then show ?thesis by (simp add: and_exp_eq_0_iff_not_bit bit_iff_odd [of n])
  qed
  have drop: "drop_bit k b = of_nat v \<longleftrightarrow> n div 2 ^ k = v" if "v < 256" for k v
  proof -
    have "unat (drop_bit k b) = n div 2 ^ k" unfolding unat_drop_bit_eq n_def by (rule drop_bit_eq_div)
    then show ?thesis using that by (simp add: word_unat_eq_iff unsigned_of_nat take_bit_nat_eq_self del: drop_bit_eq_div)
  qed
  define q where "q = n div 16"
  have q: "n div 128 = q div 8" "n div 64 = q div 4" "n div 32 = q div 2" "q < 16"
    using n by (simp_all add: q_def div_mult2_eq [of n 16, symmetric])
  note b = bit [of 7, simplified] bit [of 6, simplified] bit [of 5, simplified] bit [of 4, simplified]
  note d = drop [of 0 7, simplified] drop [of 2 6, simplified] drop [of 6 5, simplified] drop [of 14 4, simplified]
  have "\<forall>q \<in> set [0 ..< 16 :: nat]. (even (q div 8) \<longleftrightarrow> q div 8 = 0) \<and>
    (odd (q div 8) \<longrightarrow> even (q div 4) \<longleftrightarrow> q div 4 = 2) \<and>
    (odd (q div 8) \<longrightarrow> odd (q div 4) \<longrightarrow> even (q div 2) \<longleftrightarrow> q div 2 = 6) \<and>
    (odd (q div 8) \<longrightarrow> odd (q div 4) \<longrightarrow> odd (q div 2) \<longrightarrow> even q \<longleftrightarrow> q = 14)"
    by code_simp
  moreover have "q \<in> set [0 ..< 16]" using q(4) by simp
  ultimately have all: "even (q div 8) \<longleftrightarrow> q div 8 = 0" "odd (q div 8) \<Longrightarrow> even (q div 4) \<longleftrightarrow> q div 4 = 2"
    "odd (q div 8) \<Longrightarrow> odd (q div 4) \<Longrightarrow> even (q div 2) \<longleftrightarrow> q div 2 = 6"
    "odd (q div 8) \<Longrightarrow> odd (q div 4) \<Longrightarrow> odd (q div 2) \<Longrightarrow> even q \<longleftrightarrow> q = 14"
    by blast+
  note r = b d q(1-3) q_def [symmetric]
  show "b AND 0x80 = 0 \<longleftrightarrow> drop_bit 7 b = 0" unfolding r by (rule all)
  show "b AND 0x80 \<noteq> 0 \<Longrightarrow> b AND 0x40 = 0 \<longleftrightarrow> drop_bit 6 b = 2" unfolding r by (rule all)
  show "b AND 0x80 \<noteq> 0 \<Longrightarrow> b AND 0x40 \<noteq> 0 \<Longrightarrow> b AND 0x20 = 0 \<longleftrightarrow> drop_bit 5 b = 6" unfolding r by (rule all)
  show "b AND 0x80 \<noteq> 0 \<Longrightarrow> b AND 0x40 \<noteq> 0 \<Longrightarrow> b AND 0x20 \<noteq> 0 \<Longrightarrow> b AND 0x10 = 0 \<longleftrightarrow> drop_bit 4 b = 14"
    unfolding r by (rule all)
qed

lemma low_bits: "b AND 0x0f = take_bit 4 b" "b AND 0x07 = take_bit 3 b" for b :: u8
  by (simp_all add: take_bit_eq_mask mask_eq_exp_minus_1)

lemma str2int_defined: "buf + len \<le> cap \<Longrightarrow> \<exists>r. str2int cap m buf byte sign len = Ret r"
  by (simp add: str2int_def bytes_at_def Let_def)

lemma str2int_pointer: "str2int cap m buf byte sign len = Ret (d, v) \<Longrightarrow> d = None \<or> d = Some buf"
  by (auto simp: str2int_def Let_def obind_eq_Ret split: if_splits)

text \<open>On a whole token alone the second reader succeeds, with the length of the token.\<close>

lemma atom_token_alone: "hsize + len = length t \<Longrightarrow>
    \<exists>tok. atom_token (length t) t 0 k hsize len sign byte = Ret tok \<and> m_token tok = 0 \<and>
      m_HeaderLength tok + m_DataLength tok = length t \<and> m_TokenLength tok = length t \<and> m_TokenType tok = k \<and>
      m_HeaderLength tok = hsize \<and> (\<forall>p. m_data tok = Some p \<longrightarrow> p = hsize)"
  using str2int_defined [of hsize len "length t" t byte sign] str2int_pointer [of "length t" t hsize byte sign len]
  by (force simp: atom_token_def)

lemma parse_alone:
  assumes wf: "wf_token t"
  shows "\<exists>tok. parse (length t) t 0 = Ret tok \<and> m_token tok = 0 \<and>
    m_HeaderLength tok + m_DataLength tok = length t \<and> m_TokenLength tok = length t \<and>
    (\<forall>p. m_data tok = Some p \<longrightarrow> p = m_HeaderLength tok)"
proof -
  have len: "token_length (length t) t 0 = Ret (length t)" and ne: "t \<noteq> []" using wf by (simp_all add: wf_token_def)
  define b where "b = peek t 0"
  have b: "rd (length t) t 0 = Ret b" using ne by (simp add: rd_def b_def)
  note A = atom_token_alone
  consider (tiny) "b AND 0x80 = 0" | (short) "b AND 0x80 \<noteq> 0" "b AND 0x40 = 0"
    | (medium) "b AND 0x80 \<noteq> 0" "b AND 0x40 \<noteq> 0" "b AND 0x20 = 0"
    | (long) "b AND 0x80 \<noteq> 0" "b AND 0x40 \<noteq> 0" "b AND 0x20 \<noteq> 0" "b AND 0x10 = 0"
    | (control) "b AND 0x80 \<noteq> 0" "b AND 0x40 \<noteq> 0" "b AND 0x20 \<noteq> 0" "b AND 0x10 \<noteq> 0" by blast
  then show ?thesis
  proof cases
    case tiny
    then show ?thesis
      using len by (simp add: parse_def b token_length_def indicator_bits(1))
  next
    case short
    have p: "parse (length t) t 0 = atom_token (length t) t 0 SHORT_ATOM 1 (unat (take_bit 4 b)) (bit b 4) (bit b 5)"
      using short indicator_bits [of b] by (simp add: parse_def b)
    have "1 + unat (take_bit 4 b) = length t" using len short by (simp add: token_length_def b low_bits)
    from A [OF this] show ?thesis unfolding p by fastforce
  next
    case medium
    then obtain b1 where b1: "rd (length t) t 1 = Ret b1"
      and l: "2 + (unat (take_bit 3 b) * 256 + unat b1) = length t"
      using len by (auto simp: token_length_def b obind_eq_Ret low_bits)
    have p: "parse (length t) t 0 = atom_token (length t) t 0 MEDIUM_ATOM 2 (unat (take_bit 3 b) * 256 + unat b1) (bit b 3) (bit b 4)"
      using medium indicator_bits [of b] b1 by (simp add: parse_def b)
    from A [OF l] show ?thesis unfolding p by fastforce
  next
    case long
    then obtain b1 b2 b3 where r: "rd (length t) t 1 = Ret b1" "rd (length t) t 2 = Ret b2" "rd (length t) t 3 = Ret b3"
      and l: "4 + (unat b1 * 65536 + unat b2 * 256 + unat b3) = length t"
      using len by (auto simp: token_length_def b obind_eq_Ret numeral_2_eq_2)
    have p: "parse (length t) t 0 = atom_token (length t) t 0 LONG_ATOM 4 (unat b1 * 65536 + unat b2 * 256 + unat b3) (bit b 0) (bit b 1)"
      using long indicator_bits [of b] r by (simp add: parse_def b numeral_2_eq_2)
    from A [OF l] show ?thesis unfolding p by fastforce
  next
    case control
    then show ?thesis
      using len indicator_bits [of b] by (simp add: parse_def b token_length_def)
  qed
qed

text \<open>A token in the middle of a buffer is read as it is alone, its pointers moved.\<close>

definition moved :: "nat \<Rightarrow> dta_token \<Rightarrow> dta_token" where
  "moved p t = t\<lparr>m_token := p + m_token t, m_data := map_option ((+) p) (m_data t)\<rparr>"

lemma bytes_at_pos:
  assumes "at_pos m p t" "p + length t \<le> cap" "bytes_at (length t) t i n = Ret x"
  shows "bytes_at cap m (p + i) n = Ret x"
proof (cases "n = 0")
  case False
  then have i: "i + n \<le> length t" and x: "x = read_block t i n"
    using assms(3) by (auto simp: bytes_at_def split: if_splits)
  have "read_block m (p + i) n = read_block t i n"
    by (rule nth_equalityI) (use assms(1) i in \<open>auto simp: nth_read_block at_pos_def peek_def [of t] add.assoc\<close>)
  then show ?thesis using i x assms(2) by (simp add: bytes_at_def)
qed (use assms(3) in \<open>simp add: bytes_at_def read_block_def\<close>)

lemma rd_at_pos: "at_pos m p t \<Longrightarrow> p + length t \<le> cap \<Longrightarrow> rd (length t) t i = Ret x \<Longrightarrow> rd cap m (p + i) = Ret x"
  by (auto simp: rd_def at_pos_def peek_def [of t] split: if_splits)

lemma atom_token_at:
  assumes "at_pos m p t" "p + length t \<le> cap" "atom_token (length t) t 0 k hsize len sign byte = Ret tok"
  shows "atom_token cap m p k hsize len sign byte = Ret (moved p tok)"
  using assms(3) bytes_at_pos [OF assms(1, 2), of hsize len]
  by (auto simp: atom_token_def str2int_def moved_def Let_def obind_eq_Ret split: if_splits)

lemma parse_at:
  assumes "at_pos m p t" "p + length t \<le> cap" "parse (length t) t 0 = Ret tok"
  shows "parse cap m p = Ret (moved p tok)"
proof -
  obtain b where b: "rd (length t) t 0 = Ret b" using assms(3) by (auto simp: parse_def obind_eq_Ret)
  note at = rd_at_pos [OF assms(1, 2)] and atom = atom_token_at [OF assms(1, 2)]
  note tok = assms(3) [unfolded parse_def b obind.simps]
  have b': "rd cap m p = Ret b" using at [OF b] by simp
  consider (one) "drop_bit 7 b = 0" | (short) "drop_bit 7 b \<noteq> 0" "drop_bit 6 b = 2"
    | (medium) "drop_bit 7 b \<noteq> 0" "drop_bit 6 b \<noteq> 2" "drop_bit 5 b = 6"
    | (long) "drop_bit 7 b \<noteq> 0" "drop_bit 6 b \<noteq> 2" "drop_bit 5 b \<noteq> 6" "drop_bit 4 b = 14"
    | (control) "drop_bit 7 b \<noteq> 0" "drop_bit 6 b \<noteq> 2" "drop_bit 5 b \<noteq> 6" "drop_bit 4 b \<noteq> 14" by blast
  then show ?thesis
  proof cases
    case one
    then show ?thesis using tok by (auto simp: parse_def b' moved_def)
  next
    case short
    then show ?thesis using tok atom by (auto simp: parse_def b')
  next
    case medium
    then obtain b1 where 1: "rd (length t) t 1 = Ret b1"
      and "atom_token (length t) t 0 MEDIUM_ATOM 2 (unat (take_bit 3 b) * 256 + unat b1) (bit b 3) (bit b 4) = Ret tok"
      using tok by (auto simp: obind_eq_Ret)
    from atom [OF this(2)] show ?thesis using medium at [OF 1] by (simp add: parse_def b')
  next
    case long
    then obtain b1 b2 b3 where 1: "rd (length t) t 1 = Ret b1" "rd (length t) t 2 = Ret b2" "rd (length t) t 3 = Ret b3"
      and "atom_token (length t) t 0 LONG_ATOM 4 (unat b1 * 65536 + unat b2 * 256 + unat b3) (bit b 0) (bit b 1) = Ret tok"
      using tok by (auto simp: obind_eq_Ret numeral_2_eq_2)
    from atom [OF this(4)] show ?thesis
      using long at [OF 1(1)] at [OF 1(2)] at [OF 1(3)] by (simp add: parse_def b' numeral_2_eq_2)
  next
    case control
    then show ?thesis using tok by (auto simp: parse_def b' moved_def)
  qed
qed

lemma print_at:
  assumes "at_pos m p t" "p + length t \<le> cap" "print (length t) t tok (length t) = Ret s"
    and tok: "m_token tok = 0" "m_HeaderLength tok + m_DataLength tok = length t" "length t \<le> n"
  shows "print cap m (moved p tok) n = Ret s"
proof -
  have min: "min (m_HeaderLength tok) n = m_HeaderLength tok" "min (m_HeaderLength tok) (length t) = m_HeaderLength tok"
    "min (m_DataLength tok) (n - m_HeaderLength tok) = m_DataLength tok"
    "min (m_DataLength tok) (length t - m_HeaderLength tok) = m_DataLength tok" using tok(2, 3) by simp_all
  note b = bytes_at_pos [OF assms(1, 2), of 0, simplified] and d = bytes_at_pos [OF assms(1, 2)]
    and r = rd_at_pos [OF assms(1, 2), of 0, simplified]
  show ?thesis
    using assms(3) b d r by (auto simp: print_def moved_def Let_def min tok(1) obind_eq_Ret split: if_splits option.splits)
qed

text \<open>The line of a token, on its own.\<close>

definition token_line :: "bytes \<Rightarrow> string outcome" where
  "token_line t = obind (parse (length t) t 0) (\<lambda>tok. print (length t) t tok (length t))"

lemma token_line_wf:
  assumes "wf_token t"
  shows "\<exists>s. token_line t = Ret s"
proof -
  obtain tok where p: "parse (length t) t 0 = Ret tok" "m_token tok = 0"
      "m_HeaderLength tok + m_DataLength tok = length t" "\<forall>p. m_data tok = Some p \<longrightarrow> p = m_HeaderLength tok"
    using parse_alone [OF assms] by blast
  have "0 < length t" using assms by (simp add: wf_token_def)
  then show ?thesis
    using p by (auto simp: token_line_def print_def Let_def bytes_at_def rd_def split: option.split)
qed

lemma dump_loop_tokens:
  assumes "list_all wf_token us" "at_pos m p (concat us)" "p + length (concat us) \<le> cap"
  shows "\<exists>lines. list_all2 (\<lambda>t s. token_line t = Ret s) us lines \<and>
    dump_loop cap m p (p + length (concat us)) = Ret (concat lines)"
  using assms
proof (induction us arbitrary: p)
  case Nil
  then show ?case by (simp add: dump_loop.simps)
next
  case (Cons t us)
  have wf: "wf_token t" "0 < length t" using Cons.prems(1) by (auto simp: wf_token_def)
  have pos: "at_pos m p t" "at_pos m (p + length t) (concat us)" "p + length t \<le> cap"
    using Cons.prems(2, 3) by (simp_all add: at_pos_append)
  obtain tok where tok: "parse (length t) t 0 = Ret tok" "m_token tok = 0"
      "m_HeaderLength tok + m_DataLength tok = length t" "m_TokenLength tok = length t"
    using parse_alone [OF wf(1)] by blast
  obtain s where s: "token_line t = Ret s" using token_line_wf [OF wf(1)] by blast
  obtain lines where IH: "list_all2 (\<lambda>t s. token_line t = Ret s) us lines"
      "dump_loop cap m (p + length t) (p + length t + length (concat us)) = Ret (concat lines)"
    using Cons.IH [of "p + length t"] Cons.prems pos by (auto simp: add.assoc)
  have pr: "print cap m (moved p tok) n = Ret s" if "length t \<le> n" for n
    by (rule print_at [OF pos(1, 3) _ tok(2, 3) that]) (use s tok(1) in \<open>simp add: token_line_def\<close>)
  have len: "m_TokenLength (moved p tok) = length t" using tok(4) by (simp add: moved_def)
  have "dump_loop cap m p (p + length (concat (t # us))) = Ret (concat (s # lines))"
    using wf(2) parse_at [OF pos(1, 3) tok(1)] pr IH(2)
    by (subst dump_loop.simps) (simp add: len add.assoc)
  then show ?case using s IH(1) by (intro exI [of _ "s # lines"]) simp
qed

text \<open>C37. The annotated dump and the response parser read a buffer alike: when the data of a packet is a sequence of
  whole tokens, the parser returns them (less the empty atoms) and the dump prints, after its header, the line of
  each token in the same order and returns 0.\<close>

theorem dump_agrees_with_parser:
  assumes us: "list_all wf_token us" "at_pos buffer sizeof_OPALHeader (concat us)"
    and len: "length (concat us) = unat (SWAP32 (load32 (read_block buffer 0 sizeof_OPALHeader) off_subpkt_length))"
    and fits: "sizeof_OPALHeader + length (concat us) \<le> cap" "length (concat us) \<le> unat bufferlen"
  shows "\<exists>r lines. init cap buffer = Ret r \<and> response r = filter (\<lambda>t. t \<noteq> [EMPTYATOM]) us \<and>
    list_all2 (\<lambda>t s. token_line t = Ret s) us lines \<and>
    DtaAnnotatedDump level_D1 cmd cap buffer bufferlen = Ret (0, command_line cmd @
      (if level_D1 then header_lines (read_block buffer 0 sizeof_OPALHeader) else []) @ concat lines)"
proof -
  let ?hdr = "read_block buffer 0 sizeof_OPALHeader"
  have "tokenize cap buffer (length (concat us)) 0 = Ret (filter (\<lambda>t. t \<noteq> [EMPTYATOM]) us)"
    by (rule tokenize_concat [OF us(1)]) (use us(2) fits(1) in simp_all)
  then have 1: "init cap buffer = Ret \<lparr>h = ?hdr, response = filter (\<lambda>t. t \<noteq> [EMPTYATOM]) us\<rparr>"
    by (simp add: init_def Let_def len)
  obtain lines where 2: "list_all2 (\<lambda>t s. token_line t = Ret s) us lines"
      "dump_loop cap buffer sizeof_OPALHeader (sizeof_OPALHeader + length (concat us)) = Ret (concat lines)"
    using dump_loop_tokens [OF us fits(1)] by blast
  have "bytes_at cap buffer 0 sizeof_OPALHeader = Ret ?hdr" using fits(1) by (simp add: bytes_at_def)
  moreover have "\<not> bufferlen < SWAP32 (load32 ?hdr off_subpkt_length)"
    using fits(2) unfolding len by (simp add: word_less_nat_alt)
  ultimately have "DtaAnnotatedDump level_D1 cmd cap buffer bufferlen = Ret (0, command_line cmd @
      (if level_D1 then header_lines ?hdr else []) @ concat lines)"
    using 2(2) by (simp add: DtaAnnotatedDump_def Let_def len)
  then show ?thesis using 1 2(1) by auto
qed

theorem dump_agrees_with_parser_witness:
  "\<exists>r lines. init 70 sample_buffer = Ret r \<and>
    response r = filter (\<lambda>t. t \<noteq> [EMPTYATOM]) [[0xf0], [0x05], [EMPTYATOM], [0xa2, 0x61, 0x62], [0xf1]] \<and>
    list_all2 (\<lambda>t s. token_line t = Ret s) [[0xf0], [0x05], [EMPTYATOM], [0xa2, 0x61, 0x62], [0xf1]] lines \<and>
    DtaAnnotatedDump False IF_RECV 70 sample_buffer 70 = Ret (0, command_line IF_RECV @
      (if False then header_lines (read_block sample_buffer 0 sizeof_OPALHeader) else []) @ concat lines)"
  by (rule dump_agrees_with_parser; code_simp)

section \<open>Numbers are shown as they were encoded\<close>

lemma horner_be: "horner_sum uint 256 (rev (be_bytes k n)) = int (n mod 256 ^ k)"
proof (induction k arbitrary: n)
  case (Suc k)
  have "uint (of_nat n :: u8) = int (n mod 256)" by (simp add: unsigned_of_nat uint_nat take_bit_eq_mod zmod_int)
  then have "horner_sum uint 256 (rev (be_bytes (Suc k) n)) = int (n mod 256 + 256 * (n div 256 mod 256 ^ k))"
    by (simp add: be_bytes_snoc Suc del: be_bytes.simps)
  then show ?case by (simp add: mod_mult2_eq)
qed simp

lemma word_rcat_be: "k \<le> 8 \<Longrightarrow> n < 256 ^ k \<Longrightarrow> word_rcat (replicate (8 - k) 0 @ be_bytes k n) = (of_nat n :: u64)"
proof -
  assume "k \<le> 8" "n < 256 ^ k"
  have z: "horner_sum uint 256 (replicate j (0 :: u8)) = 0" for j by (induction j) simp_all
  show ?thesis using \<open>n < 256 ^ k\<close> by (simp add: word_rcat_def horner_sum_append horner_be z)
qed

lemma str2int_num:
  assumes "0 < k" "k \<le> 8" "n < 256 ^ k"
  shows "str2int (Suc k) (a # be_bytes k n) 1 False False k = Ret (None, of_nat n)"
proof -
  have "bytes_at (Suc k) (a # be_bytes k n) 1 k = Ret (be_bytes k n)" by (simp add: bytes_at_def read_block_def)
  then show ?thesis using assms word_rcat_be [OF assms(2, 3)] by (simp add: str2int_def Let_def)
qed

lemma num_prefix:
  "\<forall>(a, k) \<in> set [(0x81 :: u8, 1 :: nat), (0x82, 2), (0x84, 4), (0x88, 8)]. drop_bit 7 a \<noteq> 0 \<and> drop_bit 6 a = 2 \<and>
    \<not> bit a 4 \<and> \<not> bit a 5 \<and> unat (take_bit 4 a) = k \<and> 0 < k \<and> k \<le> 8"
  by code_simp

text \<open>The annotated dump shows a number as it was added to the command: the line of the token that encodes it
  ends with the number in decimal and in hexadecimal, for every 64 bit number and each of its five encodings.\<close>

lemma dump_shows_number:
  fixes x :: u64
  shows "\<exists>start. token_line (enc_num (unat x)) =
    Ret (start @ '' '' @ decimal (unat x) @ '' ('' @ format_X 1 (unat x) @ ''h)'' @ endl)"
proof -
  have parsed: "\<exists>tok. parse (length t) t 0 = Ret tok \<and> m_value tok = x \<and> m_data tok = None \<and> m_TokenType tok \<noteq> TOKEN"
    if "t = enc_num (unat x)" for t
  proof -
    have atom: "\<exists>tok. parse (length (a # be_bytes k (unat x))) (a # be_bytes k (unat x)) 0 = Ret tok \<and> m_value tok = x \<and> m_data tok = None \<and>
        m_TokenType tok \<noteq> TOKEN"
      if "(a, k) \<in> set [(0x81 :: u8, 1 :: nat), (0x82, 2), (0x84, 4), (0x88, 8)]" "unat x < 256 ^ k" for a k
    proof -
      have p: "drop_bit 7 a \<noteq> 0" "drop_bit 6 a = 2" "\<not> bit a 4" "\<not> bit a 5" "unat (take_bit 4 a) = k" "0 < k" "k \<le> 8"
        using bspec [OF num_prefix that(1)] by simp_all
      show ?thesis
        using p str2int_num [OF p(6, 7) that(2), of a] by (simp add: parse_def rd_def peek_def atom_token_def)
    qed
    have tiny: "\<exists>tok. parse (length [of_nat (unat x) :: u8]) [of_nat (unat x)] 0 = Ret tok \<and> m_value tok = x \<and> m_data tok = None \<and> m_TokenType tok \<noteq> TOKEN"
      if "unat x < 64"
    proof -
      define y :: u8 where "y = of_nat (unat x)"
      have y: "unat y = unat x" using that by (simp add: y_def unsigned_of_nat take_bit_nat_eq_self del: of_nat_unat)
      have "unat (drop_bit 7 y) = 0" unfolding unat_drop_bit_eq y using that by (simp add: drop_bit_eq_div)
      then have 1: "drop_bit 7 y = 0" by (simp only: unat_eq_0)
      have "bit (unat y) 6 \<longleftrightarrow> odd (unat x div 2 ^ 6)" unfolding y by (rule bit_iff_odd)
      then have 2: "\<not> bit y 6" using that by (simp add: bit_unsigned_iff)
      have "unat (ucast (take_bit 6 y) :: u64) = unat x"
        using that by (simp add: unsigned_take_bit_eq y unsigned_ucast_eq take_bit_nat_eq_self)
      then have 3: "(ucast (take_bit 6 y) :: u64) = x" by (simp only: word_unat_eq_iff)
      from 1 2 3 show ?thesis unfolding y_def by (simp add: parse_def rd_def peek_def del: of_nat_unat)
    qed
    have "unat x < 256 ^ 8" using unsigned_less [of x] by simp
    then show ?thesis
      using atom [of "0x81" 1, OF list.set_intros(1)] atom [of "0x82" 2] atom [of "0x84" 4] atom [of "0x88" 8] tiny
      unfolding that enc_num_def
      by (simp del: be_bytes_numeral be_bytes.simps list.size length_Cons One_nat_def of_nat_unat)
  qed
  obtain tok where tok: "parse (length (enc_num (unat x))) (enc_num (unat x)) 0 = Ret tok" "m_value tok = x"
    "m_data tok = None" "m_TokenType tok \<noteq> TOKEN" using parsed [OF refl] by blast
  obtain s where "token_line (enc_num (unat x)) = Ret s" using token_line_wf [OF wf_enc_num] by blast
  then show ?thesis using tok by (auto simp: token_line_def print_def Let_def obind_eq_Ret)
qed

section \<open>The length check\<close>

text \<open>Reading either gives a result or is undefined; it does not end the program.\<close>

definition reads :: "'a outcome \<Rightarrow> bool" where
  "reads x \<longleftrightarrow> x = Undef \<or> (\<exists>v. x = Ret v)"

named_theorems reads_rules \<open>definitions that only read\<close>

lemma reads_basic [reads_rules]: "reads (Ret x)" "reads Undef" "reads (rd cap m i)" "reads (bytes_at cap m i n)"
  by (simp_all add: reads_def rd_def bytes_at_def)

lemma reads_bind [reads_rules]: "reads x \<Longrightarrow> (\<And>v. reads (f v)) \<Longrightarrow> reads (obind x f)"
  by (cases x) (simp, simp_all add: reads_def)

lemma reads_branch [reads_rules]: "reads a \<Longrightarrow> reads b \<Longrightarrow> reads (if c then a else b)"
  "reads a \<Longrightarrow> (\<And>y. reads (g y)) \<Longrightarrow> reads (case z of None \<Rightarrow> a | Some y \<Rightarrow> g y)"
  "(\<And>u v. reads (k u v)) \<Longrightarrow> reads (case w of (u, v) \<Rightarrow> k u v)"
  by (auto split: option.split prod.split)

lemma reads_parse: "reads (parse cap m p)"
  unfolding parse_def atom_token_def str2int_def Let_def by (intro reads_rules)

lemma reads_print: "reads (print cap m t n)"
  unfolding print_def Let_def by (intro reads_rules)

lemma dump_loop_step: "p < q \<Longrightarrow> parse cap m p = Ret t \<Longrightarrow> dump_loop cap m p q =
    obind (print cap m t (q - p)) (\<lambda>line. obind (dump_loop cap m (p + m_TokenLength t) q) (\<lambda>rest.
      Ret (line @ (if p + m_TokenLength t > q then ''(token truncated)'' else []) @ rest)))"
  by (subst dump_loop.simps) simp

lemma reads_dump_loop: "reads (dump_loop cap m p q)"
proof (induction cap m p q rule: dump_loop.induct)
  case (1 cap m p q)
  show ?case
  proof (cases "p < q")
    case True
    show ?thesis
    proof (cases "parse cap m p")
      case (Ret t)
      show ?thesis
        unfolding dump_loop_step [OF True Ret]
        by (intro reads_rules reads_print 1 [OF True Ret])
    qed (use True reads_parse [of cap m p] in \<open>simp_all add: reads_def dump_loop.simps [of _ _ p]\<close>)
  qed (simp add: dump_loop.simps [of _ _ p] reads_basic)
qed

text \<open>A token that is shown in full lies in the buffer.\<close>

definition token_shape :: "nat \<Rightarrow> nat \<Rightarrow> dta_token \<Rightarrow> bool" where
  "token_shape cap p t \<longleftrightarrow> m_token t = p \<and> m_TokenLength t = m_HeaderLength t + m_DataLength t \<and> 0 < m_HeaderLength t \<and>
     (case m_data t of None \<Rightarrow> m_DataLength t = 0 \<or> p + m_TokenLength t \<le> cap
      | Some d \<Rightarrow> d = p + m_HeaderLength t \<and> m_TokenType t \<noteq> TOKEN)"

lemma str2int_shape: "str2int cap m buf byte sign len = Ret (d, v) \<Longrightarrow>
    d = Some buf \<or> d = None \<and> (len = 0 \<or> buf + len \<le> cap)"
  by (cases "byte \<or> len > 8"; cases "len = 0")
    (simp_all add: str2int_def Let_def bytes_at_def split: if_splits)

lemma atom_shape: "atom_token cap m p k hsize len sign byte = Ret t \<Longrightarrow> 0 < hsize \<Longrightarrow> k \<noteq> TOKEN \<Longrightarrow> token_shape cap p t"
  using str2int_shape [of cap m "p + hsize" byte sign len]
  by (fastforce simp: atom_token_def obind_eq_Ret token_shape_def)

lemma parse_shape: "parse cap m p = Ret t \<Longrightarrow> token_shape cap p t"
  unfolding parse_def obind_eq_Ret
  by (elim exE conjE) (auto simp: obind_eq_Ret token_shape_def [of _ _ "\<lparr>m_TokenType = _, m_HeaderLength = _, m_DataLength = _,
      m_TokenLength = _, m_token = _, m_data = _, m_value = _, m_sign = _\<rparr>"] dest!: atom_shape split: if_splits)

lemma shown_in_buffer:
  assumes "parse cap m p = Ret t" "print cap m t n = Ret s" "0 < n"
  shows "p + min (m_TokenLength t) n \<le> cap"
proof -
  note shape = parse_shape [OF assms(1), unfolded token_shape_def]
  have pos: "m_token t = p" and len: "m_TokenLength t = m_HeaderLength t + m_DataLength t" "0 < m_HeaderLength t"
    using shape by simp_all
  have h: "p + min (m_HeaderLength t) n \<le> cap"
    using assms(2, 3) pos len(2) by (auto simp: print_def Let_def obind_eq_Ret bytes_at_def split: if_splits)
  show ?thesis
  proof (cases "m_data t")
    case None
    then show ?thesis using h shape by auto
  next
    case (Some d)
    let ?l = "min (m_HeaderLength t) n"
    have "min (m_DataLength t) (n - ?l) = 0 \<or> p + m_HeaderLength t + min (m_DataLength t) (n - ?l) \<le> cap"
      using assms(2) Some shape by (auto simp: print_def Let_def obind_eq_Ret bytes_at_def split: if_splits)
    then show ?thesis using h len by (auto simp: min_def split: if_splits)
  qed
qed

lemma dump_loop_in_buffer: "dump_loop cap m p q = Ret s \<Longrightarrow> p < q \<Longrightarrow> q \<le> cap"
proof (induction cap m p q arbitrary: s rule: dump_loop.induct)
  case (1 cap m p q)
  obtain t where t: "parse cap m p = Ret t"
    using "1.prems" by (cases "parse cap m p") (simp_all add: dump_loop.simps [of _ _ p])
  obtain line rest where r: "print cap m t (q - p) = Ret line" "dump_loop cap m (p + m_TokenLength t) q = Ret rest"
    using "1.prems"(1) unfolding dump_loop_step [OF "1.prems"(2) t] by (auto simp: obind_eq_Ret)
  show ?case
  proof (cases "p + m_TokenLength t < q")
    case True
    from "1.IH" [OF "1.prems"(2) t r(2) this] show ?thesis .
  next
    case False
    then have "min (m_TokenLength t) (q - p) = q - p" by simp
    with shown_in_buffer [OF t r(1)] "1.prems"(2) show ?thesis by simp
  qed
qed

text \<open>C38. The check of the annotated dump is too weak by the header: it compares the length of the data with the length
  of the whole buffer. A packet that claims more data than lies behind the header, but not more than the buffer is
  long, passes the check and the dump reads behind the buffer.\<close>

theorem dump_reads_behind_buffer:
  assumes cap: "cap = unat bufferlen" "sizeof_OPALHeader \<le> cap"
    and len: "len = unat (SWAP32 (load32 (read_block buffer 0 sizeof_OPALHeader) off_subpkt_length))"
      "len \<le> unat bufferlen" "cap < sizeof_OPALHeader + len"
  shows "DtaAnnotatedDump level_D1 cmd cap buffer bufferlen = Undef"
proof -
  let ?loop = "dump_loop cap buffer sizeof_OPALHeader (sizeof_OPALHeader + len)"
  have "?loop \<noteq> Ret s" for s
    using dump_loop_in_buffer [of cap buffer sizeof_OPALHeader "sizeof_OPALHeader + len" s] cap len(3) by auto
  then have loop: "?loop = Undef" using reads_dump_loop [of cap buffer sizeof_OPALHeader "sizeof_OPALHeader + len"]
    by (auto simp: reads_def)
  have "bytes_at cap buffer 0 sizeof_OPALHeader = Ret (read_block buffer 0 sizeof_OPALHeader)"
    using cap(2) by (simp add: bytes_at_def)
  moreover have "\<not> bufferlen < SWAP32 (load32 (read_block buffer 0 sizeof_OPALHeader) off_subpkt_length)"
    using len(2) unfolding len(1) by (simp add: word_less_nat_alt)
  ultimately show ?thesis using loop by (simp add: DtaAnnotatedDump_def Let_def len(1))
qed

theorem dump_reads_behind_buffer_witness:
  "DtaAnnotatedDump False IF_RECV 60 (replicate 52 0 @ [0, 0, 0, 8, 0xf0, 0xf1, 0xf9, 0xf0]) 60 = Undef"
  by (rule dump_reads_behind_buffer [where len = 8]; code_simp)

end
