(* ===== verification/WinDrives.thy ===== *)
theory WinDrives
  imports Sedutil LinuxDrives
begin

text \<open>
  The Windows platform: windows/DtaDevOS.cpp and the disk classes DtaDiskATA, DtaDiskUSB and DtaDiskNVMe, over
  \<^verbatim>\<open>CreateFile\<close>, \<^verbatim>\<open>DeviceIoControl\<close> and \<^verbatim>\<open>GetLastError\<close>, which are parameters. The requests of the structures
  that stay zero are left out; a buffer stands for its pointer.
\<close>

section \<open>What is handed to the system\<close>

record ata_pass_through =
  AtaFlags :: u16
  ata_transfer :: u32
  ata_timeout :: u32
  ata_buffer :: bytes
  CurrentTaskFile :: bytes

record scsi_pass_through =
  TargetId :: u8
  DataIn :: u8
  scsi_transfer :: u32
  scsi_timeout :: u32
  SenseInfoLength :: u8
  CdbLength :: u8
  Cdb :: bytes
  scsi_buffer :: bytes
  ScsiStatus :: u8

datatype bus_type = BusTypeAta | BusTypeSata | BusTypeUsb | BusTypeNvme | OtherBus

text \<open>A handle of \<open>- 1\<close> is \<^verbatim>\<open>INVALID_HANDLE_VALUE\<close>.\<close>

record 'k winapi =
  CreateFile :: "cstr \<Rightarrow> 'k \<Rightarrow> int \<times> 'k"
  ata_control :: "int \<Rightarrow> ata_pass_through \<Rightarrow> 'k \<Rightarrow> bool \<times> ata_pass_through \<times> 'k"
  scsi_control :: "int \<Rightarrow> scsi_pass_through \<Rightarrow> 'k \<Rightarrow> bool \<times> scsi_pass_through \<times> 'k"
  query_bus :: "int \<Rightarrow> 'k \<Rightarrow> bus_type option \<times> 'k"
  GetLastError :: "'k \<Rightarrow> u32"

abbreviation (input) ATA_FLAGS_DATA_IN :: u16 where "ATA_FLAGS_DATA_IN \<equiv> 0x02"
abbreviation (input) ATA_FLAGS_DATA_OUT :: u16 where "ATA_FLAGS_DATA_OUT \<equiv> 0x04"
abbreviation (input) SCSI_IOCTL_DATA_OUT :: u8 where "SCSI_IOCTL_DATA_OUT \<equiv> 0"
abbreviation (input) SCSI_IOCTL_DATA_IN :: u8 where "SCSI_IOCTL_DATA_IN \<equiv> 1"

text \<open>The disk object, with the machine behind it.\<close>

record 'k win_disk =
  hDev :: int
  disk_isOpen :: bool
  machine :: 'k

type_synonym 'k win_call = "'k win_disk \<Rightarrow> u8 \<times> bytes \<times> 'k win_disk"

definition open_disk :: "'k winapi \<Rightarrow> cstr \<Rightarrow> 'k win_disk \<Rightarrow> 'k win_disk" where
  "open_disk W devref s =
     (case CreateFile W devref (machine s) of (n, k) \<Rightarrow> \<lparr>hDev = n, disk_isOpen = (n \<noteq> - 1), machine = k\<rparr>)"

section \<open>DtaDiskATA\<close>

definition DtaDiskATA_init :: "'k winapi \<Rightarrow> cstr \<Rightarrow> 'k win_disk \<Rightarrow> 'k win_disk" where
  "DtaDiskATA_init = open_disk"

definition ata_task :: "atacommand \<Rightarrow> u8 \<Rightarrow> u16 \<Rightarrow> u32 \<Rightarrow> bytes" where
  "ata_task cmd protocol cid bufferlen =
     [protocol, ucast (bufferlen div 512), 0x00, ucast (cid AND 0x00ff),
      ucast (drop_bit 8 (cid AND 0xff00)), 0x00, ata_code cmd, 0x00]"

text \<open>Only the last error of the thread is looked at, not whether the call failed.\<close>

definition DtaDiskATA_sendCmd :: "'k winapi \<Rightarrow> atacommand \<Rightarrow> u8 \<Rightarrow> u16 \<Rightarrow> bytes \<Rightarrow> 'k win_call" where
  "DtaDiskATA_sendCmd W cmd protocol cid buffer s =
     (if \<not> disk_isOpen s then (DTAERROR_OPEN_ERR, buffer, s)
      else let bufferlen = of_nat (length buffer);
               ata = \<lparr>AtaFlags = (if cmd = IF_RECV then ATA_FLAGS_DATA_IN else if cmd = IDENTIFY then ATA_FLAGS_DATA_IN
                        else ATA_FLAGS_DATA_OUT),
                      ata_transfer = bufferlen, ata_timeout = 1, ata_buffer = buffer,
                      CurrentTaskFile = ata_task cmd protocol cid bufferlen\<rparr>
        in case ata_control W (hDev s) ata (machine s) of (iorc, ata', k) \<Rightarrow>
             (if GetLastError W k \<noteq> 0 then 1 else 0, block_of buffer (ata_buffer ata'), s\<lparr>machine := k\<rparr>))"

text \<open>The buffer has 2048 bytes, of which 512 are asked for.\<close>

definition DtaDiskATA_identify :: "'k winapi \<Rightarrow> opal_disk_info \<Rightarrow> 'k win_disk \<Rightarrow> opal_disk_info \<times> 'k win_disk" where
  "DtaDiskATA_identify W di s =
     (case DtaDiskATA_sendCmd W IDENTIFY 0x00 0x0000 (replicate 512 0) s of (iorc, resp, s') \<Rightarrow>
        (if resp = replicate 512 0 then di\<lparr>devType := DEVICE_TYPE_OTHER\<rparr> else ata_info resp di, s'))"

section \<open>DtaDiskUSB\<close>

definition DtaDiskUSB_init :: "'k winapi \<Rightarrow> cstr \<Rightarrow> 'k win_disk \<Rightarrow> 'k win_disk" where
  "DtaDiskUSB_init = open_disk"

definition usb_cdb :: "atacommand \<Rightarrow> u8 \<Rightarrow> u16 \<Rightarrow> u32 \<Rightarrow> bytes" where
  "usb_cdb cmd protocol cid bufferlen =
     [0xa1,
      if cmd = IF_RECV \<or> cmd = IDENTIFY then push_bit 1 4 else push_bit 1 5,
      if cmd = IF_RECV \<or> cmd = IDENTIFY then 0x0e else 0x06,
      protocol,
      if cmd = IDENTIFY then 1 else ucast (bufferlen div 512),
      0x00,
      ucast (cid AND 0x00ff),
      ucast (drop_bit 8 (cid AND 0xff00)),
      0x00,
      ata_code cmd] @ replicate 6 0x00"

text \<open>The status the structure holds afterwards is returned, whether or not the call failed.\<close>

definition DtaDiskUSB_sendCmd :: "'k winapi \<Rightarrow> atacommand \<Rightarrow> u8 \<Rightarrow> u16 \<Rightarrow> bytes \<Rightarrow> 'k win_call" where
  "DtaDiskUSB_sendCmd W cmd protocol cid buffer s =
     (if \<not> disk_isOpen s then (DTAERROR_OPEN_ERR, buffer, s)
      else let bufferlen = of_nat (length buffer);
               scsi = \<lparr>TargetId = 0, DataIn = (if cmd = IF_RECV \<or> cmd = IDENTIFY then SCSI_IOCTL_DATA_IN else SCSI_IOCTL_DATA_OUT),
                       scsi_transfer = (if cmd = IDENTIFY then 512 else bufferlen), scsi_timeout = 20,
                       SenseInfoLength = 32, CdbLength = 12, Cdb = usb_cdb cmd protocol cid bufferlen,
                       scsi_buffer = buffer, ScsiStatus = 0\<rparr>
        in case scsi_control W (hDev s) scsi (machine s) of (iorc, scsi', k) \<Rightarrow>
             (ScsiStatus scsi', block_of buffer (scsi_buffer scsi'), s\<lparr>machine := k\<rparr>))"

definition DtaDiskUSB_identify :: "'k winapi \<Rightarrow> opal_disk_info \<Rightarrow> 'k win_disk \<Rightarrow> opal_disk_info \<times> 'k win_disk" where
  "DtaDiskUSB_identify W di s =
     (case DtaDiskUSB_sendCmd W IDENTIFY 0x00 0x0000 (replicate MIN_BUFFER_LENGTH 0) s of (iorc, resp, s') \<Rightarrow>
        (if take 512 resp = replicate 512 0 then di\<lparr>devType := DEVICE_TYPE_OTHER\<rparr>
         else di\<lparr>devType := DEVICE_TYPE_USB, serialNum := swap_bytes (read_block resp 20 20),
                firmwareRev := swap_bytes (read_block resp 46 8), modelNum := swap_bytes (read_block resp 54 40)\<rparr>, s'))"

section \<open>DtaDiskNVMe\<close>

definition DtaDiskNVMe_init :: "'k winapi \<Rightarrow> cstr \<Rightarrow> 'k win_disk \<Rightarrow> 'k win_disk" where
  "DtaDiskNVMe_init = open_disk"

text \<open>SECURITY PROTOCOL IN and OUT with the length in bytes, or INQUIRY.\<close>

definition nvme_cdb :: "atacommand \<Rightarrow> u8 \<Rightarrow> u16 \<Rightarrow> u32 \<Rightarrow> bytes" where
  "nvme_cdb cmd protocol cid bufferlen =
     (if cmd = IDENTIFY then [0x12, 0x00, 0x00, 0x00, 0x60] @ replicate 11 0x00
      else [if cmd = IF_RECV then 0xa2 else 0xb5, protocol,
            ucast (drop_bit 8 (cid AND 0xff00)), ucast (cid AND 0x00ff), 0x00, 0x00,
            ucast (drop_bit 24 (bufferlen AND 0xff000000)), ucast (drop_bit 16 (bufferlen AND 0x00ff0000)),
            ucast (drop_bit 8 (bufferlen AND 0x0000ff00)), ucast (bufferlen AND 0x000000ff)] @ replicate 6 0x00)"

definition DtaDiskNVMe_sendCmd :: "'k winapi \<Rightarrow> atacommand \<Rightarrow> u8 \<Rightarrow> u16 \<Rightarrow> bytes \<Rightarrow> 'k win_call" where
  "DtaDiskNVMe_sendCmd W cmd protocol cid buffer s =
     (if \<not> disk_isOpen s then (DTAERROR_OPEN_ERR, buffer, s)
      else let bufferlen = of_nat (length buffer);
               scsi = \<lparr>TargetId = 1, DataIn = (if cmd = IF_SEND then SCSI_IOCTL_DATA_OUT else SCSI_IOCTL_DATA_IN),
                       scsi_transfer = bufferlen, scsi_timeout = 2, SenseInfoLength = 32,
                       CdbLength = (if cmd = IDENTIFY then 6 else 12), Cdb = nvme_cdb cmd protocol cid bufferlen,
                       scsi_buffer = buffer, ScsiStatus = 0\<rparr>
        in case scsi_control W (hDev s) scsi (machine s) of (iorc, scsi', k) \<Rightarrow>
             (if ScsiStatus scsi' = 0 \<and> iorc then 0 else 1, block_of buffer (scsi_buffer scsi'), s\<lparr>machine := k\<rparr>))"

text \<open>The revision and the product only: neither the serial number nor the type of the device is set.\<close>

definition DtaDiskNVMe_identify :: "'k winapi \<Rightarrow> opal_disk_info \<Rightarrow> 'k win_disk \<Rightarrow> opal_disk_info \<times> 'k win_disk" where
  "DtaDiskNVMe_identify W di s =
     (case DtaDiskNVMe_sendCmd W IDENTIFY 0x00 0x0000 (replicate MIN_BUFFER_LENGTH 0) s of (iorc, resp, s') \<Rightarrow>
        (if iorc \<noteq> 0 \<and> iorc \<noteq> 4 then di
         else if take 512 resp = replicate 512 0 then di\<lparr>devType := DEVICE_TYPE_OTHER\<rparr>
         else di\<lparr>firmwareRev := pokes 0 (read_block resp 32 4) (firmwareRev di),
                modelNum := pokes 0 (read_block resp 16 16) (modelNum di)\<rparr>, s'))"

section \<open>DtaDevOS\<close>

datatype disk_class = DiskATA | DiskUSB | DiskNVMe

definition class_of_bus :: "bus_type \<Rightarrow> disk_class option" where
  "class_of_bus b = (case b of BusTypeAta \<Rightarrow> Some DiskATA | BusTypeSata \<Rightarrow> Some DiskATA | BusTypeUsb \<Rightarrow> Some DiskUSB
     | BusTypeNvme \<Rightarrow> Some DiskNVMe | OtherBus \<Rightarrow> None)"

text \<open>The environment of the device operations when the disk object is of a class: the virtual methods of the
  class, whatever the field \<open>drive\<close> of the device says.\<close>

definition windows_env :: "'k winapi \<Rightarrow> disk_class \<Rightarrow> u64 \<Rightarrow> (cstr \<Rightarrow> bytes option) \<Rightarrow> 'k win_disk env" where
  "windows_env W c addr files = \<lparr>
     drive_init = (\<lambda>_ devref s. let s' = (case c of DiskATA \<Rightarrow> DtaDiskATA_init W devref s
        | DiskUSB \<Rightarrow> DtaDiskUSB_init W devref s | DiskNVMe \<Rightarrow> DtaDiskNVMe_init W devref s) in (disk_isOpen s', s')),
     drive_identify = (\<lambda>_. case c of DiskATA \<Rightarrow> DtaDiskATA_identify W | DiskUSB \<Rightarrow> DtaDiskUSB_identify W
        | DiskNVMe \<Rightarrow> DtaDiskNVMe_identify W),
     drive_sendCmd = (\<lambda>_. case c of DiskATA \<Rightarrow> DtaDiskATA_sendCmd W | DiskUSB \<Rightarrow> DtaDiskUSB_sendCmd W
        | DiskNVMe \<Rightarrow> DtaDiskNVMe_sendCmd W),
     pbkdf2 = derived_key, cmd_addr = addr, file_of = files\<rparr>"

text \<open>
  \<^verbatim>\<open>DtaDevOS::init\<close>, with the class of the disk object it made. Without one the pointer stays as it was
  allocated. The field \<open>drive\<close> only says that there is a disk object.
\<close>

definition windows_init :: "'k winapi \<Rightarrow> u64 \<Rightarrow> (cstr \<Rightarrow> bytes option) \<Rightarrow> cstr \<Rightarrow>
    ('k win_disk, disk_class option) devop" where
  "windows_init W addr files devref = (\<lambda>w.
     case CreateFile W devref (machine (disk w)) of (n, k) \<Rightarrow>
     case query_bus W n k of (bus, k') \<Rightarrow>
       let w1 = w\<lparr>disk_info := zero_disk_info, isOpen := isOpen w \<or> n \<noteq> - 1, disk := (disk w)\<lparr>machine := k'\<rparr>\<rparr>
       in case Option.bind bus class_of_bus of
         None \<Rightarrow> (Ret None, w1)
       | Some c \<Rightarrow>
           (let E = windows_env W c addr files;
                (ok, s) = drive_init E LinuxSata devref (disk w1);
                (di, s') = drive_identify E LinuxSata (disk_info w1) s;
                w2 = w1\<lparr>drive := Some LinuxSata, disk_info := di, disk := s'\<rparr>
            in bind_op (if devType di \<noteq> DEVICE_TYPE_OTHER then discovery0 E else ret ()) (\<lambda>_. ret (Some c)) w2))"

text \<open>The destructor deletes the disk object, through a pointer nobody set when there is none.\<close>

definition windows_delete :: "disk_class option \<Rightarrow> unit outcome" where
  "windows_delete c = (if c = None then Undef else Ret ())"

definition physical_drive :: "nat \<Rightarrow> cstr" where
  "physical_drive i = lit ([CHR 0x5C, CHR 0x5C, CHR ''.'', CHR 0x5C] @ ''PhysicalDrive'' @ decimal i)"

definition windows_line :: "cstr \<Rightarrow> 'd dta_dev \<Rightarrow> string" where
  "windows_line devname w = text_of devname @
     (if isAnySSC w then '' '' @ ssc_letters '' '' w @ '' '' else '' No  '') @
     text_of (getModelNum w) @ '' '' @ text_of (getFirmwareRev w) @ endl"

text \<open>\<^verbatim>\<open>diskScan\<close> with \<open>n\<close> numbers left up to \<^verbatim>\<open>MAX_DISKS\<close>.\<close>

abbreviation (input) MAX_DISKS :: nat where "MAX_DISKS \<equiv> 20"

fun windows_scan :: "'k winapi \<Rightarrow> u64 \<Rightarrow> (cstr \<Rightarrow> bytes option) \<Rightarrow> nat \<Rightarrow> report list \<Rightarrow> 'k win_disk \<Rightarrow>
    int outcome \<times> report list \<times> 'k win_disk" where
  "windows_scan W addr files n out s =
     (let devname = physical_drive (MAX_DISKS - n) in
      case windows_init W addr files devname (new_dev Generic s) of
        (Ret c, w) \<Rightarrow>
          if isPresent w
          then (let out' = out @ [TextReport (windows_line devname w)] in
                case windows_delete c of
                  Ret _ \<Rightarrow> (case n of 0 \<Rightarrow> (Ret 1, out', disk w) | Suc n' \<Rightarrow> windows_scan W addr files n' out' (disk w))
                | r \<Rightarrow> (no_value r, out', disk w))
          else (case windows_delete c of
                  Ret _ \<Rightarrow> (Ret 0, out @ [TextReport (''No more disks present ending scan'' @ endl)], disk w)
                | r \<Rightarrow> (no_value r, out, disk w))
      | (r, w) \<Rightarrow> (no_value r, out, disk w))"

declare windows_scan.simps [simp del]

definition windows_diskScan :: "'k winapi \<Rightarrow> u64 \<Rightarrow> (cstr \<Rightarrow> bytes option) \<Rightarrow> 'k win_disk \<Rightarrow>
    int outcome \<times> report list \<times> 'k win_disk" where
  "windows_diskScan W addr files s = windows_scan W addr files MAX_DISKS
     [TextReport (endl @ ''Scanning for Opal compliant disks'' @ endl)] s"

text \<open>\<^verbatim>\<open>getSize\<close>: the length the system gives for the open device, or zero.\<close>

definition windows_getSize :: "(int \<Rightarrow> 'k \<Rightarrow> u64 option) \<Rightarrow> int \<Rightarrow> 'k \<Rightarrow> u64" where
  "windows_getSize get_length hnd k = (case get_length hnd k of Some n \<Rightarrow> n | None \<Rightarrow> 0)"

end
