(* ===== verification/CifraCorrect.thy ===== *)
theory CifraCorrect
  imports Cifra
begin

text \<open>
  The key derivation computes what its standards say: the blockwise buffering does not depend on how the
  input is cut, SHA-1 with its window of sixteen words is FIPS 180-4, and over any hash that meets the
  interface \<open>chash\<close>, HMAC is RFC 2104 and PBKDF2 is RFC 8018.
\<close>

section \<open>Whole blocks\<close>

text \<open>The whole blocks of an input, and what is left.\<close>

function blocks :: "nat \<Rightarrow> bytes \<Rightarrow> bytes list" where
  "blocks n xs = (if 0 < n \<and> n \<le> length xs then take n xs # blocks n (drop n xs) else [])"
  by pat_completeness auto
termination by (relation "measure (\<lambda>(n, xs). length xs)") auto

declare blocks.simps [simp del]

definition rest :: "nat \<Rightarrow> bytes \<Rightarrow> bytes" where
  "rest n xs = drop (n * (length xs div n)) xs"

lemma blocks_short [simp]: "length xs < n \<Longrightarrow> blocks n xs = []"
  by (simp add: blocks.simps)

lemma rest_short [simp]: "length xs < n \<Longrightarrow> rest n xs = xs"
  by (simp add: rest_def)

lemma blocks_cons: "0 < n \<Longrightarrow> length b = n \<Longrightarrow> blocks n (b @ xs) = b # blocks n xs"
  by (subst blocks.simps) simp

lemma rest_cons: "0 < n \<Longrightarrow> length b = n \<Longrightarrow> rest n (b @ xs) = rest n xs"
  by (simp add: rest_def div_add_self1)

lemma length_rest: "0 < n \<Longrightarrow> length (rest n xs) = length xs mod n"
  by (simp add: rest_def minus_mult_div_eq_mod)

text \<open>Induction along the whole blocks.\<close>

lemma block_induct:
  assumes "0 < n" and short: "\<And>xs. length xs < n \<Longrightarrow> P xs"
    and cons: "\<And>b xs. length b = n \<Longrightarrow> P xs \<Longrightarrow> P (b @ xs)"
  shows "P (xs :: bytes)"
proof (induction "length xs" arbitrary: xs rule: less_induct)
  case less
  show ?case
  proof (cases "length xs < n")
    case False
    then have "P (drop n xs)" using less \<open>0 < n\<close> by simp
    from cons [OF _ this, of "take n xs"] False show ?thesis by simp
  qed (rule short)
qed

lemma blocks_append: "0 < n \<Longrightarrow> blocks n (xs @ ys) = blocks n xs @ blocks n (rest n xs @ ys)"
  by (rule block_induct [of n _ xs]) (simp_all add: blocks_cons rest_cons)

lemma rest_append: "0 < n \<Longrightarrow> rest n (xs @ ys) = rest n (rest n xs @ ys)"
  by (rule block_induct [of n _ xs]) (simp_all add: rest_cons)

section \<open>The buffering\<close>

text \<open>\<open>buffered n p np r\<close>: the partial block of \<open>n\<close> bytes holds \<open>r\<close>.\<close>

definition buffered :: "nat \<Rightarrow> bytes \<Rightarrow> nat \<Rightarrow> bytes \<Rightarrow> bool" where
  "buffered n p np r \<longleftrightarrow> length p = n \<and> np < n \<and> take np p = r"

lemma buffered_length: "buffered n p np r \<Longrightarrow> length r = np"
  by (auto simp: buffered_def)

lemma fill_block_simps:
  "np + length b \<le> length p \<Longrightarrow> length (fill_block p np b) = length p"
  "np + length b \<le> length p \<Longrightarrow> take (np + length b) (fill_block p np b) = take np p @ b"
  by (simp_all add: fill_block_def)

lemma full_blocks_eq:
  assumes n: "0 < n"
  shows "full_blocks n f f inp c = (rest n inp, foldl f c (blocks n inp))"
proof (induction inp arbitrary: c rule: block_induct [OF n])
  case (1 xs)
  then show ?case by (simp add: full_blocks.simps)
next
  case (2 b xs)
  have "full_blocks n f f (b @ xs) c = full_blocks n f f xs (f c b)"
    using 2 n by (subst full_blocks.simps) simp
  then show ?case using 2 n by (simp add: rest_cons blocks_cons)
qed

lemma buffer_rest_eq:
  assumes "length p = n" "np + length inp < n"
  shows "buffer_rest n p np inp = Ret (fill_block p np inp, np + length inp)"
proof (cases "inp = []")
  case True
  then show ?thesis by (simp add: buffer_rest.simps fill_block_def)
next
  case False
  have "min (n - np) (length inp) = length inp" using assms by simp
  then show ?thesis using False assms(2)
    by (subst buffer_rest.simps) (simp add: Let_def buffer_rest.simps [of n _ _ "[]"])
qed

lemma accumulate_eq:
  assumes b: "buffered n p np r"
  shows "\<exists>p' np'. cf_blockwise_accumulate n f inp (p, np, c) = Ret (p', np', foldl f c (blocks n (r @ inp))) \<and>
    buffered n p' np' (rest n (r @ inp))"
proof -
  have l: "length p = n" "np < n" "take np p = r" "length r = np"
    using b buffered_length [OF b] by (simp_all add: buffered_def)
  have n: "0 < n" using l by simp
  have fill0: "fill_block p np [] = p" by (simp add: fill_block_def)
  have filled: "buffered n (fill_block q 0 (rest n xs)) (length (rest n xs)) (rest n xs)"
      "buffer_rest n q 0 (rest n xs) = Ret (fill_block q 0 (rest n xs), length (rest n xs))"
    if "length q = n" for q xs
  proof -
    have s: "length (rest n xs) < n" using n by (simp add: length_rest)
    show "buffered n (fill_block q 0 (rest n xs)) (length (rest n xs)) (rest n xs)"
      using fill_block_simps [of 0 "rest n xs" q] s that by (simp add: buffered_def)
    show "buffer_rest n q 0 (rest n xs) = Ret (fill_block q 0 (rest n xs), length (rest n xs))"
      using buffer_rest_eq [of q n 0 "rest n xs"] s that by simp
  qed
  let ?acc = "cf_blockwise_accumulate n f inp (p, np, c)"
  consider "inp = []" | "inp \<noteq> []" "np = 0" | "inp \<noteq> []" "np \<noteq> 0" "np + length inp < n"
    | "inp \<noteq> []" "np \<noteq> 0" "n \<le> np + length inp" by linarith
  then show ?thesis
  proof cases
    case 1
    then have "?acc = Ret (p, np, c)"
      using l n by (simp add: cf_blockwise_accumulate_def cf_blockwise_accumulate_final_def fill0
          full_blocks_eq buffer_rest.simps)
    with 1 b l show ?thesis by simp
  next
    case 2
    then have "?acc = Ret (fill_block p 0 (rest n inp), length (rest n inp), foldl f c (blocks n inp))"
      using l n filled(2) [of p inp]
      by (simp add: cf_blockwise_accumulate_def cf_blockwise_accumulate_final_def Let_def fill_block_def [of p 0 "[]"]
          full_blocks_eq)
    with 2 l filled(1) [of p inp] show ?thesis by simp
  next
    case 3
    have t: "min (n - np) (length inp) = length inp" using 3 by simp
    have "?acc = Ret (fill_block p np inp, np + length inp, c)"
      using 3 l n t
      by (simp add: cf_blockwise_accumulate_def cf_blockwise_accumulate_final_def Let_def full_blocks_eq
          buffer_rest.simps)
    moreover have "buffered n (fill_block p np inp) (np + length inp) (r @ inp)"
      using fill_block_simps [of np inp p] 3 l by (simp add: buffered_def)
    ultimately show ?thesis using 3 l by simp
  next
    case 4
    define k where "k = n - np"
    have t: "min (n - np) (length inp) = k" and k: "k \<noteq> 0" "np + k = n" "k \<le> length inp"
      using 4 l by (simp_all add: k_def)
    let ?b = "fill_block p np (take k inp)"
    have fb: "?b = r @ take k inp" "length ?b = n" using l k by (simp_all add: fill_block_def)
    have "?acc = Ret (fill_block ?b 0 (rest n (drop k inp)), length (rest n (drop k inp)),
        foldl f (f c ?b) (blocks n (drop k inp)))"
      using 4 l n t k filled(2) [OF fb(2), of "drop k inp"]
      by (simp add: cf_blockwise_accumulate_def cf_blockwise_accumulate_final_def Let_def full_blocks_eq)
    moreover have "r @ inp = ?b @ drop k inp" by (simp add: fb(1))
    ultimately show ?thesis
      using n fb(2) filled(1) [OF fb(2), of "drop k inp"] by (simp add: blocks_cons rest_cons)
  qed
qed

text \<open>A run of one byte, with its shortcut, is the same as the bytes given one after the other.\<close>

lemma acc_byte_eq:
  assumes "buffered n p np r" "filled \<Longrightarrow> p = replicate n b"
  shows "\<exists>p' np'. acc_byte_loop n f b k filled (p, np, c) = Ret (p', np', foldl f c (blocks n (r @ replicate k b))) \<and>
    buffered n p' np' (rest n (r @ replicate k b))"
  using assms
proof (induction k arbitrary: p np r filled c rule: less_induct)
  case (less k)
  note b = less.prems(1)
  have l: "length p = n" "np < n" "take np p = r" "length r = np"
    using b buffered_length [OF b] by (simp_all add: buffered_def)
  have n: "0 < n" using l by simp
  show ?case
  proof (cases "k = 0")
    case True
    then show ?thesis using l b by (simp add: acc_byte_loop.simps)
  next
    case False
    define count where "count = min k (n - np)"
    define p' where "p' = (if filled then p else fill_block p np (replicate count b))"
    have count: "count \<noteq> 0" "np + count \<le> n" "count \<le> k" using False l by (auto simp: count_def)
    have p': "length p' = n" "take (np + count) p' = r @ replicate count b"
    proof -
      show "length p' = n" using l count fill_block_simps [of np "replicate count b" p] by (simp add: p'_def)
      show "take (np + count) p' = r @ replicate count b"
      proof (cases filled)
        case True
        with less.prems(2) have "p = replicate n b" by simp
        moreover have "r = replicate np b" using l(3) l(2) calculation by simp
        ultimately show ?thesis using True count by (simp add: p'_def replicate_add)
      qed (use l count fill_block_simps [of np "replicate count b" p] in \<open>simp add: p'_def\<close>)
    qed
    have filled': "p' = replicate n b" if "filled \<or> (np = 0 \<and> count = n)"
      using that less.prems(2) l by (auto simp: p'_def fill_block_def)
    have loop: "acc_byte_loop n f b k filled (p, np, c) =
      (if np + count = n
       then acc_byte_loop n f b (k - count) (filled \<or> (np = 0 \<and> count = n)) (p', 0, f c p')
       else acc_byte_loop n f b (k - count) (filled \<or> (np = 0 \<and> count = n)) (p', np + count, c))"
      using False count(1) by (subst acc_byte_loop.simps) (simp add: count_def p'_def Let_def)
    have k: "replicate k b = replicate count b @ replicate (k - count) b"
      using count(3) by (simp add: replicate_add [symmetric])
    show ?thesis
    proof (cases "np + count = n")
      case True
      have all: "p' = r @ replicate count b" using p' True by simp
      have "buffered n p' 0 []" using p' n by (simp add: buffered_def)
      from less.IH [OF _ this, of "k - count" "filled \<or> (np = 0 \<and> count = n)" "f c p'"] filled' count
      obtain p2 np2 where
        "acc_byte_loop n f b (k - count) (filled \<or> (np = 0 \<and> count = n)) (p', 0, f c p') =
          Ret (p2, np2, foldl f (f c p') (blocks n ([] @ replicate (k - count) b)))"
        "buffered n p2 np2 (rest n ([] @ replicate (k - count) b))" by fastforce
      moreover have "r @ replicate k b = p' @ replicate (k - count) b" by (simp add: k all)
      ultimately show ?thesis using True loop p'(1) n by (simp add: blocks_cons rest_cons)
    next
      case False
      then have c: "count = k" "np + k < n" using count by (auto simp: count_def min_def split: if_splits)
      have "buffered n p' (np + k) (r @ replicate k b)" using p' c by (simp add: buffered_def)
      then show ?thesis using False loop c l by (simp add: acc_byte_loop.simps)
    qed
  qed
qed

lemma acc_pad_eq:
  assumes "buffered n p np r"
  shows "\<exists>p' np'. cf_blockwise_acc_pad n f x 0 0 (Suc k) (p, np, c) =
      Ret (p', np', foldl f c (blocks n (r @ x # replicate k 0))) \<and>
    buffered n p' np' (rest n (r @ x # replicate k 0))"
proof -
  have n: "0 < n" using assms by (auto simp: buffered_def)
  obtain p1 np1 where 1: "cf_blockwise_accumulate n f [x] (p, np, c) =
      Ret (p1, np1, foldl f c (blocks n (r @ [x])))" "buffered n p1 np1 (rest n (r @ [x]))"
    using accumulate_eq [OF assms, where f = f and inp = "[x]" and c = c] by blast
  have split: "r @ x # replicate k 0 = (r @ [x]) @ replicate k 0" by simp
  have tail: "foldl f c (blocks n (r @ x # replicate k 0)) =
      foldl f (foldl f c (blocks n (r @ [x]))) (blocks n (rest n (r @ [x]) @ replicate k 0))"
    "rest n (r @ x # replicate k 0) = rest n (rest n (r @ [x]) @ replicate k 0)"
    unfolding split blocks_append [OF n, of "r @ [x]" "replicate k 0"] foldl_append
    by (rule refl, rule rest_append [OF n])
  consider "k = 0" | "k = 1" | "2 \<le> k" by linarith
  then show ?thesis
  proof cases
    case 1
    then show ?thesis using \<open>cf_blockwise_accumulate n f [x] (p, np, c) = _\<close>
        \<open>buffered n p1 np1 (rest n (r @ [x]))\<close> by (simp add: cf_blockwise_acc_pad_def)
  next
    case 2
    from accumulate_eq [OF 1(2), where f = f and inp = "[0]" and c = "foldl f c (blocks n (r @ [x]))"] show ?thesis
      unfolding tail using 1(1) 2 by (simp add: cf_blockwise_acc_pad_def)
  next
    case 3
    from acc_byte_eq [OF 1(2), where filled = False and b = 0 and f = f and k = k
        and c = "foldl f c (blocks n (r @ [x]))"] show ?thesis
      unfolding tail using 1(1) 3 by (simp add: cf_blockwise_acc_pad_def cf_blockwise_acc_byte_def)
  qed
qed

section \<open>The compression function\<close>

text \<open>The message schedule of FIPS 180-4: eighty words, the first sixteen from the block.\<close>

fun schedule :: "bytes \<Rightarrow> nat \<Rightarrow> u32" where
  "schedule b t = (if t < 16 then read32_be (drop (4 * t) b)
     else rotl32 (schedule b (t - 3) XOR schedule b (t - 8) XOR schedule b (t - 14) XOR schedule b (t - 16)) 1)"

declare schedule.simps [simp del]

definition compress :: "sha1_state \<Rightarrow> bytes \<Rightarrow> sha1_state" where
  "compress H b = add_states H (fold (\<lambda>t. sha1_mix t (schedule b t)) [0..<80] H)"

text \<open>After \<open>n\<close> rounds the window holds the last sixteen words.\<close>

definition window :: "bytes \<Rightarrow> nat \<Rightarrow> u32 list \<Rightarrow> bool" where
  "window b n W \<longleftrightarrow> length W = 16 \<and> (\<forall>i<n. n \<le> i + 16 \<longrightarrow> W ! (i mod 16) = schedule b i)"

lemma window_read: "window b n W \<Longrightarrow> i < n \<Longrightarrow> n \<le> i + 16 \<Longrightarrow> W ! (i mod 16) = schedule b i"
  by (simp add: window_def)

lemma window_write:
  assumes "window b n W"
  shows "window b (Suc n) (W[n mod 16 := schedule b n])"
  unfolding window_def
proof (intro conjI allI impI)
  show "length (W[n mod 16 := schedule b n]) = 16" using assms by (simp add: window_def)
  fix i assume i: "i < Suc n" "Suc n \<le> i + 16"
  have len: "n mod 16 < length W" using assms by (simp add: window_def)
  show "W[n mod 16 := schedule b n] ! (i mod 16) = schedule b i"
  proof (cases "i = n")
    case False
    then have "n - i < 16" "0 < n - i" using i by auto
    have "i mod 16 \<noteq> n mod 16"
    proof
      assume "i mod 16 = n mod 16"
      then have "(n - i) mod 16 = 0" using i(1) by (metis mod_eq_dvd_iff_nat dvd_imp_mod_0 less_Suc_eq_le)
      with \<open>n - i < 16\<close> \<open>0 < n - i\<close> show False by simp
    qed
    then show ?thesis using window_read [OF assms, of i] False i by simp
  qed (use len in simp)
qed

lemma rounds:
  assumes "n \<le> 80" "length W = 16"
  shows "snd (fold (sha1_round b) [0..<n] (W, H)) = fold (\<lambda>t. sha1_mix t (schedule b t)) [0..<n] H \<and>
    window b n (fst (fold (sha1_round b) [0..<n] (W, H)))"
  using assms(1)
proof (induction n)
  case 0
  then show ?case using assms(2) by (simp add: window_def)
next
  case (Suc n)
  obtain W1 s1 where 1: "fold (sha1_round b) [0..<n] (W, H) = (W1, s1)" by (metis surj_pair)
  have w: "window b n W1" and s: "s1 = fold (\<lambda>t. sha1_mix t (schedule b t)) [0..<n] H"
    using Suc 1 by simp_all
  have Wt: "(if n < 16 then read32_be (drop (4 * n) b)
      else rotl32 (W1 ! ((n - 3) mod 16) XOR W1 ! ((n - 8) mod 16) XOR
                   W1 ! ((n - 14) mod 16) XOR W1 ! ((n - 16) mod 16)) 1) = schedule b n"
    by (subst schedule.simps) (simp add: window_read [OF w])
  have "sha1_round b n (W1, s1) = (W1[n mod 16 := schedule b n], sha1_mix n (schedule b n) s1)"
    using Wt by (simp add: sha1_round_def Let_def)
  then show ?case using 1 s window_write [OF w] by simp
qed

lemma sha1_update_block_eq: "sha1_update_block (H, k) b = (compress H b, k + 1)"
  using rounds [of 80 "replicate 16 0" b H] by (simp add: sha1_update_block_def compress_def)

section \<open>SHA-1\<close>

definition sha1_H0 :: sha1_state where
  "sha1_H0 = (0x67452301, 0xefcdab89, 0x98badcfe, 0x10325476, 0xc3d2e1f0)"

text \<open>The padded message: a one bit, zeros up to eight bytes before a block boundary, the length in bits.\<close>

definition sha1_pad :: "bytes \<Rightarrow> bytes" where
  "sha1_pad m = m @ 0x80 # replicate (63 - (length m + 8) mod 64) 0 @ write64_be (of_nat (8 * length m))"

definition sha1 :: "bytes \<Rightarrow> bytes" where
  "sha1 m = sha1_output (foldl compress sha1_H0 (blocks 64 (sha1_pad m)))"

text \<open>A context that has taken the message \<open>m\<close>.\<close>

definition absorbed :: "bytes \<Rightarrow> cf_sha1_context \<Rightarrow> bool" where
  "absorbed m = (\<lambda>(p, np, (H, k)). buffered 64 p np (rest 64 m) \<and>
     H = foldl compress sha1_H0 (blocks 64 m) \<and> k = of_nat (length (blocks 64 m)))"

lemma foldl_update: "foldl sha1_update_block (H, k) bs = (foldl compress H bs, k + of_nat (length bs))"
  by (induction bs arbitrary: H k) (simp_all add: sha1_update_block_eq)

lemma length_blocks: "0 < n \<Longrightarrow> length (blocks n xs) = length xs div n"
  by (rule block_induct [of n _ xs]) (simp_all add: blocks_cons div_add_self1)

lemma absorbed_init: "absorbed [] cf_sha1_init"
  by (simp add: absorbed_def cf_sha1_init_def buffered_def sha1_H0_def)

lemma absorbed_update:
  assumes "absorbed m ctx"
  shows "\<exists>ctx'. cf_sha1_update ctx d = Ret ctx' \<and> absorbed (m @ d) ctx'"
proof -
  obtain p np H k where ctx: "ctx = (p, np, (H, k))" by (metis surj_pair)
  have a: "buffered 64 p np (rest 64 m)" "H = foldl compress sha1_H0 (blocks 64 m)"
    "k = of_nat (length (blocks 64 m))" using assms by (simp_all add: absorbed_def ctx)
  from accumulate_eq [OF a(1), where f = sha1_update_block and inp = d and c = "(H, k)"]
  obtain p' np' where 1: "cf_blockwise_accumulate 64 sha1_update_block d (p, np, (H, k)) =
      Ret (p', np', foldl sha1_update_block (H, k) (blocks 64 (rest 64 m @ d)))"
    "buffered 64 p' np' (rest 64 (rest 64 m @ d))" by blast
  let ?ctx = "(p', np', foldl sha1_update_block (H, k) (blocks 64 (rest 64 m @ d)))"
  have "absorbed (m @ d) ?ctx"
    using 1(2) a(2, 3) unfolding foldl_update
    by (simp add: absorbed_def blocks_append [of 64 m d] rest_append [of 64 m d])
  moreover have "cf_sha1_update ctx d = Ret ?ctx" using 1(1) by (simp add: ctx cf_sha1_update_def)
  ultimately show ?thesis by blast
qed

text \<open>A digest is right as long as the number of blocks fits its 32 bits.\<close>

lemma padded_whole: "length (sha1_pad m) mod 64 = 0"
proof -
  have "length (sha1_pad m) = (length m + 8) + (64 - (length m + 8) mod 64)"
    using mod_less_divisor [of 64 "length m + 8"]
    by (simp add: sha1_pad_def write64_be_def del: mod_less_divisor)
  moreover have "(a + (64 - a mod 64)) mod 64 = 0" for a :: nat by presburger
  ultimately show ?thesis by (simp only:)
qed

lemma absorbed_digest:
  assumes "absorbed m ctx" and len: "length m < 2 ^ 38"
  shows "cf_sha1_digest ctx = Ret (sha1 m)"
proof -
  obtain p np H k where ctx: "ctx = (p, np, (H, k))" by (metis surj_pair)
  have a: "buffered 64 p np (rest 64 m)" "H = foldl compress sha1_H0 (blocks 64 m)"
    "k = of_nat (length (blocks 64 m))" using assms(1) by (simp_all add: absorbed_def ctx)
  have np: "np = length m mod 64" using buffered_length [OF a(1)] by (simp add: length_rest)
  have "length m div 64 < 2 ^ 32" using len by (simp add: less_mult_imp_div_less)
  then have k: "ucast k = (of_nat (length m div 64) :: u64)"
    by (simp add: a(3) length_blocks unsigned_of_nat take_bit_nat_eq_self)
  have bytes: "(ucast k * 64 + of_nat np :: u64) = of_nat (length m)"
  proof -
    have "(ucast k * 64 + of_nat np :: u64) = of_nat (length m div 64 * 64 + length m mod 64)"
      unfolding k np by (simp only: of_nat_add of_nat_mult of_nat_numeral)
    then show ?thesis by (simp only: div_mult_mod_eq)
  qed
  have un: "unat (of_nat (length m) + 8 :: u64) = length m + 8"
  proof -
    have "unat (of_nat (length m + 8) :: u64) = length m + 8"
      using len by (simp only: unat_of_nat) (simp add: take_bit_nat_eq_self)
    then show ?thesis by simp
  qed
  have m64: "unat ((of_nat (length m) + 8 :: u64) mod 64) = (length m + 8) mod 64"
    by (simp add: unat_mod un)
  have pad: "unat (64 - ((of_nat (length m) + 8 :: u64) mod 64)) = Suc (63 - (length m + 8) mod 64)"
  proof -
    have l: "(length m + 8) mod 64 < 64" by simp
    have "(of_nat (length m) + 8 :: u64) mod 64 \<le> 64"
      by (simp add: word_le_nat_alt m64 less_imp_le)
    then have "unat (64 - ((of_nat (length m) + 8 :: u64) mod 64)) = 64 - (length m + 8) mod 64"
      by (simp add: unat_sub m64)
    then show ?thesis using l by simp
  qed
  let ?z = "0x80 # replicate (63 - (length m + 8) mod 64) 0"
  let ?n = "of_nat (8 * length m) :: u64"
  obtain p1 np1 where 1: "cf_blockwise_acc_pad 64 sha1_update_block 0x80 0 0 (Suc (63 - (length m + 8) mod 64))
      (p, np, (H, k)) = Ret (p1, np1, foldl sha1_update_block (H, k) (blocks 64 (rest 64 m @ ?z)))"
    "buffered 64 p1 np1 (rest 64 (rest 64 m @ ?z))"
    using acc_pad_eq [OF a(1), where f = sha1_update_block and x = "0x80" and c = "(H, k)"
        and k = "63 - (length m + 8) mod 64"] by blast
  have abs: "absorbed (m @ ?z) (p1, np1, foldl sha1_update_block (H, k) (blocks 64 (rest 64 m @ ?z)))"
    using 1(2) a(2, 3) unfolding foldl_update
    by (simp add: absorbed_def blocks_append [of 64 m ?z] rest_append [of 64 m ?z])
  obtain ctx' where 2: "cf_sha1_update (p1, np1, foldl sha1_update_block (H, k) (blocks 64 (rest 64 m @ ?z)))
      (write64_be ?n) = Ret ctx'" "absorbed ((m @ ?z) @ write64_be ?n) ctx'"
    using absorbed_update [OF abs] by blast
  have whole: "(m @ ?z) @ write64_be ?n = sha1_pad m" by (simp add: sha1_pad_def)
  obtain p2 np2 H2 k2 where ctx': "ctx' = (p2, np2, (H2, k2))" by (metis surj_pair)
  have "buffered 64 p2 np2 (rest 64 (sha1_pad m))" and H2: "H2 = foldl compress sha1_H0 (blocks 64 (sha1_pad m))"
    using 2(2) unfolding whole by (simp_all add: absorbed_def ctx')
  then have np2: "np2 = 0" using buffered_length padded_whole by (metis length_rest zero_less_numeral)
  have bits: "of_nat (length m) * 8 = ?n" by simp
  have "cf_sha1_digest ctx = obind (cf_sha1_update (p1, np1, foldl sha1_update_block (H, k) (blocks 64 (rest 64 m @ ?z)))
      (write64_be ?n)) (\<lambda>(p2, np2, (H2, blocks2)). if np2 \<noteq> 0 then ExitFail else Ret (sha1_output H2))"
    unfolding ctx cf_sha1_digest_def Let_def prod.case bytes pad bits 1(1) obind.simps ..
  then show ?thesis unfolding 2(1) ctx' using np2 H2 by (simp add: sha1_def)
qed

section \<open>HMAC and PBKDF2 over a hash\<close>

text \<open>RFC 2104 and RFC 8018, over a hash function with its block size \<open>B\<close>.\<close>

definition hmac :: "(bytes \<Rightarrow> bytes) \<Rightarrow> nat \<Rightarrow> bytes \<Rightarrow> bytes \<Rightarrow> bytes" where
  "hmac H B key m =
     (let k0 = (if B < length key then H key else key);
          k = k0 @ replicate (B - length k0) 0
      in H (map (\<lambda>y. y XOR 0x5c) k @ H (map (\<lambda>y. y XOR 0x36) k @ m)))"

text \<open>The iterates of the pseudo-random function, their sum, and the blocks of the key.\<close>

fun iterates :: "(bytes \<Rightarrow> bytes) \<Rightarrow> nat \<Rightarrow> bytes \<Rightarrow> bytes list" where
  "iterates prf 0 u = []"
| "iterates prf (Suc n) u = prf u # iterates prf n (prf u)"

definition pbkdf2_block :: "(bytes \<Rightarrow> bytes) \<Rightarrow> bytes \<Rightarrow> nat \<Rightarrow> nat \<Rightarrow> bytes" where
  "pbkdf2_block prf salt c i =
     (let u = prf (salt @ write32_be (of_nat i)) in foldl xor_bb u (iterates prf (c - 1) u))"

definition pbkdf2_key :: "(bytes \<Rightarrow> bytes) \<Rightarrow> nat \<Rightarrow> bytes \<Rightarrow> nat \<Rightarrow> nat \<Rightarrow> bytes" where
  "pbkdf2_key prf L salt c n = take n (concat (map (pbkdf2_block prf salt c) [1 ..< Suc ((n + L - 1) div L)]))"

text \<open>
  The interface of chash.h: \<open>taken m c\<close>, the context \<open>c\<close> has taken the message \<open>m\<close>. Messages below a limit
  are hashed to \<open>H m\<close>.
\<close>

locale chash =
  fixes h :: "'c cf_chash" and taken :: "bytes \<Rightarrow> 'c \<Rightarrow> bool" and H :: "bytes \<Rightarrow> bytes" and limit :: nat
  assumes init_law: "taken [] (ch_init h)"
    and update_law: "taken m c \<Longrightarrow> \<exists>c'. ch_update h c d = Ret c' \<and> taken (m @ d) c'"
    and digest_law: "taken m c \<Longrightarrow> length m < limit \<Longrightarrow> ch_digest h c = Ret (H m)"
    and size_law: "length (H m) = hashsz h" "0 < hashsz h" "hashsz h \<le> blocksz h" "2 * blocksz h < limit"
begin

lemma cf_hash_eq: "length m < limit \<Longrightarrow> cf_hash h m = Ret (H m)"
  using update_law [OF init_law, of m] digest_law by (auto simp: cf_hash_def)

text \<open>A keyed context: the inner hash has taken the padded key and the message, the outer the padded key.\<close>

definition padded_key :: "bytes \<Rightarrow> bytes" where
  "padded_key key = (let k0 = (if blocksz h < length key then H key else key)
     in k0 @ replicate (blocksz h - length k0) 0)"

definition keyed :: "bytes \<Rightarrow> bytes \<Rightarrow> 'c cf_hmac_ctx \<Rightarrow> bool" where
  "keyed key m ctx \<longleftrightarrow> hm_hash ctx = h \<and>
     taken (xor_b8 (padded_key key) 0x36 @ m) (inner ctx) \<and> taken (xor_b8 (padded_key key) 0x5c) (outer ctx)"

lemma length_padded_key: "length (padded_key key) = blocksz h"
  using size_law by (simp add: padded_key_def Let_def)

lemma keyed_init:
  assumes "length key < limit"
  shows "\<exists>ctx. cf_hmac_init h key = Ret ctx \<and> keyed key [] ctx"
proof -
  have k: "(if blocksz h < length key then (if \<not> hashsz h \<le> blocksz h then ExitFail else cf_hash h key) else Ret key) =
      Ret (if blocksz h < length key then H key else key)"
    using assms size_law(3) by (simp add: cf_hash_eq)
  obtain i where i: "ch_update h (ch_init h) (xor_b8 (padded_key key) 0x36) = Ret i"
      "taken (xor_b8 (padded_key key) 0x36) i"
    using update_law [OF init_law, of "xor_b8 (padded_key key) 0x36"] by auto
  obtain out where out: "ch_update h (ch_init h) (xor_b8 (padded_key key) 0x5c) = Ret out"
      "taken (xor_b8 (padded_key key) 0x5c) out"
    using update_law [OF init_law, of "xor_b8 (padded_key key) 0x5c"] by auto
  have "cf_hmac_init h key = Ret \<lparr>hm_hash = h, inner = i, outer = out\<rparr>"
    using i(1) out(1) unfolding cf_hmac_init_def k by (simp add: padded_key_def Let_def)
  then show ?thesis using i(2) out(2) by (simp add: keyed_def)
qed

lemma keyed_update:
  assumes "keyed key m ctx"
  shows "\<exists>ctx'. cf_hmac_update ctx d = Ret ctx' \<and> keyed key (m @ d) ctx'"
  using assms update_law [of "xor_b8 (padded_key key) 0x36 @ m" "inner ctx" d]
  by (auto simp: keyed_def cf_hmac_update_def)

lemma keyed_finish:
  assumes k: "keyed key m ctx" and len: "blocksz h + length m < limit"
  shows "cf_hmac_finish ctx = Ret (hmac H (blocksz h) key m)"
proof -
  let ?i = "xor_b8 (padded_key key) 0x36" and ?o = "xor_b8 (padded_key key) 0x5c"
  have l: "length ?i = blocksz h" "length ?o = blocksz h"
    by (simp_all add: xor_b8_def length_padded_key)
  have 1: "ch_digest h (inner ctx) = Ret (H (?i @ m))"
    using k digest_law [of "?i @ m" "inner ctx"] len l by (simp add: keyed_def)
  obtain c where 2: "ch_update h (outer ctx) (H (?i @ m)) = Ret c" "taken (?o @ H (?i @ m)) c"
    using k update_law [of ?o "outer ctx" "H (?i @ m)"] by (auto simp: keyed_def)
  have "ch_digest h c = Ret (H (?o @ H (?i @ m)))"
    by (rule digest_law [OF 2(2)]) (use l size_law in simp)
  then show ?thesis
    using k 1 2(1) by (simp add: cf_hmac_finish_def keyed_def hmac_def padded_key_def xor_b8_def Let_def)
qed

lemma length_hmac: "length (hmac H (blocksz h) key m) = hashsz h"
  by (simp add: hmac_def Let_def size_law)

lemma cf_hmac_eq:
  assumes "length key < limit" "blocksz h + length m < limit"
  shows "cf_hmac key m h = Ret (hmac H (blocksz h) key m)"
proof -
  obtain c1 where 1: "cf_hmac_init h key = Ret c1" "keyed key [] c1" using keyed_init [OF assms(1)] by blast
  obtain c2 where 2: "cf_hmac_update c1 m = Ret c2" "keyed key ([] @ m) c2" using keyed_update [OF 1(2)] by blast
  show ?thesis using 1(1) 2 keyed_finish [of key m c2] assms(2) by (simp add: cf_hmac_def)
qed

lemma F_loop_eq:
  assumes "keyed key [] ctx" "length u = hashsz h"
  shows "F_loop ctx n u out = Ret (foldl xor_bb out (iterates (hmac H (blocksz h) key) n u))"
  using assms(2)
proof (induction n arbitrary: u out)
  case (Suc n)
  obtain ctx' where 1: "cf_hmac_update ctx u = Ret ctx'" "keyed key u ctx'"
    using keyed_update [OF assms(1), of u] by auto
  have "cf_hmac_finish ctx' = Ret (hmac H (blocksz h) key u)"
    by (rule keyed_finish [OF 1(2)]) (use Suc.prems size_law in simp)
  then show ?case using 1(1) Suc.IH [OF length_hmac] by simp
qed simp

lemma F_block_eq:
  assumes "keyed key [] ctx" "blocksz h + length salt + 4 < limit"
  shows "F_block ctx (of_nat i) salt c = Ret (pbkdf2_block (hmac H (blocksz h) key) salt (unat c) i)"
proof -
  obtain c1 where 1: "cf_hmac_update ctx salt = Ret c1" "keyed key salt c1"
    using keyed_update [OF assms(1), of salt] by auto
  obtain c2 where 2: "cf_hmac_update c1 (write32_be (of_nat i)) = Ret c2"
      "keyed key (salt @ write32_be (of_nat i)) c2"
    using keyed_update [OF 1(2)] by blast
  have "cf_hmac_finish c2 = Ret (hmac H (blocksz h) key (salt @ write32_be (of_nat i)))"
    by (rule keyed_finish [OF 2(2)]) (use assms(2) in \<open>simp add: write32_be_def\<close>)
  then show ?thesis
    using 1(1) 2(1) F_loop_eq [OF assms(1) length_hmac]
    by (simp add: F_block_def pbkdf2_block_def Let_def)
qed

lemma length_xor_bb: "length x = n \<Longrightarrow> length y = n \<Longrightarrow> length (xor_bb x y) = n"
  by (simp add: xor_bb_def)

lemma length_pbkdf2_block: "length (pbkdf2_block (hmac H (blocksz h) key) salt c i) = hashsz h"
proof -
  have "length (foldl xor_bb u (iterates (hmac H (blocksz h) key) n v)) = hashsz h" if "length u = hashsz h" for n u v
    using that by (induction n arbitrary: u v) (simp_all add: length_hmac length_xor_bb)
  then show ?thesis by (simp add: pbkdf2_block_def Let_def length_hmac)
qed

lemma pbkdf2_loop_eq:
  assumes "keyed key [] ctx" "blocksz h + length salt + 4 < limit"
  shows "pbkdf2_loop ctx (of_nat i) salt c n = Ret (take n (concat (map
    (pbkdf2_block (hmac H (blocksz h) key) salt (unat c)) [i ..< i + (n + hashsz h - 1) div hashsz h])))"
proof (induction n arbitrary: i rule: less_induct)
  case (less n)
  let ?L = "hashsz h" and ?T = "pbkdf2_block (hmac H (blocksz h) key) salt (unat c)"
  have L: "0 < ?L" by (rule size_law)
  show ?case
  proof (cases "n = 0")
    case True
    then show ?thesis using L by (simp add: pbkdf2_loop.simps)
  next
    case False
    define t where "t = min n ?L"
    have t: "t \<noteq> 0" "t \<le> n" using False L by (simp_all add: t_def)
    have F: "F_block ctx (of_nat i) salt c = Ret (?T i)" by (rule F_block_eq [OF assms])
    have hm: "hm_hash ctx = h" using assms(1) by (simp add: keyed_def)
    have IH: "pbkdf2_loop ctx (of_nat (Suc i)) salt c (n - t) = Ret (take (n - t) (concat (map ?T
        [Suc i ..< Suc i + (n - t + ?L - 1) div ?L])))"
      by (rule less.IH) (use t in simp)
    have eq: "pbkdf2_loop ctx (of_nat i) salt c n = Ret (take t (?T i) @ take (n - t) (concat (map ?T
        [Suc i ..< Suc i + (n - t + ?L - 1) div ?L])))"
    proof -
      have step: "pbkdf2_loop ctx (of_nat i) salt c n = obind (Ret (?T i)) (\<lambda>block.
          let taken = t in if taken = 0 then Diverge
          else obind (pbkdf2_loop ctx (of_nat (Suc i)) salt c (n - t)) (\<lambda>rest. Ret (take taken block @ rest)))"
        unfolding pbkdf2_loop.simps [of ctx "of_nat i" salt c n] F hm t_def
        using False by (simp only: if_False Let_def of_nat_Suc add.commute)
      show ?thesis unfolding step IH using t(1) by (simp only: obind.simps Let_def if_False)
    qed
    have count: "(n + ?L - 1) div ?L = Suc ((n - t + ?L - 1) div ?L)"
    proof (cases "n \<le> ?L")
      case True
      then have "n - t = 0" by (simp add: t_def)
      moreover have "n + ?L - 1 = (n - 1) + ?L" using False by simp
      moreover have "((n - 1) + ?L) div ?L = Suc 0"
        using True False L div_add_self2 [of ?L "n - 1"] div_less [of "n - 1" ?L] by simp
      moreover have "(?L - 1) div ?L = 0" using L by simp
      ultimately show ?thesis by (simp only: add_0)
    next
      case more: False
      then have "n + ?L - 1 = (n - t + ?L - 1) + ?L" using L by (simp add: t_def)
      moreover have "((n - t + ?L - 1) + ?L) div ?L = (n - t + ?L - 1) div ?L + 1"
        by (rule div_add_self2) (use L in simp)
      ultimately show ?thesis by (simp only: Suc_eq_plus1)
    qed
    have "take n (?T i @ xs) = take t (?T i) @ take (n - t) xs" for xs
      by (simp add: t_def length_pbkdf2_block min_def)
    then show ?thesis unfolding eq count by (simp add: upt_conv_Cons del: upt_Suc)
  qed
qed

lemma cf_pbkdf2_hmac_eq:
  assumes "length pw < limit" "blocksz h + length salt + 4 < limit" "c \<noteq> 0" "n \<noteq> 0"
  shows "cf_pbkdf2_hmac pw salt c n h = Ret (pbkdf2_key (hmac H (blocksz h) pw) (hashsz h) salt (unat c) n)"
proof -
  obtain ctx where 1: "cf_hmac_init h pw = Ret ctx" "keyed pw [] ctx"
    using keyed_init [OF assms(1)] by blast
  show ?thesis
    using 1(1) pbkdf2_loop_eq [OF 1(2) assms(2), of 1 c n] assms(3, 4)
    by (simp add: cf_pbkdf2_hmac_def pbkdf2_key_def)
qed

end

lemma length_sha1: "length (sha1 m) = 20"
  by (simp add: sha1_def sha1_output_def write32_be_def split: prod.split)

lemma cf_sha1_fields:
  "hashsz cf_sha1 = 20" "blocksz cf_sha1 = 64" "ch_init cf_sha1 = cf_sha1_init"
  "ch_update cf_sha1 = cf_sha1_update" "ch_digest cf_sha1 = cf_sha1_digest"
  by (simp_all add: cf_sha1_def)

interpretation sha: chash cf_sha1 absorbed sha1 "2 ^ 38"
proof (unfold_locales, unfold cf_sha1_fields)
  show "absorbed [] cf_sha1_init" by (rule absorbed_init)
  show "\<exists>c'. cf_sha1_update c d = Ret c' \<and> absorbed (m @ d) c'" if "absorbed m c" for m c d
    by (rule absorbed_update [OF that])
  show "cf_sha1_digest c = Ret (sha1 m)" if "absorbed m c" "length m < 2 ^ 38" for m c
    by (rule absorbed_digest [OF that])
qed (simp_all add: length_sha1)

end
