(* ===== verification/KeyDerivation.thy ===== *)
theory KeyDerivation
  imports CifraCorrect LinuxDrives
begin

text \<open>
  What the key derivation gives the program: SHA-1 and PBKDF2 of their standards, and with them the value
  that \<^verbatim>\<open>DtaHashPwd\<close> sends to the disk.
\<close>

section \<open>Hashing in pieces\<close>

text \<open>The updates of a context, one after another.\<close>

fun sha1_updates :: "cf_sha1_context \<Rightarrow> bytes list \<Rightarrow> cf_sha1_context outcome" where
  "sha1_updates ctx [] = Ret ctx"
| "sha1_updates ctx (d # ds) = obind (cf_sha1_update ctx d) (\<lambda>ctx'. sha1_updates ctx' ds)"

lemma absorbed_updates:
  "absorbed m ctx \<Longrightarrow> \<exists>ctx'. sha1_updates ctx ds = Ret ctx' \<and> absorbed (m @ concat ds) ctx'"
proof (induction ds arbitrary: m ctx)
  case (Cons d ds)
  obtain c where 1: "cf_sha1_update ctx d = Ret c" "absorbed (m @ d) c"
    using absorbed_update [OF Cons.prems] by blast
  obtain c' where 2: "sha1_updates c ds = Ret c'" "absorbed ((m @ d) @ concat ds) c'"
    using Cons.IH [OF 1(2)] by blast
  have "sha1_updates ctx (d # ds) = Ret c'" using 1(1) 2(1) by (simp only: sha1_updates.simps obind.simps)
  then show ?case using 2(2) by (simp only: concat.simps append_assoc) blast
qed (simp only: sha1_updates.simps concat.simps append_Nil2, blast)



section \<open>The derived key\<close>

text \<open>The keyed hash is HMAC of RFC 2104 over SHA-1, for any key and message below the limits of the hash: a
  key longer than a block is hashed first, a shorter one padded.\<close>

lemma hmac_is_standard:
  assumes "length key < 2 ^ 38" "64 + length m < 2 ^ 38"
  shows "cf_hmac key m cf_sha1 = Ret (hmac sha1 64 key m)"
  using sha.cf_hmac_eq [of key m] assms by (simp add: cf_sha1_fields)

lemma pbkdf2_eq:
  assumes "length pw < 2 ^ 38" "length salt + 68 < 2 ^ 38" "iterations \<noteq> 0" "n \<noteq> 0"
  shows "cf_pbkdf2_hmac pw salt iterations n cf_sha1 =
    Ret (pbkdf2_key (hmac sha1 64 pw) 20 salt (unat iterations) n)"
  using sha.cf_pbkdf2_hmac_eq [of pw salt iterations n] assms by (simp add: cf_sha1_fields)



lemma length_concat_same: "(\<And>x. x \<in> set xs \<Longrightarrow> length (f x) = k) \<Longrightarrow> length (concat (map f xs)) = length xs * k"
  by (induction xs) simp_all

lemma length_pbkdf2_key: "length (pbkdf2_key (hmac sha1 64 pw) 20 salt c 32) = 32"
proof -
  have "length (pbkdf2_block (hmac sha1 64 pw) salt c i) = 20" for i
    using sha.length_pbkdf2_block [of pw salt c i] by (simp add: cf_sha1_fields)
  then have "length (concat (map (pbkdf2_block (hmac sha1 64 pw) salt c) [1 ..< 3])) = 40"
    by (subst length_concat_same [where k = 20]) simp_all
  then show ?thesis by (simp add: pbkdf2_key_def)
qed

lemma hash_value:
  assumes "password \<noteq> []" "\<not> no_hash_passwords d" "pbkdf2 E = derived_key"
  shows "DtaHashPwd E password d = 0xd0 # 0x20 #
    pbkdf2_key (hmac sha1 64 (take 256 password)) 20 (take 20 (getSerialNum d)) 75000 32"
proof -
  let ?key = "pbkdf2_key (hmac sha1 64 (take 256 password)) 20 (take 20 (getSerialNum d)) 75000 32"
  have "cf_pbkdf2_hmac (take 256 password) (take 20 (getSerialNum d)) 75000 32 cf_sha1 = Ret ?key"
    by (subst pbkdf2_eq) simp_all
  then have "derived_key (take 256 password) (take 20 (getSerialNum d)) 75000 32 = ?key"
    by (simp add: derived_key_def)
  moreover have "take (min (length password) 256) password = take 256 password" by (simp add: min_def)
  ultimately show ?thesis
    using assms by (simp add: DtaHashPwd_def DtaHashPassword_def strnlen_def Let_def
      read_block_def length_pbkdf2_key)
qed

text \<open>C29. On Linux, a password that is not empty and is to be hashed goes to the disk as the medium atom of 32 bytes
  \<^verbatim>\<open>d0 20\<close>, followed by the PBKDF2-HMAC-SHA1 of its first 256 bytes with the drive's serial number (its 20 bytes)
  as the salt and 75000 iterations.\<close>

theorem password_hash_value:
  assumes "password \<noteq> []" "\<not> no_hash_passwords d"
  shows "DtaHashPwd (linux_env K addr files) password d = 0xd0 # 0x20 #
    pbkdf2_key (hmac sha1 64 (take 256 password)) 20 (take 20 (getSerialNum d)) 75000 32"
  by (rule hash_value [OF assms]) (simp add: linux_env_def)

definition hashing_device :: "unit linux_drive dta_dev" where
  "hashing_device = (new_dev Opal2 \<lparr>fd = 3, isSAS = False, host = ()\<rparr>)
     \<lparr>disk_info := zero_disk_info\<lparr>serialNum := lit ''S3Z8NB0K0123456789AB''\<rparr>\<rparr>"

definition silent_kernel :: "unit kernel" where
  "silent_kernel = \<lparr>k_open = (\<lambda>p d. (3, d)), k_sg_io = (\<lambda>n sg d. (- 1, sg, d)),
     k_nvme_admin = (\<lambda>n c d. (- 1, c, d)), k_errno = (\<lambda>d. 5), k_fresh = (\<lambda>d. [])\<rparr>"

theorem password_hash_value_witness:
  "DtaHashPwd (linux_env silent_kernel 0x1000 (\<lambda>p. None)) (lit ''debug'') hashing_device = 0xd0 # 0x20 #
    pbkdf2_key (hmac sha1 64 (take 256 (lit ''debug''))) 20 (lit ''S3Z8NB0K0123456789AB'') 75000 32"
proof -
  have "take 20 (getSerialNum hashing_device) = lit ''S3Z8NB0K0123456789AB''"
    by (simp add: hashing_device_def getSerialNum_def new_dev_def lit_def)
  moreover have "lit ''debug'' \<noteq> []" "\<not> no_hash_passwords hashing_device"
    by (simp_all add: hashing_device_def new_dev_def lit_def)
  ultimately show ?thesis
    using password_hash_value [where K = silent_kernel and addr = "0x1000" and files = "\<lambda>p. None"
        and password = "lit ''debug''" and d = hashing_device] by simp
qed

end
