(* ===== verification/WinCorrect.thy ===== *)
theory WinCorrect
  imports WinDrives LinuxTarget KeyDerivation
begin

text \<open>
  The Windows disk classes ask for the same requests as the Linux drive classes; what Discovery 0 leaves alone;
  the salt of an NVMe drive on Windows.
\<close>

section \<open>The requests\<close>

text \<open>The task file registers as ACS defines them for TRUSTED SEND and RECEIVE.\<close>

definition decode_task :: "bytes \<Rightarrow> atacommand \<times> u8 \<times> u16 \<times> nat" where
  "decode_task t = (if peek t 6 = 0x5c then IF_RECV else IF_SEND, peek t 0, load16 t 3, 512 * unat (peek t 1))"

text \<open>SECURITY PROTOCOL IN and OUT; the length is in sectors when INC_512 is set.\<close>

definition decode_spc :: "bytes \<Rightarrow> atacommand \<times> u8 \<times> u16 \<times> nat" where
  "decode_spc cdb = (if peek cdb 0 = 0xa2 then IF_RECV else IF_SEND, peek cdb 1, SWAP16 (load16 cdb 2),
     (if bit (peek cdb 4) 7 then 512 else 1) * unat (SWAP32 (load32 cdb 6)))"

lemma length_bytes_be:
  "[ucast (drop_bit 24 (n AND 0xff000000)), ucast (drop_bit 16 (n AND 0x00ff0000)),
    ucast (drop_bit 8 (n AND 0x0000ff00)), ucast (n AND 0x000000ff)] = (be32 (n :: u32) :: bytes)"
  unfolding be32_def le32_def byte_masks by (simp, intro conjI; rule bit_word_eqI; auto simp: bit_simps)


section \<open>What Discovery 0 leaves alone\<close>

definition identity :: "opal_disk_info \<Rightarrow> dta_device_type \<times> bytes \<times> bytes \<times> bytes" where
  "identity d = (devType d, serialNum d, firmwareRev d, modelNum d)"

lemma handler_identity:
  "identity (tper_feature m q d) = identity d"
  "identity (locking_feature m q d) = identity d"
  "identity (geometry_feature m q d) = identity d"
  "identity (enterprise_feature m q d) = identity d"
  "identity (opalv100_feature m q d) = identity d"
  "identity (singleuser_feature m q d) = identity d"
  "identity (datastore_feature m q d) = identity d"
  "identity (opalv200_feature m q d) = identity d"
  "identity (blocksid_feature m q d) = identity d"
  "identity (nslocking_feature m q d) = identity d"
  "identity (other_feature m q d) = identity d"
  "identity (nsgeometry_feature m q d) = identity d"
  by (simp_all add: identity_def Let_def tper_feature_def
    locking_feature_def
    geometry_feature_def
    enterprise_feature_def
    opalv100_feature_def
    singleuser_feature_def
    datastore_feature_def
    opalv200_feature_def
    blocksid_feature_def
    nslocking_feature_def
    other_feature_def
    nsgeometry_feature_def)

lemma feature_identity:
  "feature m q d = Ret d' \<Longrightarrow> identity d' = identity d" "feature_NS m q d = Ret d' \<Longrightarrow> identity d' = identity d"
  unfolding feature_def feature_NS_def Let_def obind_eq_Ret
  by (elim exE conjE, (split if_split_asm | elim exE conjE | simp add: obind_eq_Ret handler_identity | clarify)+)+

lemma features_identity:
  "features step m epos cpos d = Ret d' \<Longrightarrow> (\<And>q d d'. step m q d = Ret d' \<Longrightarrow> identity d' = identity d) \<Longrightarrow>
   identity d' = identity d"
proof (induction step m epos cpos d arbitrary: d' rule: features.induct)
  case (1 step m epos cpos d)
  obtain d1 where d1: "step m cpos d = Ret d1"
    using "1.prems"(1) by (cases "step m cpos d") (simp_all add: features.simps [of step])
  have "identity d1 = identity d" by (rule "1.prems"(2) [OF d1])
  moreover have "identity d' = identity d1"
  proof (cases "cpos + (unat (peek m (cpos + 3)) + 4) < epos")
    case True
    show ?thesis
      by (rule "1.IH" [OF d1 refl True]) (use "1.prems" d1 True in \<open>simp_all add: features.simps [of step _ _ cpos] Let_def\<close>)
  next
    case False
    then show ?thesis using "1.prems"(1) d1 by (simp add: features.simps [of step _ _ cpos] Let_def)
  qed
  ultimately show ?case by simp
qed

definition fixed_part :: "'d dta_dev \<Rightarrow> (dta_device_type \<times> bytes \<times> bytes \<times> bytes) \<times> bool" where
  "fixed_part w = (identity (disk_info w), isOpen w)"

lemma request_identity:
  assumes "\<And>m q d d'. step m q d = Ret d' \<Longrightarrow> identity d' = identity d"
    and "\<And>w. fixed_part (snd (next_op w)) = fixed_part w"
  shows "fixed_part (snd (discovery_request E cid step next_op w)) = fixed_part w"
proof -
  obtain rc buf w1 where "sendCmd E IF_RECV 0x01 cid (replicate MIN_BUFFER_LENGTH 0) w = ((rc, buf), w1)"
    by (metis prod.collapse)
  then have r: "sendCmd_op E IF_RECV 0x01 cid (replicate MIN_BUFFER_LENGTH 0) w = (Ret (rc, buf), w1)"
    by (simp add: sendCmd_op_def)
  have w1: "disk_info w1 = disk_info w" "isOpen w1 = isOpen w"
    using r by (auto simp: sendCmd_op_def sendCmd_def split: if_splits option.splits prod.splits)
  show ?thesis
  proof (cases "rc = 0")
    case True
    have "identity d' = identity (disk_info w)" if "parse_discovery step buf (disk_info w) = Ret d'" for d'
      by (rule features_identity [OF that [unfolded parse_discovery_def] assms(1)])
    then show ?thesis
      using True r w1 assms(2)
      by (cases "parse_discovery step buf (disk_info w)")
        (simp_all add: discovery_request_def bind_op_def get_op_def lift_op_def put_op_def fixed_part_def)
  qed (use r w1 in \<open>simp add: fixed_part_def discovery_request_def bind_op_def ret_def\<close>)
qed

lemma discovery_identity: "fixed_part (snd (discovery0 E w)) = fixed_part w"
proof -
  have NS: "fixed_part (snd (discovery0_NS E w)) = fixed_part w" for w
    unfolding discovery0_NS_def by (rule request_identity, erule feature_identity(2)) (simp add: ret_def)
  show ?thesis unfolding discovery0_def by (rule request_identity, erule feature_identity(1)) (rule NS)
qed

section \<open>The salt of an NVMe drive\<close>

lemma nvme_identify_serial: "serialNum (fst (DtaDiskNVMe_identify W di s)) = serialNum di"
  by (simp add: DtaDiskNVMe_identify_def split: prod.split)

text \<open>When there is a disk object, the system told the bus of the handle it opened, and the object identified it.\<close>

lemma windows_init_class:
  assumes "windows_init W addr files devref w = (Ret (Some c), w')"
  obtains n k b k' s di s' where "CreateFile W devref (machine (disk w)) = (n, k)" "query_bus W n k = (Some b, k')"
    "class_of_bus b = Some c" "drive_identify (windows_env W c addr files) LinuxSata zero_disk_info s = (di, s')"
    "identity (disk_info w') = identity di" "isOpen w' = (isOpen w \<or> n \<noteq> - 1)"
proof -
  obtain n k where 1: "CreateFile W devref (machine (disk w)) = (n, k)" by (metis prod.collapse)
  obtain b k' where 2: "query_bus W n k = (b, k')" by (metis prod.collapse)
  define w1 where "w1 = w\<lparr>disk_info := zero_disk_info, isOpen := isOpen w \<or> n \<noteq> - 1, disk := (disk w)\<lparr>machine := k'\<rparr>\<rparr>"
  obtain c' where c: "Option.bind b class_of_bus = Some c'"
    using assms 1 2 by (cases "Option.bind b class_of_bus") (auto simp: windows_init_def)
  let ?E = "windows_env W c' addr files"
  obtain ok s where 3: "drive_init ?E LinuxSata devref (disk w1) = (ok, s)" by (metis prod.collapse)
  obtain di s' where 4: "drive_identify ?E LinuxSata (disk_info w1) s = (di, s')" by (metis prod.collapse)
  define w2 where "w2 = w1\<lparr>drive := Some LinuxSata, disk_info := di, disk := s'\<rparr>"
  have run: "bind_op (if devType di \<noteq> DEVICE_TYPE_OTHER then discovery0 ?E else ret ()) (\<lambda>_. ret (Some c')) w2 =
      (Ret (Some c), w')"
    using assms(1) 1 2 c 3 4 unfolding w1_def w2_def by (simp add: windows_init_def Let_def del: if_split)
  then have cn: "c' = c" and kept: "fixed_part w' = fixed_part w2"
    using discovery_identity [of ?E w2] by (auto simp: bind_op_Ret_iff ret_def split: if_splits)
  obtain b' where b: "b = Some b'" "class_of_bus b' = Some c" using c cn by (cases b) simp_all
  show thesis
    by (rule that [OF 1 2 [unfolded b(1)] b(2)])
      (use 4 kept in \<open>simp_all add: w1_def w2_def cn fixed_part_def\<close>)
qed

lemma windows_nvme_serial:
  assumes "windows_init W addr files devref w = (Ret (Some DiskNVMe), w')"
  shows "getSerialNum w' = replicate 20 0"
proof (rule windows_init_class [OF assms])
  fix s di s' assume "drive_identify (windows_env W DiskNVMe addr files) LinuxSata zero_disk_info s = (di, s')"
    and id: "identity (disk_info w') = identity di"
  then have "serialNum di = serialNum zero_disk_info"
    using nvme_identify_serial [of W zero_disk_info s] by (simp add: windows_env_def)
  then show ?thesis using id by (simp add: identity_def getSerialNum_def zero_disk_info_def)
qed

text \<open>C40. On Windows the serial number of an NVMe drive is never read: whatever the drive says, a password goes to it
  as the PBKDF2 with twenty zero bytes as the salt. It is the same for all such drives, and another than the
  program sends to the same drive on Linux.\<close>

theorem windows_nvme_salt:
  assumes "windows_init W addr files devref w = (Ret (Some DiskNVMe), w')"
    and "password \<noteq> []" "\<not> no_hash_passwords w'"
  shows "DtaHashPwd (windows_env W DiskNVMe addr files) password w' = 0xd0 # 0x20 #
    pbkdf2_key (hmac sha1 64 (take 256 password)) 20 (replicate 20 0) 75000 32"
  using hash_value [of password w' "windows_env W DiskNVMe addr files"] assms(2, 3) windows_nvme_serial [OF assms(1)]
  by (simp add: windows_env_def)

text \<open>A machine with an NVMe drive that answers nothing.\<close>

definition mute_nvme :: "unit winapi" where
  "mute_nvme = \<lparr>CreateFile = (\<lambda>p k. (3, k)), ata_control = (\<lambda>n a k. (False, a, k)), scsi_control = (\<lambda>n s k. (False, s, k)),
     query_bus = (\<lambda>n k. (Some BusTypeNvme, k)), GetLastError = (\<lambda>k. 31)\<rparr>"

definition mute_device :: "unit win_disk dta_dev" where
  "mute_device = new_dev Generic \<lparr>hDev = 0, disk_isOpen = False, machine = ()\<rparr>"

lemma mute_init: "\<exists>w. windows_init mute_nvme 0x1000 (\<lambda>p. None) (physical_drive 0) mute_device = (Ret (Some DiskNVMe), w) \<and>
    \<not> no_hash_passwords w"
  by (simp add: windows_init_def mute_nvme_def mute_device_def class_of_bus_def windows_env_def DtaDiskNVMe_init_def
      open_disk_def DtaDiskNVMe_identify_def DtaDiskNVMe_sendCmd_def Let_def zero_disk_info_def discovery0_def
      discovery_request_def sendCmd_op_def sendCmd_def new_dev_def bind_op_def ret_def)

theorem windows_nvme_salt_witness:
  "\<exists>w. windows_init mute_nvme 0x1000 (\<lambda>p. None) (physical_drive 0) mute_device = (Ret (Some DiskNVMe), w) \<and>
    DtaHashPwd (windows_env mute_nvme DiskNVMe 0x1000 (\<lambda>p. None)) (lit ''pw'') w = 0xd0 # 0x20 #
      pbkdf2_key (hmac sha1 64 (take 256 (lit ''pw''))) 20 (replicate 20 0) 75000 32"
proof -
  have "lit ''pw'' \<noteq> []" by (simp add: lit_def)
  then show ?thesis using mute_init windows_nvme_salt by blast
qed


section \<open>The end of a scan\<close>

text \<open>The destructor of the last device of a scan, which could not be opened, deletes a disk object there is none of:
  when the system tells no bus for an invalid handle, a scan only returns with more than \<^verbatim>\<open>MAX_DISKS\<close> disks.\<close>

lemma absent_without_class:
  assumes bus: "\<And>k. fst (query_bus W (- 1) k) = None"
    and init: "windows_init W addr files devref (new_dev Generic s) = (Ret c, w)" "\<not> isPresent w"
  shows "c = None"
proof (cases c)
  case (Some x)
  from windows_init_class [OF init(1) [unfolded Some]] obtain n k b k' where
    "query_bus W n k = (Some b, k')" "isOpen w = (isOpen (new_dev Generic s) \<or> n \<noteq> - 1)" by metis
  then show ?thesis using bus [of k] init(2) by (auto simp: isPresent_def)
qed

lemma windows_scan_end:
  assumes bus: "\<And>k. fst (query_bus W (- 1) k) = None"
  shows "windows_scan W addr files n out s = (Ret r, out', s') \<Longrightarrow> r = 1"
proof (induction n arbitrary: out s)
  case (0 out s)
  obtain q w where i: "windows_init W addr files (physical_drive (20 - 0)) (new_dev Generic s) = (q, w)" by (metis prod.collapse)
  show ?case
    using 0 i absent_without_class [OF bus, of addr files "physical_drive (20 - 0)" s _ w]
    by (cases q; cases "isPresent w") (auto simp: windows_scan.simps [of W addr files] Let_def windows_delete_def split: if_splits)
next
  case (Suc n)
  obtain q w where i: "windows_init W addr files (physical_drive (20 - Suc n)) (new_dev Generic s) = (q, w)" by (metis prod.collapse)
  show ?case
    using Suc.prems i absent_without_class [OF bus, of addr files "physical_drive (20 - Suc n)" s _ w] Suc.IH
    by (cases q; cases "isPresent w")
      (auto simp: windows_scan.simps [of W addr files "Suc n"] Let_def windows_delete_def split: if_splits)
qed

end
