(* ===== verification/DiskTypes.thy ===== *)
theory DiskTypes
  imports WinCorrect Program
begin

text \<open>
  The disk information as the code declares it: the strings of the identification are arrays of 20, 8 and 40
  bytes (\<^verbatim>\<open>OPAL_DiskInfo\<close> in Common/DtaStructures.h), whatever the drive and the kernel answer. Opening a
  device establishes it, on Linux and on Windows, and calls keep it.
\<close>

section \<open>The arrays\<close>

definition info_typed :: "opal_disk_info \<Rightarrow> bool" where
  "info_typed d \<longleftrightarrow> length (serialNum d) = 20 \<and> length (firmwareRev d) = 8 \<and> length (modelNum d) = 40"

definition keeps_typed :: "'d dta_dev \<Rightarrow> 'd dta_dev \<Rightarrow> bool" where
  "keeps_typed w w' \<longleftrightarrow> (info_typed (disk_info w) \<longrightarrow> info_typed (disk_info w'))"

lemma keeps_typed_order: "transp keeps_typed" "reflp keeps_typed"
  by (auto intro!: transpI reflpI simp: keeps_typed_def)

lemma typed_identity: "identity d = identity d' \<Longrightarrow> info_typed d = info_typed d'"
  by (simp add: identity_def info_typed_def)

lemma typed_zero: "info_typed zero_disk_info"
  by (simp add: info_typed_def zero_disk_info_def)

section \<open>Identification\<close>

lemma typed_devType: "info_typed (d\<lparr>devType := t\<rparr>) = info_typed d"
  by (simp add: info_typed_def)

lemma typed_strings:
  "length s = 20 \<Longrightarrow> length f = 8 \<Longrightarrow> length m = 40 \<Longrightarrow>
    info_typed (d\<lparr>serialNum := s, firmwareRev := f, modelNum := m\<rparr>)"
  by (simp add: info_typed_def)

lemma typed_linux:
  "info_typed d \<Longrightarrow> info_typed (fst (identify_SAS K d s))"
  "info_typed d \<Longrightarrow> info_typed (fst (identify_SATA K d s))"
  "info_typed d \<Longrightarrow> info_typed (fst (identify_NVMe K d s))"
proof -
  show sas: "info_typed d \<Longrightarrow> info_typed (fst (identify_SAS K d s))" for d s
    by (simp add: identify_SAS_def Let_def info_typed_def safecopy_def split: prod.split)
  show "info_typed d \<Longrightarrow> info_typed (fst (identify_SATA K d s))"
    using sas by (simp add: identify_SATA_def ata_info_def typed_devType info_typed_def length_swap_bytes split: prod.split)
  show "info_typed d \<Longrightarrow> info_typed (fst (identify_NVMe K d s))"
    by (simp add: identify_NVMe_def info_typed_def split: prod.split)
qed

lemma typed_windows:
  "info_typed d \<Longrightarrow> info_typed (fst (DtaDiskATA_identify W d s))"
  "info_typed d \<Longrightarrow> info_typed (fst (DtaDiskUSB_identify W d s))"
  "info_typed d \<Longrightarrow> info_typed (fst (DtaDiskNVMe_identify W d s))"
  by (simp_all add: DtaDiskATA_identify_def DtaDiskUSB_identify_def DtaDiskNVMe_identify_def ata_info_def
      info_typed_def length_swap_bytes split: prod.split)

section \<open>Opening a device, and every call\<close>

lemma kept_typed: "same_config w w' \<Longrightarrow> keeps_typed w w'"
proof -
  let ?f = "\<lambda>w. (disk_info w)\<lparr>Properties := False, Locking_lockingEnabled := False\<rparr>"
  assume "same_config w w'"
  then have e: "?f w' = ?f w" by (simp add: same_config_def config_def)
  have "serialNum (disk_info w') = serialNum (disk_info w)" "firmwareRev (disk_info w') = firmwareRev (disk_info w)"
    "modelNum (disk_info w') = modelNum (disk_info w)"
    using arg_cong [OF e, of serialNum] arg_cong [OF e, of firmwareRev] arg_cong [OF e, of modelNum] by simp_all
  then show ?thesis by (simp add: keeps_typed_def info_typed_def)
qed

lemma typed_pure:
  "steps keeps_typed (ret x)" "steps keeps_typed (lift_op r)" "steps keeps_typed (get_op f)"
  by (rule steps_pure [OF keeps_typed_order(2)])+

lemmas typed_bind = steps_bind [OF keeps_typed_order(1)]

lemma typed_put: "(\<And>w. keeps_typed w (f w)) \<Longrightarrow> steps keeps_typed (put_op f)"
  by (simp add: steps_def put_op_def)

lemma typed_discovery0: "steps keeps_typed (discovery0 E)"
  by (rule stepsI) (metis discovery_identity fixed_part_def fst_conv keeps_typed_def typed_identity)

lemma typed_init:
  assumes "\<And>k d s. info_typed d \<Longrightarrow> info_typed (fst (drive_identify E k d s))"
  shows "steps keeps_typed (DtaDevOS_init E devref)"
proof -
  have 1: "steps keeps_typed (\<lambda>w. case drive_init E k devref (disk w) of (ok, d) \<Rightarrow> (Ret ok, w\<lparr>disk := d\<rparr>))" for k
    by (rule stepsI) (simp add: keeps_typed_def split: prod.split)
  have 2: "steps keeps_typed (\<lambda>w. case drive_identify E k (disk_info w) (disk w) of
      (di, d) \<Rightarrow> (Ret (), w\<lparr>disk_info := di, disk := d\<rparr>))" for k
    by (rule stepsI) (use assms in \<open>auto simp: keeps_typed_def split: prod.split dest: meta_spec\<close>, metis fst_conv)
  have o: "steps keeps_typed m \<Longrightarrow> (\<And>x. steps keeps_typed (f x)) \<Longrightarrow>
      steps keeps_typed (case p of None \<Rightarrow> m | Some x \<Rightarrow> f x)"
    for m :: "('a, unit) devop" and f and p :: "drive_kind option"
    by (simp split: option.split)
  show ?thesis unfolding DtaDevOS_init_def
    by (intro typed_bind o steps_if typed_put typed_pure typed_discovery0 1 2)
      (simp_all add: keeps_typed_def typed_zero)
qed

lemma typed_new_device:
  assumes "\<And>k d s. info_typed d \<Longrightarrow> info_typed (fst (drive_identify E k d s))"
  shows "info_typed (disk_info (snd (new_device E c devref d)))"
proof -
  note i = typed_init [OF assms, of devref]
  have a: "steps keeps_typed (assert_op P)" for P :: "'a dta_dev \<Rightarrow> bool"
    unfolding assert_op_def by (intro typed_bind typed_pure)
  have p: "steps keeps_typed (properties E)" "steps keeps_typed (ent_properties E)"
    by (rule steps_mono [OF kept.cl_properties kept_typed], assumption)
      (rule steps_mono [OF kept.cl_ent_properties kept_typed], assumption)
  have "steps keeps_typed (case c of Generic \<Rightarrow> DtaDevGeneric E devref | Opal1 \<Rightarrow> DtaDevOpal1 E devref
      | Opal2 \<Rightarrow> DtaDevOpal2 E devref | EnterpriseDev \<Rightarrow> DtaDevEnterprise E devref)"
    unfolding DtaDevGeneric_def DtaDevOpal1_def DtaDevOpal2_def DtaDevEnterprise_def DtaDevOpal_init_def seq_op_def
    by (cases c; simp only: dev_class.simps; intro typed_bind i a p typed_pure)
  from stepsD [OF this, of "new_dev c d"] show ?thesis
    by (simp add: new_device_def keeps_typed_def new_dev_def typed_zero)
qed

lemma typed_windows_init: "info_typed (disk_info (snd (windows_init W addr files devref w)))"
proof -
  have d: "info_typed (fst (drive_identify (windows_env W c addr files) k x s))" if "info_typed x" for c k x s
    using typed_windows [OF that] by (cases c) (simp_all add: windows_env_def)
  have s: "steps keeps_typed (bind_op (if b then discovery0 E else ret ()) (\<lambda>_. ret x))"
    for b E and x :: "disk_class option"
    by (intro typed_bind steps_if typed_discovery0 typed_pure)
  have t: "info_typed (disk_info (snd (bind_op (if b then discovery0 E else ret ()) (\<lambda>_. ret x) v)))"
    if "info_typed (disk_info v)" for b E v and x :: "disk_class option"
    using stepsD [OF s, of v b E x] that by (simp only: keeps_typed_def)
  show ?thesis
    using d [OF typed_zero]
    by (simp add: windows_init_def Let_def typed_zero split_beta split: option.split split del: if_split)
      (intro allI impI t, simp)
qed


end
