(* ===== verification/EntEffects.thy ===== *)
theory EntEffects
  imports OpalFlows
begin

text \<open>
  What the operations of the Enterprise class achieve when they return 0. A session there is a
  StartSession without a password, followed by an Authenticate whose reply has to say yes.
\<close>

section \<open>Exchanges whose answers matter\<close>

text \<open>Like \<open>achieves\<close>, with a predicate every answer has to meet.\<close>

type_synonym demand = "bytes \<times> (dta_response \<Rightarrow> bool)"

definition meets :: "demand list \<Rightarrow> (bytes \<times> dta_response) list \<Rightarrow> bool" where
  "meets ds xs \<longleftrightarrow> list_all2 (\<lambda>d x. fst x = fst d \<and> snd d (snd x)) ds xs"

definition accepts :: "demand list \<Rightarrow> ('d \<times> request list) dta_dev \<Rightarrow> ('d \<times> request list) dta_dev \<Rightarrow> bool" where
  "accepts ds w w' \<longleftrightarrow> (\<exists>xs. meets ds xs \<and> exchanged xs w w')"

definition plainly :: "bytes \<Rightarrow> demand" where
  "plainly body = (body, \<lambda>r. True)"

lemma accepts_append:
  "accepts ds w w1 \<Longrightarrow> accepts es w1 w2 \<Longrightarrow> comID w1 = comID w \<Longrightarrow> accepts (ds @ es) w w2"
  unfolding accepts_def meets_def by (blast intro: exchanged_append list_all2_appendI)

lemma accepts_before: "proper_trace w0 w \<Longrightarrow> accepts ds w w' \<Longrightarrow> accepts ds w0 w'"
  unfolding accepts_def by (metis exchanged_before)

lemma accepts_after: "accepts ds w w' \<Longrightarrow> proper_trace w' w'' \<Longrightarrow> accepts ds w w''"
  unfolding accepts_def by (metis exchanged_after)

lemma exchanged_accepts: "exchanged [(b, r)] w w' \<Longrightarrow> P r \<Longrightarrow> accepts [(b, P)] w w'"
  unfolding accepts_def meets_def
  by (rule exI [of _ "[(b, r)]"]) (simp del: confirmed.simps)

lemma achieves_accepts: "achieves [b] w w' \<Longrightarrow> accepts [plainly b] w w'"
  unfolding achieves_single plainly_def by (blast intro: exchanged_accepts)

section \<open>Sessions\<close>

text \<open>The packet that opens a session, and the one that signs an authority in.\<close>

definition ent_start_body :: "opal_uid \<Rightarrow> bytes" where
  "ent_start_body sp = call_body OPAL_SMUID_UID STARTSESSION
     ([0xf0, 0x81, 105] @ (0xa8 # OPALUID sp) @ [0x01, 0xf2] @ pin_token (lit ''SessionTimeout'') @
      [0x82, 0xea, 0x60, 0xf3, 0xf1])"

definition auth_body :: "bytes \<Rightarrow> bytes \<Rightarrow> bytes" where
  "auth_body auth pin = call_body OPAL_THISSP_UID EAUTHENTICATE
     ([0xf0] @ auth @ [0xf2] @ pin_token (lit ''Challenge'') @ pin @ [0xf3, 0xf1])"

definition granted :: "dta_response \<Rightarrow> bool" where
  "granted r \<longleftrightarrow> (\<exists>ok. getUint8 r 1 = Ret ok \<and> ok \<noteq> 0)"

definition ent_sign_in :: "opal_uid \<Rightarrow> bytes \<Rightarrow> bytes \<Rightarrow> demand list" where
  "ent_sign_in sp auth pin = [plainly (ent_start_body sp), (auth_body auth pin, granted)]"

lemma length_short_token [simp]:
  "length (pin_token (lit ''SessionTimeout'')) = 15" "length (pin_token (lit ''Challenge'')) = 10"
  by (simp_all add: pin_token_def enc_bytes_def lit_def)

lemma ent_start_packet:
  assumes "isEprise w" "unat (cmd_addr E) + 1024 < 2 ^ 64"
  shows "\<exists>c. cmd_seq [reset_uid_method OPAL_SMUID_UID STARTSESSION,
        addTokens (start_args (traced E) s w sp chal auth), complete True] (DtaCommand (cmd_addr E)) = Ret c \<and>
      is_packet c zero4 zero4 zero4 (ent_start_body sp)"
proof -
  have tok: "enc_all (start_args (traced E) s w sp chal auth) = Some ([0xf0, 0x81, 105] @ (0xa8 # OPALUID sp) @
      [0x01, 0xf2] @ pin_token (lit ''SessionTimeout'') @ [0x82, 0xea, 0x60, 0xf3, 0xf1])"
    using assms(1) pin_token [of "lit ''SessionTimeout''"]
    by (auto simp: start_args_def auth_args_def timeout_args_def enc_num_def lit_def split: option.split)
  have "wire_size (ent_start_body sp) \<le> MAX_BUFFER_LENGTH"
    using length_wire [of "ent_start_body sp"] by (simp add: ent_start_body_def call_body_def eod_bytes_def)
  from call_packet [OF tok this [unfolded ent_start_body_def] cmdcap_DtaCommand(1) [OF assms(2)]]
  show ?thesis unfolding ent_start_body_def by blast
qed

lemma auth_packet:
  assumes "isEprise w" "pw \<noteq> []" "length auth = 9" "unat (cmd_addr E) + 1024 < 2 ^ 64"
    and pin: "enc (challenge_token (traced E) s w pw) = Some pin" "length pin \<le> 2002"
  shows "\<exists>c. cmd_seq [reset_uid_method OPAL_THISSP_UID EAUTHENTICATE,
        addTokens (authenticate_args (traced E) s w auth (Some pw)), complete True] (DtaCommand (cmd_addr E)) = Ret c \<and>
      is_packet c zero4 zero4 zero4 (auth_body auth pin)"
proof -
  have tok: "enc_all (authenticate_args (traced E) s w auth (Some pw)) =
      Some ([0xf0] @ auth @ [0xf2] @ pin_token (lit ''Challenge'') @ pin @ [0xf3, 0xf1])"
    using assms(1, 2) pin(1) pin_token [of "lit ''Challenge''"]
    by (auto simp: authenticate_args_def lit_def simp del: enc.simps(5))
  have "wire_size (auth_body auth pin) \<le> MAX_BUFFER_LENGTH"
    using length_wire [of "auth_body auth pin"] assms(3) pin(2)
    by (simp add: auth_body_def call_body_def eod_bytes_def)
  from call_packet [OF tok this [unfolded auth_body_def] cmdcap_DtaCommand(1) [OF assms(4)]]
  show ?thesis unfolding auth_body_def by blast
qed

text \<open>Reading the session numbers keeps the rest of the session.\<close>

lemma take_numbers_session:
  assumes "take_numbers r w = (Ret (), w')" "session w = Some s"
  obtains s' where "session w' = Some s'" "hashPwd s' = hashPwd s"
  using assms
  by (auto simp: take_numbers_def update_session_def this_session_def bind_op_Ret_iff put_op_def lift_op_def)

lemma sendCommand_session:
  assumes "sendCommand (traced E) c resp w = (Ret (0, r), w')" "is_packet c zero4 zero4 zero4 body"
  shows "session w' = session w"
  using sendCommand_trace [OF assms(1)] by auto

lemma ent_start_accepts:
  assumes run: "start (traced E) sp (Some pw) auth w = (Ret 0, w')" and e: "isEprise w" "pw \<noteq> []"
    and s: "session w = Some s" and mem: "length auth = 9" "unat (cmd_addr E) + 1024 < 2 ^ 64"
    and pin: "\<And>w1 s1. same_config w w1 \<Longrightarrow> hashPwd s1 = hashPwd s \<Longrightarrow>
      enc (challenge_token (traced E) s1 w1 pw) = Some pin" "length pin \<le> 2002"
  shows "accepts (ent_sign_in sp auth pin) w w'"
proof -
  have addr: "cmd_addr (traced E) = cmd_addr E" by (simp add: traced_def)
  obtain c r w1 w2 where c: "is_packet c zero4 zero4 zero4 (ent_start_body sp)"
    and 1: "sendCommand (traced E) c empty_response w = (Ret (0, r), w1)"
      "take_numbers r w1 = (Ret (), w2)" "authenticate (traced E) auth (Some pw) w2 = (Ret 0, w')"
    using run ent_start_packet [where E = E and s = s and sp = sp and chal = "Some pw" and auth = auth, OF e(1) mem(2)]
    unfolding start_success [OF s] addr by (auto simp: e(1))
  have s1: "session w1 = Some s" using sendCommand_session [OF 1(1) c] s by simp
  obtain s2 where s2: "session w2 = Some s2" "hashPwd s2 = hashPwd s"
    by (rule take_numbers_session [OF 1(2) s1])
  have "same_config w w1" using sendCommand_trace [OF 1(1)] by (auto simp: same_config_def config_def)
  then have c1: "same_config w w2"
    using steps_result [OF kept.cl_take_numbers 1(2)] by (simp add: same_config_def)
  have e2: "isEprise w2" using e(1) config_fields(1) [OF c1] by simp
  obtain c' r' where c': "is_packet c' zero4 zero4 zero4 (auth_body auth pin)"
    and 2: "sendCommand (traced E) c' empty_response w2 = (Ret (0, r'), w')" "granted r'"
    using 1(3) auth_packet [OF e2 e(2) mem pin(1) [OF c1 s2(2)] pin(2)]
    unfolding authenticate_def this_session_bind [OF s2(1)] get_bind build_success send_checked_success addr id_apply
    by (auto simp: e2 bind_op_Ret_iff lift_op_def granted_def ret_def split: if_splits)
  have a1: "accepts [plainly (ent_start_body sp)] w w2"
    using accepts_after [OF achieves_accepts [OF sendCommand_achieves [OF 1(1) c]]]
      steps_result [OF wire.cl_take_numbers 1(2)] by blast
  have a2: "accepts [(auth_body auth pin, granted)] w2 w'"
    by (rule exchanged_accepts [OF sendCommand_exchanged [OF 2(1) c'], where P = granted]) (rule 2(2))
  show ?thesis
    using accepts_append [OF a1 a2 config_fields(3) [OF c1]] by (simp add: ent_sign_in_def)
qed

text \<open>The session object as an operation makes it: the password is hashed unless told otherwise.\<close>

definition fresh_session :: "bool \<Rightarrow> 'd dta_dev \<Rightarrow> 'd dta_dev" where
  "fresh_session hashed w = w\<lparr>session := Some (DtaSession\<lparr>hashPwd := hashed\<rparr>)\<rparr>"

lemma fresh_in_session:
  "in_session E st k w = (Ret 0, w') \<longleftrightarrow> (\<exists>w1. st (fresh_session True w) = (Ret 0, w1) \<and> k w1 = (Ret 0, w'))"
  by (simp add: in_session_success fresh_session_def DtaSession_def)

lemma fresh_seq:
  "seq_op new_session m w = m (fresh_session True w)"
  "seq_op dontHashPwd m (fresh_session True w) = m (fresh_session False w)"
  "seq_op (if b then dontHashPwd else ret ()) m (fresh_session True w) = m (fresh_session (\<not> b) w)"
  by (simp_all add: seq_op_def new_session_def bind_op_def put_op_def dontHashPwd_def update_session_def
      this_session_def ret_def fresh_session_def DtaSession_def)

lemma fresh_proper: "proper_trace w (fresh_session b w)"
  unfolding fresh_session_def by (rule session_proper)

lemma fresh_same: "same_config w (fresh_session b w)" "same_config (fresh_session b w) w1 \<Longrightarrow> same_config w w1"
  by (simp_all add: fresh_session_def same_config_def config_def)

definition given_pin :: "'d env \<Rightarrow> bool \<Rightarrow> cstr \<Rightarrow> ('d \<times> request list) dta_dev \<Rightarrow> bytes" where
  "given_pin E hashed pw w = (if hashed then DtaHashPwd (traced E) pw w else pin_token pw)"

lemma given_pin_config: "same_config w w1 \<Longrightarrow> given_pin E b pw w1 = given_pin E b pw w"
  by (simp add: given_pin_def config_fields(2))

lemma ent_session_accepts:
  assumes run: "start (traced E) sp (Some pw) auth (fresh_session hashed w) = (Ret 0, w1)"
    and w: "isEprise w" "pw \<noteq> []" "length auth = 9" "unat (cmd_addr E) + 1024 < 2 ^ 64"
    and pw: "\<not> hashed \<Longrightarrow> length pw \<le> 2000"
  shows "accepts (ent_sign_in sp auth (given_pin E hashed pw w)) w w1" "same_config w w1"
proof -
  have c: "same_config (fresh_session hashed w) w1" by (rule steps_result [OF kept.cl_start run])
  then show "same_config w w1" by (rule fresh_same)
  have "accepts (ent_sign_in sp auth (given_pin E hashed pw w)) (fresh_session hashed w) w1"
  proof (rule ent_start_accepts [OF run, where s = "DtaSession\<lparr>hashPwd := hashed\<rparr>"])
    fix w2 and s2 :: dta_session
    assume c: "same_config (fresh_session hashed w) w2" and s2: "hashPwd s2 = hashPwd (DtaSession\<lparr>hashPwd := hashed\<rparr>)"
    have "DtaHashPwd (traced E) pw w2 = DtaHashPwd (traced E) pw w"
      by (rule config_fields(2) [OF fresh_same(2) [OF c]])
    then show "enc (challenge_token (traced E) s2 w2 pw) = Some (given_pin E hashed pw w)"
      using s2 pin_token [of pw] pw by (auto simp: challenge_token_def given_pin_def simp del: enc.simps(5))
  next
    show "length (given_pin E hashed pw w) \<le> 2002"
      using pin_token [of pw] pw length_DtaHashPwd [of "traced E" pw w] by (auto simp: given_pin_def)
  qed (use w config_fields(1) [OF fresh_same(1), of hashed w] in \<open>auto simp: fresh_session_def isEprise_def\<close>)
  then show "accepts (ent_sign_in sp auth (given_pin E hashed pw w)) w w1"
    by (rule accepts_before [OF fresh_proper])
qed

section \<open>Columns of a row\<close>

text \<open>The body of a Set: every cell is the name of a column and its value, as tokens.\<close>

fun column_bytes :: "(string \<times> bytes) list \<Rightarrow> bytes" where
  "column_bytes [] = []"
| "column_bytes ((name, v) # cs) = [0xf2] @ pin_token (lit name) @ v @ [0xf3] @ column_bytes cs"

definition ent_set_body :: "bytes \<Rightarrow> (string \<times> bytes) list \<Rightarrow> bytes" where
  "ent_set_body obj cols =
     object_body obj ESET ([0xf0, 0xf0, 0xf1, 0xf0, 0xf0] @ column_bytes cols @ [0xf1, 0xf1, 0xf1])"

lemma enc_column:
  assumes "length name \<le> 2000" "enc_all vs = Some v"
  shows "enc_all (column name vs) = Some (column_bytes [(name, v)])"
  using pin_token [of "lit name"] assms
  by (simp add: column_def lit_def enc_all_append del: enc.simps(5))

lemma enc_columns:
  "enc_all vs = Some xs \<Longrightarrow> enc_all us = Some ys \<Longrightarrow> enc_all (vs @ us) = Some (xs @ ys)"
  by (simp add: enc_all_append)

lemma column_bytes_append: "column_bytes (as @ bs) = column_bytes as @ column_bytes bs"
  by (induction as rule: column_bytes.induct) simp_all

lemma enc_ent_columns:
  "enc_all vs = Some (column_bytes cols) \<Longrightarrow> enc_all (ent_columns vs) =
     Some ([0xf0, 0xf0, 0xf1, 0xf0, 0xf0] @ column_bytes cols @ [0xf1, 0xf1, 0xf1])"
  by (simp add: ent_columns_def enc_all_append)

lemma ent_body_fits:
  assumes "length obj = 9" "length (column_bytes cols) \<le> 1900"
  shows "wire_size (object_body obj ESET ([0xf0, 0xf0, 0xf1, 0xf0, 0xf0] @ column_bytes cols @ [0xf1, 0xf1, 0xf1]))
    \<le> MAX_BUFFER_LENGTH"
  using assms length_wire [of "ent_set_body obj cols"] by (simp add: ent_set_body_def object_body_def eod_bytes_def)

lemma vectors_packet:
  assumes obj: "length obj = 9" and tok: "enc_all ts = Some tok"
    and fits: "wire_size (object_body obj m tok) \<le> MAX_BUFFER_LENGTH" and mem: "unat a + 1024 < 2 ^ 64"
  shows "\<exists>c. cmd_seq [reset_vectors obj (set8 (OPALMETHOD m)), addTokens ts, complete True]
      (DtaCommand a) = Ret c \<and> is_packet c zero4 zero4 zero4 (object_body obj m tok)"
proof -
  note cap = cmdcap_DtaCommand(1) [OF mem]
  have m: "set8 (OPALMETHOD m) = 0xa8 # OPALMETHOD m" by (simp add: set8_def)
  have "reset_vectors obj (set8 (OPALMETHOD m)) (DtaCommand a)
      = Ret (append_cmd (call_head obj (0xa8 # OPALMETHOD m)) (reset (DtaCommand a)))"
    unfolding m by (rule reset_vectors_run) (use obj cap in simp)
  from build_packet [where start = "reset_vectors obj (set8 (OPALMETHOD m))", OF this tok _ cap, where EOD = True] fits
  show ?thesis unfolding object_body_def by blast
qed

lemma ent_set_row_packet:
  assumes "length obj = 9" "enc_all vs = Some (column_bytes cols)" "length (column_bytes cols) \<le> 1900"
    and "unat a + 1024 < 2 ^ 64"
  shows "\<exists>c. cmd_seq (ent_set_row obj vs) (DtaCommand a) = Ret c \<and>
    is_packet c zero4 zero4 zero4 (ent_set_body obj cols)"
  unfolding ent_set_row_def ent_set_body_def
  by (rule vectors_packet [OF assms(1) enc_ent_columns [OF assms(2)] ent_body_fits [OF assms(1, 3)] assms(4)])

lemma ent_setTable_packet:
  assumes "length obj = 9" "length name \<le> 100" "length v \<le> 1024" "unat a + 1024 < 2 ^ 64"
  shows "\<exists>c. cmd_seq [reset_uid_method OPAL_AUTHORITY_TABLE ESET, changeInvokingUid obj,
      addTokens (ent_columns (column name [Vec v])), complete True] (DtaCommand a) = Ret c \<and>
    is_packet c zero4 zero4 zero4 (ent_set_body obj [(name, v)])"
  unfolding ent_set_body_def
proof (rule object_packet [OF assms(1) enc_ent_columns ent_body_fits [OF assms(1)] assms(4)])
  show "enc_all (column name [Vec v]) = Some (column_bytes [(name, v)])"
    by (rule enc_column) (use assms(2) in simp_all)
  have "length (pin_token (lit name)) \<le> length name + 4"
    using assms(2) by (simp add: pin_token_def enc_bytes_def lit_def Let_def)
  then show "length (column_bytes [(name, v)]) \<le> 1900" using assms(2, 3) by simp
qed


lemma length_bands [simp]: "length (set8 (OPALUID u)) = 9" "length (setband v i) = length v"
    "length (user2cpin v) = length v" "length (band i) = 9" "length (bandmaster i) = 9" "length erasemaster = 9"
  by (simp_all add: set8_def setband_def user2cpin_def band_def bandmaster_def erasemaster_def Let_def)

text \<open>One call after signing in.\<close>

lemma send_finish_accepts:
  assumes "checked (traced E) (sendCommand_dev (traced E) c) (finish (traced E) 0) w = (Ret 0, w')"
    and "is_packet c zero4 zero4 zero4 body"
  shows "accepts [plainly body] w w'"
proof -
  obtain w1 where 1: "sendCommand_dev (traced E) c w = (Ret 0, w1)" "finish (traced E) (0 :: u8) w1 = (Ret 0, w')"
    using assms(1) unfolding checked_success by blast
  have "accepts [plainly body] w w1"
    using achieves_accepts exchanged_achieves [OF sendCommand_dev_exchanged [OF 1(1) assms(2)]] by simp
  then show ?thesis by (rule accepts_after) (rule steps_result [OF wire.cl_finish 1(2)])
qed

lemma call_finish_accepts:
  assumes "checked (traced E) (call_dev (traced E) calls) (finish (traced E) 0) w = (Ret 0, w')"
    and "\<exists>c. cmd_seq calls (DtaCommand (cmd_addr E)) = Ret c \<and> is_packet c zero4 zero4 zero4 body"
  shows "accepts [plainly body] w w'"
proof -
  obtain c where c: "cmd_seq calls (DtaCommand (cmd_addr E)) = Ret c" "is_packet c zero4 zero4 zero4 body"
    using assms(2) by blast
  have "checked (traced E) (sendCommand_dev (traced E) c) (finish (traced E) 0) w = (Ret 0, w')"
    using assms(1) c(1) by (simp add: checked_success call_dev_def build_success traced_def)
  then show ?thesis by (rule send_finish_accepts [OF _ c(2)])
qed

lemma ent_signed_accepts:
  assumes st: "start (traced E) sp (Some pw) auth (fresh_session hashed w) = (Ret 0, w1)"
    and w: "isEprise w" "pw \<noteq> []" "length auth = 9" "unat (cmd_addr E) + 1024 < 2 ^ 64"
    and pw: "\<not> hashed \<Longrightarrow> length pw \<le> 2000" and k: "accepts ds w1 w'"
  shows "accepts (ent_sign_in sp auth (given_pin E hashed pw w) @ ds) w w'"
  by (rule accepts_append [OF ent_session_accepts(1) [OF st w pw] k config_fields(3) [OF ent_session_accepts(2) [OF st w pw]]])

section \<open>Locking and configuring a band\<close>

text \<open>A look-up that fails gives its code, which is not 0.\<close>

lemma getMaxRanges_code: "getMaxRanges E w \<noteq> (Ret (Inl 0), w')"
  by (auto simp: getMaxRanges_def getMaxRangesOpal_def seq_op_def bind_op_Ret_iff finish_success
      ret_def split: if_splits)

lemma with_max_ranges_success:
  "with_max_ranges E k w = (Ret 0, w') \<longleftrightarrow> (\<exists>n w1. getMaxRanges E w = (Ret (Inr n), w1) \<and> k n w1 = (Ret 0, w'))"
  by (auto simp: with_max_ranges_def bind_op_Ret_iff ret_def split_sum_ex getMaxRanges_code)

definition ent_lock_columns :: "u8 \<Rightarrow> (string \<times> bytes) list" where
  "ent_lock_columns locked = [(''WriteLocked'', [locked]), (''ReadLocked'', [locked])]"

definition band_sets :: "'d env \<Rightarrow> u8 \<Rightarrow> cstr \<Rightarrow> (string \<times> bytes) list \<Rightarrow> ('d \<times> request list) dta_dev \<Rightarrow> demand list" where
  "band_sets E n pw cols w =
     ent_sign_in ENTERPRISE_LOCKINGSP_UID (bandmaster (ucast n)) (DtaHashPwd (traced E) pw w) @
     [plainly (ent_set_body (band (ucast n)) cols)]"

lemma ent_setLockingRange_accepts:
  assumes run: "ent_setLockingRange (traced E) n st pw w = (Ret 0, w')"
    and w: "isEprise w" "pw \<noteq> []" "unat (cmd_addr E) + 1024 < 2 ^ 64"
  shows "\<exists>locked ranges w1. ent_locking_state st = Some locked \<and>
    getMaxRanges (traced E) w = (Ret (Inr ranges), w1) \<and> range_in_bounds n ranges \<and>
    accepts (band_sets E n pw (ent_lock_columns locked) w) w1 w'"
proof -
  obtain locked where st: "ent_locking_state st = Some locked"
    using run by (auto simp: ent_setLockingRange_def ret_def split: option.splits)
  let ?vs = "column ''WriteLocked'' [Tok locked] @ column ''ReadLocked'' [Tok locked]"
  obtain ranges w1 c w2 where r: "getMaxRanges (traced E) w = (Ret (Inr ranges), w1)" "range_in_bounds n ranges"
    and c: "cmd_seq (ent_set_row (band (ucast n)) ?vs) (DtaCommand (cmd_addr E)) = Ret c"
    and s: "start (traced E) ENTERPRISE_LOCKINGSP_UID (Some pw) (bandmaster (ucast n)) (fresh_session True w1) = (Ret 0, w2)"
    and k: "checked (traced E) (sendCommand_dev (traced E) c) (finish (traced E) 0) w2 = (Ret 0, w')"
    using run
    by (auto simp: ent_setLockingRange_def st with_max_ranges_success ret_def build_success
        fresh_in_session traced_def split: if_splits)
  have "enc_all ?vs = Some (column_bytes (ent_lock_columns locked))"
    using enc_columns [OF enc_column [of "''WriteLocked''" "[Tok locked]" "[locked]"]
        enc_column [of "''ReadLocked''" "[Tok locked]" "[locked]"]]
    by (simp add: ent_lock_columns_def)
  from ent_set_row_packet [where obj = "band (ucast n)", OF _ this _ w(3)] c
  have p: "is_packet c zero4 zero4 zero4 (ent_set_body (band (ucast n)) (ent_lock_columns locked))"
    by (auto simp: ent_lock_columns_def pin_token_def enc_bytes_def lit_def)
  have c1: "same_config w w1" by (rule steps_result [OF kept.cl_getMaxRanges r(1)])
  have "accepts (band_sets E n pw (ent_lock_columns locked) w) w1 w'"
    using ent_signed_accepts [OF s _ w(2) _ w(3) _ send_finish_accepts [OF k p]] w(1) config_fields(1) [OF c1]
    by (simp add: band_sets_def given_pin_def config_fields(2) [OF c1])
  with st r show ?thesis by blast
qed


text \<open>C15. Unlocking and locking a band of an Enterprise drive: \<^verbatim>\<open>setLockingRange\<close> returns 0 only for
  read-write or locked, for a band within the number of bands the drive was asked for before, and then
  the drive opened a session on the Locking SP, answered the sign-in of the band's own band master,
  with the hash of the password, with yes, and accepted the Set of WriteLocked and ReadLocked on the
  row of the band, in this order.\<close>

theorem ent_setLockingRange_success:
  assumes "ent_setLockingRange (traced E) n st pw w = (Ret 0, w')"
    and "isEprise w" "pw \<noteq> []" "unat (cmd_addr E) + 1024 < 2 ^ 64"
  shows "\<exists>locked ranges w1. ent_locking_state st = Some locked \<and>
    getMaxRanges (traced E) w = (Ret (Inr ranges), w1) \<and> range_in_bounds n ranges \<and>
    accepts (band_sets E n pw (ent_lock_columns locked) w) w1 w'"
  by (rule ent_setLockingRange_accepts [OF assms])

definition ent_enable_columns :: "u8 \<Rightarrow> (string \<times> bytes) list" where
  "ent_enable_columns enabled =
     [(''ReadLockEnabled'', [if enabled AND DTA_READLOCKINGENABLED \<noteq> 0 then OPAL_TRUE else OPAL_FALSE]),
      (''WriteLockEnabled'', [if enabled AND DTA_WRITELOCKINGENABLED \<noteq> 0 then OPAL_TRUE else OPAL_FALSE]),
      (''LockOnReset'', [0xf0, 0x00, 0xf1])]"

lemma ent_configureLockingRange_accepts:
  assumes run: "ent_configureLockingRange (traced E) n e pw w = (Ret 0, w')"
    and w: "isEprise w" "pw \<noteq> []" "unat (cmd_addr E) + 1024 < 2 ^ 64"
  shows "accepts (band_sets E n pw (ent_enable_columns e) w) w w'"
proof -
  let ?r = "if e AND DTA_READLOCKINGENABLED \<noteq> 0 then OPAL_TRUE else OPAL_FALSE"
  let ?w = "if e AND DTA_WRITELOCKINGENABLED \<noteq> 0 then OPAL_TRUE else OPAL_FALSE"
  let ?vs = "column ''ReadLockEnabled'' [Tok ?r] @ column ''WriteLockEnabled'' [Tok ?w] @
    column ''LockOnReset'' [Tok STARTLIST, TinyAtom UINT_00, Tok ENDLIST]"
  obtain w1 where s: "start (traced E) ENTERPRISE_LOCKINGSP_UID (Some pw) (bandmaster (ucast n)) (fresh_session True w) = (Ret 0, w1)"
    and k: "checked (traced E) (call_dev (traced E) (ent_set_row (band (ucast n)) ?vs)) (finish (traced E) 0) w1 = (Ret 0, w')"
    using run unfolding ent_configureLockingRange_def fresh_in_session by blast
  have "enc_all ?vs = Some (column_bytes (ent_enable_columns e))"
    using enc_columns [OF enc_column [of "''ReadLockEnabled''" "[Tok ?r]" "[?r]"]
        enc_columns [OF enc_column [of "''WriteLockEnabled''" "[Tok ?w]" "[?w]"]
          enc_column [of "''LockOnReset''" "[Tok STARTLIST, TinyAtom UINT_00, Tok ENDLIST]" "[0xf0, 0x00, 0xf1]"]]]
    by (simp add: ent_enable_columns_def)
  from ent_set_row_packet [where obj = "band (ucast n)", OF _ this _ w(3)]
  have "\<exists>c. cmd_seq (ent_set_row (band (ucast n)) ?vs) (DtaCommand (cmd_addr E)) = Ret c \<and>
      is_packet c zero4 zero4 zero4 (ent_set_body (band (ucast n)) (ent_enable_columns e))"
    by (simp add: ent_enable_columns_def pin_token_def enc_bytes_def lit_def)
  from ent_signed_accepts [OF s w(1, 2) _ w(3) _ call_finish_accepts [OF k this]]
  show ?thesis by (simp add: band_sets_def given_pin_def)
qed

section \<open>Passwords\<close>

definition ent_get_body :: "bytes \<Rightarrow> string \<Rightarrow> string \<Rightarrow> bytes" where
  "ent_get_body obj a b = object_body obj EGET ([0xf0, 0xf0] @
     column_bytes [(''startColumn'', pin_token (lit a)), (''endColumn'', pin_token (lit b))] @ [0xf1, 0xf1])"

lemma ent_pin_get_packet:
  assumes "length obj = 9" "unat a + 1024 < 2 ^ 64"
  shows "\<exists>c. cmd_seq [reset_uid_method OPAL_AUTHORITY_TABLE EGET, changeInvokingUid obj,
      addTokens ([Tok STARTLIST, Tok STARTLIST] @ column ''startColumn'' [Str (lit ''PIN'')] @
                 column ''endColumn'' [Str (lit ''PIN'')] @ [Tok ENDLIST, Tok ENDLIST]),
      complete True] (DtaCommand a) = Ret c \<and>
    is_packet c zero4 zero4 zero4 (ent_get_body obj ''PIN'' ''PIN'')"
proof -
  have pin: "enc_all [Str (lit ''PIN'')] = Some (pin_token (lit ''PIN''))"
    using pin_token [of "lit ''PIN''"] by (simp add: lit_def del: enc.simps(5))
  have "wire_size (ent_get_body obj ''PIN'' ''PIN'') \<le> MAX_BUFFER_LENGTH"
    using length_wire [of "ent_get_body obj ''PIN'' ''PIN''"] assms(1)
    by (simp add: ent_get_body_def object_body_def eod_bytes_def pin_token_def enc_bytes_def lit_def)
  from this [unfolded ent_get_body_def] show ?thesis
    unfolding ent_get_body_def
    by (intro object_packet assms)
      (simp_all add: enc_all_append enc_column [OF _ pin] del: column_bytes.simps, simp)
qed

lemma ent_start_anon_accepts:
  assumes "start_anon (traced E) sp w = (Ret 0, w')" "isEprise w" "session w = Some s"
    and mem: "unat (cmd_addr E) + 1024 < 2 ^ 64"
  shows "accepts [plainly (ent_start_body sp)] w w'"
proof -
  have addr: "cmd_addr (traced E) = cmd_addr E" by (simp add: traced_def)
  let ?auth = "BYTESTRING8 # OPALUID OPAL_UID_HEXFF"
  obtain c r w1 w2 where c: "is_packet c zero4 zero4 zero4 (ent_start_body sp)"
    and 1: "sendCommand (traced E) c empty_response w = (Ret (0, r), w1)"
      "take_numbers r w1 = (Ret (), w2)" "w2 = w'"
    using assms(1) ent_start_packet [where E = E and s = s and sp = sp and chal = None and auth = ?auth, OF assms(2) mem]
    unfolding start_anon_def start_uid_def start_success [OF assms(3)] addr by (auto simp: ret_def)
  show ?thesis
    using accepts_after [OF achieves_accepts [OF sendCommand_achieves [OF 1(1) c]]]
      steps_result [OF wire.cl_take_numbers 1(2)] 1(3) by blast
qed

text \<open>The default password is what the drive answers to the Get.\<close>

definition asks_msid :: "cstr \<Rightarrow> demand list" where
  "asks_msid s = [plainly (ent_start_body OPAL_ADMINSP_UID),
     (ent_get_body (uid_token OPAL_C_PIN_MSID) ''PIN'' ''PIN'', \<lambda>r. getString r 5 = Ret s)]"

lemma ent_default_accepts:
  assumes run: "ent_getDefaultPassword (traced E) w = (Ret 0, w')" "msid w' = (Ret s, w'')"
    and w: "isEprise w" "unat (cmd_addr E) + 1024 < 2 ^ 64"
  shows "accepts (asks_msid s) w w'" "length (c_str s) \<le> 2000" "w'' = w'"
proof -
  have r: "getString (dev_response w') 5 = Ret s" "w'' = w'"
    using run(2) by (auto simp: msid_def from_response_def bind_op_Ret_iff get_op_def lift_op_def)
  then show "w'' = w'" by simp
  obtain w1 w2 where st: "start_anon (traced E) OPAL_ADMINSP_UID (fresh_session True w) = (Ret 0, w1)"
    and gt: "ent_getTable (traced E) (uid_token OPAL_C_PIN_MSID) ''PIN'' ''PIN'' w1 = (Ret 0, w2)"
    and dl: "delete_session (traced E) w2 = (Ret (), w')"
    using run(1) unfolding ent_getDefaultPassword_def fresh_in_session checked_success finish_success by blast
  have "accepts [plainly (ent_start_body OPAL_ADMINSP_UID)] (fresh_session True w) w1"
    by (rule ent_start_anon_accepts [OF st]) (use w in \<open>auto simp: fresh_session_def isEprise_def\<close>)
  then have 1: "accepts [plainly (ent_start_body OPAL_ADMINSP_UID)] w w1"
    by (rule accepts_before [OF fresh_proper])
  have c: "same_config w w1" by (rule fresh_same(2) [OF steps_result [OF kept.cl_start_anon st]])
  have x: "exchanged [(ent_get_body (uid_token OPAL_C_PIN_MSID) ''PIN'' ''PIN'', dev_response w')] w1 w2"
    using call_dev_exchanged [OF gt [unfolded ent_getTable_def] ent_pin_get_packet [OF length_uid_token w(2)]]
    unfolding delete_session_response [OF dl] .
  have "accepts [(ent_get_body (uid_token OPAL_C_PIN_MSID) ''PIN'' ''PIN'', \<lambda>r. getString r 5 = Ret s)] w1 w2"
    by (rule exchanged_accepts [OF x, where P = "\<lambda>r. getString r 5 = Ret s"]) (rule r(1))
  from accepts_after [OF accepts_append [OF 1 this config_fields(3) [OF c]] steps_result [OF wire.cl_delete_session dl]]
  show "accepts (asks_msid s) w w'" by (simp add: asks_msid_def)
  obtain buf where "init MIN_BUFFER_LENGTH buf = Ret (dev_response w')"
    using exchanged_init [of "[]"] x by fastforce
  then show "length (c_str s) \<le> 2000" by (rule getString_length [OF _ r(1)])
qed

text \<open>Signing in with a password and setting a PIN to the hash of another.\<close>

definition changes_pin :: "'d env \<Rightarrow> opal_uid \<Rightarrow> bytes \<Rightarrow> bytes \<Rightarrow> bytes \<Rightarrow> cstr \<Rightarrow> ('d \<times> request list) dta_dev \<Rightarrow> demand list" where
  "changes_pin E sp auth row pin new w = ent_sign_in sp auth pin @
     [plainly (ent_set_body row [(''PIN'', DtaHashPwd (traced E) new w)])]"

lemma changes_pin_config: "same_config w w1 \<Longrightarrow> changes_pin E sp auth row pin new w1 = changes_pin E sp auth row pin new w"
  by (simp add: changes_pin_def config_fields(2))

lemma ent_setTable_accepts:
  assumes "ent_setTable (traced E) row name v w = (Ret 0, w')" "proper_trace w' w''"
    and "length row = 9" "length name \<le> 100" "length v \<le> 1024" "unat (cmd_addr E) + 1024 < 2 ^ 64"
  shows "accepts [plainly (ent_set_body row [(name, v)])] w w''"
  using achieves_after [OF call_dev_achieves [OF assms(1) [unfolded ent_setTable_def] ent_setTable_packet [OF assms(3-6)]] assms(2)]
  by (rule achieves_accepts)

lemma pin_change_accepts:
  assumes st: "start (traced E) sp (Some old) auth (fresh_session False w) = (Ret 0, w1)"
    and t: "ent_setTable (traced E) row ''PIN'' (DtaHashPwd (traced E) new w1) w1 = (Ret 0, w2)" "proper_trace w2 w'"
    and w: "isEprise w" "old \<noteq> []" "length auth = 9" "unat (cmd_addr E) + 1024 < 2 ^ 64"
    and old: "length old \<le> 2000" "length row = 9"
  shows "accepts (changes_pin E sp auth row (pin_token old) new w) w w'"
proof -
  have c: "same_config w w1" using ent_session_accepts(2) [OF st w] old(1) by simp
  have "accepts [plainly (ent_set_body row [(''PIN'', DtaHashPwd (traced E) new w)])] w1 w'"
    using ent_setTable_accepts [OF t old(2)] length_DtaHashPwd [of "traced E" new w] w(4)
    unfolding config_fields(2) [OF c] by simp
  from ent_signed_accepts [OF st w _ this] old(1) show ?thesis
    by (simp add: changes_pin_def given_pin_def)
qed

lemma set8_uid: "set8 (OPALUID u) = uid_token u"
  by (simp add: set8_def uid_token_def)

lemma ent_setSIDPassword_accepts:
  assumes run: "ent_setSIDPassword (traced E) old new 0 1 w = (Ret 0, w')"
    and w: "isEprise w" "old \<noteq> []" "unat (cmd_addr E) + 1024 < 2 ^ 64" "length old \<le> 2000"
  shows "accepts (changes_pin E OPAL_ADMINSP_UID (uid_token OPAL_SID_UID) (uid_token OPAL_C_PIN_SID) (pin_token old) new w) w w'"
proof -
  obtain w1 w2 where st: "start (traced E) OPAL_ADMINSP_UID (Some old) (uid_token OPAL_SID_UID) (fresh_session False w) = (Ret 0, w1)"
    and t: "ent_setTable (traced E) (uid_token OPAL_C_PIN_SID) ''PIN'' (DtaHashPwd (traced E) new w1) w1 = (Ret 0, w2)"
    and f: "finish (traced E) (0 :: u8) w2 = (Ret 0, w')"
    using run w(2)
    by (auto simp: ent_setSIDPassword_def Let_def fresh_seq checked_success get_bind set8_uid)
  show ?thesis
    by (rule pin_change_accepts [OF st t steps_result [OF wire.cl_finish f]]) (use w in simp_all)
qed

lemma init_bandmasters_accepts:
  assumes run: "init_bandmasters (traced E) d new (Suc n) 0 user w = (Ret 0, w')"
    and w: "isEprise w" "d \<noteq> []" "unat (cmd_addr E) + 1024 < 2 ^ 64" "length d \<le> 2000" "length user = 9"
  shows "accepts (changes_pin E ENTERPRISE_LOCKINGSP_UID (setband user 0) (user2cpin (setband user 0)) (pin_token d) new w) w w'"
proof -
  obtain w1 w2 w3 where st: "start (traced E) ENTERPRISE_LOCKINGSP_UID (Some d) (setband user 0) (fresh_session False w) = (Ret 0, w1)"
    and t: "ent_setTable (traced E) (user2cpin (setband user 0)) ''PIN'' (DtaHashPwd (traced E) new w1) w1 = (Ret 0, w2)"
    and dl: "delete_session (traced E) w2 = (Ret (), w3)"
    and k: "init_bandmasters (traced E) d new n 1 (setband user 0) w3 = (Ret 0, w')"
    using run
    by (auto simp: Let_def fresh_seq bind_op_Ret_iff get_bind seq_op_def [of "delete_session _"] ret_def finish_success
        split: if_splits)
  have "proper_trace w2 w'"
    using steps_result [OF wire.cl_delete_session dl] steps_result [OF wire.cl_init_bandmasters k]
    by (rule transpD [OF wire.transitive])
  from pin_change_accepts [OF st t this] w show ?thesis by simp
qed

lemma initLSPUsers_accepts:
  assumes run: "initLSPUsers (traced E) d new w = (Ret 0, w')"
    and w: "isEprise w" "d \<noteq> []" "unat (cmd_addr E) + 1024 < 2 ^ 64" "length d \<le> 2000"
  shows "accepts (changes_pin E ENTERPRISE_LOCKINGSP_UID erasemaster (user2cpin erasemaster) (pin_token d) new w @
    changes_pin E ENTERPRISE_LOCKINGSP_UID (bandmaster 0) (user2cpin (bandmaster 0)) (pin_token d) new w) w w'"
proof -
  let ?u = "set8 (OPALUID ENTERPRISE_BANDMASTER0_UID)"
  obtain w1 w2 w3 n w4 where st: "start (traced E) ENTERPRISE_LOCKINGSP_UID (Some d) erasemaster (fresh_session False w) = (Ret 0, w1)"
    and t: "ent_setTable (traced E) (user2cpin erasemaster) ''PIN'' (DtaHashPwd (traced E) new w1) w1 = (Ret 0, w2)"
    and dl: "delete_session (traced E) w2 = (Ret (), w3)"
    and r: "getMaxRanges (traced E) w3 = (Ret (Inr n), w4)"
    and k: "init_bandmasters (traced E) d new (Suc (unat n)) 0 ?u w4 = (Ret 0, w')"
    using run
    by (auto simp: initLSPUsers_def fresh_seq bind_op_Ret_iff get_bind seq_op_def [of "delete_session _"] ret_def
        checked_success with_max_ranges_success simp del: init_bandmasters.simps split: if_splits)
  have c1: "same_config w w1" using ent_session_accepts(2) [OF st w(1, 2) _ w(3)] w(4) by simp
  have "same_config w1 w4"
    using steps_result [OF kept.cl_ent_setTable t] steps_result [OF kept.cl_delete_session dl]
      steps_result [OF kept.cl_getMaxRanges r] by (simp add: same_config_def)
  then have c: "same_config w w4" using c1 by (simp add: same_config_def)
  have "proper_trace w2 w4"
    using steps_result [OF wire.cl_delete_session dl] steps_result [OF wire.cl_getMaxRanges r]
    by (rule transpD [OF wire.transitive])
  from pin_change_accepts [OF st t this] w
  have 1: "accepts (changes_pin E ENTERPRISE_LOCKINGSP_UID erasemaster (user2cpin erasemaster) (pin_token d) new w) w w4"
    by simp
  have b: "setband ?u 0 = bandmaster 0" by (simp add: bandmaster_def)
  have "isEprise w4" using w(1) config_fields(1) [OF c] by simp
  from init_bandmasters_accepts [OF k this w(2, 3, 4)]
  have "accepts (changes_pin E ENTERPRISE_LOCKINGSP_UID (bandmaster 0) (user2cpin (bandmaster 0)) (pin_token d) new w) w4 w'"
    by (simp add: b changes_pin_config [OF c])
  from accepts_append [OF 1 this config_fields(3) [OF c]] show ?thesis .
qed

section \<open>Set-up\<close>

text \<open>The commands of taking ownership for the default password \<open>d\<close>: the PIN of SID, of the erase
  master and of the first band master.\<close>

definition owner_demands :: "'d env \<Rightarrow> cstr \<Rightarrow> cstr \<Rightarrow> ('d \<times> request list) dta_dev \<Rightarrow> demand list" where
  "owner_demands E d new w =
     changes_pin E OPAL_ADMINSP_UID (uid_token OPAL_SID_UID) (uid_token OPAL_C_PIN_SID) (pin_token d) new w @
     changes_pin E ENTERPRISE_LOCKINGSP_UID erasemaster (user2cpin erasemaster) (pin_token d) new w @
     changes_pin E ENTERPRISE_LOCKINGSP_UID (bandmaster 0) (user2cpin (bandmaster 0)) (pin_token d) new w"

definition ent_setup_demands :: "'d env \<Rightarrow> cstr \<Rightarrow> ('d \<times> request list) dta_dev \<Rightarrow> demand list" where
  "ent_setup_demands E pw w = band_sets E 0 pw (ent_lock_columns OPAL_FALSE) w @
     band_sets E 0 pw (ent_enable_columns (DTA_READLOCKINGENABLED OR DTA_WRITELOCKINGENABLED)) w"

lemma band_sets_config: "same_config w w1 \<Longrightarrow> band_sets E n pw cols w1 = band_sets E n pw cols w"
  by (simp add: band_sets_def config_fields(2))

lemma ent_takeOwnership_accepts:
  assumes run: "ent_takeOwnership (traced E) new w = (Ret 0, w')"
    and w: "isEprise w" "unat (cmd_addr E) + 1024 < 2 ^ 64"
  shows "\<exists>s w1. accepts (asks_msid s) w w1 \<and> same_config w w1 \<and> proper_trace w1 w' \<and>
    (c_str s \<noteq> [] \<longrightarrow> accepts (owner_demands E (c_str s) new w) w1 w')"
proof -
  obtain w1 s w2 where d: "ent_getDefaultPassword (traced E) w = (Ret 0, w1)" "msid w1 = (Ret s, w1)"
    and 1: "ent_setSIDPassword (traced E) (c_str s) new 0 1 w1 = (Ret 0, w2)"
    and 2: "initLSPUsers (traced E) (c_str s) new w2 = (Ret 0, w')"
    using run
    by (auto simp: ent_takeOwnership_def check_success check_ret_0 bind_op_Ret_iff msid_def from_response_def
        get_op_def lift_op_def ret_def)
  note a = ent_default_accepts [OF d w]
  have c1: "same_config w w1" by (rule steps_result [OF kept.cl_ent_getDefaultPassword d(1)])
  have c2: "same_config w1 w2" by (rule steps_result [OF kept.cl_ent_setSIDPassword 1])
  then have c: "same_config w w2" using c1 by (simp add: same_config_def)
  have p: "proper_trace w1 w'"
    using steps_result [OF wire.cl_ent_setSIDPassword 1] steps_result [OF wire.cl_initLSPUsers 2]
    by (rule transpD [OF wire.transitive])
  have e: "isEprise w1" "isEprise w2" using w(1) config_fields(1) [OF c1] config_fields(1) [OF c] by simp_all
  have "accepts (owner_demands E (c_str s) new w) w1 w'" if ne: "c_str s \<noteq> []"
    using accepts_append [OF ent_setSIDPassword_accepts [OF 1 e(1) ne w(2) a(2)]
        initLSPUsers_accepts [OF 2 e(2) ne w(2) a(2)] config_fields(3) [OF c2]]
    by (simp add: owner_demands_def changes_pin_config [OF c1] changes_pin_config [OF c])
  then show ?thesis using a(1) c1 p by blast
qed

lemma ent_initialSetup_accepts:
  assumes run: "ent_initialSetup (traced E) pw w = (Ret 0, w')"
    and w: "isEprise w" "pw \<noteq> []" "unat (cmd_addr E) + 1024 < 2 ^ 64"
  shows "\<exists>s w1. accepts (asks_msid s) w w1 \<and>
    accepts ((if c_str s \<noteq> [] then owner_demands E (c_str s) pw w else []) @ ent_setup_demands E pw w) w1 w'"
proof -
  obtain w2 w3 where 1: "ent_takeOwnership (traced E) pw w = (Ret 0, w2)"
    and 2: "ent_setLockingRange (traced E) 0 READWRITE pw w2 = (Ret 0, w3)"
    and 3: "ent_configureLockingRange (traced E) 0 (DTA_READLOCKINGENABLED OR DTA_WRITELOCKINGENABLED) pw w3 = (Ret 0, w')"
    using run unfolding ent_initialSetup_def check_success check_ret_0 by (auto simp: ret_def)
  obtain s w1 where s: "accepts (asks_msid s) w w1" "same_config w w1" "proper_trace w1 w2"
    and o: "c_str s \<noteq> [] \<Longrightarrow> accepts (owner_demands E (c_str s) pw w) w1 w2"
    using ent_takeOwnership_accepts [OF 1 w(1, 3)] by blast
  have c2: "same_config w w2" by (rule steps_result [OF kept.cl_ent_takeOwnership 1])
  have c3: "same_config w2 w3" by (rule steps_result [OF kept.cl_ent_setLockingRange 2])
  then have c: "same_config w w3" using c2 by (simp add: same_config_def)
  have e: "isEprise w2" "isEprise w3" using w(1) config_fields(1) [OF c2] config_fields(1) [OF c] by simp_all
  obtain n w4 where r: "getMaxRanges (traced E) w2 = (Ret (Inr n), w4)"
    and l: "accepts (band_sets E 0 pw (ent_lock_columns OPAL_FALSE) w) w4 w3"
    using ent_setLockingRange_accepts [OF 2 e(1) w(2, 3)]
    by (auto simp: ent_locking_state_def band_sets_config [OF c2])
  have l': "accepts (band_sets E 0 pw (ent_lock_columns OPAL_FALSE) w) w2 w3"
    by (rule accepts_before [OF steps_result [OF wire.cl_getMaxRanges r] l])
  from accepts_append [OF l' ent_configureLockingRange_accepts [OF 3 e(2) w(2, 3)] config_fields(3) [OF c3]]
  have t: "accepts (ent_setup_demands E pw w) w2 w'"
    by (simp add: ent_setup_demands_def band_sets_config [OF c])
  have cid: "comID w2 = comID w1"
    using config_fields(3) [OF s(2)] config_fields(3) [OF c2] by simp
  have "accepts ((if c_str s \<noteq> [] then owner_demands E (c_str s) pw w else []) @ ent_setup_demands E pw w) w1 w'"
    using accepts_append [OF o t cid] accepts_before [OF s(3) t] by simp
  then show ?thesis using s(1) by blast
qed

text \<open>C14. Initial set-up of an Enterprise drive: success means that the drive told its default password
  and then, unless that is empty, changed the PIN of SID, of the erase master and of the first band
  master to the hash of the new password, each in a session that the owner of the PIN signed in to with
  the default password and that the drive answered with yes; and that it at last unlocked the global
  band and enabled locking on it for the first band master under the new password. Of the band masters
  behind the first nothing is known: the loop over them goes on after a failure.\<close>

theorem ent_initialSetup_success:
  assumes "ent_initialSetup (traced E) pw w = (Ret 0, w')"
    and "isEprise w" "pw \<noteq> []" "unat (cmd_addr E) + 1024 < 2 ^ 64"
  shows "\<exists>s w1. accepts (asks_msid s) w w1 \<and>
    accepts ((if c_str s \<noteq> [] then owner_demands E (c_str s) pw w else []) @ ent_setup_demands E pw w) w1 w'"
  by (rule ent_initialSetup_accepts [OF assms])

section \<open>Rows of bands\<close>

text \<open>The high byte of a number below 1024 falls to the mask, so a row tells a band only up to 256.\<close>

lemma high_byte:
  fixes i :: u16
  assumes "unat i < 1024"
  shows "(ucast (drop_bit 8 (i + 1)) :: u8) \<in> {0, 1, 2, 3, 4}"
proof -
  have "unat (i + 1) = unat i + 1" using assms by (simp add: unat_word_ariths)
  then have "unat (drop_bit 8 (i + 1)) \<le> 4"
    using assms by (simp add: unat_drop_bit_eq, simp add: drop_bit_eq_div)
  then have "unat (drop_bit 8 (i + 1)) \<in> {0, 1, 2, 3, 4}" by (simp, linarith)
  moreover have "(ucast (drop_bit 8 (i + 1)) :: u8) = of_nat (unat (drop_bit 8 (i + 1)))"
    by (metis of_nat_unat)
  ultimately show ?thesis by (elim insertE emptyE) (simp_all only:, simp_all)
qed

lemma band_uids: "OPALUID ENTERPRISE_BANDMASTER0_UID = [0x00, 0x00, 0x00, 0x09, 0x00, 0x00, 0x80, 0x01]"
    "OPALUID OPAL_LOCKINGRANGE_GLOBAL = [0x00, 0x00, 0x08, 0x02, 0x00, 0x00, 0x00, 0x01]"
  by code_simp+

lemma setband_row:
  assumes "unat i < 1024"
  shows "bandmaster i = [0xa8, 0x00, 0x00, 0x00, 0x09, 0x00, 0x00, 0x80, ucast (i + 1)]"
    "band i = [0xa8, 0x00, 0x00, 0x08, 0x02, 0x00, 0x00, 0x00, ucast (i + 1)]"
  using high_byte [OF assms]
  by (auto simp: bandmaster_def band_def setband_def set8_def Let_def band_uids)

lemma band_low_byte:
  fixes i k :: u16
  shows "(ucast (i + 1) :: u8) = ucast (k + 1) \<longleftrightarrow> unat i mod 256 = unat k mod 256"
proof -
  have "(ucast (i + 1) :: u8) = ucast i + 1" for i :: u16
    by (simp add: word_unat_eq_iff unat_word_ariths unsigned_ucast_eq take_bit_eq_mod mod_simps mod_mod_cancel)
  moreover have "(ucast i :: u8) = ucast k \<longleftrightarrow> unat i mod 256 = unat k mod 256"
    by (simp add: word_unat_eq_iff unsigned_ucast_eq take_bit_eq_mod)
  ultimately show ?thesis by simp
qed

text \<open>C33. The rows of bands and band masters, for all numbers a drive may have: two bands below 1024
  have the same row, and their masters the same authority, exactly when their numbers agree up to a
  multiple of 256. So an operation on a high band reaches a low one: setting the password of
  BandMaster256 is setting that of BandMaster0, in every state and on every drive.\<close>

theorem ent_bands_share_rows:
  "unat i < 1024 \<Longrightarrow> unat k < 1024 \<Longrightarrow>
     (bandmaster i = bandmaster k \<longleftrightarrow> unat i mod 256 = unat k mod 256) \<and>
     (band i = band k \<longleftrightarrow> unat i mod 256 = unat k mod 256) \<and>
     ent_setPassword E pw (lit ''BandMaster256'') new = ent_setPassword E pw (lit ''BandMaster0'') new"
proof -
  have "ent_user (lit ''BandMaster256'') = ent_user (lit ''BandMaster0'')" by code_simp
  then show "unat i < 1024 \<Longrightarrow> unat k < 1024 \<Longrightarrow> ?thesis"
    by (simp add: setband_row band_low_byte ent_setPassword_def)
qed

theorem ent_bands_share_rows_witness:
  "bandmaster 256 = bandmaster 0 \<and> band 511 = band 255 \<and> band 1 \<noteq> band 255"
  using ent_bands_share_rows [of 256 0 "undefined :: unit env" "[]" "[]"]
    ent_bands_share_rows [of 511 255 "undefined :: unit env" "[]" "[]"]
    ent_bands_share_rows [of 1 255 "undefined :: unit env" "[]" "[]"]
  by simp

end
