(* ===== verification/EntRuns.thy ===== *)
theory EntRuns
  imports OpalRuns EntEffects
begin

text \<open>
  The operations of the Enterprise class on a cooperative drive: they run to their end and return 0,
  as those of the Opal class do. At the end, the runs that instantiate the statements on success.
\<close>

section \<open>Commands and sessions\<close>

lemma builds_vectors [success_rules]:
  assumes "cooperative E" "length obj = 9" "encodes ts"
  shows "builds E [reset_vectors obj (set8 (OPALMETHOD m)), addTokens ts, complete True]"
proof -
  obtain tok where tok: "enc_all ts = Some tok" "length tok \<le> 8192" using assms(3) by (auto simp: encodes_def)
  have "wire_size (object_body obj m tok) \<le> MAX_BUFFER_LENGTH"
    using tok(2) assms(2) length_wire [of "object_body obj m tok"] by (simp add: object_body_def eod_bytes_def)
  from vectors_packet [OF assms(2) tok(1) this cooperative_mem [OF assms(1)]]
  show ?thesis unfolding builds_def by blast
qed

lemma encodes_columns:
  "enc_all vs = Some x \<Longrightarrow> length x \<le> 8000 \<Longrightarrow> encodes (ent_columns vs)"
  by (simp add: encodes_def ent_columns_def enc_all_append)

lemma yes_ent_getTable [success_rules]:
  "cooperative E \<Longrightarrow> length obj = 9 \<Longrightarrow> length a \<le> 20 \<Longrightarrow> length b \<le> 20 \<Longrightarrow>
   returns_0 in_sess (ent_getTable E obj a b) replied"
  unfolding ent_getTable_def
  by (intro success_rules)
    (auto simp: encodes_def column_def enc_bytes_def lit_def Let_def)

lemma yes_ent_setTable [success_rules]:
  "cooperative E \<Longrightarrow> length obj = 9 \<Longrightarrow> length name \<le> 20 \<Longrightarrow> length v \<le> 1024 \<Longrightarrow>
   returns_0 in_sess (ent_setTable E obj name v) replied"
  unfolding ent_setTable_def
  by (intro success_rules)
    (auto simp: encodes_def ent_columns_def column_def enc_bytes_def lit_def Let_def)

definition fresh_of :: "bool \<Rightarrow> 'd dta_dev \<Rightarrow> bool" where
  "fresh_of hashed w \<longleftrightarrow> ready w \<and> session w = Some (DtaSession\<lparr>hashPwd := hashed\<rparr>)"

lemma yes_new_session: "succeeds ready new_session (\<lambda>_. fresh_of True)"
  by (auto simp: succeeds_def new_session_def put_op_def ready_def fresh_of_def DtaSession_def)

lemma yes_dontHashPwd: "succeeds (fresh_of True) dontHashPwd (\<lambda>_. fresh_of False)"
  by (auto simp: succeeds_def dontHashPwd_def update_session_def bind_op_def this_session_def put_op_def
      ready_def fresh_of_def)

lemma yes_fresh_start:
  "cooperative E \<Longrightarrow> length auth \<le> 9 \<Longrightarrow> hashed \<or> length pw \<le> 2000 \<Longrightarrow>
   returns_0 (fresh_of hashed) (start E sp (Some pw) auth) in_sess"
  by (rule yes_start) (auto simp: fresh_of_def in_sess_def sendable_def)

lemma yes_delete: "cooperative E \<Longrightarrow> succeeds in_sess (delete_session E) (\<lambda>_. ready)"
  "cooperative E \<Longrightarrow> succeeds replied (delete_session E) (\<lambda>_. reply_kept)"
  unfolding succeeds_def
  using delete_run by (fastforce simp: replied_def in_sess_def ready_def reply_kept_def)+

text \<open>A plain password opens a session in which a PIN is set.\<close>

lemma yes_set_hash:
  assumes "cooperative E" "length row = 9" "\<And>x. length x \<le> 1024 \<Longrightarrow> returns_0 in_sess (k x) Q"
  shows "returns_0 in_sess (bind_op (get_op (DtaHashPwd E new)) k) Q"
proof (rule returns_0_bind)
  show "succeeds in_sess (get_op (DtaHashPwd E new)) (\<lambda>x w. in_sess w \<and> length x \<le> 1024)"
    by (auto intro!: succeeds_get order_trans [OF length_DtaHashPwd])
  show "returns_0 (\<lambda>w. in_sess w \<and> length x \<le> 1024) (k x) Q" for x
    using assms(3) by (cases "length x \<le> 1024") (auto simp: returns_0_def succeeds_def)
qed

text \<open>An operation whose value is known.\<close>

lemma succeeds_bind_eq:
  assumes "succeeds P m (\<lambda>x w. x = a \<and> R w)" "succeeds R (f a) Q"
  shows "succeeds P (bind_op m f) Q"
proof (rule succeeds_bind [OF assms(1)])
  fix x show "succeeds (\<lambda>w. x = a \<and> R w) (f x) Q"
    using assms(2) by (cases "x = a") (auto simp: succeeds_def)
qed

lemma yes_bind_eq: "succeeds P m (\<lambda>x w. x = a \<and> R w) \<Longrightarrow> returns_0 R (f a) Q \<Longrightarrow> returns_0 P (bind_op m f) Q"
  unfolding returns_0_def by (rule succeeds_bind_eq)

lemma returns_0_taken: "returns_0 P k Q \<Longrightarrow> returns_0 P (if (0 :: u8) \<noteq> 0 then m else k) Q"
  by simp

lemma succeeds_seq: "succeeds P m (\<lambda>_. R) \<Longrightarrow> succeeds R k Q \<Longrightarrow> succeeds P (seq_op m k) Q"
  unfolding seq_op_def by (rule succeeds_bind)

lemma returns_0_eq: "returns_0 P m Q \<Longrightarrow> succeeds P m (\<lambda>x w. x = 0 \<and> Q w)"
  by (simp add: returns_0_def)

section \<open>Look-ups\<close>

lemma yes_ent_default [success_rules]: "cooperative E \<Longrightarrow> returns_0 ready (ent_getDefaultPassword E) reply_kept"
  unfolding ent_getDefaultPassword_def by (rule success_rules | simp)+

lemma yes_msid: "succeeds reply_kept msid (\<lambda>x w. x = [9] \<and> ready w)"
  by (auto simp: succeeds_def msid_def from_response_def bind_op_def get_op_def lift_op_def reply_kept_def yes_reads)

lemma yes_getMaxRanges:
  assumes "cooperative E"
  shows "succeeds ready (getMaxRanges E) (\<lambda>x w. x = Inr 9 \<and> ready w)"
proof -
  let ?t = "ent_getTable E (set8 (OPALUID ENTERPRISE_LOCKING_INFO_TABLE)) ''MaxRanges'' ''MaxRanges''"
  have 1: "succeeds (fresh_of True) (start_anon E ENTERPRISE_LOCKINGSP_UID) (\<lambda>x w. x = 0 \<and> in_sess w)"
    unfolding start_anon_def start_uid_def
    by (rule returns_0_eq [OF yes_start [OF assms]]) (auto simp: fresh_of_def in_sess_def sendable_def)
  have 2: "succeeds in_sess ?t (\<lambda>x w. x = 0 \<and> replied w)"
    by (rule returns_0_eq [OF yes_ent_getTable [OF assms]]) simp_all
  have 3: "succeeds reply_kept (bind_op (from_response (\<lambda>r. getUint16 r 5)) (\<lambda>n. ret (Inr n)))
      (\<lambda>x w. x = (Inr 9 :: u8 + u16) \<and> ready w)"
    by (auto simp: succeeds_def from_response_def bind_op_def get_op_def lift_op_def reply_kept_def yes_reads ret_def)
  have 4: "succeeds in_sess (bind_op ?t (\<lambda>lastRC. if lastRC \<noteq> 0 then seq_op (delete_session E) (getMaxRangesOpal E)
      else seq_op (delete_session E) (bind_op (from_response (\<lambda>r. getUint16 r 5)) (\<lambda>n. ret (Inr n)))))
      (\<lambda>x w. x = Inr 9 \<and> ready w)"
    by (rule succeeds_bind_eq [OF 2]) (simp add: succeeds_seq [OF yes_delete(2) [OF assms] 3])
  show ?thesis
    unfolding getMaxRanges_def
    by (rule succeeds_seq [OF yes_new_session], rule succeeds_bind_eq [OF 1]) (simp add: 4)
qed

lemma yes_with_max_ranges:
  "cooperative E \<Longrightarrow> returns_0 ready (k 9) Q \<Longrightarrow> returns_0 ready (with_max_ranges E k) Q"
  unfolding with_max_ranges_def by (rule yes_bind_eq [OF yes_getMaxRanges]) simp_all

section \<open>The operations\<close>

lemma yes_ent_configureLockingRange [success_rules]:
  "cooperative E \<Longrightarrow> returns_0 ready (ent_configureLockingRange E n e pw) ready"
  unfolding ent_configureLockingRange_def ent_set_row_def
  by (rule success_rules encodes_columns | simp add: enc_all_append column_def enc_bytes_def lit_def split del: if_split)+

lemma yes_ent_setLockingRange [success_rules]:
  assumes "cooperative E" "ent_locking_state st = Some locked" "range_in_bounds n 9"
  shows "returns_0 ready (ent_setLockingRange E n st pw) ready"
proof -
  let ?calls = "ent_set_row (band (ucast n)) (column ''WriteLocked'' [Tok locked] @ column ''ReadLocked'' [Tok locked])"
  have "builds E ?calls"
    unfolding ent_set_row_def
    by (rule builds_vectors [OF assms(1)])
      (simp_all add: encodes_def ent_columns_def enc_all_append column_def enc_bytes_def lit_def)
  then obtain c where c: "cmd_seq ?calls (DtaCommand (cmd_addr E)) = Ret c" by (auto simp: builds_def)
  have "returns_0 ready (bind_op (build E ?calls) (\<lambda>set. in_session E
      (start E ENTERPRISE_LOCKINGSP_UID (Some pw) (bandmaster (ucast n)))
      (checked E (sendCommand_dev E set) (finish E 0)))) ready"
    by (rule yes_bind_eq [where a = c and R = ready])
      (auto simp: succeeds_def build_def c lift_op_def
        intro!: yes_session [OF assms(1)] returns_0_checked [OF yes_command_dev [OF assms(1)] yes_finish(3) [OF assms(1)]])
  then show ?thesis
    unfolding ent_setLockingRange_def assms(2) option.case
    by (intro yes_with_max_ranges [OF assms(1)]) (simp add: assms(3))
qed

lemma yes_pin:
  assumes "cooperative E" "length row = 9" "returns_0 replied k Q"
  shows "returns_0 in_sess (bind_op (get_op (DtaHashPwd E new)) (\<lambda>x. checked E (ent_setTable E row ''PIN'' x) k)) Q"
  by (rule yes_set_hash [OF assms(1, 2)])
    (rule returns_0_checked [OF yes_ent_setTable [OF assms(1, 2)] assms(3)], simp_all)

lemma yes_ent_setSIDPassword:
  assumes "cooperative E" "old \<noteq> []" "length old \<le> 2000"
  shows "returns_0 ready (ent_setSIDPassword E old new 0 1) ready"
proof -
  let ?k = "bind_op (get_op (DtaHashPwd E new)) (\<lambda>x. checked E (ent_setTable E (uid_token OPAL_C_PIN_SID) ''PIN'' x) (finish E 0))"
  have "returns_0 ready (seq_op new_session (seq_op dontHashPwd
      (checked E (start E OPAL_ADMINSP_UID (Some old) (uid_token OPAL_SID_UID)) ?k))) ready"
    by (rule returns_0_seq [OF yes_new_session returns_0_seq [OF yes_dontHashPwd returns_0_checked [OF
        yes_fresh_start [OF assms(1)] yes_pin [OF assms(1) _ yes_finish(3) [OF assms(1)]]]]])
      (use assms(3) in simp_all)
  then show ?thesis using assms(2) by (simp add: ent_setSIDPassword_def Let_def set8_uid)
qed

lemma yes_init_bandmasters:
  assumes "cooperative E" "length d \<le> 2000"
  shows "length user = 9 \<Longrightarrow> returns_0 ready (init_bandmasters E d new n i user) ready"
proof (induction n arbitrary: i user)
  case (Suc n)
  let ?u = "setband user i"
  let ?next = "init_bandmasters E d new n (i + 1) ?u"
  have nxt: "returns_0 ready ?next ready" by (rule Suc.IH) (simp add: Suc.prems)
  have set: "returns_0 in_sess (bind_op (ent_setTable E (user2cpin ?u) ''PIN'' x) (\<lambda>lastRC.
      if lastRC \<noteq> 0 \<and> i = 0 then finish E lastRC else seq_op (delete_session E) ?next)) ready" if "length x \<le> 1024" for x
    by (rule yes_bind_eq [OF returns_0_eq [OF yes_ent_setTable [OF assms(1)]]])
      (use that Suc.prems in \<open>auto intro: succeeds_weaken [OF yes_delete(2) [OF assms(1)]] states
        intro!: returns_0_seq [OF _ nxt]\<close>)
  have st: "returns_0 (fresh_of False) (start E ENTERPRISE_LOCKINGSP_UID (Some d) ?u) in_sess"
    by (rule yes_fresh_start [OF assms(1)]) (use assms(2) Suc.prems in simp_all)
  have pin: "length (user2cpin ?u) = 9" using Suc.prems by simp
  note chain = yes_set_hash [OF assms(1) pin set]
  show ?case
    unfolding init_bandmasters.simps Let_def
    by (rule returns_0_seq [OF yes_new_session returns_0_seq [OF yes_dontHashPwd]],
        rule yes_bind_eq [OF returns_0_eq [OF st]], rule returns_0_taken, rule chain)
qed (simp add: returns_0_ret)

lemma yes_initLSPUsers:
  assumes "cooperative E" "length d \<le> 2000"
  shows "returns_0 ready (initLSPUsers E d new) ready"
proof -
  have b: "returns_0 ready (init_bandmasters E d new n i (set8 (OPALUID ENTERPRISE_BANDMASTER0_UID))) ready" for n i
    by (rule yes_init_bandmasters [OF assms]) simp
  have k: "succeeds replied (delete_session E) (\<lambda>_. ready)"
    by (rule succeeds_weaken [OF yes_delete(2) [OF assms(1)]]) (auto intro: states)
  show ?thesis
    unfolding initLSPUsers_def
    by (rule returns_0_seq [OF yes_new_session returns_0_seq [OF yes_dontHashPwd returns_0_checked [OF
        yes_fresh_start [OF assms(1)] yes_pin [OF assms(1) _ returns_0_seq [OF k yes_with_max_ranges [OF assms(1)]]]]]])
      (use assms(2) in \<open>simp_all add: b del: init_bandmasters.simps\<close>)
qed

lemma yes_ent_takeOwnership [success_rules]:
  assumes "cooperative E"
  shows "returns_0 ready (ent_takeOwnership E new) ready"
  unfolding ent_takeOwnership_def
  by (rule returns_0_check [OF yes_ent_default [OF assms] yes_bind_eq [OF yes_msid]],
      rule returns_0_check [OF yes_ent_setSIDPassword [OF assms]
        returns_0_check [OF yes_initLSPUsers [OF assms] returns_0_ret]])
    (simp_all add: c_str_def)

lemma yes_ent_initialSetup [success_rules]:
  "cooperative E \<Longrightarrow> returns_0 ready (ent_initialSetup E pw) ready"
  unfolding ent_initialSetup_def
  by (rule success_rules yes_ent_setLockingRange | simp add: ent_locking_state_def range_in_bounds_def)+

section \<open>Set-up on every class\<close>



definition ent_fresh :: "(unit \<times> request list) dta_dev" where
  "ent_fresh = (fresh EnterpriseDev)\<lparr>disk_info := (disk_info (fresh EnterpriseDev))\<lparr>Enterprise := True\<rparr>\<rparr>"

lemma ent_fresh: "ready ent_fresh" "isEprise ent_fresh"
  by (simp_all add: ent_fresh_def fresh_def ready_def new_dev_def isEprise_def)

theorem ent_setLockingRange_success_witness:
  "\<exists>w' w1 ranges. getMaxRanges (traced willing) ent_fresh = (Ret (Inr ranges), w1) \<and> range_in_bounds 2 ranges \<and>
    accepts (band_sets willing 2 [0x70] (ent_lock_columns OPAL_TRUE) ent_fresh) w1 w'"
proof -
  have st: "ent_locking_state LOCKED = Some OPAL_TRUE" by (simp add: ent_locking_state_def)
  have "range_in_bounds 2 9" by (simp add: range_in_bounds_def)
  from returns_0D [OF yes_ent_setLockingRange [OF willing(1) st this] ent_fresh(1)]
  obtain w' where run: "ent_setLockingRange (traced willing) 2 LOCKED [0x70] ent_fresh = (Ret 0, w')" by blast
  from ent_setLockingRange_success [OF run ent_fresh(2) _ willing(2)] st show ?thesis by auto
qed

theorem ent_initialSetup_success_witness:
  "\<exists>w' s w1. accepts (asks_msid s) ent_fresh w1 \<and>
    accepts ((if c_str s \<noteq> [] then owner_demands willing (c_str s) [0x70] ent_fresh else []) @
      ent_setup_demands willing [0x70] ent_fresh) w1 w'"
proof -
  obtain w' where run: "ent_initialSetup (traced willing) [0x70] ent_fresh = (Ret 0, w')"
    using returns_0D [OF yes_ent_initialSetup [OF willing(1)] ent_fresh(1)] by blast
  from ent_initialSetup_success [OF run ent_fresh(2) _ willing(2)] show ?thesis by blast
qed

end
