(* ===== verification/SessionTrace.thy ===== *)
theory SessionTrace
  imports OpalRuns
begin

text \<open>
  One session on the wire, from the first to the last request: the packet that opens it, the call, and the
  packet that closes it, with the numbers the drive gave to the session.
\<close>

section \<open>One command, whatever the answer\<close>

lemma sendCommand_open:
  assumes "sendCommand (traced E) c resp w = (Ret (0, r), w')"
  shows "isOpen w" "\<exists>k. drive w = Some k" "dev_cls w \<noteq> Generic"
proof -
  obtain s where s: "session w = Some s" using sendCommand_trace [OF assms] by blast
  have x: "exec (traced E) (stamped (comID w) s c) resp (SecurityProtocol s) w = (Ret (0, r), w')"
    using assms s
    by (auto simp: sendCommand_def this_session_def bind_op_def get_op_def lift_op_def ret_def stamped_def
        split: prod.splits outcome.splits if_splits)
  then show "dev_cls w \<noteq> Generic" by (auto simp: exec_def)
  then have io: "exec_io (traced E) (stamped (comID w) s c) resp (SecurityProtocol s) w = (Ret (0, r), w')"
    using x by (cases "dev_cls w") (simp_all add: exec_def)
  then show "isOpen w" "\<exists>k. drive w = Some k"
    by (fastforce simp: exec_io_def bind_op_def get_op_def sendCmd_op_def sendCmd_def ret_def
        split: if_splits option.splits)+
qed

text \<open>\<open>sends cid buf tr\<close>: the requests are one send of \<open>buf\<close>, and receives if it was accepted.\<close>

definition sends :: "u16 \<Rightarrow> bytes \<Rightarrow> request list \<Rightarrow> bool" where
  "sends cid buf tr \<longleftrightarrow> (\<exists>p rc b rs. tr = Request IF_SEND p cid buf rc b # rs \<and> list_all (is_recv cid) rs)"

lemma exec_io_sends:
  assumes run: "exec_io (traced E) c resp p w = (Ret x, w')" and op: "isOpen w" "drive w = Some k"
  shows "\<exists>new d. w' = w\<lparr>disk := (d, requests w @ new)\<rparr> \<and> sends (comID w) (sent_bytes c) new"
proof -
  obtain rc b d where s: "sendCmd (traced E) IF_SEND p (comID w) (sent_bytes c) w =
      ((rc, read_block b 0 (length (sent_bytes c))),
        w\<lparr>disk := (d, requests w @ [Request IF_SEND p (comID w) (sent_bytes c) rc b])\<rparr>)"
    by (rule traced_run [OF op, where E = E and c = IF_SEND and p = p and cid = "comID w" and buf = "sent_bytes c"])
  let ?q = "Request IF_SEND p (comID w) (sent_bytes c) rc b"
  let ?w1 = "w\<lparr>disk := (d, requests w @ [?q])\<rparr>"
  show ?thesis
  proof (cases "rc = 0")
    case False
    then have "w' = ?w1" using run s
      by (auto simp: exec_io_def bind_op_def get_op_def sendCmd_op_def ret_def)
    moreover have "sends (comID w) (sent_bytes c) [?q]" by (simp add: sends_def)
    ultimately show ?thesis by blast
  next
    case True
    then obtain rc2 buf where pl: "poll (traced E) p ?w1 = Some ((rc2, buf), w')"
      using run s
      by (auto simp: exec_io_def bind_op_def get_op_def sendCmd_op_def poll_op_def lift_op_def ret_def
          split: if_splits option.splits prod.splits outcome.splits)
    from poll_trace [OF pl] op obtain rs b2 d2 where
      w': "w' = ?w1\<lparr>disk := (d2, requests ?w1 @ rs @
          [Request IF_RECV p (comID ?w1) (replicate MIN_BUFFER_LENGTH 0) rc2 b2])\<rparr>"
      and rs: "list_all (is_recv (comID ?w1)) rs" by auto
    let ?new = "?q # rs @ [Request IF_RECV p (comID w) (replicate MIN_BUFFER_LENGTH 0) rc2 b2]"
    have "w' = w\<lparr>disk := (d2, requests w @ ?new)\<rparr>" using w' by simp
    moreover have "sends (comID w) (sent_bytes c) ?new"
      using rs by (simp add: sends_def is_recv_def)
    ultimately show ?thesis by blast
  qed
qed

lemma sendCommand_sends:
  assumes "sendCommand (traced E) c resp w = (Ret x, w')" "isOpen w" "drive w = Some k" "dev_cls w \<noteq> Generic"
    and s: "session w = Some s"
  shows "\<exists>new d. w' = w\<lparr>disk := (d, requests w @ new)\<rparr> \<and>
    sends (comID w) (sent_bytes (stamped (comID w) s c)) new"
proof -
  obtain y where "exec_io (traced E) (stamped (comID w) s c) resp (SecurityProtocol s) w = (Ret y, w')"
    using assms(1, 4) s
    by (cases "dev_cls w"; auto simp: sendCommand_def this_session_def bind_op_def get_op_def lift_op_def ret_def
        stamped_def exec_def split: prod.splits outcome.splits if_splits)
  from exec_io_sends [OF this assms(2, 3)] show ?thesis .
qed

lemma comID_session: "comID (w\<lparr>session := s\<rparr>) = comID w"
  by (simp add: comID_def split: dev_class.split)

section \<open>Opening, calling, closing\<close>

lemma start_numbers:
  assumes "start (traced E) sp (Some pw) auth w = (Ret 0, w')" "\<not> isEprise w" "session w = Some s"
    and pin: "enc (challenge_token (traced E) s w pw) = Some pin" "length pin \<le> 4096"
    and auth: "length auth = 9" "auth \<noteq> 0xa8 # OPALUID OPAL_UID_HEXFF"
    and mem: "unat (cmd_addr E) + 1024 < 2 ^ 64"
  shows "\<exists>new d r hsn tsn. w' = w\<lparr>disk := (d, requests w @ new), session := Some (s\<lparr>HSN := SWAP32 hsn, TSN := SWAP32 tsn\<rparr>)\<rparr> \<and>
    answered (comID w) (wire (comID w) (TSN s) (HSN s) (start_body pin sp auth)) new r \<and>
    getUint32 r 4 = Ret hsn \<and> getUint32 r 5 = Ret tsn \<and> isOpen w \<and> (\<exists>k. drive w = Some k) \<and> dev_cls w \<noteq> Generic"
proof -
  have addr: "cmd_addr (traced E) = cmd_addr E" by (simp add: traced_def)
  have tok: "enc_all (start_args (traced E) s w sp (Some pw) auth) = Some ([0xf0, 0x81, 105] @
      (0xa8 # OPALUID sp) @ [0x01, 0xf2, 0x00] @ pin @ [0xf3, 0xf2, 0x03] @ auth @ [0xf3, 0xf1])"
    using assms(2) pin(1) auth(2) by (auto simp: start_args_def auth_args_def timeout_args_def enc_num_def)
  from call_packet [OF tok start_body_fits [OF pin(2) auth(1), unfolded start_body_def]
      cmdcap_DtaCommand(1) [OF mem]]
  obtain c r w1 where c: "is_packet c zero4 zero4 zero4 (start_body pin sp auth)"
    and run: "sendCommand (traced E) c empty_response w = (Ret (0, r), w1)"
      "take_numbers r w1 = (Ret (), w')"
    using assms(1, 2) unfolding start_success [OF assms(3)] addr start_body_def by (auto simp: ret_def)
  obtain d new where w1: "w1 = w\<lparr>disk := (d, requests w @ new)\<rparr>"
    and new: "answered (comID w) (sent_bytes (stamped (comID w) s c)) new r"
    using sendCommand_trace [OF run(1)] assms(3) by auto
  obtain hsn tsn where "getUint32 r 4 = Ret hsn" "getUint32 r 5 = Ret tsn"
      "w' = w1\<lparr>session := Some (s\<lparr>HSN := SWAP32 hsn, TSN := SWAP32 tsn\<rparr>)\<rparr>"
    using run(2) assms(3) w1
    by (auto simp: take_numbers_def update_session_def this_session_def bind_op_Ret_iff put_op_def lift_op_def)
  moreover have "isOpen w \<and> (\<exists>k. drive w = Some k) \<and> dev_cls w \<noteq> Generic"
    using sendCommand_open [OF run(1)] by blast
  ultimately show ?thesis using new [unfolded sent_wire [OF c]] unfolding w1 by fastforce
qed

definition end_body :: bytes where
  "end_body = [0xfa]"

lemma end_packet:
  assumes "cmd_seq [Ret \<circ> reset, addToken (Tok ENDOFSESSION), complete False] (DtaCommand (cmd_addr E)) = Ret c"
    and "unat (cmd_addr E) + 1024 < 2 ^ 64"
  shows "is_packet c zero4 zero4 zero4 end_body"
proof -
  let ?c = "DtaCommand (cmd_addr E)"
  let ?c1 = "append_cmd [ENDOFSESSION] (reset ?c)"
  note cap = cmdcap_DtaCommand(1) [OF assms(2)]
  have cap': "cmdcap (reset ?c) = cmdcap ?c" by (simp add: reset_def)
  have t: "addToken (Tok ENDOFSESSION) (reset ?c) = Ret ?c1"
    by (rule holds_appends [OF holds_reset appends_token]) (use cap in \<open>simp_all add: cap'\<close>)
  have h: "holds ?c1 zero4 zero4 zero4 [ENDOFSESSION]"
    using holds_append [OF holds_reset] by fastforce
  have "c = ?c1\<lparr>cmdmem := packet zero4 zero4 zero4 end_body, bufferpos := wire_size end_body\<rparr>"
    using assms(1) t complete_packet [OF h, of False] cap
    by (simp add: cap' wire_size_def padding_def eod_bytes_def end_body_def)
  then show ?thesis by (simp add: is_packet_def wire_size_def end_body_def padding_def)
qed

lemma delete_sends:
  assumes "delete_session (traced E) w = (Ret (), w')" "isOpen w" "drive w = Some k" "dev_cls w \<noteq> Generic"
    and s: "session w = Some s" "\<not> willAbort s" and mem: "unat (cmd_addr E) + 1024 < 2 ^ 64"
  shows "session w' = None"
    "\<exists>new. requests w' = requests w @ new \<and> sends (comID w) (wire (comID w) (TSN s) (HSN s) end_body) new"
proof -
  obtain c x w1 where c: "cmd_seq [Ret \<circ> reset, addToken (Tok ENDOFSESSION), complete False] (DtaCommand (cmd_addr E)) = Ret c"
    and run: "sendCommand (traced E) c empty_response w = (Ret x, w1)" "w' = w1\<lparr>session := None\<rparr>"
    using assms(1) s unfolding delete_session_def this_session_bind [OF s(1)] bind_op_Ret_iff
    by (auto simp: build_Ret put_op_def ret_def bind_op_Ret_iff traced_def simp del: cmd_seq.simps)
  show "session w' = None" by (simp add: run(2))
  from sendCommand_sends [OF run(1) assms(2-4) s(1)] show "\<exists>new. requests w' = requests w @ new \<and>
      sends (comID w) (wire (comID w) (TSN s) (HSN s) end_body) new"
    unfolding sent_wire [OF end_packet [OF c mem]] by (auto simp: run(2) requests_def)
qed

lemma session_on_the_wire:
  assumes run: "in_session (traced E) (start_uid (traced E) sp (Some pw) u)
      (checked (traced E) (call_dev (traced E) calls) (finish (traced E) 0)) w = (Ret 0, w')"
    and w: "\<not> isEprise w" "u \<noteq> OPAL_UID_HEXFF" "unat (cmd_addr E) + 1024 < 2 ^ 64"
    and calls: "\<exists>c. cmd_seq calls (DtaCommand (cmd_addr E)) = Ret c \<and> is_packet c zero4 zero4 zero4 body"
  shows "session w' = None \<and> (\<exists>opened called closed r1 r2 hsn tsn.
    requests w' = requests w @ opened @ called @ closed \<and>
    answered (comID w) (wire (comID w) 0 0 (sign_in E sp u pw w)) opened r1 \<and>
    getUint32 r1 4 = Ret hsn \<and> getUint32 r1 5 = Ret tsn \<and>
    answered (comID w) (wire (comID w) (SWAP32 tsn) (SWAP32 hsn) body) called r2 \<and> reply_status r2 = Ret 0 \<and>
    sends (comID w) (wire (comID w) (SWAP32 tsn) (SWAP32 hsn) end_body) closed)"
proof -
  let ?w0 = "w\<lparr>session := Some DtaSession\<rparr>"
  obtain w1 w2 where st: "start (traced E) sp (Some pw) (uid_token u) ?w0 = (Ret 0, w1)"
    and call: "call_dev (traced E) calls w1 = (Ret 0, w2)" and dl: "delete_session (traced E) w2 = (Ret (), w')"
    using run by (auto simp: in_session_success checked_success finish_success start_uid_def uid_token_def)
  have pin: "enc (challenge_token (traced E) DtaSession ?w0 pw) = Some (DtaHashPwd (traced E) pw w)"
    "length (DtaHashPwd (traced E) pw w) \<le> 4096"
    using length_DtaHashPwd [of "traced E" pw w] by (simp_all add: challenge_token_def DtaSession_def)
  obtain n1 d1 r1 hsn tsn k where w1: "w1 = ?w0\<lparr>disk := (d1, requests ?w0 @ n1),
        session := Some (DtaSession\<lparr>HSN := SWAP32 hsn, TSN := SWAP32 tsn\<rparr>)\<rparr>"
    and a1: "answered (comID ?w0) (wire (comID ?w0) (TSN DtaSession) (HSN DtaSession)
        (start_body (DtaHashPwd (traced E) pw w) sp (uid_token u))) n1 r1"
    and nums: "getUint32 r1 4 = Ret hsn" "getUint32 r1 5 = Ret tsn"
    and op: "isOpen ?w0" "drive ?w0 = Some k" "dev_cls ?w0 \<noteq> Generic"
    using start_numbers [OF st _ _ pin length_uid_token _ w(3)] w uid_token_HEXFF [of u]
    by (auto simp: isEprise_def)
  let ?s = "DtaSession\<lparr>HSN := SWAP32 hsn, TSN := SWAP32 tsn\<rparr>"
  obtain c where c: "cmd_seq calls (DtaCommand (cmd_addr E)) = Ret c" "is_packet c zero4 zero4 zero4 body"
    using calls by blast
  have cid: "comID w1 = comID w" unfolding w1 by (simp add: comID_def split: dev_class.split)
  obtain r2 w3 where snd: "sendCommand (traced E) c (dev_response w1) w1 = (Ret (0, r2), w3)" "w2 = w3\<lparr>dev_response := r2\<rparr>"
    using call c(1) by (auto simp: call_dev_def build_success sendCommand_dev_success traced_def)
  from sendCommand_trace [OF snd(1)] obtain d2 n2 where w3: "w3 = w1\<lparr>disk := (d2, requests w1 @ n2)\<rparr>"
    and a2: "answered (comID w1) (wire (comID w1) (SWAP32 tsn) (SWAP32 hsn) body) n2 r2" "reply_status r2 = Ret 0"
    unfolding sent_wire [OF c(2)] by (auto simp: w1)
  have "comID w2 = comID w1" unfolding snd(2) w3 by (simp add: comID_def split: dev_class.split)
  then have at: "isOpen w2" "drive w2 = Some k" "dev_cls w2 \<noteq> Generic" "session w2 = Some ?s" "comID w2 = comID w"
    using op cid by (simp_all add: snd(2) w3 w1)
  have ab: "\<not> willAbort ?s" by (simp add: DtaSession_def)
  from delete_sends(2) [OF dl at(1-4) ab w(3)] obtain n3 where n3: "requests w' = requests w2 @ n3"
      "sends (comID w) (wire (comID w) (SWAP32 tsn) (SWAP32 hsn) end_body) n3"
    by (auto simp: at(5))
  have "requests w' = requests w @ n1 @ n2 @ n3"
    unfolding n3(1) unfolding snd(2) w3 w1 by (simp add: requests_def)
  moreover have "answered (comID w) (wire (comID w) 0 0 (sign_in E sp u pw w)) n1 r1"
    using a1 unfolding comID_session by (simp add: sign_in_def DtaSession_def)
  ultimately show ?thesis
    using a2 nums n3(2) delete_sends(1) [OF dl at(1-4) ab w(3)] unfolding cid by blast
qed

text \<open>C13. The numbers of a session. When setMBRDone returns 0 (the call the pre-boot program makes before the
  machine starts), the requests are three packets and receives. StartSession carries the session numbers
  0 and 0; the drive's answer gives a host number (token 4) and a TPer number (token 5); the Set of the
  MBRDone cell and the EndSession packet both carry these two numbers, byte-swapped into the header; and
  the call leaves no session object.\<close>

theorem setMBRDone_session:
  assumes "setMBRDone (traced E) s pw w = (Ret 0, w')"
    and "\<not> isEprise w" "unat (cmd_addr E) + 1024 < 2 ^ 64"
  shows "session w' = None \<and> (\<exists>opened called closed r1 r2 hsn tsn.
    requests w' = requests w @ opened @ called @ closed \<and>
    answered (comID w) (wire (comID w) 0 0 (sign_in E OPAL_LOCKINGSP_UID OPAL_ADMIN1_UID pw w)) opened r1 \<and>
    getUint32 r1 4 = Ret hsn \<and> getUint32 r1 5 = Ret tsn \<and>
    answered (comID w) (wire (comID w) (SWAP32 tsn) (SWAP32 hsn)
      (set_body (uid_token OPAL_MBRCONTROL) [(MBRDONE, [flag_byte s])])) called r2 \<and> reply_status r2 = Ret 0 \<and>
    sends (comID w) (wire (comID w) (SWAP32 tsn) (SWAP32 hsn) end_body) closed)"
proof -
  have run: "in_session (traced E) (start_uid (traced E) OPAL_LOCKINGSP_UID (Some pw) OPAL_ADMIN1_UID)
      (checked (traced E) (setTable (traced E) (uid_token OPAL_MBRCONTROL) MBRDONE [flag_byte s])
        (finish (traced E) 0)) w = (Ret 0, w')"
    using assms(1) by (simp add: setMBRDone_def check_ret_0 flag_byte_def setLockingSPvalue_def setTable_token_def
        split: if_splits)
  show ?thesis
    by (rule session_on_the_wire [OF run [unfolded setTable_def] assms(2) _ assms(3)
        setTable_packet [OF _ _ assms(3)]]) simp_all
qed

theorem setMBRDone_session_witness:
  "\<exists>(w' :: (unit \<times> request list) dta_dev) opened called closed r1 r2 hsn tsn. session w' = None \<and>
    requests w' = requests (fresh Opal2) @ opened @ called @ closed \<and>
    answered (comID (fresh Opal2)) (wire (comID (fresh Opal2)) 0 0
      (sign_in willing OPAL_LOCKINGSP_UID OPAL_ADMIN1_UID [0x70] (fresh Opal2))) opened r1 \<and>
    getUint32 r1 4 = Ret hsn \<and> getUint32 r1 5 = Ret tsn \<and> reply_status r2 = Ret 0 \<and>
    sends (comID (fresh Opal2)) (wire (comID (fresh Opal2)) (SWAP32 tsn) (SWAP32 hsn) end_body) closed"
proof -
  obtain w' where run: "setMBRDone (traced willing) 1 [0x70] (fresh Opal2) = (Ret 0, w')"
    using returns_0D [OF yes_setMBRDone [OF willing(1)] fresh(1)] by blast
  show ?thesis
    using setMBRDone_session [OF run fresh(2) willing(2)] by blast
qed

end
