(* ===== verification/SessionNumbers.thy ===== *)
theory SessionNumbers
  imports SessionTrace
begin

text \<open>
  Where the session numbers in the headers come from, over every call of every class: the relation
  \<open>numbers_kept\<close> is an instance of \<open>session_ops\<close>, since the session object takes its numbers only from a reply.
\<close>

section \<open>Numbers the drive gave\<close>

text \<open>\<open>known i v tr\<close>: the number is zero, or a reply among the requests has it as the token \<open>i\<close>.\<close>

definition known :: "u32 \<Rightarrow> u32 \<Rightarrow> request list \<Rightarrow> bool" where
  "known i v tr \<longleftrightarrow> v = 0 \<or> (\<exists>p cid b rb r. Request IF_RECV p cid b 0 rb \<in> set tr \<and>
     init MIN_BUFFER_LENGTH (read_block rb 0 MIN_BUFFER_LENGTH) = Ret r \<and> getUint32 r i = Ret v)"

lemma known_append: "known i v tr \<Longrightarrow> known i v (tr @ tr')"
  unfolding known_def set_append Un_iff by blast

text \<open>The host and the TPer session number of a packet, as the drive reads them.\<close>

definition packet_HSN :: "bytes \<Rightarrow> u32" where
  "packet_HSN b = SWAP32 (load32 b off_HSN)"

definition packet_TSN :: "bytes \<Rightarrow> u32" where
  "packet_TSN b = SWAP32 (load32 b off_TSN)"

fun legal :: "request list \<Rightarrow> request \<Rightarrow> bool" where
  "legal earlier (Request c p cid b rc rb) \<longleftrightarrow>
     (c = IF_SEND \<longrightarrow> known 4 (packet_HSN b) earlier \<and> known 5 (packet_TSN b) earlier)"

fun lawful :: "request list \<Rightarrow> request list \<Rightarrow> bool" where
  "lawful earlier [] = True"
| "lawful earlier (q # tr) = (legal earlier q \<and> lawful (earlier @ [q]) tr)"

lemma lawful_append: "lawful e (a @ b) \<longleftrightarrow> lawful e a \<and> lawful (e @ a) b"
  by (induction a arbitrary: e) auto

lemma lawful_iff: "lawful e tr \<longleftrightarrow> (\<forall>a q b. tr = a @ q # b \<longrightarrow> legal (e @ a) q)"
proof (induction tr arbitrary: e)
  case (Cons q tr)
  show ?case
    unfolding lawful.simps Cons.IH by (auto simp: Cons_eq_append_conv)
qed simp

lemma receives_lawful: "list_all (is_recv cid) tr \<Longrightarrow> lawful e tr"
  by (induction tr arbitrary: e) (auto simp: is_recv_def)

section \<open>The numbers of a stamped command\<close>

lemma stamped_numbers:
  assumes "framed c"
  shows "packet_HSN (sent_bytes (stamped cid s c)) = SWAP32 (HSN s)"
    "packet_TSN (sent_bytes (stamped cid s c)) = SWAP32 (TSN s)"
proof -
  let ?c = "stamped cid s c"
  have "framed ?c" unfolding stamped_def by (intro framed_setters assms)
  then have b: "sizeof_OPALHeader \<le> bufferpos ?c" "bufferpos ?c \<le> MAX_BUFFER_LENGTH" by (auto simp: framed_def)
  have "sent_bytes ?c = read_block (cmdmem ?c) 0 ((bufferpos ?c + 511) div 512 * 512)"
    using outputBufferSize_sectors [OF b(2)] by (simp add: sent_bytes_def)
  moreover have "bufferpos ?c \<le> (bufferpos ?c + 511) div 512 * 512" by (rule sector_up)
  ultimately have p: "peek (sent_bytes ?c) k = peek (cmdmem ?c) k" if "k < sizeof_OPALHeader" for k
    using b(1) that by (simp add: peek_read_block)
  have m: "cmdmem ?c = pokes off_extendedComID (comid_field cid) (pokes off_TSN (le32 (TSN s)) (pokes off_HSN (le32 (HSN s)) (cmdmem c)))"
    unfolding stamped_def setcomID_def comid_field_bytes setTSN_def setHSN_def store_field_def by simp
  have l: "length (comid_field cid) = 4" by (simp add: comid_field_def le16_def)
  show "packet_HSN (sent_bytes ?c) = SWAP32 (HSN s)" "packet_TSN (sent_bytes ?c) = SWAP32 (TSN s)"
    unfolding packet_HSN_def packet_TSN_def
    by (rule arg_cong [where f = SWAP32], rule load32_le32, simp add: p m peek_pokes l del: pokes.simps)+
qed

section \<open>The relation\<close>

definition numbered :: "nat \<Rightarrow> ('d \<times> request list) dta_dev \<Rightarrow> bool" where
  "numbered n w \<longleftrightarrow> n \<le> length (requests w) \<and> lawful [] (drop n (requests w)) \<and>
     (\<forall>s. session w = Some s \<longrightarrow> known 4 (SWAP32 (HSN s)) (drop n (requests w)) \<and>
        known 5 (SWAP32 (TSN s)) (drop n (requests w)))"

definition numbers_kept :: "('d \<times> request list) dta_dev \<Rightarrow> ('d \<times> request list) dta_dev \<Rightarrow> bool" where
  "numbers_kept w w' \<longleftrightarrow> (\<exists>new. requests w' = requests w @ new) \<and> (\<forall>n. numbered n w \<longrightarrow> numbered n w')"

lemma numbers_kept_order: "transp numbers_kept" "reflp numbers_kept"
  by (auto intro!: transpI reflpI simp: numbers_kept_def)

text \<open>Without a new request, the numbers of the session must stay or become zero.\<close>

lemma silent_kept:
  assumes "requests w' = requests w"
    and "\<And>s'. session w' = Some s' \<Longrightarrow>
      (HSN s' = 0 \<and> TSN s' = 0) \<or> (\<exists>s. session w = Some s \<and> HSN s' = HSN s \<and> TSN s' = TSN s)"
  shows "numbers_kept w w'"
proof -
  have z: "known i (SWAP32 0) tr" for i tr by (simp add: known_def SWAP32_0)
  show ?thesis unfolding numbers_kept_def
  proof (intro conjI exI allI impI)
    show "requests w' = requests w @ []" by (simp add: assms(1))
    fix n assume n: "numbered n w"
    have "known 4 (SWAP32 (HSN s')) (drop n (requests w')) \<and> known 5 (SWAP32 (TSN s')) (drop n (requests w'))"
      if "session w' = Some s'" for s'
      using assms(2) [OF that] n z by (auto simp: numbered_def assms(1))
    then show "numbered n w'" using n by (simp add: numbered_def assms(1))
  qed
qed

text \<open>The requests of one command.\<close>

lemma sends_kept:
  assumes "requests w' = requests w @ new" "session w' = session w"
    and "new = [] \<or> (\<exists>s c cid. session w = Some s \<and> framed c \<and> sends cid (sent_bytes (stamped cid s c)) new)"
  shows "numbers_kept w w'"
  unfolding numbers_kept_def
proof (intro conjI exI allI impI)
  fix n assume n: "numbered n w"
  have "lawful (drop n (requests w)) new"
    using assms(3)
  proof (elim disjE exE conjE)
    fix s c cid assume s: "session w = Some s" and c: "framed c" and "sends cid (sent_bytes (stamped cid s c)) new"
    then obtain p rc b rs where new: "new = Request IF_SEND p cid (sent_bytes (stamped cid s c)) rc b # rs"
      and rs: "list_all (is_recv cid) rs" unfolding sends_def by blast
    show ?thesis
      using n s receives_lawful [OF rs] unfolding new by (simp add: numbered_def stamped_numbers [OF c])
  qed simp
  then show "numbered n w'"
    using n assms(1, 2) by (auto simp: numbered_def lawful_append known_append)
qed (rule assms(1))

section \<open>The exchange of a command\<close>

text \<open>Whatever the outcome, a command makes no request, or it is sent once and then only received.\<close>

lemma exec_io_requests:
  assumes run: "exec_io (traced E) c resp p w = (x, w')"
  shows "\<exists>new. requests w' = requests w @ new \<and> (new = [] \<or> sends (comID w) (sent_bytes c) new)"
proof (cases "isOpen w \<and> drive w \<noteq> None")
  case False
  then have "sendCmd (traced E) IF_SEND p (comID w) (sent_bytes c) w = ((0xfe, sent_bytes c), w) \<or>
      sendCmd (traced E) IF_SEND p (comID w) (sent_bytes c) w = ((0xff, sent_bytes c), w)"
    by (auto simp: sendCmd_def)
  then have "w' = w" using run by (auto simp: exec_io_def bind_op_def get_op_def sendCmd_op_def ret_def)
  then show ?thesis by simp
next
  case True
  then obtain k where op: "isOpen w" "drive w = Some k" by auto
  obtain rc b d where s: "sendCmd (traced E) IF_SEND p (comID w) (sent_bytes c) w =
      ((rc, read_block b 0 (length (sent_bytes c))),
        w\<lparr>disk := (d, requests w @ [Request IF_SEND p (comID w) (sent_bytes c) rc b])\<rparr>)"
    by (rule traced_run [OF op, where E = E and c = IF_SEND and p = p and cid = "comID w" and buf = "sent_bytes c"])
  let ?q = "Request IF_SEND p (comID w) (sent_bytes c) rc b"
  let ?w1 = "w\<lparr>disk := (d, requests w @ [?q])\<rparr>"
  have one: "sends (comID w) (sent_bytes c) [?q]" by (simp add: sends_def)
  show ?thesis
  proof (cases "rc = 0")
    case False
    then have "w' = ?w1" using run s by (simp add: exec_io_def bind_op_def get_op_def sendCmd_op_def ret_def)
    then show ?thesis using one by simp
  next
    case True
    show ?thesis
  proof (cases "poll (traced E) p ?w1")
    case None
    then have "w' = ?w1" using run s True
      by (simp add: exec_io_def bind_op_def get_op_def sendCmd_op_def poll_op_def ret_def)
    then show ?thesis using one by simp
  next
    case (Some z)
    then obtain rc2 buf w2 where pl: "poll (traced E) p ?w1 = Some ((rc2, buf), w2)" by (metis prod.collapse)
    have w2: "w' = w2" using run s True pl
      by (auto simp: exec_io_def bind_op_def get_op_def sendCmd_op_def poll_op_def lift_op_def ret_def
          split: if_splits outcome.splits)
    from poll_trace [OF pl] op obtain rs b2 d2 where
      "w2 = ?w1\<lparr>disk := (d2, requests ?w1 @ rs @ [Request IF_RECV p (comID ?w1) (replicate MIN_BUFFER_LENGTH 0) rc2 b2])\<rparr>"
      and rs: "list_all (is_recv (comID ?w1)) rs" by auto
    then have "requests w' = requests w @ ?q # rs @ [Request IF_RECV p (comID w) (replicate MIN_BUFFER_LENGTH 0) rc2 b2]"
      unfolding w2 by simp
    moreover have "sends (comID w) (sent_bytes c)
        (?q # rs @ [Request IF_RECV p (comID w) (replicate MIN_BUFFER_LENGTH 0) rc2 b2])"
      using rs by (simp add: sends_def is_recv_def)
    ultimately show ?thesis by blast
  qed
  qed
qed

lemma sendCommand_requests:
  assumes "sendCommand (traced E) c resp w = (x, w')" "session w = Some s"
  shows "\<exists>new. requests w' = requests w @ new \<and> (new = [] \<or> sends (comID w) (sent_bytes (stamped (comID w) s c)) new)"
proof -
  obtain y where y: "exec (traced E) (stamped (comID w) s c) resp (SecurityProtocol s) w = (y, w')"
    using assms by (auto simp: sendCommand_def this_session_def bind_op_def get_op_def lift_op_def ret_def
        stamped_def split: prod.splits outcome.splits if_splits)
  then show ?thesis
    using exec_io_requests [of E "stamped (comID w) s c" resp "SecurityProtocol s" w y w']
    by (cases "dev_cls w") (auto simp: exec_def)
qed

lemma command_kept:
  assumes "framed c"
  shows "steps numbers_kept (sendCommand (traced E) c resp)"
proof (rule stepsI)
  fix w :: "('a \<times> request list) dta_dev"
  obtain x w' where run: "sendCommand (traced E) c resp w = (x, w')" by fastforce
  show "numbers_kept w (snd (sendCommand (traced E) c resp w))"
  proof (cases "session w")
    case None
    then show ?thesis
      by (simp add: sendCommand_def this_session_def bind_op_def reflpD [OF numbers_kept_order(2)])
  next
    case (Some s)
    have "only_disk w w'" using stepsD [OF plain.sendCommand_rel [OF assms], of w "traced E" resp] run by simp
    then have "session w' = session (w\<lparr>disk := disk w'\<rparr>)" unfolding only_disk_def by (rule arg_cong)
    then have ses: "session w' = session w" by simp
    obtain new where "requests w' = requests w @ new"
      "new = [] \<or> sends (comID w) (sent_bytes (stamped (comID w) s c)) new"
      using sendCommand_requests [OF run Some] by blast
    with sends_kept [OF _ ses] Some assms have "numbers_kept w w'" by blast
    then show ?thesis by (simp add: run)
  qed
qed

section \<open>Starting a session\<close>

lemma reply_known:
  assumes "sendCommand (traced E) c resp w = (Ret (0, r), w')" "getUint32 r i = Ret v" "n \<le> length (requests w)"
  shows "known i v (drop n (requests w'))"
proof -
  obtain s d new where w': "w' = w\<lparr>disk := (d, requests w @ new)\<rparr>"
    and "answered (comID w) (sent_bytes (stamped (comID w) s c)) new r"
    using sendCommand_trace [OF assms(1)] by blast
  then obtain p rb q where "requests w' = requests w @ q @ [Request IF_RECV p (comID w) (replicate MIN_BUFFER_LENGTH 0) 0 rb]"
    and r: "init MIN_BUFFER_LENGTH (read_block rb 0 MIN_BUFFER_LENGTH) = Ret r"
    unfolding answered_def by fastforce
  then have "Request IF_RECV p (comID w) (replicate MIN_BUFFER_LENGTH 0) 0 rb \<in> set (drop n (requests w'))"
    using assms(3) by simp
  with r assms(2) show ?thesis unfolding known_def by blast
qed

interpretation given: op_frame "traced E" numbers_kept for E :: "'d env"
  by unfold_locales (rule numbers_kept_order, rule numbers_kept_order, erule command_kept)

text \<open>What the two assignments of the constructor can leave.\<close>

lemma take_numbers_result:
  assumes "take_numbers r w = (x, w')"
  shows "w' = w \<or> (\<exists>s hsn. session w = Some s \<and> getUint32 r 4 = Ret hsn \<and>
    (w' = w\<lparr>session := Some (s\<lparr>HSN := SWAP32 hsn\<rparr>)\<rparr> \<or>
     (\<exists>tsn. getUint32 r 5 = Ret tsn \<and> w' = w\<lparr>session := Some (s\<lparr>HSN := SWAP32 hsn, TSN := SWAP32 tsn\<rparr>)\<rparr>)))"
proof (cases "getUint32 r 4")
  case hsn: (Ret hsn)
  show ?thesis
  proof (cases "session w")
    case None
    then show ?thesis using assms hsn
      by (simp add: take_numbers_def lift_op_def bind_op_def update_session_def this_session_def)
  next
    case (Some s)
    then show ?thesis using assms hsn
      by (cases "getUint32 r 5")
        (auto simp: take_numbers_def lift_op_def bind_op_def update_session_def this_session_def put_op_def)
  qed
qed (use assms in \<open>simp_all add: take_numbers_def lift_op_def bind_op_def\<close>)

lemma take_numbers_kept:
  assumes run: "sendCommand (traced E) c resp w = (Ret (0, r), w1)" and c: "framed c"
    and take: "take_numbers r w1 = (x, w2)"
  shows "numbers_kept w w2"
proof -
  have k: "numbers_kept w w1" using stepsD [OF command_kept [OF c], of w E resp] run by simp
  have req: "requests w2 = requests w1" using take_numbers_result [OF take] by (auto simp: requests_def)
  show ?thesis unfolding numbers_kept_def
  proof (intro conjI allI impI)
    show "\<exists>new. requests w2 = requests w @ new" using k by (simp add: numbers_kept_def req)
    fix n assume n: "numbered n w"
    then have n1: "numbered n w1" and len: "n \<le> length (requests w)" using k by (auto simp: numbers_kept_def numbered_def)
    have g: "known i v (drop n (requests w1))" if "getUint32 r i = Ret v" for i v
      by (rule reply_known [OF run that len])
    show "numbered n w2" using take_numbers_result [OF take] n1 g by (auto simp: numbered_def req)
  qed
qed

lemma start_kept: "steps numbers_kept (start (traced E) sp c a)"
proof -
  have s: "steps numbers_kept (bind_op (sendCommand (traced E) cmd empty_response) (\<lambda>(lastRC, reply).
      if lastRC \<noteq> 0 then ret lastRC else bind_op (take_numbers reply) (\<lambda>_. k)))"
    if cmd: "framed cmd" and k: "steps numbers_kept k" for cmd and k :: "('a \<times> request list, u8) devop"
  proof (rule stepsI)
    fix w :: "('a \<times> request list) dta_dev"
    obtain x w1 where run: "sendCommand (traced E) cmd empty_response w = (x, w1)" by fastforce
    have 1: "numbers_kept w w1" using stepsD [OF command_kept [OF cmd], of w E empty_response] run by simp
    show "numbers_kept w (snd (bind_op (sendCommand (traced E) cmd empty_response) (\<lambda>(lastRC, reply).
      if lastRC \<noteq> 0 then ret lastRC else bind_op (take_numbers reply) (\<lambda>_. k)) w))"
    proof (cases "\<exists>r. x = Ret (0, r)")
      case False
      then show ?thesis using 1 run by (cases x) (auto simp: bind_op_def ret_def)
    next
      case True
      then obtain r where x: "x = Ret (0, r)" by blast
      obtain y w2 where take: "take_numbers r w1 = (y, w2)" by fastforce
      have 2: "numbers_kept w w2" by (rule take_numbers_kept [OF run [unfolded x] cmd take])
      show ?thesis
        using run take 2 transpD [OF numbers_kept_order(1) 2 stepsD [OF k, of w2]]
        by (cases y) (simp_all add: x bind_op_def)
    qed
  qed
  show ?thesis unfolding start_def
    by (rule given.cl_bind [OF given.cl_this_session], rule given.cl_bind [OF given.cl_ret(3)], rule given.cl_build3,
        (rule command_shape)+, rule s, assumption, intro given.cl_if given.cl_authenticate given.cl_ret)
qed

interpretation numbers: session_ops "traced E" numbers_kept for E :: "'d env"
proof unfold_locales
  show "numbers_kept w w'" if "inner_step w w'" for w w' :: "('a \<times> request list) dta_dev"
  proof (rule silent_kept)
    have e: "disk w' = disk w" "session w' = session w"
      using that by (simp_all add: inner_step_def local_step_def core_def)
    then show "requests w' = requests w" by (simp add: requests_def)
    show "(HSN s' = 0 \<and> TSN s' = 0) \<or> (\<exists>s. session w = Some s \<and> HSN s' = HSN s \<and> TSN s' = TSN s)"
      if "session w' = Some s'" for s'
      using that e(2) by auto
  qed
  show "numbers_kept w (w\<lparr>session := Some DtaSession\<rparr>)" "numbers_kept w (w\<lparr>session := None\<rparr>)"
    for w :: "('a \<times> request list) dta_dev"
    by (rule silent_kept, simp add: requests_def, simp add: DtaSession_def)+
  show "steps numbers_kept (update_session f :: ('a \<times> request list, unit) devop)" if "keeps_numbers f" for f
    unfolding update_session_def
    by (rule stepsI) (use that in \<open>auto simp: this_session_def bind_op_def put_op_def keeps_numbers_def requests_def
      intro!: silent_kept split: option.split\<close>)
  show "steps numbers_kept (start (traced E) sp c a)" for E :: "'a env" and sp c a by (rule start_kept)
qed



end
