(* ===== verification/HmacOtp.thy ===== *)
theory HmacOtp
  imports Cifra Dumps
begin

text \<open>
  linux/TEST/tools/hmac_otp: the stand-alone generator of one-time passwords for the heart-beat test.
  \<^verbatim>\<open>hmac_sha256.h\<close> holds SHA-256, HMAC-SHA256 and a comparison in constant time, \<^verbatim>\<open>hmac_otp_demo.c\<close> the program.
  A context on the stack is not initialised before \<^verbatim>\<open>sha256_init\<close>, which leaves its buffer as it is: what the
  stack holds is an argument of the one-shot functions.
\<close>

section \<open>Memory\<close>

definition sha_memset :: "u8 \<Rightarrow> nat \<Rightarrow> bytes" where
  "sha_memset val n = replicate n val"

text \<open>\<open>sha_memcpy dst at src\<close> copies the whole of \<open>src\<close> to the offset \<open>at\<close> of \<open>dst\<close>.\<close>

definition sha_memcpy :: "bytes \<Rightarrow> nat \<Rightarrow> bytes \<Rightarrow> bytes" where
  "sha_memcpy dst at src = take at dst @ src @ drop (at + length src) dst"

section \<open>The transformation of a block\<close>

definition SHA256_BLOCK_SIZE :: nat where "SHA256_BLOCK_SIZE = 64"
definition SHA256_DIGEST_SIZE :: nat where "SHA256_DIGEST_SIZE = 32"

definition K256 :: "u32 list" where
  "K256 = concat
    [[0x428a2f98, 0x71374491, 0xb5c0fbcf, 0xe9b5dba5, 0x3956c25b, 0x59f111f1, 0x923f82a4, 0xab1c5ed5],
     [0xd807aa98, 0x12835b01, 0x243185be, 0x550c7dc3, 0x72be5d74, 0x80deb1fe, 0x9bdc06a7, 0xc19bf174],
     [0xe49b69c1, 0xefbe4786, 0x0fc19dc6, 0x240ca1cc, 0x2de92c6f, 0x4a7484aa, 0x5cb0a9dc, 0x76f988da],
     [0x983e5152, 0xa831c66d, 0xb00327c8, 0xbf597fc7, 0xc6e00bf3, 0xd5a79147, 0x06ca6351, 0x14292967],
     [0x27b70a85, 0x2e1b2138, 0x4d2c6dfc, 0x53380d13, 0x650a7354, 0x766a0abb, 0x81c2c92e, 0x92722c85],
     [0xa2bfe8a1, 0xa81a664b, 0xc24b8b70, 0xc76c51a3, 0xd192e819, 0xd6990624, 0xf40e3585, 0x106aa070],
     [0x19a4c116, 0x1e376c08, 0x2748774c, 0x34b0bcb5, 0x391c0cb3, 0x4ed8aa4a, 0x5b9cca4f, 0x682e6ff3],
     [0x748f82ee, 0x78a5636f, 0x84c87814, 0x8cc70208, 0x90befffa, 0xa4506ceb, 0xbef9a3f7, 0xc67178f2]]"

definition sha_rotr32 :: "u32 \<Rightarrow> nat \<Rightarrow> u32" where
  "sha_rotr32 x n = drop_bit n x OR push_bit (32 - n) x"

text \<open>The sixteen words of the block, and the forty-eight computed from them.\<close>

definition block_words :: "bytes \<Rightarrow> u32 list" where
  "block_words block = map (\<lambda>i. push_bit 24 (ucast (block ! (i * 4))) OR push_bit 16 (ucast (block ! (i * 4 + 1))) OR
     push_bit 8 (ucast (block ! (i * 4 + 2))) OR ucast (block ! (i * 4 + 3))) [0..<16]"

definition next_word :: "nat \<Rightarrow> u32 list \<Rightarrow> u32 list" where
  "next_word i w =
     (let s0 = sha_rotr32 (w ! (i - 15)) 7 XOR sha_rotr32 (w ! (i - 15)) 18 XOR drop_bit 3 (w ! (i - 15));
          s1 = sha_rotr32 (w ! (i - 2)) 17 XOR sha_rotr32 (w ! (i - 2)) 19 XOR drop_bit 10 (w ! (i - 2))
      in w @ [w ! (i - 16) + s0 + w ! (i - 7) + s1])"

text \<open>A round on the eight working variables.\<close>

type_synonym sha256_vars = "u32 \<times> u32 \<times> u32 \<times> u32 \<times> u32 \<times> u32 \<times> u32 \<times> u32"

definition sha256_round :: "u32 list \<Rightarrow> nat \<Rightarrow> sha256_vars \<Rightarrow> sha256_vars" where
  "sha256_round w i = (\<lambda>(a, b, c, d, e, f, g, h).
     let S1 = sha_rotr32 e 6 XOR sha_rotr32 e 11 XOR sha_rotr32 e 25;
         ch = (e AND f) XOR (NOT e AND g);
         temp1 = h + S1 + ch + K256 ! i + w ! i;
         S0 = sha_rotr32 a 2 XOR sha_rotr32 a 13 XOR sha_rotr32 a 22;
         maj = (a AND b) XOR (a AND c) XOR (b AND c);
         temp2 = S0 + maj
     in (temp1 + temp2, a, b, c, d + temp1, e, f, g))"

definition add_vars :: "sha256_vars \<Rightarrow> sha256_vars \<Rightarrow> sha256_vars" where
  "add_vars = (\<lambda>(a, b, c, d, e, f, g, h) (a', b', c', d', e', f', g', h').
     (a + a', b + b', c + c', d + d', e + e', f + f', g + g', h + h'))"

definition sha256_transform :: "sha256_vars \<Rightarrow> bytes \<Rightarrow> sha256_vars" where
  "sha256_transform st block =
     (let w = fold next_word [16..<64] (block_words block)
      in add_vars st (fold (sha256_round w) [0..<64] st))"

section \<open>SHA-256\<close>

record sha256_ctx =
  sha_state :: sha256_vars
  bitlen :: u64
  buffer :: bytes
  buffer_len :: nat

definition sha256_init :: "sha256_ctx \<Rightarrow> sha256_ctx" where
  "sha256_init ctx = ctx\<lparr>sha_state := (0x6a09e667, 0xbb67ae85, 0x3c6ef372, 0xa54ff53a,
     0x510e527f, 0x9b05688c, 0x1f83d9ab, 0x5be0cd19), bitlen := 0, buffer_len := 0\<rparr>"

text \<open>The loop does not end if no byte fits the buffer.\<close>

function sha256_update :: "sha256_ctx \<Rightarrow> bytes \<Rightarrow> sha256_ctx outcome" where
  "sha256_update ctx data =
     (if data = [] then Ret ctx
      else let taken = min (SHA256_BLOCK_SIZE - buffer_len ctx) (length data);
               ctx1 = ctx\<lparr>buffer := sha_memcpy (buffer ctx) (buffer_len ctx) (take taken data),
                 buffer_len := buffer_len ctx + taken, bitlen := bitlen ctx + of_nat taken * 8\<rparr>;
               ctx2 = (if buffer_len ctx1 = SHA256_BLOCK_SIZE
                 then ctx1\<lparr>sha_state := sha256_transform (sha_state ctx1) (buffer ctx1), buffer_len := 0\<rparr>
                 else ctx1)
           in if taken = 0 then Diverge else sha256_update ctx2 (drop taken data))"
  by pat_completeness auto
termination by (relation "measure (\<lambda>(ctx, data). length data)") auto

declare sha256_update.simps [simp del]

text \<open>The loops \<^verbatim>\<open>while (i < to) buffer[i++] = 0\<close>, and the length with its highest byte first.\<close>

definition zero_bytes :: "nat \<Rightarrow> nat \<Rightarrow> bytes \<Rightarrow> bytes" where
  "zero_bytes i to b = fold (\<lambda>j b. b[j := 0]) [i..<to] b"

definition put_length :: "u64 \<Rightarrow> bytes \<Rightarrow> bytes" where
  "put_length n b = snd (fold (\<lambda>j (i, b). (i + 1, b[i := ucast (drop_bit (j * 8) n)])) (rev [0..<8])
     (SHA256_BLOCK_SIZE - 8, b))"

definition be_word :: "u32 \<Rightarrow> bytes" where
  "be_word x = [ucast (drop_bit 24 x), ucast (drop_bit 16 x), ucast (drop_bit 8 x), ucast x]"

definition sha256_output :: "sha256_vars \<Rightarrow> bytes" where
  "sha256_output = (\<lambda>(a, b, c, d, e, f, g, h). concat (map be_word [a, b, c, d, e, f, g, h]))"

definition wiped_ctx :: sha256_ctx where
  "wiped_ctx = \<lparr>sha_state = (0, 0, 0, 0, 0, 0, 0, 0), bitlen = 0, buffer = sha_memset 0 SHA256_BLOCK_SIZE, buffer_len = 0\<rparr>"

text \<open>The digest, and the context wiped. A context whose buffer is full has no room for the padding byte.\<close>

definition sha256_final :: "sha256_ctx \<Rightarrow> (sha256_ctx \<times> bytes) outcome" where
  "sha256_final ctx =
     (if \<not> buffer_len ctx < SHA256_BLOCK_SIZE then Undef
      else let i = buffer_len ctx + 1;
               b = (buffer ctx)[buffer_len ctx := 0x80];
               (st, b, i) = (if i > SHA256_BLOCK_SIZE - 8
                 then let b = zero_bytes i SHA256_BLOCK_SIZE b in (sha256_transform (sha_state ctx) b, b, 0)
                 else (sha_state ctx, b, i));
               b = put_length (bitlen ctx) (zero_bytes i (SHA256_BLOCK_SIZE - 8) b)
           in Ret (wiped_ctx, sha256_output (sha256_transform st b)))"

definition sha256 :: "sha256_ctx \<Rightarrow> bytes \<Rightarrow> bytes outcome" where
  "sha256 stack data = obind (sha256_update (sha256_init stack) data) (\<lambda>ctx.
     obind (sha256_final ctx) (\<lambda>(_, out). Ret out))"

section \<open>HMAC-SHA256\<close>

record hmac_sha256_ctx =
  hm_inner :: sha256_ctx
  hm_outer :: sha256_ctx

definition hmac_sha256_init :: "sha256_ctx \<Rightarrow> hmac_sha256_ctx \<Rightarrow> bytes \<Rightarrow> hmac_sha256_ctx outcome" where
  "hmac_sha256_init stack ctx key =
     (let zeros = sha_memset 0 SHA256_BLOCK_SIZE in
      obind (if SHA256_BLOCK_SIZE < length key
             then obind (sha256 stack key) (\<lambda>d. Ret (sha_memcpy zeros 0 d))
             else Ret (sha_memcpy zeros 0 key)) (\<lambda>key_block.
      let ipad = map (\<lambda>y. y XOR 0x36) key_block; opad = map (\<lambda>y. y XOR 0x5c) key_block in
      obind (sha256_update (sha256_init (hm_inner ctx)) ipad) (\<lambda>i.
      obind (sha256_update (sha256_init (hm_outer ctx)) opad) (\<lambda>out.
      Ret (ctx\<lparr>hm_inner := i, hm_outer := out\<rparr>)))))"

definition hmac_sha256_update :: "hmac_sha256_ctx \<Rightarrow> bytes \<Rightarrow> hmac_sha256_ctx outcome" where
  "hmac_sha256_update ctx data = obind (sha256_update (hm_inner ctx) data) (\<lambda>i. Ret (ctx\<lparr>hm_inner := i\<rparr>))"

definition hmac_sha256_final :: "hmac_sha256_ctx \<Rightarrow> (hmac_sha256_ctx \<times> bytes) outcome" where
  "hmac_sha256_final ctx = obind (sha256_final (hm_inner ctx)) (\<lambda>(i, inner_digest).
     obind (sha256_update (hm_outer ctx) inner_digest) (\<lambda>out.
     obind (sha256_final out) (\<lambda>(out', digest). Ret (ctx\<lparr>hm_inner := i, hm_outer := out'\<rparr>, digest))))"

definition hmac_sha256 :: "sha256_ctx \<Rightarrow> hmac_sha256_ctx \<Rightarrow> bytes \<Rightarrow> bytes \<Rightarrow> bytes outcome" where
  "hmac_sha256 stack ctx key msg = obind (hmac_sha256_init stack ctx key) (\<lambda>c1.
     obind (hmac_sha256_update c1 msg) (\<lambda>c2. obind (hmac_sha256_final c2) (\<lambda>(_, out). Ret out)))"

definition ct_memcmp :: "bytes \<Rightarrow> bytes \<Rightarrow> nat \<Rightarrow> int" where
  "ct_memcmp a b len = uint (fold (\<lambda>i diff. diff OR (a ! i XOR b ! i)) [0..<len] (0 :: u8))"

section \<open>The program\<close>

definition SECRET_LEN :: nat where "SECRET_LEN = 16"
definition COUNTER_LEN :: nat where "COUNTER_LEN = 4"

definition demo_secret :: bytes where
  "demo_secret = fold (\<lambda>i s. s[i + 8 := of_nat (i + 16 + 1)]) [0..<8]
     (fold (\<lambda>i s. s[i := of_nat (i + 1)]) [0..<8] (replicate SECRET_LEN 0))"

definition demo_counter :: bytes where
  "demo_counter = (replicate COUNTER_LEN 0)[COUNTER_LEN - 1 := 1]"

definition hex_line :: "string \<Rightarrow> bytes \<Rightarrow> string" where
  "hex_line name b = name @ [CHR 0x09] @ '': 0x'' @ concat (map (\<lambda>x. format_x 2 (unat x)) b) @ [CHR 0x0a]"

definition otp :: "bytes \<Rightarrow> bytes" where
  "otp mac = drop (SHA256_DIGEST_SIZE - 8) mac"

definition demo_main :: "sha256_ctx \<Rightarrow> hmac_sha256_ctx \<Rightarrow> (string \<times> int) outcome" where
  "demo_main stack ctx = obind (hmac_sha256 stack ctx demo_secret demo_counter) (\<lambda>mac.
     Ret (hex_line ''SECRET'' demo_secret @ hex_line ''COUNTER'' demo_counter @
       hex_line ''HMAC'' mac @ hex_line ''OTP'' (otp mac), 0))"

end
