(* ===== verification/Bitops.thy ===== *)
theory Bitops
  imports Cifra
begin

text \<open>
  Common/pbkdf2/bitops.h, handy.h and \<^verbatim>\<open>cf_blockwise_xor\<close> of blockwise.c: the operations of the cifra library
  that the program carries without calling. The rotations are meant for counts strictly between 0 and the
  width: outside, the shift of the source is undefined.
\<close>

section \<open>Rotations\<close>

definition rotr32 :: "u32 \<Rightarrow> nat \<Rightarrow> u32" where
  "rotr32 x n = drop_bit n x OR push_bit (32 - n) x"

definition rotr64 :: "u64 \<Rightarrow> nat \<Rightarrow> u64" where
  "rotr64 x n = drop_bit n x OR push_bit (64 - n) x"

definition rotl64 :: "u64 \<Rightarrow> nat \<Rightarrow> u64" where
  "rotl64 x n = push_bit n x OR drop_bit (64 - n) x"

section \<open>Byte order\<close>

definition read32_le :: "bytes \<Rightarrow> u32" where
  "read32_le buf = push_bit 24 (ucast (buf ! 3)) OR push_bit 16 (ucast (buf ! 2)) OR
     push_bit 8 (ucast (buf ! 1)) OR ucast (buf ! 0)"

definition read64_be :: "bytes \<Rightarrow> u64" where
  "read64_be buf = (let hi = read32_be buf; lo = read32_be (drop 4 buf)
     in push_bit 32 (ucast hi) OR ucast lo)"

definition read64_le :: "bytes \<Rightarrow> u64" where
  "read64_le buf = (let hi = read32_le (drop 4 buf); lo = read32_le buf
     in push_bit 32 (ucast hi) OR ucast lo)"

definition write32_le :: "u32 \<Rightarrow> bytes" where
  "write32_le v = [ucast (v AND 0xff), ucast (drop_bit 8 v AND 0xff),
     ucast (drop_bit 16 v AND 0xff), ucast (drop_bit 24 v AND 0xff)]"

definition write64_le :: "u64 \<Rightarrow> bytes" where
  "write64_le v = [ucast (v AND 0xff), ucast (drop_bit 8 v AND 0xff),
     ucast (drop_bit 16 v AND 0xff), ucast (drop_bit 24 v AND 0xff),
     ucast (drop_bit 32 v AND 0xff), ucast (drop_bit 40 v AND 0xff),
     ucast (drop_bit 48 v AND 0xff), ucast (drop_bit 56 v AND 0xff)]"

definition xor_words :: "u32 list \<Rightarrow> u32 list \<Rightarrow> u32 list" where
  "xor_words out x = map2 (XOR) out x"

section \<open>Masks and table look-ups without a branch\<close>

definition mask_u32 :: "u32 \<Rightarrow> u32 \<Rightarrow> u32" where
  "mask_u32 x y = (let diff = x XOR y; diff_is_zero = NOT diff AND (diff - 1)
     in drop_bit 31 diff_is_zero)"

definition mask_u8 :: "u32 \<Rightarrow> u32 \<Rightarrow> u8" where
  "mask_u8 x y = (let diff = x XOR y; diff_is_zero = ucast (NOT diff AND (diff - 1)) :: u8
     in - (drop_bit 7 diff_is_zero))"

text \<open>\<open>pick mask r item\<close> is the assignment of the loops.\<close>

definition pick :: "('a :: len) word \<Rightarrow> 'a word \<Rightarrow> 'a word \<Rightarrow> 'a word" where
  "pick msk r item = (r AND NOT msk) OR (item AND msk)"

definition select_u32 :: "u32 \<Rightarrow> u32 list \<Rightarrow> u32" where
  "select_u32 i tab = fold (\<lambda>ii r. pick (mask_u32 i (of_nat ii)) r (tab ! ii)) [0..<length tab] 0"

definition select_u8 :: "u32 \<Rightarrow> bytes \<Rightarrow> u8" where
  "select_u8 i tab = fold (\<lambda>ii r. pick (mask_u8 i (of_nat ii)) r (tab ! ii)) [0..<length tab] 0"

definition select_u8x4 :: "u8 \<Rightarrow> u8 \<Rightarrow> u8 \<Rightarrow> u8 \<Rightarrow> bytes \<Rightarrow> u8 \<times> u8 \<times> u8 \<times> u8" where
  "select_u8x4 a b c d tab = fold (\<lambda>i (ra, rb, rc, rd).
     (pick (mask_u8 (ucast a) (of_nat i)) ra (tab ! i), pick (mask_u8 (ucast b) (of_nat i)) rb (tab ! i),
      pick (mask_u8 (ucast c) (of_nat i)) rc (tab ! i), pick (mask_u8 (ucast d) (of_nat i)) rd (tab ! i)))
     [0..<length tab] (0, 0, 0, 0)"

definition select_xor128 :: "u32 list \<Rightarrow> u32 list \<Rightarrow> u32 list \<Rightarrow> u8 \<Rightarrow> u32 list" where
  "select_xor128 out if0 if1 b = (let mask1 = mask_u32 (ucast b) 1; mask0 = NOT mask1
     in map (\<lambda>i. out ! i XOR ((if0 ! i AND mask0) OR (if1 ! i AND mask1))) [0, 1, 2, 3])"

section \<open>Counters\<close>

text \<open>A byte outside the array is \<open>Undef\<close>: the length must not be 0.\<close>

function incr_le_from :: "nat \<Rightarrow> bytes \<Rightarrow> bytes outcome" where
  "incr_le_from i v =
     (if \<not> i < length v then Undef
      else let v' = v[i := v ! i + 1]
        in if v' ! i \<noteq> 0 then Ret v'
           else if i + 1 = length v then Ret v'
           else incr_le_from (i + 1) v')"
  by pat_completeness auto
termination by (relation "measure (\<lambda>(i, v). length v - i)") auto

declare incr_le_from.simps [simp del]

definition incr_le :: "bytes \<Rightarrow> bytes outcome" where
  "incr_le v = incr_le_from 0 v"

fun incr_be_from :: "nat \<Rightarrow> bytes \<Rightarrow> bytes outcome" where
  "incr_be_from i v =
     (if \<not> i < length v then Undef
      else let v' = v[i := v ! i + 1]
        in if v' ! i \<noteq> 0 then Ret v'
           else case i of 0 \<Rightarrow> Ret v' | Suc j \<Rightarrow> incr_be_from j v')"

declare incr_be_from.simps [simp del]

definition incr_be :: "bytes \<Rightarrow> bytes outcome" where
  "incr_be v = (if v = [] then Undef else incr_be_from (length v - 1) v)"

section \<open>handy.h\<close>

definition mem_clean :: "bytes \<Rightarrow> bytes" where
  "mem_clean v = replicate (length v) 0"

definition mem_eq :: "bytes \<Rightarrow> bytes \<Rightarrow> nat \<Rightarrow> u32" where
  "mem_eq a b len = (let diff = fold (\<lambda>i d. d OR (a ! i XOR b ! i)) [0..<len] (0 :: u8)
     in if diff = 0 then 1 else 0)"

section \<open>cf_blockwise_xor\<close>

text \<open>
  A key stream xored over the input. Here the partial block holds the last block of the stream, and the
  number counts its bytes that are still unused; \<open>process\<close> produces the next block.
\<close>

function blockwise_xor_loop :: "nat \<Rightarrow> ('c \<Rightarrow> bytes \<times> 'c) \<Rightarrow> bytes \<Rightarrow> 'c partial_state \<Rightarrow>
    (bytes \<times> 'c partial_state) outcome" where
  "blockwise_xor_loop nblock process inp (p, np, ctx) =
     (if inp = [] then Ret ([], (p, np, ctx))
      else let (p1, ctx1) = (if np = 0 then process ctx else (p, ctx));
               np1 = (if np = 0 then nblock else np);
               offset = nblock - np1;
               taken = min np1 (length inp)
        in if taken = 0 then Diverge
           else obind (blockwise_xor_loop nblock process (drop taken inp) (p1, np1 - taken, ctx1)) (\<lambda>(out, s).
             Ret (xor_bb (take taken inp) (take taken (drop offset p1)) @ out, s)))"
  by pat_completeness auto
termination by (relation "measure (\<lambda>(n, pr, inp, s). length inp)") (auto simp: Let_def split: if_splits)

declare blockwise_xor_loop.simps [simp del]

definition cf_blockwise_xor :: "nat \<Rightarrow> ('c \<Rightarrow> bytes \<times> 'c) \<Rightarrow> bytes \<Rightarrow> 'c partial_state \<Rightarrow>
    (bytes \<times> 'c partial_state) outcome" where
  "cf_blockwise_xor nblock process inp = (\<lambda>(p, np, ctx).
     if \<not> np < nblock then ExitFail
     else blockwise_xor_loop nblock process inp (p, np, ctx))"

end
