(* ===== verification/BitopsCorrect.thy ===== *)
theory BitopsCorrect
  imports Bitops
begin

text \<open>
  What the bit operations of the cifra library compute: rotations, the four byte orders, the masks (one of
  which is not the mask its comment promises), the counters, and the key stream.
\<close>

section \<open>Rotations\<close>

lemma rotate_right_bits:
  fixes x :: "'a :: len word"
  assumes "0 < n" "n < LENGTH('a)"
  shows "drop_bit n x OR push_bit (LENGTH('a) - n) x = word_rotr n x"
proof (rule bit_word_eqI)
  fix k assume k: "k < LENGTH('a)"
  have "(k + n) mod LENGTH('a) = (if k + n < LENGTH('a) then k + n else k - (LENGTH('a) - n))"
    using k assms by (auto simp: mod_if)
  then show "bit (drop_bit n x OR push_bit (LENGTH('a) - n) x) k = bit (word_rotr n x) k"
    using k assms by (auto simp: bit_word_rotr_iff bit_simps add.commute dest: bit_imp_le_length)
qed

lemma rotate_left_bits:
  fixes x :: "'a :: len word"
  assumes "0 < n" "n < LENGTH('a)"
  shows "push_bit n x OR drop_bit (LENGTH('a) - n) x = word_rotl n x"
  using rotate_right_bits [of "LENGTH('a) - n" x] assms
  by (simp add: word_rotl_eq_word_rotr or.commute)

lemma rotations:
  "0 < n \<Longrightarrow> n < 32 \<Longrightarrow> rotr32 x n = word_rotr n x" "0 < n \<Longrightarrow> n < 32 \<Longrightarrow> rotl32 x n = word_rotl n x"
  "0 < n \<Longrightarrow> n < 64 \<Longrightarrow> rotr64 y n = word_rotr n y" "0 < n \<Longrightarrow> n < 64 \<Longrightarrow> rotl64 y n = word_rotl n y"
  using rotate_right_bits [of n x] rotate_left_bits [of n x] rotate_right_bits [of n y] rotate_left_bits [of n y]
  by (simp_all add: rotr32_def rotl32_def rotr64_def rotl64_def)

lemma rotate_back:
  "0 < n \<Longrightarrow> n < 32 \<Longrightarrow> rotl32 (rotr32 x n) n = x" "0 < n \<Longrightarrow> n < 64 \<Longrightarrow> rotl64 (rotr64 y n) n = y"
  by (simp_all add: rotations)

section \<open>Byte order\<close>

text \<open>What a pair of a reader and a writer promises.\<close>

locale byte_order =
  fixes wr :: "'w \<Rightarrow> bytes" and rd :: "bytes \<Rightarrow> 'w" and n :: nat
  assumes read_write: "rd (wr v) = v"
    and length_write: "length (wr v) = n"
    and write_read: "length b = n \<Longrightarrow> wr (rd b) = b"
begin

lemma write_inject: "wr v = wr v' \<longleftrightarrow> v = v'"
  by (metis read_write)

lemma every_block_is_written: "range wr = {b. length b = n}"
  by (auto simp: length_write) (metis rangeI write_read)

end

lemma mask_low_byte [simp]:
  "ucast (v AND 0xff) = (ucast v :: u8)" "ucast (x AND 0xff) = (ucast x :: u8)" for v :: u32 and x :: u64
proof -
  have m: "(0xff :: u32) = mask 8" "(0xff :: u64) = mask 8" by (simp_all add: mask_eq_exp_minus_1)
  show "ucast (v AND 0xff) = (ucast v :: u8)" "ucast (x AND 0xff) = (ucast x :: u8)"
    unfolding m by (rule bit_word_eqI; simp add: bit_simps)+
qed

lemma length4D: "length b = 4 \<Longrightarrow> \<exists>b0 b1 b2 b3. b = [b0, b1, b2, b3]"
  by (simp add: length_Suc_conv numeral_eq_Suc) blast

lemma bytes_of_word32:
  fixes b0 b1 b2 b3 :: u8
  defines "v \<equiv> (push_bit 24 (ucast b0) OR push_bit 16 (ucast b1) OR push_bit 8 (ucast b2) OR ucast b3) :: u32"
  shows "ucast (drop_bit 24 v) = b0" "ucast (drop_bit 16 v) = b1" "ucast (drop_bit 8 v) = b2" "ucast v = b3"
  unfolding v_def by (rule bit_word_eqI; auto simp: bit_simps dest: bit_imp_le_length)+

lemma word32_of_bytes:
  "push_bit 24 (ucast (ucast (drop_bit 24 v) :: u8)) OR push_bit 16 (ucast (ucast (drop_bit 16 v) :: u8)) OR
   push_bit 8 (ucast (ucast (drop_bit 8 v) :: u8)) OR ucast (ucast v :: u8) = v" (is "?l = v") for v :: u32
proof (rule bit_word_eqI)
  fix n assume "n < LENGTH(32)"
  then consider "n < 8" | "8 \<le> n" "n < 16" | "16 \<le> n" "n < 24" | "24 \<le> n" "n < 32" by force
  then show "bit ?l n = bit v n"
    by cases (auto simp: bit_simps)
qed

interpretation be32: byte_order write32_be read32_be 4
proof
  fix v :: u32 and b :: bytes
  show "read32_be (write32_be v) = v" by (simp add: read32_be_def write32_be_def word32_of_bytes)
  show "length (write32_be v) = 4" by (simp add: write32_be_def)
  assume "length b = 4"
  then obtain b0 b1 b2 b3 where "b = [b0, b1, b2, b3]" using length4D by blast
  then show "write32_be (read32_be b) = b" 
    by (simp add: read32_be_def write32_be_def bytes_of_word32 del: drop_bit_or)
qed

lemma little_is_reversed: "read32_le b = read32_be (rev b)" if "length b = 4"
  using length4D [OF that] by (auto simp: read32_le_def read32_be_def)

lemma write32_le_rev: "write32_le v = rev (write32_be v)"
  by (simp add: write32_le_def write32_be_def)

interpretation le32: byte_order write32_le read32_le 4
proof
  fix v :: u32 and b :: bytes
  show l: "length (write32_le v) = 4" by (simp add: write32_le_def)
  show "read32_le (write32_le v) = v"
    unfolding little_is_reversed [OF l] unfolding write32_le_rev by (simp add: be32.read_write)
  assume "length b = 4"
  then show "write32_le (read32_le b) = b"
    using be32.write_read [of "rev b"] by (simp add: little_is_reversed write32_le_rev)
qed

lemma halves64:
  "ucast (push_bit 32 (ucast x) OR ucast y :: u64) = y"
  "ucast (drop_bit 32 (push_bit 32 (ucast x) OR ucast y :: u64)) = x" for x y :: u32
  by (rule bit_word_eqI; auto simp: bit_simps dest: bit_imp_le_length)+

lemma word64_of_halves: "push_bit 32 (ucast (ucast (drop_bit 32 v) :: u32)) OR ucast (ucast v :: u32) = v" for v :: u64
  by (rule bit_word_eqI) (auto simp: bit_simps)

lemma narrow_twice: "(ucast (drop_bit n (ucast x :: u32)) :: u8) = ucast (drop_bit n x)" if "n \<le> 24" for x :: u64
  using that by (auto intro!: bit_word_eqI simp: bit_simps)

lemma write64_halves:
  "write64_be v = write32_be (ucast (drop_bit 32 v)) @ write32_be (ucast v)"
  "write64_le v = write32_le (ucast v) @ write32_le (ucast (drop_bit 32 v))"
  by (simp_all add: write64_be_def write64_le_def write32_be_def write32_le_def narrow_twice)
    (auto intro!: bit_word_eqI simp: bit_simps)

interpretation be64: byte_order write64_be read64_be 8
proof
  fix v :: u64 and b :: bytes
  show "length (write64_be v) = 8" by (simp add: write64_be_def)
  have t: "read32_be (x @ y) = read32_be x" if "length x = 4" for x y
    using that by (simp add: read32_be_def nth_append)
  show "read64_be (write64_be v) = v"
    by (simp add: read64_be_def write64_halves t be32.length_write be32.read_write word64_of_halves)
  assume "length b = 8"
  then show "write64_be (read64_be b) = b"
    using t [of "take 4 b" "drop 4 b"]
    by (simp add: read64_be_def write64_halves halves64 be32.write_read del: drop_bit_or)
qed

interpretation le64: byte_order write64_le read64_le 8
proof
  fix v :: u64 and b :: bytes
  show "length (write64_le v) = 8" by (simp add: write64_le_def)
  have t: "read32_le (x @ y) = read32_le x" if "length x = 4" for x y
    using that by (simp add: read32_le_def nth_append)
  show "read64_le (write64_le v) = v"
    by (simp add: read64_le_def write64_halves t le32.length_write le32.read_write word64_of_halves)
  assume "length b = 8"
  then show "write64_le (read64_le b) = b"
    using t [of "take 4 b" "drop 4 b"]
    by (simp add: read64_le_def write64_halves halves64 le32.write_read del: drop_bit_or)
qed

section \<open>Masks\<close>

text \<open>The highest bit of \<open>NOT d AND (d - 1)\<close> tells whether \<open>d\<close> is zero.\<close>

lemma bit_last: "bit w (LENGTH('a) - 1) \<longleftrightarrow> 2 ^ (LENGTH('a) - 1) \<le> unat w" for w :: "'a :: len word"
proof -
  have e: "(2 :: nat) ^ LENGTH('a) = 2 * 2 ^ (LENGTH('a) - 1)" by (simp flip: power_Suc)
  have "unat w < 2 ^ LENGTH('a)" by (rule unsigned_less)
  then have "unat w < 2 * 2 ^ (LENGTH('a) - 1)" unfolding e .
  then have "odd (unat w div 2 ^ (LENGTH('a) - 1)) \<longleftrightarrow> 2 ^ (LENGTH('a) - 1) \<le> unat w"
    by (cases "2 ^ (LENGTH('a) - 1) \<le> unat w") (simp_all add: div_nat_eqI [where q = 1])
  moreover have "bit (unat w) (LENGTH('a) - 1) = bit w (LENGTH('a) - 1)" by (simp add: bit_unsigned_iff)
  ultimately show ?thesis by (simp add: bit_iff_odd [of "unat w"])
qed

lemma zero_bit: "bit (NOT d AND (d - 1)) (LENGTH('a) - 1) \<longleftrightarrow> d = 0" for d :: "'a :: len word"
proof (cases "d = 0")
  case False
  then have "unat (d - 1) < unat d" by (metis unat_minus_one diff_less unat_eq_zero neq0_conv zero_less_one)
  then show ?thesis using False bit_last [of d] bit_last [of "d - 1"]
    by (auto simp: bit_and_iff bit_not_iff dest: le_less_trans)
qed (simp add: bit_and_iff)

lemma top_bit: "drop_bit (LENGTH('a) - 1) w = (if bit w (LENGTH('a) - 1) then 1 else 0)" for w :: "'a :: len word"
proof (rule bit_word_eqI)
  fix n assume "n < LENGTH('a)"
  then show "bit (drop_bit (LENGTH('a) - 1) w) n = bit (if bit w (LENGTH('a) - 1) then 1 else 0 :: 'a word) n"
    using bit_imp_le_length [of w "LENGTH('a) - 1 + n"] by (cases n) (auto simp: bit_drop_bit_eq bit_1_iff)
qed

lemma xor_zero: "x XOR y = 0 \<longleftrightarrow> x = y" for x y :: "'a :: len word"
  by (metis xor.right_neutral xor_self_eq xor.assoc)

lemma mask_u32_eq: "mask_u32 x y = (if x = y then 1 else 0)"
  using top_bit [of "NOT (x XOR y) AND ((x XOR y) - 1)"] zero_bit [of "x XOR y"]
  by (simp add: mask_u32_def Let_def xor_zero)

lemma ucast_down_diff: "(ucast (x - y) :: u8) = ucast x - ucast y" for x y :: u32
proof -
  have "take_bit 8 (take_bit 32 (a - b)) = take_bit 8 (take_bit 32 a - take_bit 32 b)" for a b :: int
  proof -
    have "take_bit 8 (take_bit 32 a - take_bit 32 b) =
        take_bit 8 (take_bit 8 (take_bit 32 a) - take_bit 8 (take_bit 32 b))" by (simp only: take_bit_diff)
    also have "\<dots> = take_bit 8 (a - b)" by (simp add: take_bit_take_bit take_bit_diff)
    finally show ?thesis by (simp add: take_bit_take_bit)
  qed
  then show ?thesis by transfer simp
qed

lemma ucast_and_not: "(ucast (NOT x AND y) :: u8) = NOT (ucast x) AND ucast y" for x y :: u32
  by (rule bit_word_eqI) (simp add: bit_simps)

lemma ucast_xor: "(ucast (x XOR y) :: u8) = ucast x XOR ucast y" for x y :: u32
  by (rule bit_word_eqI) (simp add: bit_simps)

lemma mask_u8_eq: "mask_u8 x y = (if (ucast x :: u8) = ucast y then - 1 else 0)"
proof -
  let ?d = "x XOR y"
  have c: "(ucast (NOT ?d AND (?d - 1)) :: u8) = NOT (ucast ?d) AND (ucast ?d - 1)"
    unfolding ucast_and_not by (simp add: ucast_down_diff)
  have x: "ucast ?d = (0 :: u8) \<longleftrightarrow> (ucast x :: u8) = ucast y"
    by (simp add: ucast_xor xor_zero)
  show ?thesis
    using top_bit [of "NOT (ucast ?d :: u8) AND (ucast ?d - 1)"] zero_bit [of "ucast ?d :: u8"]
    by (simp add: mask_u8_def Let_def c x)
qed

lemma pick_u8: "pick (mask_u8 i j) r x = (if (ucast i :: u8) = ucast j then x else r)"
  by (simp add: pick_def mask_u8_eq)

lemma pick_u32: "pick (mask_u32 i j) r x = (if i = j then (r AND NOT 1) OR (x AND 1) else r)"
  by (simp add: pick_def mask_u32_eq)

text \<open>Only the entry at the index is touched by a pass.\<close>

lemma fold_at:
  assumes "\<And>k r. k < n \<Longrightarrow> f k r = (if k = i then g r else r)"
  shows "fold f [0..<n] r0 = (if i < n then g r0 else r0)"
  using assms by (induction n) (auto simp: less_Suc_eq)

lemma select_u32_eq:
  assumes "length tab < 2 ^ 32"
  shows "select_u32 i tab = (if unat i < length tab then tab ! unat i AND 1 else 0)"
proof -
  have "i = of_nat k \<longleftrightarrow> k = unat i" if "k < length tab" for k
    using that assms by (auto simp: unsigned_of_nat take_bit_nat_eq_self)
  then have "select_u32 i tab =
      (if unat i < length tab then (\<lambda>r. (r AND NOT 1) OR (tab ! unat i AND 1)) 0 else 0)"
    unfolding select_u32_def by (intro fold_at) (simp add: pick_u32)
  then show ?thesis by simp
qed

lemma select_u8_eq:
  assumes "length tab \<le> 256" "unat i < length tab"
  shows "select_u8 i tab = tab ! unat i"
proof -
  have "(ucast i :: u8) = ucast (of_nat k :: u32) \<longleftrightarrow> k = unat i" if "k < length tab" for k
  proof -
    have "unat (ucast i :: u8) = unat i" "unat (ucast (of_nat k :: u32) :: u8) = k"
      using that assms by (simp_all add: unsigned_ucast_eq unsigned_of_nat take_bit_nat_eq_self)
    then show ?thesis by (metis unsigned_word_eqI)
  qed
  then have "select_u8 i tab = (if unat i < length tab then (\<lambda>r. tab ! unat i) 0 else 0)"
    unfolding select_u8_def by (intro fold_at) (simp add: pick_u8)
  then show ?thesis using assms by simp
qed

lemma select_u8x4_eq: "select_u8x4 a b c d tab =
    (select_u8 (ucast a) tab, select_u8 (ucast b) tab, select_u8 (ucast c) tab, select_u8 (ucast d) tab)"
proof -
  have "fold (\<lambda>i (ra, rb, rc, rd). (f i ra, g i rb, h i rc, k i rd)) xs (p, q, r, s) =
      (fold f xs p, fold g xs q, fold h xs r, fold k xs s)"
    for f g h k :: "nat \<Rightarrow> u8 \<Rightarrow> u8" and xs p q r s
    by (induction xs arbitrary: p q r s) simp_all
  then show ?thesis by (simp add: select_u8x4_def select_u8_def)
qed

section \<open>Counters\<close>

text \<open>Adding one to a number whose first byte is the lowest.\<close>

fun bump :: "bytes \<Rightarrow> bytes" where
  "bump [] = []"
| "bump (b # v) = (b + 1) # (if b + 1 \<noteq> 0 then v else bump v)"

abbreviation le_value :: "bytes \<Rightarrow> nat" where
  "le_value \<equiv> horner_sum unat 256"

lemma length_bump [simp]: "length (bump v) = length v"
  by (induction v) simp_all

lemma le_value_less: "le_value v < 256 ^ length v"
proof (induction v)
  case (Cons b v)
  have "unat b < 256" using unsigned_less [of b] by simp
  then show ?case using Cons by simp
qed simp

lemma bump_value: "le_value (bump v) = (le_value v + 1) mod 256 ^ length v"
proof (induction v)
  case (Cons b v)
  have b: "unat b < 256" using unsigned_less [of b] by simp
  have a: "unat (b + 1) = (unat b + 1) mod 256" using unat_word_ariths(1) [of b 1] by simp
  show ?case
  proof (cases "b + 1 = 0")
    case True
    then have "(unat b + 1) mod 256 = 0" using a by simp
    then have "unat b = 255" using b by presburger
    then have "le_value (b # v) + 1 = 256 * (le_value v + 1)" by simp
    then show ?thesis using True Cons.IH by (simp add: mult_mod_right)
  next
    case False
    then have "unat (b + 1) \<noteq> 0" by (simp add: unat_eq_0)
    then have "(unat b + 1) mod 256 \<noteq> 0" using a by simp
    then have "unat b + 1 < 256" using b by presburger
    then have u: "unat (b + 1) = unat b + 1" "unat b + 1 < 256" using a by simp_all
    have "unat b + 1 + 256 * le_value v < 256 * 256 ^ length v"
      using u(2) le_value_less [of v] by linarith
    moreover have "le_value (bump (b # v)) = unat b + 1 + 256 * le_value v" using False u(1) by simp
    ultimately show ?thesis by (simp del: bump.simps)
  qed
qed simp

lemma incr_le_from_eq: "i < length v \<Longrightarrow> incr_le_from i v = Ret (take i v @ bump (drop i v))"
proof (induction i v rule: incr_le_from.induct)
  case (1 i v)
  let ?v = "v[i := v ! i + 1]"
  have v: "v = take i v @ v ! i # drop (Suc i) v" using 1(2) by (simp add: id_take_nth_drop [symmetric])
  have v': "?v = take i v @ (v ! i + 1) # drop (Suc i) v" using 1(2) by (simp add: upd_conv_take_nth_drop)
  have d: "drop i v = v ! i # drop (Suc i) v" using 1(2) by (simp add: Cons_nth_drop_Suc)
  consider "v ! i + 1 \<noteq> 0" | "v ! i + 1 = 0" "Suc i = length v" | "v ! i + 1 = 0" "Suc i < length v"
    using 1(2) by linarith
  then show ?case
  proof cases
    case 1
    then have "incr_le_from i v = Ret ?v" using \<open>i < length v\<close> by (simp add: incr_le_from.simps [of i] Let_def)
    then show ?thesis using 1 unfolding v' by (simp add: d)
  next
    case 2
    then have "incr_le_from i v = Ret ?v" using \<open>i < length v\<close> by (simp add: incr_le_from.simps [of i] Let_def)
    then show ?thesis using 2 unfolding v' by (simp add: d)
  next
    case 3
    then have "incr_le_from (i + 1) ?v = Ret (take (i + 1) ?v @ bump (drop (i + 1) ?v))"
      using "1.IH" 1(2) by (simp add: Let_def)
    also have "incr_le_from (i + 1) ?v = incr_le_from i v"
      using 3 by (simp add: incr_le_from.simps [of i v] Let_def)
    finally show ?thesis using 3 \<open>i < length v\<close> by (simp add: d take_Suc_conv_app_nth)
  qed
qed

lemma incr_le_eq: "v \<noteq> [] \<Longrightarrow> incr_le v = Ret (bump v)"
  by (simp add: incr_le_def incr_le_from_eq)

lemma incr_be_from_eq:
  "i < length v \<Longrightarrow> incr_be_from i v = Ret (rev (bump (rev (take (Suc i) v))) @ drop (Suc i) v)"
proof (induction i v rule: incr_be_from.induct)
  case (1 i v)
  let ?v = "v[i := v ! i + 1]"
  have v': "?v = take i v @ (v ! i + 1) # drop (Suc i) v" using 1(2) by (simp add: upd_conv_take_nth_drop)
  have t: "take (Suc i) v = take i v @ [v ! i]" using 1(2) by (rule take_Suc_conv_app_nth)
  show ?case
  proof (cases "v ! i + 1 = 0")
    case False
    then have "incr_be_from i v = Ret ?v" using \<open>i < length v\<close> by (simp add: incr_be_from.simps [of i] Let_def)
    then show ?thesis using False unfolding v' by (simp add: t)
  next
    case True
    show ?thesis
    proof (cases i)
      case 0
      then have "incr_be_from i v = Ret ?v" using True \<open>i < length v\<close> 0 by (simp add: incr_be_from.simps [of 0 v] Let_def)
      then show ?thesis using True t 0 unfolding v' by simp
    next
      case (Suc j)
      then have "incr_be_from j ?v = Ret (rev (bump (rev (take (Suc j) ?v))) @ drop (Suc j) ?v)"
        using "1.IH" 1(2) True by (simp add: Let_def)
      also have "incr_be_from j ?v = incr_be_from i v"
        using True \<open>i < length v\<close> Suc by (simp add: incr_be_from.simps [of "Suc j" v] Let_def)
      finally show ?thesis using True \<open>i < length v\<close> Suc t unfolding v' by simp
    qed
  qed
qed

lemma incr_be_eq: "v \<noteq> [] \<Longrightarrow> incr_be v = Ret (rev (bump (rev v)))"
  by (simp add: incr_be_def incr_be_from_eq)

lemma incr_value:
  assumes "v \<noteq> []"
  shows "\<exists>v'. incr_le v = Ret v' \<and> length v' = length v \<and> le_value v' = (le_value v + 1) mod 256 ^ length v"
    "\<exists>v'. incr_be v = Ret v' \<and> length v' = length v \<and>
      le_value (rev v') = (le_value (rev v) + 1) mod 256 ^ length v"
  using assms bump_value [of "rev v"] by (simp_all add: incr_le_eq incr_be_eq bump_value)

section \<open>Comparison\<close>

lemma differences_zero:
  assumes "length a = n" "length b = n"
  shows "fold (\<lambda>i d. d OR (a ! i XOR b ! i)) [0..<n] (0 :: u8) = 0 \<longleftrightarrow> a = b"
proof -
  have "fold (\<lambda>i d. d OR (a ! i XOR b ! i)) xs d = 0 \<longleftrightarrow> d = 0 \<and> (\<forall>i \<in> set xs. a ! i = b ! i)" for xs and d :: u8
    by (induction xs arbitrary: d) (auto simp: or_eq_0_iff xor_zero)
  moreover have "(\<forall>i \<in> set [0..<n]. a ! i = b ! i) \<longleftrightarrow> a = b"
    using nth_equalityI [of a b] assms by auto
  ultimately show ?thesis by blast
qed

lemma mem_eq_iff: "length a = n \<Longrightarrow> length b = n \<Longrightarrow> mem_eq a b n = (if a = b then 1 else 0)"
  by (simp add: mem_eq_def Let_def differences_zero)

section \<open>The key stream\<close>

text \<open>One byte at a time: a new block when the last one is used up.\<close>

fun xor_bytewise :: "nat \<Rightarrow> ('c \<Rightarrow> bytes \<times> 'c) \<Rightarrow> bytes \<Rightarrow> 'c partial_state \<Rightarrow> bytes \<times> 'c partial_state" where
  "xor_bytewise n process [] s = ([], s)"
| "xor_bytewise n process (b # bs) (p, np, c) =
     (let (p, np, c) = (if np = 0 then (fst (process c), n, snd (process c)) else (p, np, c));
          (out, s) = xor_bytewise n process bs (p, np - 1, c)
      in ((b XOR p ! (n - np)) # out, s))"

lemma xor_within_block:
  assumes "k \<le> np" "0 < np" "np \<le> n" "length p = n" "k \<le> length inp"
  shows "xor_bytewise n process inp (p, np, c) =
    (let (out, s) = xor_bytewise n process (drop k inp) (p, np - k, c)
     in (xor_bb (take k inp) (take k (drop (n - np) p)) @ out, s))"
  using assms
proof (induction k arbitrary: np inp)
  case 0
  then show ?case by (simp add: xor_bb_def)
next
  case (Suc k)
  then obtain b bs where inp: "inp = b # bs" by (cases inp) auto
  have d: "drop (n - np) p = p ! (n - np) # drop (n - (np - 1)) p"
  proof -
    have "Suc (n - np) = n - (np - 1)" "n - np < length p" using Suc.prems by auto
    then show ?thesis using Cons_nth_drop_Suc [of "n - np" p] by simp
  qed
  show ?case
  proof (cases k)
    case 0
    then show ?thesis using Suc.prems inp d by (simp add: xor_bb_def Let_def split: prod.split)
  next
    case (Suc m)
    then have "xor_bytewise n process bs (p, np - 1, c) =
      (let (out, s) = xor_bytewise n process (drop k bs) (p, np - 1 - k, c)
       in (xor_bb (take k bs) (take k (drop (n - (np - 1)) p)) @ out, s))"
      using Suc.prems inp by (intro Suc.IH) auto
    then show ?thesis using Suc.prems inp d by (simp add: xor_bb_def Let_def split: prod.split)
  qed
qed

lemma blockwise_xor_loop_step:
  assumes "inp \<noteq> []"
  shows "blockwise_xor_loop n process inp (p, np, c) =
    (let p1 = (if np = 0 then fst (process c) else p); c1 = (if np = 0 then snd (process c) else c);
         np1 = (if np = 0 then n else np); k = min np1 (length inp)
     in if k = 0 then Diverge
        else obind (blockwise_xor_loop n process (drop k inp) (p1, np1 - k, c1)) (\<lambda>(out, s).
          Ret (xor_bb (take k inp) (take k (drop (n - np1) p1)) @ out, s)))"
  using assms unfolding blockwise_xor_loop.simps [of n process inp]
  by (cases "np = 0"; cases "process c") (simp_all add: Let_def)

lemma blockwise_xor_loop_eq:
  assumes "\<And>c. length (fst (process c)) = n" "0 < n" "length p = n" "np \<le> n"
  shows "blockwise_xor_loop n process inp (p, np, c) = Ret (xor_bytewise n process inp (p, np, c))"
  using assms(3, 4)
proof (induction inp arbitrary: p np c rule: length_induct)
  case (1 inp)
  show ?case
  proof (cases "inp = []")
    case True
    then show ?thesis by (simp add: blockwise_xor_loop.simps)
  next
    case False
    let ?p = "if np = 0 then fst (process c) else p" and ?c = "if np = 0 then snd (process c) else c"
      and ?np = "if np = 0 then n else np"
    let ?k = "min ?np (length inp)"
    have len: "length ?p = n" "0 < ?np" "?np \<le> n" "?k \<noteq> 0" using 1(2, 3) assms(1, 2) False by auto
    have "xor_bytewise n process inp (p, np, c) = xor_bytewise n process inp (?p, ?np, ?c)"
      using False assms(2) by (cases inp) (auto simp: Let_def)
    also have "\<dots> = (let (out, s) = xor_bytewise n process (drop ?k inp) (?p, ?np - ?k, ?c)
        in (xor_bb (take ?k inp) (take ?k (drop (n - ?np) ?p)) @ out, s))"
      using len by (intro xor_within_block) auto
    also have "Ret \<dots> = blockwise_xor_loop n process inp (p, np, c)"
    proof -
      have "blockwise_xor_loop n process (drop ?k inp) (?p, ?np - ?k, ?c) =
          Ret (xor_bytewise n process (drop ?k inp) (?p, ?np - ?k, ?c))"
        using len False by (intro 1(1) [rule_format]) auto
      then show ?thesis using len(4) unfolding blockwise_xor_loop_step [OF False] Let_def
        by (simp only: if_False obind.simps) (simp add: split_def)
    qed
    finally show ?thesis by simp
  qed
qed

lemma xor_bytewise_append: "xor_bytewise n process (a @ b) s =
    (let (o1, s1) = xor_bytewise n process a s; (o2, s2) = xor_bytewise n process b s1 in (o1 @ o2, s2))"
proof (induction a arbitrary: s)
  case (Cons x a)
  then show ?case by (cases s) (simp add: Let_def split: prod.split)
qed (simp add: Let_def split: prod.split)

lemma xor_bytewise_twice:
  "xor_bytewise n process (fst (xor_bytewise n process inp s)) s = (inp, snd (xor_bytewise n process inp s))"
proof (induction inp arbitrary: s)
  case (Cons x inp)
  obtain p np c where s: "s = (p, np, c)" by (cases s)
  show ?case unfolding s using Cons.IH
    by (simp add: Let_def xor.assoc split: prod.split) (metis fst_conv snd_conv)
qed simp

lemma cf_blockwise_xor_eq:
  assumes "\<And>c. length (fst (process c)) = n" "length p = n" "np < n"
  shows "cf_blockwise_xor n process inp (p, np, c) = Ret (xor_bytewise n process inp (p, np, c))"
  unfolding cf_blockwise_xor_def using blockwise_xor_loop_eq [OF assms(1) _ assms(2)] assms(3) by simp

text \<open>Deciphering is enciphering again.\<close>

lemma cf_blockwise_xor_twice:
  assumes "\<And>c. length (fst (process c)) = n" "length p = n" "np < n"
    and "cf_blockwise_xor n process inp (p, np, c) = Ret (out, s)"
  shows "cf_blockwise_xor n process out (p, np, c) = Ret (inp, s)"
  using assms(4) xor_bytewise_twice [of n process inp "(p, np, c)"]
  unfolding cf_blockwise_xor_eq [OF assms(1-3)] by simp

section \<open>The table look-up\<close>

lemma and_one_same: "x AND 1 = x \<longleftrightarrow> x \<le> 1" for x :: u32
proof
  assume "x AND 1 = x"
  moreover have "x AND 1 = (if odd x then 1 else 0)" by (simp add: and_one_eq odd_iff_mod_2_eq_one)
  ultimately have "x = 0 \<or> x = 1" by (auto split: if_splits)
  then show "x \<le> 1" by auto
next
  assume "x \<le> 1"
  then have "unat x = 0 \<or> unat x = 1" by (auto simp: word_le_nat_alt)
  then have "x = 0 \<or> x = 1" by (metis unsigned_0 unsigned_1 unsigned_word_eqI)
  then show "x AND 1 = x" by auto
qed

text \<open>\<open>select_u32\<close> is meant to return the entry of a table at an index without a branch, from a mask that
  should be all ones at the index. The mask is 1 there, so only the lowest bit of the entry is returned:
  the result is the entry exactly if the entry is 0 or 1.\<close>

lemma select_u32_keeps_one_bit:
  assumes "length tab < 2 ^ 32" "unat i < length tab"
  shows "mask_u32 i i = 1 \<and> select_u32 i tab = tab ! unat i AND 1 \<and>
    (select_u32 i tab = tab ! unat i \<longleftrightarrow> tab ! unat i \<le> 1)"
  using assms by (simp add: mask_u32_eq select_u32_eq and_one_same)

end
