(* ===== verification/HmacOtpCorrect.thy ===== *)
theory HmacOtpCorrect
  imports HmacOtp CifraCorrect BitopsCorrect
begin

text \<open>
  The generator of one-time passwords computes what its standards say: the constants are the fractional
  parts of roots of primes, SHA-256 in pieces is FIPS 180-4 on the whole message, HMAC is RFC 2104 over
  it, and none of it depends on what the stack held.
\<close>

lemmas sha256_sizes = SHA256_BLOCK_SIZE_def SHA256_DIGEST_SIZE_def

section \<open>The constants\<close>

text \<open>\<open>root_fraction r p k\<close>: the first 32 bits of the fractional part of the \<open>r\<close>-th root of \<open>p\<close> are \<open>k\<close>.
  \<open>scaled\<close> is the root times \<open>2\<^sup>3\<^sup>2\<close>, rounded down, if its integral part is less than 18.\<close>

definition integral_root :: "nat \<Rightarrow> nat \<Rightarrow> nat" where
  "integral_root r p = length (filter (\<lambda>a. a ^ r \<le> p) [1, 2, 3, 4, 5, 6, 7, 8, 9, 10, 11, 12, 13, 14, 15, 16, 17])"

definition scaled :: "nat \<Rightarrow> nat \<Rightarrow> nat \<Rightarrow> bool" where
  "scaled r p x \<longleftrightarrow> x ^ r \<le> p * 2 ^ (32 * r) \<and> p * 2 ^ (32 * r) < (x + 1) ^ r"

definition root_fraction :: "nat \<Rightarrow> nat \<Rightarrow> u32 \<Rightarrow> bool" where
  "root_fraction r p k \<longleftrightarrow> scaled r p (2 ^ 32 * integral_root r p + unat k)"

lemma scaled_numeral: "scaled 3 (numeral p) (numeral x) \<longleftrightarrow>
    (numeral x :: nat) ^ 3 \<le> numeral p * 2 ^ 96 \<and> numeral p * 2 ^ 96 < (numeral x + 1 :: nat) ^ 3"
  "scaled 2 (numeral p) (numeral x) \<longleftrightarrow>
    (numeral x :: nat) ^ 2 \<le> numeral p * 2 ^ 64 \<and> numeral p * 2 ^ 64 < (numeral x + 1 :: nat) ^ 2"
  by (simp_all add: scaled_def)

text \<open>The primes below 312 (no number below \<open>18\<^sup>2\<close> needs a divisor above 17): the first sixty-four.\<close>

definition small_primes :: "nat list" where
  "small_primes = filter (\<lambda>n. list_all (\<lambda>d. n = d \<or> n mod d \<noteq> 0) [2, 3, 5, 7, 11, 13, 17]) [2..<312]"

definition vars_list :: "sha256_vars \<Rightarrow> u32 list" where
  "vars_list = (\<lambda>(a, b, c, d, e, f, g, h). [a, b, c, d, e, f, g, h])"

lemma filter_upt: "m < n \<Longrightarrow>
    filter P [m..<n] = (if P m then m # filter P [Suc m..<n] else filter P [Suc m..<n])"
  by (simp add: upt_conv_Cons)

lemma small_primes: "small_primes = [2, 3, 5, 7, 11, 13, 17, 19, 23, 29, 31, 37, 41, 43, 47, 53, 59, 61, 67, 71,
    73, 79, 83, 89, 97, 101, 103, 107, 109, 113, 127, 131, 137, 139, 149, 151, 157, 163, 167, 173, 179, 181, 191,
    193, 197, 199, 211, 223, 227, 229, 233, 239, 241, 251, 257, 263, 269, 271, 277, 281, 283, 293, 307, 311]"
  unfolding small_primes_def by (simp add: filter_upt del: upt.simps)

lemma K256_roots: "list_all2 (root_fraction 3) small_primes K256"
  unfolding small_primes by (simp add: K256_def root_fraction_def integral_root_def scaled_numeral)

lemma H0_roots: "list_all2 (root_fraction 2) (take 8 small_primes) (vars_list (sha_state (sha256_init ctx)))"
  unfolding small_primes by (simp add: vars_list_def sha256_init_def root_fraction_def integral_root_def scaled_numeral)

section \<open>SHA-256 as FIPS 180-4 states it\<close>

text \<open>The message schedule, by its recurrence, and the compression of a block.\<close>

definition sigma0 :: "u32 \<Rightarrow> u32" where
  "sigma0 x = word_rotr 7 x XOR word_rotr 18 x XOR drop_bit 3 x"

definition sigma1 :: "u32 \<Rightarrow> u32" where
  "sigma1 x = word_rotr 17 x XOR word_rotr 19 x XOR drop_bit 10 x"

fun schedule256 :: "bytes \<Rightarrow> nat \<Rightarrow> u32" where
  "schedule256 b t = (if t < 16 then read32_be (drop (4 * t) b)
     else sigma1 (schedule256 b (t - 2)) + schedule256 b (t - 7) + sigma0 (schedule256 b (t - 15)) +
       schedule256 b (t - 16))"

declare schedule256.simps [simp del]

definition round256 :: "u32 \<Rightarrow> u32 \<Rightarrow> sha256_vars \<Rightarrow> sha256_vars" where
  "round256 k w = (\<lambda>(a, b, c, d, e, f, g, h).
     let t1 = h + (word_rotr 6 e XOR word_rotr 11 e XOR word_rotr 25 e) + ((e AND f) XOR (NOT e AND g)) + k + w;
         t2 = (word_rotr 2 a XOR word_rotr 13 a XOR word_rotr 22 a) + ((a AND b) XOR (a AND c) XOR (b AND c))
     in (t1 + t2, a, b, c, d + t1, e, f, g))"

definition compress256 :: "sha256_vars \<Rightarrow> bytes \<Rightarrow> sha256_vars" where
  "compress256 H b = add_vars H (fold (\<lambda>t. round256 (K256 ! t) (schedule256 b t)) [0..<64] H)"

definition sha256_H0 :: sha256_vars where
  "sha256_H0 = sha_state (sha256_init wiped_ctx)"

text \<open>The padding is that of SHA-1.\<close>

definition sha256_digest :: "bytes \<Rightarrow> bytes" where
  "sha256_digest m = sha256_output (foldl compress256 sha256_H0 (blocks 64 (sha1_pad m)))"

section \<open>The transformation\<close>

lemma rotr_word [simp]: "0 < n \<Longrightarrow> n < 32 \<Longrightarrow> sha_rotr32 x n = word_rotr n x"
  using rotate_right_bits [of n x] by (simp add: sha_rotr32_def)

lemma block_words_eq: "length b = 64 \<Longrightarrow> block_words b = map (schedule256 b) [0..<16]"
  by (simp add: block_words_def schedule256.simps read32_be_def ac_simps del: upt.simps)

lemma extended_words:
  "16 + n \<le> 64 \<Longrightarrow> fold next_word [16..<16 + n] (map (schedule256 b) [0..<16]) = map (schedule256 b) [0..<16 + n]"
proof (induction n)
  case (Suc n)
  have "next_word (16 + n) (map (schedule256 b) [0..<16 + n]) =
      map (schedule256 b) [0..<16 + n] @ [schedule256 b (16 + n)]"
    unfolding schedule256.simps [of b "16 + n"] by (simp add: next_word_def Let_def sigma0_def sigma1_def ac_simps)
  moreover have "[k..<16 + Suc n] = [k..<16 + n] @ [16 + n]" if "k \<le> 16" for k
    using that upt_Suc_append [of k "16 + n"] by simp
  ultimately show ?case using Suc by (simp del: upt.simps)
qed simp

lemma round256_eq: "i < 64 \<Longrightarrow> sha256_round (map (schedule256 b) [0..<64]) i = round256 (K256 ! i) (schedule256 b i)"
  by (rule ext) (simp add: sha256_round_def round256_def Let_def split: prod.split)

lemma sha256_transform_eq:
  assumes "length b = 64"
  shows "sha256_transform H b = compress256 H b"
proof -
  have "fold next_word [16..<64] (block_words b) = map (schedule256 b) [0..<64]"
    using extended_words [of 48 b] block_words_eq [OF assms] by simp
  moreover have "fold (sha256_round (map (schedule256 b) [0..<64])) [0..<64] H =
      fold (\<lambda>t. round256 (K256 ! t) (schedule256 b t)) [0..<64] H"
    by (rule fold_cong) (simp_all add: round256_eq)
  ultimately show ?thesis by (simp add: sha256_transform_def compress256_def Let_def)
qed

section \<open>The streaming interface\<close>

text \<open>A context that has taken the message \<open>m\<close>.\<close>

definition taken256 :: "bytes \<Rightarrow> sha256_ctx \<Rightarrow> bool" where
  "taken256 m ctx \<longleftrightarrow> buffered 64 (buffer ctx) (buffer_len ctx) (rest 64 m) \<and>
     sha_state ctx = foldl compress256 sha256_H0 (blocks 64 m) \<and> bitlen ctx = of_nat (8 * length m)"

lemma taken256_init: "length (buffer ctx) = 64 \<Longrightarrow> taken256 [] (sha256_init ctx)"
  by (simp add: taken256_def sha256_init_def buffered_def sha256_H0_def)

text \<open>A piece that fits the buffer.\<close>

lemma whole_block:
  assumes "length (rest 64 m @ x) = 64"
  shows "blocks 64 (m @ x) = blocks 64 m @ [rest 64 m @ x]" "rest 64 (m @ x) = []"
  using assms blocks_append [of 64 m x] rest_append [of 64 m x]
    blocks_cons [of 64 "rest 64 m @ x" "[]"] rest_cons [of 64 "rest 64 m @ x" "[]"] by simp_all

lemma part_block:
  assumes "length (rest 64 m @ x) < 64"
  shows "blocks 64 (m @ x) = blocks 64 m" "rest 64 (m @ x) = rest 64 m @ x"
  using assms blocks_append [of 64 m x] rest_append [of 64 m x] by simp_all

lemma sha_memcpy_simps:
  "at + length x \<le> length b \<Longrightarrow> length (sha_memcpy b at x) = length b"
  "at + length x \<le> length b \<Longrightarrow> take (at + length x) (sha_memcpy b at x) = take at b @ x"
  by (simp_all add: sha_memcpy_def)

text \<open>One pass of the loop.\<close>

definition feed :: "sha256_ctx \<Rightarrow> bytes \<Rightarrow> sha256_ctx" where
  "feed ctx x = (let ctx1 = ctx\<lparr>buffer := sha_memcpy (buffer ctx) (buffer_len ctx) x,
       buffer_len := buffer_len ctx + length x, bitlen := bitlen ctx + of_nat (length x) * 8\<rparr>
     in if buffer_len ctx1 = 64
        then ctx1\<lparr>sha_state := sha256_transform (sha_state ctx1) (buffer ctx1), buffer_len := 0\<rparr> else ctx1)"

lemma update_step:
  assumes "d \<noteq> []" "buffer_len ctx < 64"
  shows "sha256_update ctx d = (let k = min (64 - buffer_len ctx) (length d)
    in sha256_update (feed ctx (take k d)) (drop k d))"
proof -
  let ?k = "min (64 - buffer_len ctx) (length d)"
  have "length (take ?k d) = ?k" "?k \<noteq> 0" using assms by auto
  then show ?thesis unfolding sha256_update.simps [of ctx d] feed_def
    using assms(1) by (simp only: sha256_sizes Let_def if_False)
qed

lemma taken256_buffer:
  assumes "taken256 m ctx"
  shows "length (buffer ctx) = 64" "buffer_len ctx < 64" "take (buffer_len ctx) (buffer ctx) = rest 64 m"
    "length (rest 64 m) = buffer_len ctx"
proof -
  have b: "buffered 64 (buffer ctx) (buffer_len ctx) (rest 64 m)" using assms by (simp add: taken256_def)
  then show "length (buffer ctx) = 64" "buffer_len ctx < 64" "take (buffer_len ctx) (buffer ctx) = rest 64 m"
    "length (rest 64 m) = buffer_len ctx"
    using buffered_length [OF b] by (simp_all add: buffered_def)
qed

lemma feed_taken:
  assumes t: "taken256 m ctx" and x: "buffer_len ctx + length x \<le> 64"
  shows "taken256 (m @ x) (feed ctx x)"
proof -
  note b = taken256_buffer [OF t]
  let ?b = "sha_memcpy (buffer ctx) (buffer_len ctx) x"
  let ?n = "buffer_len ctx + length x"
  have l: "length ?b = 64" "take ?n ?b = rest 64 m @ x"
    using sha_memcpy_simps [of "buffer_len ctx" x "buffer ctx"] b x by simp_all
  have bits: "bitlen ctx + of_nat (length x) * 8 = of_nat (8 * length (m @ x))"
    using t by (simp add: taken256_def algebra_simps)
  have st: "sha_state ctx = foldl compress256 sha256_H0 (blocks 64 m)" using t by (simp add: taken256_def)
  show ?thesis
  proof (cases "?n = 64")
    case True
    then have e: "?b = rest 64 m @ x" and len: "length (rest 64 m @ x) = 64" using l b(4) by simp_all
    have "sha256_transform (sha_state ctx) ?b = compress256 (sha_state ctx) ?b" by (rule sha256_transform_eq [OF l(1)])
    then show ?thesis using True l(1) bits st unfolding taken256_def whole_block [OF len] feed_def
      by (simp add: buffered_def e)
  next
    case False
    then have len: "length (rest 64 m @ x) < 64" using x b(4) by simp
    show ?thesis using False x l bits st unfolding taken256_def part_block [OF len] feed_def
      by (simp add: buffered_def)
  qed
qed

lemma sha256_update_taken:
  "taken256 m ctx \<Longrightarrow> \<exists>ctx'. sha256_update ctx d = Ret ctx' \<and> taken256 (m @ d) ctx'"
proof (induction "length d" arbitrary: m ctx d rule: less_induct)
  case less
  show ?case
  proof (cases "d = []")
    case True
    then show ?thesis using less.prems by (simp add: sha256_update.simps)
  next
    case False
    note b = taken256_buffer [OF less.prems]
    let ?k = "min (64 - buffer_len ctx) (length d)"
    have "taken256 (m @ take ?k d) (feed ctx (take ?k d))"
      by (rule feed_taken [OF less.prems]) (use b(2) in simp)
    moreover have "length (drop ?k d) < length d" using b(2) False by simp
    ultimately have "\<exists>ctx'. sha256_update (feed ctx (take ?k d)) (drop ?k d) = Ret ctx' \<and>
        taken256 ((m @ take ?k d) @ drop ?k d) ctx'"
      by (rule less.hyps [rotated])
    then show ?thesis unfolding update_step [OF False b(2)] by (simp add: Let_def)
  qed
qed

section \<open>The digest\<close>

lemma zero_bytes_eq: "i \<le> n \<Longrightarrow> n \<le> length b \<Longrightarrow> zero_bytes i n b = take i b @ replicate (n - i) 0 @ drop n b"
proof (induction "n - i" arbitrary: i b)
  case 0
  then show ?case by (simp add: zero_bytes_def)
next
  case (Suc k)
  then have "zero_bytes i n b = zero_bytes (Suc i) n (b[i := 0])" by (simp add: zero_bytes_def upt_conv_Cons)
  also have "\<dots> = take (Suc i) (b[i := 0]) @ replicate (n - Suc i) 0 @ drop n (b[i := 0])"
    using Suc by (intro Suc.hyps(1)) auto
  also have "\<dots> = take i b @ replicate (n - i) 0 @ drop n b"
    using Suc by (simp add: take_Suc_conv_app_nth Suc_diff_Suc flip: replicate_Suc)
  finally show ?case .
qed

lemma put_length_eq: "length p = 56 \<Longrightarrow> length q = 8 \<Longrightarrow> put_length n (p @ q) = p @ write64_be n"
proof -
  assume p: "length p = 56" and "length q = 8"
  then obtain q0 q1 q2 q3 q4 q5 q6 q7 where "q = [q0, q1, q2, q3, q4, q5, q6, q7]"
    by (auto simp: length_Suc_conv numeral_eq_Suc)
  then show ?thesis using p by (simp add: put_length_def write64_be_def sha256_sizes list_update_append upt_rec)
qed

lemma length_write64_be: "length (write64_be n) = 8"
  by (simp add: write64_be_def)

text \<open>The last block, or the last two.\<close>

definition last_blocks :: "u64 \<Rightarrow> bytes \<Rightarrow> bytes list" where
  "last_blocks n r = (if length r < 56 then [r @ 0x80 # replicate (55 - length r) 0 @ write64_be n]
     else [r @ 0x80 # replicate (63 - length r) 0, replicate 56 0 @ write64_be n])"

lemma padded_blocks: "blocks 64 (sha1_pad m) = blocks 64 m @ last_blocks (of_nat (8 * length m)) (rest 64 m)"
proof -
  let ?r = "rest 64 m" and ?n = "of_nat (8 * length m) :: u64"
  let ?t = "0x80 # replicate (63 - (length m + 8) mod 64) 0 @ write64_be ?n"
  have r: "length ?r = length m mod 64" "length ?r < 64" by (simp_all add: length_rest)
  have m8: "(length m + 8) mod 64 = (length ?r + 8) mod 64" by (simp add: r(1) mod_add_left_eq)
  have single: "blocks 64 b = [b]" if "length b = 64" for b
    using blocks_cons [of 64 b "[]"] that by simp
  have "blocks 64 (?r @ ?t) = last_blocks ?n ?r"
  proof (cases "length ?r < 56")
    case True
    then have z: "63 - (length m + 8) mod 64 = 55 - length ?r" unfolding m8 by simp
    have l: "length (?r @ ?t) = 64" unfolding z using True by (simp add: length_write64_be)
    show ?thesis using True single [OF l] unfolding last_blocks_def z by simp
  next
    case False
    then have "(length ?r + 8) mod 64 = length ?r - 56" using r(2) by (simp add: mod_if)
    then have z: "replicate (63 - (length m + 8) mod 64) (0 :: u8) = replicate (63 - length ?r) 0 @ replicate 56 0"
      unfolding m8 using False r(2) by (simp flip: replicate_add)
    have "?r @ ?t = (?r @ 0x80 # replicate (63 - length ?r) 0) @ (replicate 56 0 @ write64_be ?n)"
      unfolding z by simp
    moreover have "length (?r @ 0x80 # replicate (63 - length ?r) 0) = 64" using r(2) by simp
    moreover have "length (replicate 56 (0 :: u8) @ write64_be ?n) = 64" by (simp add: length_write64_be)
    ultimately show ?thesis using False blocks_cons single unfolding last_blocks_def
      by (metis (no_types, lifting) zero_less_numeral)
  qed
  then show ?thesis using blocks_append [of 64 m ?t] by (simp add: sha1_pad_def)
qed

lemma sha256_final_taken:
  assumes t: "taken256 m ctx"
  shows "sha256_final ctx = Ret (wiped_ctx, sha256_digest m)"
proof -
  note b = taken256_buffer [OF t]
  let ?r = "rest 64 m" and ?n = "of_nat (8 * length m) :: u64"
  let ?b = "(buffer ctx)[buffer_len ctx := 0x80]" and ?i = "buffer_len ctx + 1"
  have st: "sha_state ctx = foldl compress256 sha256_H0 (blocks 64 m)" "bitlen ctx = ?n"
    using t by (simp_all add: taken256_def)
  have t80: "take ?i ?b = ?r @ [0x80]" using b by (simp add: take_Suc_conv_app_nth)
  have z: "zero_bytes ?i k ?b = ?r @ 0x80 # replicate (k - ?i) 0 @ drop k ?b" if "?i \<le> k" "k \<le> 64" for k
    using that b(1) by (subst zero_bytes_eq) (simp_all only: t80 length_list_update, simp)
  have tr: "sha256_transform s x = compress256 s x" if "length x = 64" for s x
    by (rule sha256_transform_eq [OF that])
  show ?thesis
  proof (cases "?i > 56")
    case False
    let ?l = "?r @ 0x80 # replicate (55 - length ?r) 0 @ write64_be ?n"
    have "put_length ?n (zero_bytes ?i 56 ?b) = ?l"
      using put_length_eq [of "?r @ 0x80 # replicate (56 - ?i) 0" "drop 56 ?b" ?n] z [of 56] False b by simp
    moreover have "sha256_digest m = sha256_output (compress256 (sha_state ctx) ?l)"
      using False b(4) by (simp add: sha256_digest_def padded_blocks last_blocks_def st)
    moreover have "length ?l = 64" using False b(4) by (simp add: length_write64_be)
    ultimately show ?thesis using False b(2) tr by (simp add: sha256_final_def sha256_sizes Let_def st(2))
  next
    case True
    let ?l1 = "?r @ 0x80 # replicate (63 - length ?r) 0" and ?l2 = "replicate 56 0 @ write64_be ?n"
    have "zero_bytes ?i 64 ?b = ?l1" using z [of 64] True b by simp
    moreover have "put_length ?n (zero_bytes 0 56 ?l1) = ?l2"
      using put_length_eq [of "replicate 56 0" "drop 56 ?l1" ?n] zero_bytes_eq [of 0 56 ?l1] b by simp
    moreover have "sha256_digest m = sha256_output (compress256 (compress256 (sha_state ctx) ?l1) ?l2)"
      using True b(4) by (simp add: sha256_digest_def padded_blocks last_blocks_def st)
    moreover have "length ?l1 = 64" "length ?l2 = 64" using b(2, 4) by (simp_all add: length_write64_be)
    ultimately show ?thesis using True b(2) tr by (simp add: sha256_final_def sha256_sizes Let_def st(2))
  qed
qed

section \<open>HMAC\<close>

lemma length_sha256: "length (sha256_digest m) = 32"
  by (simp add: sha256_digest_def sha256_output_def be_word_def split: prod.split)

text \<open>The streaming interface is a hash in the sense of \<open>chash\<close>, whatever its buffer holds at the start.\<close>

definition sha256_chash :: "sha256_ctx \<Rightarrow> sha256_ctx cf_chash" where
  "sha256_chash stack = \<lparr>hashsz = 32, blocksz = 64, ch_init = sha256_init stack, ch_update = sha256_update,
     ch_digest = (\<lambda>ctx. obind (sha256_final ctx) (\<lambda>(_, out). Ret out))\<rparr>"

lemma sha256_eq: "length (buffer stack) = 64 \<Longrightarrow> sha256 stack m = Ret (sha256_digest m)"
  using sha256_update_taken [OF taken256_init, of stack m] sha256_final_taken by (auto simp: sha256_def)

text \<open>The key block.\<close>

definition key_block :: "bytes \<Rightarrow> bytes" where
  "key_block key = (let k0 = (if 64 < length key then sha256_digest key else key)
     in k0 @ replicate (64 - length k0) 0)"

lemma key_block_init:
  assumes "length (buffer stack) = 64"
  shows "(if 64 < length key then obind (sha256 stack key) (\<lambda>d. Ret (sha_memcpy (replicate 64 0) 0 d))
    else Ret (sha_memcpy (replicate 64 0) 0 key)) = Ret (key_block key)"
  by (simp add: sha256_eq [OF assms] sha_memcpy_def key_block_def Let_def length_sha256)

definition hmac_taken :: "bytes \<Rightarrow> bytes \<Rightarrow> hmac_sha256_ctx \<Rightarrow> bool" where
  "hmac_taken key m ctx \<longleftrightarrow> taken256 (map (\<lambda>y. y XOR 0x36) (key_block key) @ m) (hm_inner ctx) \<and>
     taken256 (map (\<lambda>y. y XOR 0x5c) (key_block key)) (hm_outer ctx)"

lemma hmac_init_taken:
  assumes "length (buffer stack) = 64" "length (buffer (hm_inner ctx)) = 64" "length (buffer (hm_outer ctx)) = 64"
  shows "\<exists>ctx'. hmac_sha256_init stack ctx key = Ret ctx' \<and> hmac_taken key [] ctx'"
proof -
  let ?i = "map (\<lambda>y. y XOR 0x36) (key_block key)" and ?o = "map (\<lambda>y. y XOR 0x5c) (key_block key)"
  from sha256_update_taken [OF taken256_init [OF assms(2)], of ?i] sha256_update_taken [OF taken256_init [OF assms(3)], of ?o]
  obtain i out where "sha256_update (sha256_init (hm_inner ctx)) ?i = Ret i" "taken256 ?i i"
    "sha256_update (sha256_init (hm_outer ctx)) ?o = Ret out" "taken256 ?o out" by auto
  then show ?thesis using key_block_init [OF assms(1), of key]
    by (simp add: hmac_sha256_init_def sha256_sizes sha_memset_def Let_def hmac_taken_def)
qed

lemma hmac_update_taken:
  assumes "hmac_taken key m ctx"
  shows "\<exists>ctx'. hmac_sha256_update ctx d = Ret ctx' \<and> hmac_taken key (m @ d) ctx'"
  using assms sha256_update_taken [of "map (\<lambda>y. y XOR 0x36) (key_block key) @ m" "hm_inner ctx" d]
  by (auto simp: hmac_taken_def hmac_sha256_update_def)

lemma hmac_final_taken:
  assumes t: "hmac_taken key m ctx"
  shows "\<exists>ctx'. hmac_sha256_final ctx = Ret (ctx', hmac sha256_digest 64 key m)"
proof -
  let ?i = "map (\<lambda>y. y XOR 0x36) (key_block key)" and ?o = "map (\<lambda>y. y XOR 0x5c) (key_block key)"
  have 1: "sha256_final (hm_inner ctx) = Ret (wiped_ctx, sha256_digest (?i @ m))"
    by (rule sha256_final_taken) (use t in \<open>simp add: hmac_taken_def\<close>)
  from sha256_update_taken [of ?o "hm_outer ctx" "sha256_digest (?i @ m)"] t
  obtain c where 2: "sha256_update (hm_outer ctx) (sha256_digest (?i @ m)) = Ret c"
      "taken256 (?o @ sha256_digest (?i @ m)) c" by (auto simp: hmac_taken_def)
  from 1 2(1) sha256_final_taken [OF 2(2)] show ?thesis
    by (simp add: hmac_sha256_final_def hmac_def key_block_def Let_def)
qed



interpretation otp_hash: chash "sha256_chash wiped_ctx" taken256 sha256_digest "2 ^ 61"
proof (unfold_locales, unfold sha256_chash_def cf_chash.simps)
  show "taken256 [] (sha256_init wiped_ctx)"
    by (rule taken256_init) (simp add: wiped_ctx_def sha_memset_def sha256_sizes)
  show "\<exists>c'. sha256_update c d = Ret c' \<and> taken256 (m @ d) c'" if "taken256 m c" for m c d
    by (rule sha256_update_taken [OF that])
  show "obind (sha256_final c) (\<lambda>(_, out). Ret out) = Ret (sha256_digest m)"
    if "taken256 m c" "length m < 2 ^ 61" for m c
    by (simp add: sha256_final_taken [OF that(1)])
qed (simp_all add: length_sha256)

text \<open>The HMAC of the cifra library over this hash is the same function.\<close>

lemma hmacs_agree:
  assumes "length key < 2 ^ 61" "64 + length m < 2 ^ 61"
  shows "cf_hmac key m (sha256_chash wiped_ctx) = hmac_sha256 wiped_ctx \<lparr>hm_inner = wiped_ctx, hm_outer = wiped_ctx\<rparr> key m"
proof -
  have w: "length (buffer wiped_ctx) = 64" by (simp add: wiped_ctx_def sha_memset_def sha256_sizes)
  obtain c0 where 0: "hmac_sha256_init wiped_ctx \<lparr>hm_inner = wiped_ctx, hm_outer = wiped_ctx\<rparr> key = Ret c0"
      "hmac_taken key [] c0"
    using hmac_init_taken [of wiped_ctx "\<lparr>hm_inner = wiped_ctx, hm_outer = wiped_ctx\<rparr>" key] w by auto
  obtain c1 where 1: "hmac_sha256_update c0 m = Ret c1" "hmac_taken key m c1"
    using hmac_update_taken [OF 0(2), of m] by auto
  show ?thesis
    using otp_hash.cf_hmac_eq [OF assms(1)] assms(2) 0(1) 1(1) hmac_final_taken [OF 1(2)]
    by (auto simp: hmac_sha256_def sha256_chash_def)
qed

text \<open>C28. The constants of SHA-256 in hmac_sha256.h are what the standard derives them from: the 64 entries of
  the table are the first 32 bits of the fractional parts of the cube roots of the first 64 primes, in
  order, and the eight words of the initial state those of the square roots of the first eight.\<close>

theorem sha256_constants:
  "list_all2 (root_fraction 3) small_primes K256 \<and>
   list_all2 (root_fraction 2) (take 8 small_primes) (vars_list (sha_state (sha256_init ctx)))"
  using K256_roots H0_roots by blast

section \<open>The program\<close>

lemma demo_prints:
  assumes "length (buffer stack) = 64" "length (buffer (hm_inner ctx)) = 64" "length (buffer (hm_outer ctx)) = 64"
  shows "demo_main stack ctx = Ret (hex_line ''SECRET'' demo_secret @ hex_line ''COUNTER'' demo_counter @
    hex_line ''HMAC'' (hmac sha256_digest 64 demo_secret demo_counter) @
    hex_line ''OTP'' (drop 24 (hmac sha256_digest 64 demo_secret demo_counter)), 0)"
proof -
  obtain c0 where 0: "hmac_sha256_init stack ctx demo_secret = Ret c0" "hmac_taken demo_secret [] c0"
    using hmac_init_taken [OF assms] by blast
  obtain c1 where 1: "hmac_sha256_update c0 demo_counter = Ret c1" "hmac_taken demo_secret demo_counter c1"
    using hmac_update_taken [OF 0(2), of demo_counter] by auto
  show ?thesis using 0(1) 1(1) hmac_final_taken [OF 1(2)]
    by (auto simp: demo_main_def hmac_sha256_def otp_def sha256_sizes)
qed

text \<open>The secret and the counter of the example, as its comment states them.\<close>

lemma demo_inputs:
  "demo_secret = [1, 2, 3, 4, 5, 6, 7, 8, 0x11, 0x12, 0x13, 0x14, 0x15, 0x16, 0x17, 0x18]"
  "demo_counter = [0, 0, 0, 1]"
  by code_simp+

text \<open>The comparison returns 0 exactly for equal MACs.\<close>

lemma ct_memcmp_eq: "length a = n \<Longrightarrow> length b = n \<Longrightarrow> ct_memcmp a b n = 0 \<longleftrightarrow> a = b"
  by (simp add: ct_memcmp_def uint_0_iff differences_zero)

end
