(* ===== verification/Logging.thy ===== *)
theory Logging
  imports Dumps
begin

text \<open>
  Common/log.h: the levels, the text of a line and the stream it goes to. The time is an argument: the
  clock as \<^verbatim>\<open>strftime\<close> gives it and the microseconds. The streams are those the process starts with.
\<close>

section \<open>Levels\<close>

datatype TLogLevel = Log_E | Log_W | Log_I | Log_D | Log_D1 | Log_D2 | Log_D3 | Log_D4

fun level_num :: "TLogLevel \<Rightarrow> nat" where
  "level_num Log_E = 0"
| "level_num Log_W = 1"
| "level_num Log_I = 2"
| "level_num Log_D = 3"
| "level_num Log_D1 = 4"
| "level_num Log_D2 = 5"
| "level_num Log_D3 = 6"
| "level_num Log_D4 = 7"

instantiation TLogLevel :: linorder
begin

definition less_eq_TLogLevel :: "TLogLevel \<Rightarrow> TLogLevel \<Rightarrow> bool" where
  "less_eq_TLogLevel a b \<longleftrightarrow> level_num a \<le> level_num b"

definition less_TLogLevel :: "TLogLevel \<Rightarrow> TLogLevel \<Rightarrow> bool" where
  "less_TLogLevel a b \<longleftrightarrow> level_num a < level_num b"

instance
proof
  fix a b :: TLogLevel
  show "a = b" if "a \<le> b" "b \<le> a"
    using that by (cases a; cases b) (simp_all add: less_eq_TLogLevel_def)
qed (auto simp: less_eq_TLogLevel_def less_TLogLevel_def)

end

definition level_name :: "TLogLevel \<Rightarrow> string" where
  "level_name level =
     [''ERR '', ''WARN'', ''INFO'', ''DBG '', ''DBG1'', ''DBG2'', ''DBG3'', ''DBG4''] ! level_num level"

section \<open>Lines\<close>

record console =
  on_stdout :: string
  on_stderr :: string

text \<open>\<^verbatim>\<open>fprintf(pStream, "%s", msg.c_str())\<close> writes up to the first zero byte.\<close>

definition written :: "string \<Rightarrow> string" where
  "written msg = takeWhile (\<lambda>c. c \<noteq> CHR 0x00) msg"

definition Output :: "string \<Rightarrow> console \<Rightarrow> console" where
  "Output msg con = con\<lparr>on_stdout := on_stdout con @ written msg\<rparr>"

definition OutputErr :: "string \<Rightarrow> console \<Rightarrow> console" where
  "OutputErr msg con = con\<lparr>on_stderr := on_stderr con @ written msg\<rparr>"

definition NowTime :: "string \<Rightarrow> nat \<Rightarrow> string" where
  "NowTime clock usec = take 94 (clock @ ''.'' @ zeros_to 3 (decimal (usec div 1000)))"

definition log_prefix :: "string \<Rightarrow> TLogLevel \<Rightarrow> string" where
  "log_prefix now level = ''- '' @ now @ '' '' @ level_name level @ '': ''"

text \<open>\<^verbatim>\<open>CLog().Get(level) << text\<close> and \<^verbatim>\<open>RCLog().Get(level, format) << text\<close>, destructors included.\<close>

definition CLog_Get :: "string \<Rightarrow> TLogLevel \<Rightarrow> string \<Rightarrow> console \<Rightarrow> console" where
  "CLog_Get now level text' con = Output (log_prefix now level @ text' @ endl) con"

definition RCLog_Get :: "string \<Rightarrow> TLogLevel \<Rightarrow> sedutiloutput \<Rightarrow> string \<Rightarrow> console \<Rightarrow> console" where
  "RCLog_Get now level format text' con =
     (let os = (if format = sedutilNormal then log_prefix now level else []) @ text' @ endl
      in if level = Log_I \<and> format \<noteq> sedutilNormal then Output os con else OutputErr os con)"

text \<open>\<^verbatim>\<open>LOG(level) << text\<close>, with the level the program is set to; \<^verbatim>\<open>IFLOG\<close> guards a call.\<close>

definition LOG :: "TLogLevel \<Rightarrow> sedutiloutput \<Rightarrow> string \<Rightarrow> TLogLevel \<Rightarrow> string \<Rightarrow> console \<Rightarrow> console" where
  "LOG limit format now level text' con =
     (if level > Log_D4 then con
      else if level > limit then con
      else RCLog_Get now level format text' con)"

definition IFLOG :: "TLogLevel \<Rightarrow> TLogLevel \<Rightarrow> (console \<Rightarrow> console) \<Rightarrow> console \<Rightarrow> console" where
  "IFLOG limit level call con =
     (if level > Log_D4 then con
      else if level > limit then con
      else call con)"

section \<open>Reading a level\<close>

definition unknown_level :: "string \<Rightarrow> string" where
  "unknown_level text' = ''Unknown logging level '' @ [CHR 0x27] @ text' @ [CHR 0x27] @ ''. Using INFO level as default.''"

definition int_text :: "int \<Rightarrow> string" where
  "int_text n = (if n < 0 then ''-'' @ decimal (nat (- n)) else decimal (nat n))"

definition known_int :: "int \<Rightarrow> TLogLevel option" where
  "known_int level =
     (if level = 7 then Some Log_D4
      else if level = 6 then Some Log_D3
      else if level = 5 then Some Log_D2
      else if level = 4 then Some Log_D1
      else if level = 3 then Some Log_D
      else if level = 2 then Some Log_I
      else if level = 1 then Some Log_W
      else if level = 0 then Some Log_E
      else None)"

definition known_string :: "string \<Rightarrow> TLogLevel option" where
  "known_string level =
     (if level = ''DEBUG4'' then Some Log_D4
      else if level = ''DEBUG3'' then Some Log_D3
      else if level = ''DEBUG2'' then Some Log_D2
      else if level = ''DEBUG1'' then Some Log_D1
      else if level = ''DEBUG'' then Some Log_D
      else if level = ''INFO'' then Some Log_I
      else if level = ''WARN'' then Some Log_W
      else if level = ''ERROR'' then Some Log_E
      else None)"

text \<open>The two classes differ in where the warning goes.\<close>

definition CLog_FromInt :: "string \<Rightarrow> int \<Rightarrow> console \<Rightarrow> TLogLevel \<times> console" where
  "CLog_FromInt now level con = (case known_int level of Some l \<Rightarrow> (l, con)
     | None \<Rightarrow> (Log_I, CLog_Get now Log_W (unknown_level (int_text level)) con))"

definition RCLog_FromInt :: "string \<Rightarrow> int \<Rightarrow> console \<Rightarrow> TLogLevel \<times> console" where
  "RCLog_FromInt now level con = (case known_int level of Some l \<Rightarrow> (l, con)
     | None \<Rightarrow> (Log_I, RCLog_Get now Log_W sedutilNormal (unknown_level (int_text level)) con))"

definition CLog_FromString :: "string \<Rightarrow> string \<Rightarrow> console \<Rightarrow> TLogLevel \<times> console" where
  "CLog_FromString now level con = (case known_string level of Some l \<Rightarrow> (l, con)
     | None \<Rightarrow> (Log_I, CLog_Get now Log_W (unknown_level level) con))"

definition RCLog_FromString :: "string \<Rightarrow> string \<Rightarrow> console \<Rightarrow> TLogLevel \<times> console" where
  "RCLog_FromString now level con = (case known_string level of Some l \<Rightarrow> (l, con)
     | None \<Rightarrow> (Log_I, RCLog_Get now Log_W sedutilNormal (unknown_level level) con))"

text \<open>What an argument that starts with a character and a v adds to the level of the program, in 16 bits.\<close>

definition raise_level :: "u16 \<Rightarrow> cstr \<Rightarrow> u16" where
  "raise_level loggingLevel arg =
     (let l = loggingLevel + of_nat (length arg - 1) in if l > 7 then 7 else l)"

section \<open>What the levels do\<close>

lemma known_level_num: "known_int (int (level_num l)) = Some l"
  by (cases l) (simp_all add: known_int_def)

lemma known_int_iff: "known_int n \<noteq> None \<longleftrightarrow> 0 \<le> n \<and> n \<le> 7"
  by (auto simp: known_int_def)

text \<open>The program only asks for levels that exist, so no warning is written.\<close>

lemma raise_level_known: "\<exists>k. RCLog_FromInt now (uint (raise_level l arg)) con = (k, con)"
proof -
  have "raise_level l arg \<le> 7" by (auto simp: raise_level_def Let_def not_less)
  then have "uint (raise_level l arg) \<le> 7" by (simp add: word_le_def)
  then have "known_int (uint (raise_level l arg)) \<noteq> None" unfolding known_int_iff by simp
  then show ?thesis by (auto simp: RCLog_FromInt_def)
qed

lemma level_le_D4 [simp]: "\<not> Log_D4 < l"
  by (cases l) (simp_all add: less_TLogLevel_def)

text \<open>In the readable format the information lines are all there is on stdout, without a time, and
  nothing else; in the format of the log everything is on stderr.\<close>

lemma stdout_is_information:
  "on_stdout (LOG limit sedutilReadable now level text' con) =
     on_stdout con @ (if level = Log_I \<and> Log_I \<le> limit then written (text' @ endl) else [])"
  "on_stdout (LOG limit sedutilNormal now level text' con) = on_stdout con"
  by (auto simp: LOG_def RCLog_Get_def Output_def OutputErr_def Let_def)

text \<open>A higher level only adds lines.\<close>

lemma quiet_is_shorter:
  assumes "limit \<le> limit'"
  shows "LOG limit format now level text' con = LOG limit' format now level text' con \<or>
    LOG limit format now level text' con = con"
  using assms by (auto simp: LOG_def)

text \<open>The sum wraps: an argument of 65535 characters sets the level to errors only.\<close>

lemma raise_level_wraps: "length arg = 65535 \<Longrightarrow> raise_level 2 arg = 0"
  by (simp add: raise_level_def Let_def)

end
