(* ===== verification/Structures.thy ===== *)
theory Structures
  imports LinuxTarget
begin

text \<open>
  The packed structures of Common/DtaStructures.h: their fields in order, with their widths in bits. A bit
  field of a byte takes the low bits first, as the compilers of both builds lay it out. The model reads
  and writes them at fixed positions; here those are derived from the declarations.
\<close>

section \<open>Layouts\<close>

type_synonym layout = "(string \<times> nat) list"

fun pos :: "layout \<Rightarrow> string \<Rightarrow> nat" where
  "pos [] f = 0"
| "pos ((g, w) # L) f = (if g = f then 0 else w + pos L f)"

fun bits_of :: "layout \<Rightarrow> string \<Rightarrow> nat" where
  "bits_of [] f = 0"
| "bits_of ((g, w) # L) f = (if g = f then w else bits_of L f)"

definition size_of :: "layout \<Rightarrow> nat" where
  "size_of L = sum_list (map snd L) div 8"

definition Discovery0Header :: layout where
  "Discovery0Header = [(''length'', 32), (''revision'', 32), (''reserved01'', 32), (''reserved02'', 32)]"

definition Discovery0TPerFeatures :: layout where
  "Discovery0TPerFeatures = [(''featureCode'', 16), (''reserved_v'', 4), (''version'', 4), (''length'', 8),
     (''sync'', 1), (''async'', 1), (''acknack'', 1), (''bufferManagement'', 1),
     (''streaming'', 1), (''reserved02'', 1), (''comIDManagement'', 1), (''reserved01'', 1),
     (''reserved03'', 32), (''reserved04'', 32), (''reserved05'', 32)]"

definition Discovery0LockingFeatures :: layout where
  "Discovery0LockingFeatures = [(''featureCode'', 16), (''reserved_v'', 4), (''version'', 4), (''length'', 8),
     (''lockingSupported'', 1), (''lockingEnabled'', 1), (''locked'', 1),
     (''mediaEncryption'', 1), (''MBREnabled'', 1), (''MBRDone'', 1), (''reserved01'', 1),
     (''reserved02'', 1), (''reserved03'', 32), (''reserved04'', 32), (''reserved05'', 32)]"

definition Discovery0GeometryFeatures :: layout where
  "Discovery0GeometryFeatures = [(''featureCode'', 16), (''reserved_v'', 4), (''version'', 4), (''length'', 8),
     (''align'', 1), (''reserved01'', 7), (''reserved02'', 56), (''logicalBlockSize'', 32),
     (''alignmentGranularity'', 64), (''lowestAlighedLBA'', 64)]"

definition Discovery0EnterpriseSSC :: layout where
  "Discovery0EnterpriseSSC = [(''featureCode'', 16), (''reserved_v'', 4), (''version'', 4), (''length'', 8),
     (''baseComID'', 16), (''numberComIDs'', 16), (''rangeCrossing'', 1), (''reserved01'', 7),
     (''reserved02'', 8), (''reserved03'', 16), (''reserved04'', 32), (''reserved05'', 32)]"

definition Discovery0OpalV100 :: layout where
  "Discovery0OpalV100 = [(''featureCode'', 16), (''reserved_v'', 4), (''version'', 4), (''length'', 8),
     (''baseComID'', 16), (''numberComIDs'', 16)]"

definition Discovery0SingleUserMode :: layout where
  "Discovery0SingleUserMode = [(''featureCode'', 16), (''reserved_v'', 4), (''version'', 4), (''length'', 8),
     (''numberLockingObjects'', 32), (''any'', 1), (''all'', 1), (''policy'', 1),
     (''reserved01'', 5), (''reserved02'', 8), (''reserved03'', 16), (''reserved04'', 32)]"

definition Discovery0BlockSIDAuthentication :: layout where
  "Discovery0BlockSIDAuthentication = [(''featureCode'', 16), (''reserved_v'', 4), (''version'', 4), (''length'', 8),
     (''sidValueState'', 1), (''sidBlockedState'', 1), (''reserved01'', 6),
     (''hardwareReset'', 1), (''reserved02'', 7), (''reserved03'', 16), (''reserved04'', 32),
     (''reserved05'', 32)]"

definition Discovery0Configurable_Namespace_LockingFeature :: layout where
  "Discovery0Configurable_Namespace_LockingFeature =
    [(''featureCode'', 16), (''reserved_v'', 4), (''version'', 4), (''length'', 8),
     (''reserved02'', 6), (''range_P'', 1), (''range_C'', 1), (''reserved03'', 24),
     (''Max_Key_Count'', 32), (''Unused_Key_Count'', 32), (''Max_Range_Per_NS'', 32)]"

definition Discovery0DatastoreTable :: layout where
  "Discovery0DatastoreTable = [(''featureCode'', 16), (''reserved_v'', 4), (''version'', 4), (''length'', 8),
     (''reserved01'', 16), (''maxTables'', 16), (''maxSizeTables'', 32),
     (''tableSizeAlignment'', 32)]"

definition Discovery0OPALV200 :: layout where
  "Discovery0OPALV200 = [(''featureCode'', 16), (''reserved_v'', 4), (''version'', 4), (''length'', 8),
     (''baseCommID'', 16), (''numCommIDs'', 16), (''rangeCrossing'', 1), (''reserved01'', 7),
     (''numlockingAdminAuth'', 16), (''numlockingUserAuth'', 16), (''initialPIN'', 8),
     (''revertedPIN'', 8), (''reserved02'', 8), (''reserved03'', 32)]"

definition OPALComPacket :: layout where
  "OPALComPacket = [(''reserved0'', 32), (''extendedComID'', 32), (''outstandingData'', 32),
     (''minTransfer'', 32), (''length'', 32)]"

definition OPALPacket :: layout where
  "OPALPacket = [(''TSN'', 32), (''HSN'', 32), (''seqNumber'', 32), (''reserved0'', 16), (''ackType'', 16),
     (''acknowledgement'', 32), (''length'', 32)]"

definition OPALDataSubPacket :: layout where
  "OPALDataSubPacket = [(''reserved0'', 48), (''kind'', 16), (''length'', 32)]"

definition IDENTIFY_RESPONSE :: layout where
  "IDENTIFY_RESPONSE = [(''reserved0'', 8), (''reserved1'', 7), (''devType'', 1), (''reserved2'', 144),
     (''serialNum'', 160), (''reserved3'', 48), (''firmwareRev'', 64), (''modelNum'', 320)]"

definition UASP_INQUIRY_RESPONSE :: layout where
  "UASP_INQUIRY_RESPONSE = [(''fill1'', 160), (''ProductSerial'', 160), (''fill2'', 48), (''ProductRev'', 64),
     (''ProductID'', 320)]"

definition SCSI_INQUIRY_RESPONSE :: layout where
  "SCSI_INQUIRY_RESPONSE = [(''fill1'', 128), (''ProductID'', 128), (''ProductRev'', 32)]"

definition CScsiCmdInquiry :: layout where
  "CScsiCmdInquiry = [(''m_Opcode'', 8), (''m_EVPD'', 1), (''m_Reserved_1'', 7), (''m_PageCode'', 8),
     (''m_AllocationLength'', 16), (''m_Control'', 8)]"

definition CScsiCmdInquiry_StandardData :: layout where
  "CScsiCmdInquiry_StandardData = [(''m_PeripheralDeviceType'', 5), (''m_PeripheralQualifier'', 3), (''m_Reserved_1'', 6),
     (''m_LUCong'', 1), (''m_RMB'', 1), (''m_Version'', 8), (''m_ResponseDataFormat'', 4),
     (''m_HiSup'', 1), (''m_NormACA'', 1), (''m_Reserved_2'', 1), (''m_Reserved_3'', 1),
     (''m_AdditionalLength'', 8), (''m_Protect'', 1), (''m_Reserved_4'', 2), (''m_3PC'', 1),
     (''m_TPGS'', 2), (''m_ACC'', 1), (''m_SCCS'', 1), (''m_ADDR16'', 1), (''m_Reserved_5'', 2),
     (''m_Obsolete_1'', 1), (''m_MultiP'', 1), (''m_VS1'', 1), (''m_EncServ'', 1),
     (''m_Obsolete_2'', 1), (''m_VS2'', 1), (''m_CmdQue'', 1), (''m_Reserved_6'', 1),
     (''m_Obsolete_3'', 1), (''m_Sync'', 1), (''m_WBus16'', 1), (''m_Reserved_7'', 1),
     (''m_Obsolete_4'', 1), (''m_T10VendorId'', 64), (''m_ProductId'', 128),
     (''m_ProductRevisionLevel'', 32)]"

definition CScsiCmdSecurityProtocolIn :: layout where
  "CScsiCmdSecurityProtocolIn = [(''m_Opcode'', 8), (''m_SecurityProtocol'', 8), (''m_SecurityProtocolSpecific'', 16),
     (''m_Reserved_1'', 7), (''m_INC_512'', 1), (''m_Reserved_2'', 8),
     (''m_AllocationLength'', 32), (''m_Reserved_3'', 8), (''m_Control'', 8)]"

definition CScsiCmdSecurityProtocolOut :: layout where
  "CScsiCmdSecurityProtocolOut = [(''m_Opcode'', 8), (''m_SecurityProtocol'', 8), (''m_SecurityProtocolSpecific'', 16),
     (''m_Reserved_1'', 7), (''m_INC_512'', 1), (''m_Reserved_2'', 8),
     (''m_TransferLength'', 32), (''m_Reserved_3'', 8), (''m_Control'', 8)]"

section \<open>Fields of a structure at an address\<close>

definition flag :: "bytes \<Rightarrow> nat \<Rightarrow> layout \<Rightarrow> string \<Rightarrow> bool" where
  "flag m q L f = bit (peek m (q + pos L f div 8)) (pos L f mod 8)"

definition small :: "bytes \<Rightarrow> nat \<Rightarrow> layout \<Rightarrow> string \<Rightarrow> u8" where
  "small m q L f = take_bit (bits_of L f) (drop_bit (pos L f mod 8) (peek m (q + pos L f div 8)))"

definition word16 :: "bytes \<Rightarrow> nat \<Rightarrow> layout \<Rightarrow> string \<Rightarrow> u16" where
  "word16 m q L f = SWAP16 (load16 m (q + pos L f div 8))"

definition word32 :: "bytes \<Rightarrow> nat \<Rightarrow> layout \<Rightarrow> string \<Rightarrow> u32" where
  "word32 m q L f = SWAP32 (load32 m (q + pos L f div 8))"

definition word64 :: "bytes \<Rightarrow> nat \<Rightarrow> layout \<Rightarrow> string \<Rightarrow> u64" where
  "word64 m q L f = SWAP64 (load64 m (q + pos L f div 8))"

lemma byte_fields:
  fixes x :: u8
  shows "take_bit 8 x = x" "take_bit 4 (drop_bit 4 x) = drop_bit 4 x" "x mod 2 = x AND 1"
    "take_bit (Suc 0) x = x AND 1"
proof -
  show "take_bit 8 x = x" using take_bit_length_eq [of x] by simp
  show "take_bit 4 (drop_bit 4 x) = drop_bit 4 x"
    by (rule bit_word_eqI) (auto simp: bit_take_bit_iff bit_drop_bit_eq dest: bit_imp_le_length)
  show "x mod 2 = x AND 1" by (simp add: and_one_eq)
  then show "take_bit (Suc 0) x = x AND 1" by (simp add: take_bit_Suc)
qed

lemmas fields = flag_def small_def word16_def word32_def word64_def

section \<open>Discovery 0 by field names\<close>

text \<open>The assignments of the parser as the code names them, over the declared structures.\<close>

definition declared_tper :: "bytes \<Rightarrow> nat \<Rightarrow> opal_disk_info \<Rightarrow> opal_disk_info" where
  "declared_tper m q d = (let L = Discovery0TPerFeatures in d\<lparr>
     TPer := True, TPer_ACKNACK := flag m q L ''acknack'',
     TPer_async := flag m q L ''async'', TPer_bufferMgt := flag m q L ''bufferManagement'',
     TPer_comIDMgt := flag m q L ''comIDManagement'',
     TPer_streaming := flag m q L ''streaming'', TPer_sync := flag m q L ''sync''\<rparr>)"

definition declared_locking :: "bytes \<Rightarrow> nat \<Rightarrow> opal_disk_info \<Rightarrow> opal_disk_info" where
  "declared_locking m q d = (let L = Discovery0LockingFeatures in d\<lparr>
     Locking := True, Locking_locked := flag m q L ''locked'',
     Locking_lockingEnabled := flag m q L ''lockingEnabled'',
     Locking_lockingSupported := flag m q L ''lockingSupported'',
     Locking_MBRDone := flag m q L ''MBRDone'',
     Locking_MBREnabled := flag m q L ''MBREnabled'',
     Locking_mediaEncrypt := flag m q L ''mediaEncryption''\<rparr>)"

definition declared_geometry :: "bytes \<Rightarrow> nat \<Rightarrow> opal_disk_info \<Rightarrow> opal_disk_info" where
  "declared_geometry m q d = (let L = Discovery0GeometryFeatures in d\<lparr>
     Geometry := True, Geometry_align := flag m q L ''align'',
     Geometry_alignmentGranularity := word64 m q L ''alignmentGranularity'',
     Geometry_logicalBlockSize := word32 m q L ''logicalBlockSize'',
     Geometry_lowestAlignedLBA := word64 m q L ''lowestAlighedLBA''\<rparr>)"

definition declared_enterprise :: "bytes \<Rightarrow> nat \<Rightarrow> opal_disk_info \<Rightarrow> opal_disk_info" where
  "declared_enterprise m q d = (let L = Discovery0EnterpriseSSC in d\<lparr>
     Enterprise := True, ANY_OPAL_SSC := True,
     Enterprise_rangeCrossing := flag m q L ''rangeCrossing'',
     Enterprise_basecomID := word16 m q L ''baseComID'',
     Enterprise_numcomID := word16 m q L ''numberComIDs''\<rparr>)"

definition declared_opalv100 :: "bytes \<Rightarrow> nat \<Rightarrow> opal_disk_info \<Rightarrow> opal_disk_info" where
  "declared_opalv100 m q d = (let L = Discovery0OpalV100 in d\<lparr>
     OPAL10 := True, ANY_OPAL_SSC := True, OPAL10_basecomID := word16 m q L ''baseComID'',
     OPAL10_numcomIDs := word16 m q L ''numberComIDs''\<rparr>)"

definition declared_singleuser :: "bytes \<Rightarrow> nat \<Rightarrow> opal_disk_info \<Rightarrow> opal_disk_info" where
  "declared_singleuser m q d = (let L = Discovery0SingleUserMode in d\<lparr>
     SingleUser := True, SingleUser_all := flag m q L ''all'',
     SingleUser_any := flag m q L ''any'', SingleUser_policy := flag m q L ''policy'',
     SingleUser_lockingObjects := word32 m q L ''numberLockingObjects''\<rparr>)"

definition declared_datastore :: "bytes \<Rightarrow> nat \<Rightarrow> opal_disk_info \<Rightarrow> opal_disk_info" where
  "declared_datastore m q d = (let L = Discovery0DatastoreTable in d\<lparr>
     DataStore := True, DataStore_maxTables := word16 m q L ''maxTables'',
     DataStore_maxTableSize := word32 m q L ''maxSizeTables'',
     DataStore_alignment := word32 m q L ''tableSizeAlignment''\<rparr>)"

definition declared_opalv200 :: "bytes \<Rightarrow> nat \<Rightarrow> opal_disk_info \<Rightarrow> opal_disk_info" where
  "declared_opalv200 m q d = (let L = Discovery0OPALV200 in d\<lparr>
     OPAL20 := True, ANY_OPAL_SSC := True, OPAL20_basecomID := word16 m q L ''baseCommID'',
     OPAL20_initialPIN := small m q L ''initialPIN'',
     OPAL20_revertedPIN := small m q L ''revertedPIN'',
     OPAL20_numcomIDs := word16 m q L ''numCommIDs'',
     OPAL20_numAdmins := word16 m q L ''numlockingAdminAuth'',
     OPAL20_numUsers := word16 m q L ''numlockingUserAuth'',
     OPAL20_rangeCrossing := small m q L ''rangeCrossing''\<rparr>)"

definition declared_blocksid :: "bytes \<Rightarrow> nat \<Rightarrow> opal_disk_info \<Rightarrow> opal_disk_info" where
  "declared_blocksid m q d = (let L = Discovery0BlockSIDAuthentication in d\<lparr>
     BlockSIDAuthentication := True,
     BlockSIDAuthentication_SIDValueState := flag m q L ''sidValueState'',
     BlockSIDAuthentication_SIDBlockedState := flag m q L ''sidBlockedState'',
     BlockSIDAuthentication_HardwareReset := flag m q L ''hardwareReset''\<rparr>)"

definition declared_nslocking :: "bytes \<Rightarrow> nat \<Rightarrow> opal_disk_info \<Rightarrow> opal_disk_info" where
  "declared_nslocking m q d = (let L = Discovery0Configurable_Namespace_LockingFeature in d\<lparr>
     NSLocking := True, NSLocking_version := small m q L ''version'',
     NSLocking_length := small m q L ''length'',
     NSLocking_range_P := small m q L ''range_P'',
     NSLocking_range_C := small m q L ''range_C'',
     NSLocking_Max_Key_Count := word32 m q L ''Max_Key_Count'',
     NSLocking_Unused_Key_Count := word32 m q L ''Unused_Key_Count'',
     NSLocking_Max_Range_Per_NS := word32 m q L ''Max_Range_Per_NS''\<rparr>)"

definition declared_nsgeometry :: "bytes \<Rightarrow> nat \<Rightarrow> opal_disk_info \<Rightarrow> opal_disk_info" where
  "declared_nsgeometry m q d = (let L = Discovery0GeometryFeatures in d\<lparr>
     NSGeometry := True, NSGeometry_version := small m q L ''version'',
     NSGeometry_length := small m q L ''length'', NSGeometry_align := small m q L ''align'',
     NSGeometry_alignmentGranularity := word64 m q L ''alignmentGranularity'',
     NSGeometry_logicalBlockSize := word32 m q L ''logicalBlockSize'',
     NSGeometry_lowestAlignedLBA := word64 m q L ''lowestAlighedLBA''\<rparr>)"

lemma declared_tper: "tper_feature m q d = declared_tper m q d"
  by (simp add: tper_feature_def declared_tper_def Discovery0TPerFeatures_def fields Let_def byte_fields)

lemma declared_locking: "locking_feature m q d = declared_locking m q d"
  by (simp add: locking_feature_def declared_locking_def Discovery0LockingFeatures_def fields Let_def byte_fields)

lemma declared_geometry: "geometry_feature m q d = declared_geometry m q d"
  by (simp add: geometry_feature_def declared_geometry_def Discovery0GeometryFeatures_def fields Let_def byte_fields)

lemma declared_enterprise: "enterprise_feature m q d = declared_enterprise m q d"
  by (simp add: enterprise_feature_def declared_enterprise_def Discovery0EnterpriseSSC_def fields Let_def byte_fields)

lemma declared_opalv100: "opalv100_feature m q d = declared_opalv100 m q d"
  by (simp add: opalv100_feature_def declared_opalv100_def Discovery0OpalV100_def fields Let_def byte_fields)

lemma declared_singleuser: "singleuser_feature m q d = declared_singleuser m q d"
  by (simp add: singleuser_feature_def declared_singleuser_def Discovery0SingleUserMode_def fields Let_def byte_fields)

lemma declared_datastore: "datastore_feature m q d = declared_datastore m q d"
  by (simp add: datastore_feature_def declared_datastore_def Discovery0DatastoreTable_def fields Let_def byte_fields)

lemma declared_opalv200: "opalv200_feature m q d = declared_opalv200 m q d"
  by (simp add: opalv200_feature_def declared_opalv200_def Discovery0OPALV200_def fields Let_def byte_fields)

lemma declared_blocksid: "blocksid_feature m q d = declared_blocksid m q d"
  by (simp add: blocksid_feature_def declared_blocksid_def Discovery0BlockSIDAuthentication_def fields Let_def byte_fields)

lemma declared_nslocking: "nslocking_feature m q d = declared_nslocking m q d"
  by (simp add: nslocking_feature_def declared_nslocking_def Discovery0Configurable_Namespace_LockingFeature_def fields Let_def byte_fields)

lemma declared_nsgeometry: "nsgeometry_feature m q d = declared_nsgeometry m q d"
  by (simp add: nsgeometry_feature_def declared_nsgeometry_def Discovery0GeometryFeatures_def fields Let_def byte_fields)

lemmas declared_features = declared_tper declared_locking declared_geometry declared_enterprise declared_opalv100 declared_singleuser declared_datastore declared_opalv200 declared_blocksid declared_nslocking declared_nsgeometry

section \<open>Headers and command blocks\<close>

text \<open>The bytes in front of a field of the header of a packet: three structures, one behind the other.\<close>

lemma header_positions:
  "size_of OPALComPacket = sizeof_OPALComPacket"
  "size_of OPALComPacket + size_of OPALPacket + size_of OPALDataSubPacket = sizeof_OPALHeader"
  "pos OPALComPacket ''extendedComID'' = 8 * off_extendedComID"
  "pos OPALComPacket ''outstandingData'' = 8 * off_outstandingData"
  "pos OPALComPacket ''minTransfer'' = 8 * off_minTransfer" "pos OPALComPacket ''length'' = 8 * off_cp_length"
  "8 * size_of OPALComPacket + pos OPALPacket ''TSN'' = 8 * off_TSN"
  "8 * size_of OPALComPacket + pos OPALPacket ''HSN'' = 8 * off_HSN"
  "8 * size_of OPALComPacket + pos OPALPacket ''length'' = 8 * off_pkt_length"
  "8 * (size_of OPALComPacket + size_of OPALPacket) + pos OPALDataSubPacket ''length'' = 8 * off_subpkt_length"
  by code_simp+

text \<open>The security protocol commands, and the inquiry with the data it asks for.\<close>

lemma security_protocol_block:
  fixes cmd p c len
  defines "L \<equiv> (if cmd = IF_RECV then CScsiCmdSecurityProtocolIn else CScsiCmdSecurityProtocolOut)"
    and "b \<equiv> sas_cdb cmd p c len"
  shows "length b = size_of L" "small b 0 L ''m_Opcode'' = (if cmd = IF_RECV then 0xa2 else 0xb5)"
    "small b 0 L ''m_SecurityProtocol'' = p" "word16 b 0 L ''m_SecurityProtocolSpecific'' = c"
    "flag b 0 L ''m_INC_512''"
    "word32 b 0 L (if cmd = IF_RECV then ''m_AllocationLength'' else ''m_TransferLength'') = len div 512"
proof -
  note defs = L_def b_def sas_cdb_def fields size_of_def CScsiCmdSecurityProtocolIn_def
    CScsiCmdSecurityProtocolOut_def byte_fields
  show "length b = size_of L" "small b 0 L ''m_Opcode'' = (if cmd = IF_RECV then 0xa2 else 0xb5)"
    "small b 0 L ''m_SecurityProtocol'' = p" "flag b 0 L ''m_INC_512''"
    by (simp_all add: defs peek_def)
  have "SWAP16 (load16 b 2) = c" by (rule load16_swapped) (simp_all add: b_def sas_cdb_def peek_def)
  then show "word16 b 0 L ''m_SecurityProtocolSpecific'' = c"
    by (simp add: L_def fields CScsiCmdSecurityProtocolIn_def CScsiCmdSecurityProtocolOut_def)
  have s: "length (be32 (len div 512)) = 4" by simp
  have "SWAP32 (load32 b 6) = len div 512"
    by (rule load32_be32) (simp add: b_def sas_cdb_def peek_def s nth_append)
  then show "word32 b 0 L (if cmd = IF_RECV then ''m_AllocationLength'' else ''m_TransferLength'') = len div 512"
    by (simp add: L_def fields CScsiCmdSecurityProtocolIn_def CScsiCmdSecurityProtocolOut_def)
qed

text \<open>The inquiry asks for exactly the standard data; the identification data of ATA drives.\<close>

lemma inquiry_block:
  "length inquiry_cdb = size_of CScsiCmdInquiry" "small inquiry_cdb 0 CScsiCmdInquiry ''m_Opcode'' = 0x12"
  "unat (word16 inquiry_cdb 0 CScsiCmdInquiry ''m_AllocationLength'') = size_of CScsiCmdInquiry_StandardData"
  by code_simp+

lemma identification_positions:
  "pos IDENTIFY_RESPONSE ''serialNum'' = 8 * 20" "pos IDENTIFY_RESPONSE ''firmwareRev'' = 8 * 46"
  "pos IDENTIFY_RESPONSE ''modelNum'' = 8 * 54" "pos IDENTIFY_RESPONSE ''devType'' = 8 + 7"
  "pos CScsiCmdInquiry_StandardData ''m_T10VendorId'' = 8 * 8" "pos CScsiCmdInquiry_StandardData ''m_ProductId'' = 8 * 16"
  "pos CScsiCmdInquiry_StandardData ''m_ProductRevisionLevel'' = 8 * 32"
  by code_simp+


end
