(* ===== verification/Spec2Isabelle.thy ===== *)
theory Spec2Isabelle
  imports CommandLine Usage PreBootCorrect DumpsCorrect DiskTypes EntRuns SessionNumbers HmacOtpCorrect Logging Structures
begin

text \<open>
  A model of sedutil (src/Common, src/linux, src/windows, src/LinuxPBA), the program that manages
  self-encrypting drives, and the theorems that make it correct.

  The program. \<^verbatim>\<open>main\<close> (Common/sedutil.cpp) parses the command line (Common/DtaOptions.cpp), opens
  the drive through the platform layer (linux/DtaDevOS.cpp or windows/DtaDevOS.cpp, with a drive
  class for each kind of disk), reads Discovery 0 (Common/DtaDev.cpp), makes a device object of the
  class the drive announces (Opal 1, Opal 2, Enterprise, or a generic class that does nothing) and
  calls one method of it. A method (Common/DtaDevOpal.cpp, Common/DtaDevEnterprise.cpp) makes a
  session object (Common/DtaSession.cpp), starts a session with the hash of a password
  (Common/DtaHashPwd.cpp, Common/pbkdf2), encodes method calls into a command buffer
  (Common/DtaCommand.cpp), sends them, polls for the reply, parses it (Common/DtaResponse.cpp) and
  deletes the session, whose destructor closes it on the drive. The pre-boot program (LinuxPBA)
  reads a pass-phrase from the keyboard and unlocks every drive it finds with the same methods. Beside
  it, linux/TEST/tools/hmac_otp is a program of its own: the generator of the one-time passwords of the
  heart-beat test.

  Theories that hold the model, in the order the code builds up:
  \<^item> Prelude: machine integers, the outcome of a call (\<open>Ret\<close> a value, \<open>ExitFail\<close>
    \<^verbatim>\<open>exit(EXIT_FAILURE)\<close> or a failed assertion, \<open>Undef\<close> undefined behaviour, \<open>Diverge\<close> a loop that
    never ends), operations that pass a state, memory blocks, byte swapping, error codes, the C
    library functions on strings.
  \<^item> Lexicon: the tables of UIDs and methods, the tokens and status codes (Common/DtaLexicon.h).
  \<^item> Command, Response: the command buffer with every \<open>addToken\<close>, and the parser of a reply with its
    accessors.
  \<^item> DiskInfo, Device: \<open>OPAL_DiskInfo\<close> and the feature descriptors, the state of a device object, the
    requests to the disk, Discovery 0 and password hashing. The record \<open>env\<close> is the world outside:
    the drive classes, the key derivation, the allocator's address, the files.
  \<^item> Session: \<open>exec\<close> with its receive loop, the status of a reply, starting, authenticating and
    ending a session.
  \<^item> OpalTables, OpalRanges, OpalAdmin: the operations of the Opal class; EntTables, EntRanges: those
    of the Enterprise class; OpalClient, EntClient: that every one of them keeps the contract of
    Client. Interface: the calls of the virtual methods as data, and \<open>invoke\<close>, their dispatch on the
    class.
  \<^item> Options, Listing, Sedutil: the command line, what the program prints about a drive, \<open>main\<close>.
  \<^item> Cifra: the part of the vendored library the program calls, SHA-1 with its block buffering, HMAC
    and PBKDF2, in the order of its files. Bitops: its other operations, the byte orders, rotations,
    masks and counters of bitops.h, the key stream of blockwise.c, the comparison of handy.h.
  \<^item> HmacOtp: SHA-256 and HMAC-SHA256 of hmac_sha256.h and the program hmac_otp_demo.c.
  \<^item> LinuxDrives: the Linux drive classes (linux/DtaDevLinuxSata.cpp, DtaDevLinuxNvme.cpp,
    DtaDevOS.cpp) down to the SCSI and NVMe command blocks; \<open>linux_env\<close> is the \<open>env\<close> they make,
    with the key derivation of Cifra.
  \<^item> WinDrives: the same of the Windows build (windows/DtaDisk*.cpp, DtaDevOS.cpp), with \<open>windows_env\<close>.
  \<^item> PreBoot: the pass-phrase prompt over the keys typed, the loop that unlocks the drives, the
    decision to restart.
  \<^item> Dumps: the hexadecimal and the annotated dump, as functions from a buffer to a text.
  \<^item> Logging: the levels, the text of a log line and the stream it goes to (Common/log.h).

  Theories that hold the proofs:
  \<^item> Packet, Codec, Framing: what a command buffer holds after the calls that built it, a reference
    encoder of tokens, the packet a completed command is, and that the parser reads back what the
    encoder wrote; the tokenizer never reads behind the buffer.
  \<^item> Client, Transport, Scripted: contracts as locales with their interpretations on the model.
    \<open>op_frame\<close> is a preorder over the exchange of commands, \<open>session_ops\<close> one that the session object
    keeps from its construction to its deletion, \<open>session_client\<close> one over every local update,
    \<open>transport\<close> one over single requests; every operation is a client of \<open>session_ops\<close>. Which requests a
    call can make, and what it leaves alone.
  \<^item> Wire, Exchange, Effects: a device that records its requests (\<open>traced\<close>), one exchange of a command
    and its reply, what the drive has accepted when a call returns success.
  \<^item> Discipline: sessions are opened and closed in pairs.
  \<^item> OpalEffects, OpalFlows, PbaImage: the meaning of success of the Opal operations, of the set-up
    and the revert as a whole, and of writing the shadow MBR image block by block. EntEffects: the same
    for the Enterprise class, whose sessions need a sign-in the drive grants (\<open>accepts\<close>, \<open>granted\<close>).
  \<^item> SessionTrace: one session on the wire from StartSession to EndSession, with the numbers the drive
    gave it. SessionNumbers: over every call, that no other numbers are ever used.
  \<^item> Cooperation, OpalRuns, EntRuns: drives that accept every command and answer with success (\<open>willing\<close>,
    \<open>cooperative\<close>), and the runs of the operations on them, which show that the hypotheses of the
    theorems on success can be met, and that the operations end.
  \<^item> Usage: the help text, whose synopses name commands with the right number of arguments and whose
    examples the parser accepts; the commands it leaves out; the verbosity flag.
  \<^item> Program, CommandLine: properties of a whole run of the program and of the parser.
  \<^item> Simulation, Correspondence, LinuxTarget: when two environments whose drives answer alike give the
    same run of every operation; that the recording environment is one of them; and that a run over
    the command blocks of the Linux classes is the run that talks to the drive behind the kernel,
    the blocks decoded as SAT, SCSI and NVMe define them.
  \<^item> CifraCorrect, KeyDerivation: SHA-1, HMAC and PBKDF2 as their standards define them, and that the
    library computes them, for every way a message is cut into pieces; the bytes a hashed password is.
  \<^item> BitopsCorrect: the byte orders as interpretations of one contract, the counters, the key stream
    against a reference that takes one byte at a time, and what the masks really are.
  \<^item> HmacOtpCorrect: SHA-256 as FIPS 180-4 defines it, its constants from the roots of primes, HMAC over
    it, and the agreement with the HMAC of Cifra over the same hash.
  \<^item> PreBootCorrect: what the pre-boot program types into the drives and when its loops end.
  \<^item> Structures: the packed structures of Common/DtaStructures.h as lists of fields, and that the fixed
    positions of the model are those of the declared fields. DiskTypes: the lengths of the strings of
    the disk information, on both systems.
  \<^item> DumpsCorrect: the annotated dump against the response parser, and where it reads behind the
    buffer.
  \<^item> WinCorrect: the command blocks of the two builds against each other.

  State and operations. A C++ object is a record (\<open>dta_dev\<close>, \<open>dta_session\<close>, \<open>dta_command\<close>,
  \<open>dta_response\<close>), a method a function from the record to an outcome and the record after it. The
  disk is an arbitrary type: theorems over \<open>E\<close> quantify over every behaviour of a drive, and those
  over \<open>linux_env\<close> over every behaviour of the kernel. An \<^verbatim>\<open>if ((lastRC = m) != 0) ...\<close> is
  \<open>check\<close>, with clean-up \<open>check_cleanup\<close>.

  Parameters. The Linux kernel (opening a device, \<^verbatim>\<open>ioctl\<close> with \<^verbatim>\<open>SG_IO\<close> and NVMe admin commands,
  \<^verbatim>\<open>errno\<close>, the contents of fresh memory), the Windows calls (\<^verbatim>\<open>CreateFile\<close>, \<^verbatim>\<open>DeviceIoControl\<close>,
  \<^verbatim>\<open>GetLastError\<close>), the names in /dev, the files of images and the keys typed are arguments of the
  model; the drive behind them too.

  Bounds. \<open>poll\<close>, the loop over the image, the loop over the arguments and the pass-phrase prompt are
  \<open>partial_function\<close>s or end in \<open>Diverge\<close>: a loop that never ends is a value of the model, and there
  are theorems that say when each ends. No loop has fuel. The request and reply buffers have the 2048
  bytes the code clears, integers have the width of the code; the positions in \<^verbatim>\<open>argv\<close> have eight
  bits, as in the code, so theorems on the command line bound the number of words.

  Not modelled. When the help text is printed. Which log lines and dumps an operation writes at which log level: listings are reports
  on the console of the device instead, printed at the default log level. The terminal's attributes,
  the waiting and the restart itself in the pre-boot program. The clearing of the contexts of the
  vendored library after use. The header files that only declare (the generic and operating system
  classes), and the shell scripts of the tests. \<^verbatim>\<open>new\<close> does not
  return a null pointer, so the branches for it are dead; \<^verbatim>\<open>MULTISTART\<close> is not defined in any build
  file; \<open>osmsSleep\<close> and the closing of the drive's file descriptor have no effect on the model; a
  pointer passed as an internal \<^verbatim>\<open>NULL\<close> is \<open>None\<close>. A buffer behind the bytes that were ever written
  is \<open>Undef\<close> to read. The check for \<^verbatim>\<open>allow_tpm\<close> only logs and is left out. The shift
  \<^verbatim>\<open>protocol << 24\<close> is taken at 32 bits. End of input at the pass-phrase prompt is \<open>Diverge\<close>. The
  Windows device classes are those of the Linux build over \<open>windows_env\<close>; their field \<^verbatim>\<open>drive\<close> only
  says that a disk object was made.
\<close>

end
